(* ===== verification/Agmina_Base.thy ===== *)
theory Agmina_Base
  imports Main "HOL-Library.Char_ord" "HOL-Library.List_Lexorder" "HOL-Library.Product_Lexorder"
    "HOL-Library.AList" "HOL-Library.Multiset"
begin

text \<open>
  The vocabulary shared by every component: Python exceptions as values, the result
  type of code that may raise, first-failing-guard validation, association lists as
  insertion-ordered dictionaries, the stable minimum of a sequence, and the collections
  of rewrite rules that the component proofs use.
\<close>

section \<open>Exceptions as values\<close>

text \<open>
  Each exception class the source raises or lets through is a constructor; the argument is
  the message (or the failure code) the code passes.
\<close>

datatype py_error =
    ValueError string
  | PermissionError string
  | KeyError string
  | RuntimeError string
  | TimeoutError string
  | RecursionError
  | IntegrityError string
  | JSONDecodeError string
  | TypeError string
  | AttributeError string
  | IndexError string
  | OverflowError string
  | UnicodeError string
  | HTTPError string
  | FileExistsError string
  | ZeroDivisionError string
  | FileNotFoundError string
  | AssertionError string

type_synonym 'a result = "py_error + 'a"

definition rbind :: "'e + 'a \<Rightarrow> ('a \<Rightarrow> 'e + 'b) \<Rightarrow> 'e + 'b" where
  "rbind r f = (case r of Inl e \<Rightarrow> Inl e | Inr x \<Rightarrow> f x)"

lemma rbind_simps [simp]:
  "rbind (Inl e) f = Inl e"
  "rbind (Inr x) f = f x"
  by (simp_all add: rbind_def)

lemma rbind_Inr_iff: "rbind r f = Inr y \<longleftrightarrow> (\<exists>x. r = Inr x \<and> f x = Inr y)"
  by (cases r) simp_all

lemma rbind_Inl_iff: "rbind r f = Inl e \<longleftrightarrow> r = Inl e \<or> (\<exists>x. r = Inr x \<and> f x = Inl e)"
  by (cases r) auto

lemma rbind_cong [fundef_cong]:
  "r = r' \<Longrightarrow> (\<And>x. r' = Inr x \<Longrightarrow> f x = g x) \<Longrightarrow> rbind r f = rbind r' g"
  by (cases r') simp_all

definition is_ok :: "'e + 'a \<Rightarrow> bool" where
  "is_ok r = (case r of Inl _ \<Rightarrow> False | Inr _ \<Rightarrow> True)"

lemma is_ok_simps [simp]: "is_ok (Inl e) = False" "is_ok (Inr x) = True"
  by (simp_all add: is_ok_def)

lemma is_ok_iff: "is_ok r \<longleftrightarrow> (\<exists>x. r = Inr x)"
  by (cases r) simp_all

lemma not_Inl_iff: "(\<forall>e. r \<noteq> Inl e) \<longleftrightarrow> (\<exists>x. r = Inr x)"
  by (cases r) simp_all

subsection \<open>Guards: a sequence of \<open>if c: raise ValueError(m)\<close>\<close>

fun guards :: "(bool \<times> string) list \<Rightarrow> 'a \<Rightarrow> 'a result" where
  "guards [] x = Inr x"
| "guards ((c, m) # gs) x = (if c then Inl (ValueError m) else guards gs x)"

lemma guards_Inr_iff [simp]: "guards gs x = Inr y \<longleftrightarrow> y = x \<and> (\<forall>g \<in> set gs. \<not> fst g)"
  by (induction gs x rule: guards.induct) auto

lemma guards_is_ok [simp]: "is_ok (guards gs x) \<longleftrightarrow> (\<forall>g \<in> set gs. \<not> fst g)"
  by (simp add: is_ok_iff)

declare guards.simps [simp del]

lemma guards_Inl_D: "guards gs x = Inl e \<Longrightarrow> \<exists>g \<in> set gs. fst g \<and> e = ValueError (snd g)"
  by (induction gs x rule: guards.induct) (auto simp: guards.simps split: if_splits)

lemma guards_raises: "(c, m) \<in> set gs \<Longrightarrow> c \<Longrightarrow> \<exists>m'. guards gs x = Inl (ValueError m')"
  by (induction gs x rule: guards.induct) (auto simp: guards.simps)

text \<open>A loop body that may raise, run over a sequence: the first error leaves the loop.\<close>

fun traverse :: "('a \<Rightarrow> 'e + 'b) \<Rightarrow> 'a list \<Rightarrow> 'e + 'b list" where
  "traverse f [] = Inr []"
| "traverse f (x # xs) = rbind (f x) (\<lambda>y. rbind (traverse f xs) (\<lambda>ys. Inr (y # ys)))"

lemma traverse_Inr_iff: "traverse f xs = Inr ys \<longleftrightarrow> list_all2 (\<lambda>x y. f x = Inr y) xs ys"
  by (induction xs arbitrary: ys) (auto simp: rbind_Inr_iff list_all2_Cons1)

lemma traverse_length: "traverse f xs = Inr ys \<Longrightarrow> length ys = length xs"
  by (auto simp: traverse_Inr_iff dest: list_all2_lengthD)

lemma traverse_set: "traverse f xs = Inr ys \<Longrightarrow> x \<in> set xs \<Longrightarrow> \<exists>y \<in> set ys. f x = Inr y"
  by (induction xs arbitrary: ys) (auto simp: rbind_Inr_iff)

section \<open>Sequences\<close>

text \<open>
  Python's \<open>min(xs, key=k)\<close>: the first element whose key is least; \<open>None\<close> stands for the
  empty sequence, which every call in the source tests for first or gives a default.
\<close>

fun min_by :: "('a \<Rightarrow> 'k::linorder) \<Rightarrow> 'a list \<Rightarrow> 'a option" where
  "min_by k [] = None"
| "min_by k (x # xs) =
     (case min_by k xs of None \<Rightarrow> Some x | Some y \<Rightarrow> if k x \<le> k y then Some x else Some y)"

lemma min_by_None_iff [simp]: "min_by k xs = None \<longleftrightarrow> xs = []"
  by (cases xs) (auto split: option.splits)

lemma min_by_mem: "min_by k xs = Some x \<Longrightarrow> x \<in> set xs"
  by (induction xs arbitrary: x) (auto split: option.splits if_splits)

lemma min_by_least: "min_by k xs = Some x \<Longrightarrow> y \<in> set xs \<Longrightarrow> k x \<le> k y"
proof (induction xs arbitrary: x)
  case Nil
  then show ?case by simp
next
  case (Cons a xs)
  show ?case
  proof (cases "min_by k xs")
    case None
    with Cons.prems show ?thesis by auto
  next
    case (Some z)
    with Cons.IH [OF Some] Cons.prems show ?thesis
      by (auto split: if_splits)
  qed
qed

lemma min_by_Some_iff: "(\<exists>x. min_by k xs = Some x) \<longleftrightarrow> xs \<noteq> []"
  using min_by_None_iff [of k xs] by fastforce

lemma sort_key_hd_least:
  assumes "sort_key k xs = y # ys" "x \<in> set xs"
  shows "k y \<le> k x"
proof -
  have "sorted (map k (y # ys))" by (metis assms(1) sorted_sort_key)
  moreover have "x \<in> set (y # ys)" by (metis assms set_sort)
  ultimately show ?thesis by auto
qed

lemma mset_eq_short:
  assumes "mset l = mset m" "length m \<le> 1"
  shows "l = m"
proof (cases m)
  case Nil
  with assms show ?thesis by simp
next
  case (Cons a m')
  with assms show ?thesis by (cases l) auto
qed

section \<open>Dictionaries in insertion order\<close>

lemma update_keep:
  "k' \<noteq> k \<Longrightarrow> map_of (AList.update k v al) k' = map_of al k'"
  by (simp add: update_conv)

lemma map_of_update [simp]: "map_of (AList.update k v al) k = Some v"
  by (simp add: update_conv)

lemma distinct_keys_update:
  "distinct (map fst al) \<Longrightarrow> distinct (map fst (AList.update k v al))"
  by (rule distinct_update)

text \<open>The sum of a measure over a table, with a row replaced or appended.\<close>

lemma sum_list_filter_le:
  fixes f :: "'a \<Rightarrow> nat"
  shows "sum_list (map f (filter P xs)) \<le> sum_list (map f xs)"
  by (induction xs) auto

lemma length_filter_snoc [simp]:
  "length (filter P (xs @ [x])) = length (filter P xs) + (if P x then 1 else 0)"
  by simp

lemma filter_False_if: "(\<And>x. x \<in> set xs \<Longrightarrow> \<not> P x) \<Longrightarrow> filter P xs = []"
  by (induction xs) auto

lemma option_eqI: "(\<And>y. x = Some y \<longleftrightarrow> x' = Some y) \<Longrightarrow> x = x'"
  by (metis not_None_eq)

section \<open>Tables with a primary key\<close>

text \<open>
  A table is a list of rows; \<open>find\<close> reads it by key and an \<open>UPDATE ... WHERE key = k\<close> maps over it.
\<close>

lemma find_key_SomeD: "find (\<lambda>r. key r = k) xs = Some x \<Longrightarrow> x \<in> set xs \<and> key x = k"
  by (auto simp: find_Some_iff)

lemma find_key_iff:
  "distinct (map key xs) \<Longrightarrow> find (\<lambda>r. key r = k) xs = Some x \<longleftrightarrow> x \<in> set xs \<and> key x = k"
  by (induction xs) force+

lemma find_key_None: "find (\<lambda>r. key r = k) xs = None \<longleftrightarrow> k \<notin> key ` set xs"
  by (auto simp: find_None_iff)

lemma find_key_update:
  assumes "\<And>r. key (f r) = key r"
  shows "find (\<lambda>r. key r = k) (map (\<lambda>r. if key r = k0 then f r else r) xs) =
    (if k = k0 then map_option f (find (\<lambda>r. key r = k) xs) else find (\<lambda>r. key r = k) xs)"
  by (induction xs) (auto simp: assms)

lemma find_snoc:
  "find P (xs @ [x]) = (case find P xs of Some y \<Rightarrow> Some y | None \<Rightarrow> if P x then Some x else None)"
  by (induction xs) auto

lemma update_keys:
  assumes "\<And>r. key (f r) = key r"
  shows "map key (map (\<lambda>r. if key r = k0 then f r else r) xs) = map key xs"
  by (induction xs) (auto simp: assms)

lemma update_absent: "k \<notin> key ` set xs \<Longrightarrow> map (\<lambda>r. if key r = k then f r else r) xs = xs"
  by (induction xs) auto

lemma sum_update:
  fixes h :: "'a \<Rightarrow> int"
  assumes "distinct (map key xs)" "find (\<lambda>r. key r = k) xs = Some a"
  shows "sum_list (map h (map (\<lambda>r. if key r = k then f r else r) xs)) =
    sum_list (map h xs) - h a + h (f a)"
  using assms
proof (induction xs)
  case (Cons x xs)
  show ?case
  proof (cases "key x = k")
    case True
    with Cons.prems have "k \<notin> key ` set xs" "x = a" by auto
    with True show ?thesis by (simp add: update_absent)
  next
    case False
    with Cons show ?thesis by simp
  qed
qed simp

end
