(* ===== verification/Py_Json.thy ===== *)
theory Py_Json
  imports Agmina_Base
begin

text \<open>
  JSON values, the canonical serialisation and the strict reader of
  \<^verbatim>\<open>src/src/agmina_runtime/contracts.py\<close> (\<^verbatim>\<open>strict_json\<close>, \<^verbatim>\<open>canonical\<close>, \<^verbatim>\<open>fingerprint\<close>),
  together with what they use of Python's \<^verbatim>\<open>json\<close> module: the scanner of \<^verbatim>\<open>json.loads\<close> with its
  \<^verbatim>\<open>object_pairs_hook\<close> and \<^verbatim>\<open>parse_constant\<close> hooks, and \<^verbatim>\<open>json.dumps\<close> with sorted keys, compact
  separators and ASCII escapes. Text is over the code points U+0000 to U+00FF; an escape that
  denotes a code point beyond them is refused by the reader. A float is its shortest decimal
  literal, as \<^verbatim>\<open>repr\<close> prints it (exact for literals of up to 15 significant digits), or one of
  the three nonfinite values.
\<close>

section \<open>Values\<close>

datatype pyfloat = Dec int int | PosInf | NegInf | NotANumber

text \<open>\<open>Dec m e\<close> is \<open>m * 10 ^ e\<close>, with no factor 10 left in \<open>m\<close>.\<close>

definition float_finite :: "pyfloat \<Rightarrow> bool" where
  "float_finite x = (case x of Dec _ _ \<Rightarrow> True | _ \<Rightarrow> False)"

fun float_le :: "pyfloat \<Rightarrow> pyfloat \<Rightarrow> bool" where
  "float_le (Dec m e) (Dec m' e') =
     (let k = min e e' in m * 10 ^ nat (e - k) \<le> m' * 10 ^ nat (e' - k))"
| "float_le NotANumber _ = False"
| "float_le _ NotANumber = False"
| "float_le NegInf _ = True"
| "float_le _ PosInf = True"
| "float_le _ _ = False"

datatype json =
    JNull
  | JBool bool
  | JInt int
  | JFloat pyfloat
  | JStr string
  | JList "json list"
  | JObj "(string \<times> json) list"

definition is_obj :: "json \<Rightarrow> bool" where
  "is_obj v = (case v of JObj _ \<Rightarrow> True | _ \<Rightarrow> False)"

text \<open>\<open>obj.get(key)\<close>: the value of a key, \<open>JNull\<close> (None) when it is absent.\<close>

definition jget :: "(string \<times> json) list \<Rightarrow> string \<Rightarrow> json" where
  "jget kvs k = (case map_of kvs k of None \<Rightarrow> JNull | Some v \<Rightarrow> v)"

text \<open>Every object of a Python value has unique keys.\<close>

fun json_wf :: "json \<Rightarrow> bool" where
  "json_wf (JList vs) = list_all json_wf vs"
| "json_wf (JObj kvs) = (distinct (map fst kvs) \<and> list_all (\<lambda>kv. json_wf (snd kv)) kvs)"
| "json_wf _ = True"

fun json_floatfree :: "json \<Rightarrow> bool" where
  "json_floatfree (JFloat _) = False"
| "json_floatfree (JList vs) = list_all json_floatfree vs"
| "json_floatfree (JObj kvs) = list_all (\<lambda>kv. json_floatfree (snd kv)) kvs"
| "json_floatfree _ = True"

fun json_finite :: "json \<Rightarrow> bool" where
  "json_finite (JFloat x) = float_finite x"
| "json_finite (JList vs) = list_all json_finite vs"
| "json_finite (JObj kvs) = list_all (\<lambda>kv. json_finite (snd kv)) kvs"
| "json_finite _ = True"

fun json_depth :: "json \<Rightarrow> nat" and json_depths :: "json list \<Rightarrow> nat" where
  "json_depth (JList vs) = json_depths vs"
| "json_depth (JObj kvs) = json_depths (map snd kvs)"
| "json_depth _ = 0"
| "json_depths [] = 0"
| "json_depths (v # vs) = max (Suc (json_depth v)) (json_depths vs)"

section \<open>Printing\<close>

definition digit_char :: "nat \<Rightarrow> char" where
  "digit_char n = char_of (48 + n)"

fun nat_digits :: "nat \<Rightarrow> string" where
  "nat_digits n = (if n < 10 then [digit_char n] else nat_digits (n div 10) @ [digit_char (n mod 10)])"

declare nat_digits.simps [simp del]

definition int_repr :: "int \<Rightarrow> string" where
  "int_repr i = (if i < 0 then CHR ''-'' # nat_digits (nat (- i)) else nat_digits (nat i))"

text \<open>\<open>float.__repr__\<close>: fixed notation for exponents from -4 to 15, scientific otherwise.\<close>

definition exp_repr :: "int \<Rightarrow> string" where
  "exp_repr x = (if x < 0 then ''-'' else ''+'') @ (if \<bar>x\<bar> < 10 then ''0'' else '''') @ nat_digits (nat \<bar>x\<bar>)"

definition dec_repr :: "nat \<Rightarrow> int \<Rightarrow> string" where
  "dec_repr m e =
     (let ds = nat_digits m; n = length ds; pt = int n + e in
      if - 4 < pt \<and> pt \<le> 16 then
        (if pt \<le> 0 then ''0.'' @ replicate (nat (- pt)) (CHR ''0'') @ ds
         else if pt < int n then take (nat pt) ds @ ''.'' @ drop (nat pt) ds
         else ds @ replicate (nat (pt - int n)) (CHR ''0'') @ ''.0'')
      else take 1 ds @ (if n = 1 then '''' else ''.'' @ drop 1 ds) @ ''e'' @ exp_repr (pt - 1))"

definition float_repr :: "pyfloat \<Rightarrow> string" where
  "float_repr x = (case x of
      Dec m e \<Rightarrow> (if m < 0 then ''-'' else '''') @ dec_repr (nat \<bar>m\<bar>) e
    | PosInf \<Rightarrow> ''Infinity'' | NegInf \<Rightarrow> ''-Infinity'' | NotANumber \<Rightarrow> ''NaN'')"

definition hex_char :: "nat \<Rightarrow> char" where
  "hex_char n = (if n < 10 then char_of (48 + n) else char_of (87 + n))"

abbreviation quote_char :: char where "quote_char \<equiv> CHR 0x22"
abbreviation backslash_char :: char where "backslash_char \<equiv> CHR 0x5C"

definition esc_char :: "char \<Rightarrow> string" where
  "esc_char c =
     (if c = quote_char then [backslash_char, quote_char]
      else if c = backslash_char then [backslash_char, backslash_char]
      else if c = CHR 0x0A then [backslash_char, CHR ''n'']
      else if c = CHR 0x0D then [backslash_char, CHR ''r'']
      else if c = CHR 0x09 then [backslash_char, CHR ''t'']
      else if c = CHR 0x0C then [backslash_char, CHR ''f'']
      else if c = CHR 0x08 then [backslash_char, CHR ''b'']
      else if 32 \<le> (of_char c :: nat) \<and> (of_char c :: nat) \<le> 126 then [c]
      else [backslash_char, CHR ''u'', CHR ''0'', CHR ''0'',
            hex_char (of_char c div 16), hex_char (of_char c mod 16)])"

definition str_dumps :: "string \<Rightarrow> string" where
  "str_dumps s = quote_char # concat (map esc_char s) @ [quote_char]"

fun plain_dumps :: "json \<Rightarrow> string"
  and plain_items :: "json list \<Rightarrow> string"
  and plain_fields :: "(string \<times> json) list \<Rightarrow> string" where
  "plain_dumps JNull = ''null''"
| "plain_dumps (JBool b) = (if b then ''true'' else ''false'')"
| "plain_dumps (JInt i) = int_repr i"
| "plain_dumps (JFloat x) = float_repr x"
| "plain_dumps (JStr s) = str_dumps s"
| "plain_dumps (JList vs) = CHR ''['' # plain_items vs @ '']''"
| "plain_dumps (JObj kvs) = CHR ''{'' # plain_fields kvs @ ''}''"
| "plain_items [] = ''''"
| "plain_items (v # vs) = plain_dumps v @ (if vs = [] then '''' else '','' @ plain_items vs)"
| "plain_fields [] = ''''"
| "plain_fields ((k, v) # kvs) =
     str_dumps k @ '':'' @ plain_dumps v @ (if kvs = [] then '''' else '','' @ plain_fields kvs)"

text \<open>\<open>sort_keys=True\<close>: the members of every object in the order of their keys.\<close>

fun sort_keys :: "json \<Rightarrow> json" where
  "sort_keys (JList vs) = JList (map sort_keys vs)"
| "sort_keys (JObj kvs) = JObj (sort_key fst (map (\<lambda>kv. (fst kv, sort_keys (snd kv))) kvs))"
| "sort_keys v = v"

definition json_dumps :: "json \<Rightarrow> string" where
  "json_dumps v = plain_dumps (sort_keys v)"

text \<open>\<^verbatim>\<open>canonical\<close>: \<open>allow_nan=False\<close> raises on a nonfinite float.\<close>

definition canonical :: "json \<Rightarrow> string result" where
  "canonical v =
     (if json_finite v then Inr (json_dumps v)
      else Inl (ValueError ''Out of range float values are not JSON compliant''))"

text \<open>
  \<^verbatim>\<open>fingerprint\<close>: the digest of the canonical text. The digest \<open>sha\<close> (SHA-256, as 64 hex
  digits) is a parameter; nothing below assumes it to be injective.
\<close>

definition fingerprint :: "(string \<Rightarrow> string) \<Rightarrow> json \<Rightarrow> string" where
  "fingerprint sha v = sha (json_dumps v)"

text \<open>Two different texts with the same digest.\<close>

definition collision :: "(string \<Rightarrow> string) \<Rightarrow> string \<Rightarrow> string \<Rightarrow> bool" where
  "collision sha x y \<longleftrightarrow> x \<noteq> y \<and> sha x = sha y"

text \<open>\<open>len(s.encode())\<close>: UTF-8 takes two bytes for U+0080 to U+00FF.\<close>

definition utf8_len :: "string \<Rightarrow> nat" where
  "utf8_len s = sum_list (map (\<lambda>c. if (of_char c :: nat) < 128 then 1 else 2) s)"

section \<open>Reading\<close>

definition is_ws :: "char \<Rightarrow> bool" where
  "is_ws c \<longleftrightarrow> c = CHR '' '' \<or> c = CHR 0x09 \<or> c = CHR 0x0A \<or> c = CHR 0x0D"

definition skip_ws :: "string \<Rightarrow> string" where
  "skip_ws s = dropWhile is_ws s"

definition is_digit :: "char \<Rightarrow> bool" where
  "is_digit c \<longleftrightarrow> 48 \<le> (of_char c :: nat) \<and> (of_char c :: nat) \<le> 57"

definition digits_val :: "string \<Rightarrow> nat" where
  "digits_val ds = foldl (\<lambda>a c. 10 * a + (of_char c - 48)) 0 ds"

definition hex_val :: "char \<Rightarrow> nat option" where
  "hex_val c = (let n = (of_char c :: nat) in
     if 48 \<le> n \<and> n \<le> 57 then Some (n - 48)
     else if 97 \<le> n \<and> n \<le> 102 then Some (n - 87)
     else if 65 \<le> n \<and> n \<le> 70 then Some (n - 55) else None)"

definition hex4 :: "char \<Rightarrow> char \<Rightarrow> char \<Rightarrow> char \<Rightarrow> nat option" where
  "hex4 a b c d = (case (hex_val a, hex_val b, hex_val c, hex_val d) of
     (Some w, Some x, Some y, Some z) \<Rightarrow> Some (4096 * w + 256 * x + 16 * y + z) | _ \<Rightarrow> None)"

definition simple_escape :: "char \<Rightarrow> char option" where
  "simple_escape c =
     (if c = quote_char then Some quote_char
      else if c = backslash_char then Some backslash_char
      else if c = CHR ''/'' then Some (CHR ''/'')
      else if c = CHR ''b'' then Some (CHR 0x08)
      else if c = CHR ''f'' then Some (CHR 0x0C)
      else if c = CHR ''n'' then Some (CHR 0x0A)
      else if c = CHR ''r'' then Some (CHR 0x0D)
      else if c = CHR ''t'' then Some (CHR 0x09) else None)"

abbreviation malformed :: "'a result" where
  "malformed \<equiv> Inl (JSONDecodeError ''Expecting value or delimiter'')"

fun p_str :: "string \<Rightarrow> (string \<times> string) result" where
  "p_str [] = malformed"
| "p_str (c # cs) =
     (if c = quote_char then Inr ([], cs)
      else if c = backslash_char then
        (case cs of
           [] \<Rightarrow> malformed
         | d # ds \<Rightarrow>
           if d = CHR ''u'' then
             (case ds of
                h1 # h2 # h3 # h4 # r \<Rightarrow>
                  (case hex4 h1 h2 h3 h4 of
                     None \<Rightarrow> malformed
                   | Some n \<Rightarrow>
                       if n < 256 then rbind (p_str r) (\<lambda>(x, r'). Inr (char_of n # x, r'))
                       else Inl (ValueError ''Code point outside the modelled range''))
              | _ \<Rightarrow> malformed)
           else
             (case simple_escape d of
                None \<Rightarrow> malformed
              | Some e \<Rightarrow> rbind (p_str ds) (\<lambda>(x, r'). Inr (e # x, r'))))
      else if (of_char c :: nat) < 32 then malformed
      else rbind (p_str cs) (\<lambda>(x, r). Inr (c # x, r)))"

text \<open>
  Numbers: \<open>-?(0|[1-9]\d*)(\.\d+)?([eE][-+]?\d+)?\<close>; with a fraction or an exponent the
  value is a float. An integer literal of more than 4300 digits raises.
\<close>

fun drop_zeros :: "nat \<Rightarrow> int \<Rightarrow> int \<Rightarrow> pyfloat" where
  "drop_zeros 0 m e = Dec m e"
| "drop_zeros (Suc n) m e =
     (if m = 0 then Dec 0 0 else if m mod 10 = 0 then drop_zeros n (m div 10) (e + 1) else Dec m e)"

definition float_of_dec :: "bool \<Rightarrow> string \<Rightarrow> int \<Rightarrow> pyfloat" where
  "float_of_dec neg ds e =
     (let m = int (digits_val ds); n = int (length (dropWhile (\<lambda>c. c = CHR ''0'') ds)) in
      if m \<noteq> 0 \<and> (n + e > 309 \<or> (n + e = 309 \<and>
           2 ^ 1024 - 2 ^ 970 \<le> m * 10 ^ nat e div 10 ^ nat (- e)))
      then (if neg then NegInf else PosInf)
      else drop_zeros (length ds) (if neg then - m else m) e)"

definition p_exponent :: "string \<Rightarrow> (int \<times> string) option" where
  "p_exponent s = (case s of
     c # r \<Rightarrow>
       if c = CHR ''e'' \<or> c = CHR ''E'' then
         (let (sg, r') = (case r of d # q \<Rightarrow> if d = CHR ''-'' then (- 1, q)
                                             else if d = CHR ''+'' then (1, q) else (1, r)
                                  | [] \<Rightarrow> (1, r));
              ds = takeWhile is_digit r' in
          if ds = [] then None else Some (sg * int (digits_val ds), dropWhile is_digit r'))
       else None
   | [] \<Rightarrow> None)"

definition p_fraction :: "string \<Rightarrow> (string \<times> string) option" where
  "p_fraction s = (case s of
     c # r \<Rightarrow> if c = CHR ''.'' \<and> takeWhile is_digit r \<noteq> [] then Some (takeWhile is_digit r, dropWhile is_digit r)
              else None
   | [] \<Rightarrow> None)"

definition int_digits_limit :: nat where
  "int_digits_limit = 4300"

text \<open>A literal that starts with 0 has no further integer digit.\<close>

definition int_part :: "string \<Rightarrow> string" where
  "int_part ds = (if hd ds = CHR ''0'' then ''0'' else ds)"

definition p_number :: "string \<Rightarrow> (json \<times> string) result" where
  "p_number s =
     (let neg = (s \<noteq> [] \<and> hd s = CHR ''-''); s1 = (if neg then tl s else s);
          ds0 = takeWhile is_digit s1 in
      if ds0 = [] then malformed
      else
        let ds = int_part ds0; r = drop (length ds) s1;
            (fr, r1) = (case p_fraction r of None \<Rightarrow> ('''', r) | Some (f, q) \<Rightarrow> (f, q));
            (ex, r2, has_ex) = (case p_exponent r1 of None \<Rightarrow> (0, r1, False) | Some (x, q) \<Rightarrow> (x, q, True))
        in if fr = [] \<and> \<not> has_ex then
             (if int_digits_limit < length ds then Inl (ValueError ''Exceeds the limit for integer string conversion'')
              else Inr (JInt (if neg then - int (digits_val ds) else int (digits_val ds)), r2))
           else Inr (JFloat (float_of_dec neg (ds @ fr) (ex - int (length fr))), r2))"

text \<open>
  The hooks. With \<open>strict\<close> (the hooks \<^verbatim>\<open>strict_json\<close> passes) a duplicate key or a nonfinite
  constant raises; without, a later duplicate overwrites and the constants are floats.
\<close>

fun pairs :: "(string \<times> json) list \<Rightarrow> (string \<times> json) list \<Rightarrow> (string \<times> json) list result" where
  "pairs out [] = Inr out"
| "pairs out ((key, val) # items) =
     (if key \<in> set (map fst out) then Inl (ValueError ''Duplicate JSON key'')
      else pairs (out @ [(key, val)]) items)"

definition pairs_hook :: "bool \<Rightarrow> (string \<times> json) list \<Rightarrow> (string \<times> json) list result" where
  "pairs_hook strict items =
     (if strict then pairs [] items
      else Inr (foldl (\<lambda>d kv. AList.update (fst kv) (snd kv) d) [] items))"

definition constant_hook :: "bool \<Rightarrow> pyfloat \<Rightarrow> json result" where
  "constant_hook strict x =
     (if strict then Inl (ValueError ''Nonfinite JSON number'') else Inr (JFloat x))"

definition starts :: "string \<Rightarrow> string \<Rightarrow> bool" where
  "starts p s \<longleftrightarrow> take (length p) s = p"

fun p_value :: "bool \<Rightarrow> nat \<Rightarrow> string \<Rightarrow> (json \<times> string) result"
  and p_items :: "bool \<Rightarrow> nat \<Rightarrow> string \<Rightarrow> (json list \<times> string) result"
  and p_members :: "bool \<Rightarrow> nat \<Rightarrow> string \<Rightarrow> ((string \<times> json) list \<times> string) result" where
  "p_value st 0 s = Inl RecursionError"
| "p_value st (Suc n) [] = malformed"
| "p_value st (Suc n) (c # cs) =
     (if c = quote_char then rbind (p_str cs) (\<lambda>(x, r). Inr (JStr x, r))
      else if c = CHR ''{'' then
        (let r = skip_ws cs in
         if r \<noteq> [] \<and> hd r = CHR ''}'' then Inr (JObj [], tl r)
         else rbind (p_members st n r) (\<lambda>(kvs, r').
              rbind (pairs_hook st kvs) (\<lambda>out. Inr (JObj out, r'))))
      else if c = CHR ''['' then
        (let r = skip_ws cs in
         if r \<noteq> [] \<and> hd r = CHR '']'' then Inr (JList [], tl r)
         else rbind (p_items st n r) (\<lambda>(vs, r'). Inr (JList vs, r')))
      else if starts ''null'' (c # cs) then Inr (JNull, drop 4 (c # cs))
      else if starts ''true'' (c # cs) then Inr (JBool True, drop 4 (c # cs))
      else if starts ''false'' (c # cs) then Inr (JBool False, drop 5 (c # cs))
      else if starts ''NaN'' (c # cs) then rbind (constant_hook st NotANumber) (\<lambda>v. Inr (v, drop 3 (c # cs)))
      else if starts ''Infinity'' (c # cs) then rbind (constant_hook st PosInf) (\<lambda>v. Inr (v, drop 8 (c # cs)))
      else if starts ''-Infinity'' (c # cs) then rbind (constant_hook st NegInf) (\<lambda>v. Inr (v, drop 9 (c # cs)))
      else p_number (c # cs))"
| "p_items st 0 s = Inl RecursionError"
| "p_items st (Suc n) s =
     rbind (p_value st n s) (\<lambda>(v, r).
       (case skip_ws r of
          [] \<Rightarrow> malformed
        | d # q \<Rightarrow>
            if d = CHR '']'' then Inr ([v], q)
            else if d = CHR '','' then rbind (p_items st n (skip_ws q)) (\<lambda>(vs, q'). Inr (v # vs, q'))
            else malformed))"
| "p_members st 0 s = Inl RecursionError"
| "p_members st (Suc n) [] = malformed"
| "p_members st (Suc n) (c # cs) =
     (if c \<noteq> quote_char then malformed
      else rbind (p_str cs) (\<lambda>(k, r).
        (case skip_ws r of
           [] \<Rightarrow> malformed
         | d # q \<Rightarrow>
             if d \<noteq> CHR '':'' then malformed
             else rbind (p_value st n (skip_ws q)) (\<lambda>(v, r2).
               (case skip_ws r2 of
                  [] \<Rightarrow> malformed
                | d2 # q2 \<Rightarrow>
                    if d2 = CHR ''}'' then Inr ([(k, v)], q2)
                    else if d2 = CHR '','' then
                      rbind (p_members st n (skip_ws q2)) (\<lambda>(kvs, q3). Inr ((k, v) # kvs, q3))
                    else malformed)))))"

definition json_loads :: "bool \<Rightarrow> string \<Rightarrow> json result" where
  "json_loads st s =
     rbind (p_value st (2 * length s + 1) (skip_ws s)) (\<lambda>(v, r).
       if skip_ws r = [] then Inr v else Inl (JSONDecodeError ''Extra data''))"

text \<open>The recursive \<^verbatim>\<open>check\<close>: depth first, then finiteness, then the children.\<close>

fun json_check :: "nat \<Rightarrow> json \<Rightarrow> unit result"
  and json_check_all :: "nat \<Rightarrow> json list \<Rightarrow> unit result" where
  "json_check depth obj =
     (if 32 < depth then Inl (ValueError ''JSON nesting exceeds limit'')
      else case obj of
        JFloat x \<Rightarrow> if float_finite x then Inr () else Inl (ValueError ''Nonfinite JSON number'')
      | JList vs \<Rightarrow> json_check_all (Suc depth) vs
      | JObj kvs \<Rightarrow> json_check_all (Suc depth) (map snd kvs)
      | _ \<Rightarrow> Inr ())"
| "json_check_all depth [] = Inr ()"
| "json_check_all depth (v # vs) = rbind (json_check depth v) (\<lambda>_. json_check_all depth vs)"

definition strict_json :: "int \<Rightarrow> string \<Rightarrow> (string \<times> json) list result" where
  "strict_json max_bytes value =
     (if max_bytes < int (utf8_len value) then Inl (ValueError ''JSON object exceeds byte bound'')
      else case json_loads True value of
        Inl RecursionError \<Rightarrow> Inl (ValueError ''Malformed JSON'')
      | Inl (JSONDecodeError m) \<Rightarrow> Inl (ValueError ''Malformed JSON'')
      | Inl e \<Rightarrow> Inl e
      | Inr (JObj kvs) \<Rightarrow> rbind (json_check 0 (JObj kvs)) (\<lambda>_. Inr kvs)
      | Inr _ \<Rightarrow> Inl (ValueError ''JSON must be an object''))"

end
