(* ===== verification/Json_Roundtrip.thy ===== *)
theory Json_Roundtrip
  imports Py_Json
begin

text \<open>
  The reader inverts the printer: string escapes, decimal integers, values with enough fuel,
  and from these the round trip of the canonical form and its injectivity up to member order.
\<close>

section \<open>Strings\<close>

lemma of_char_lt_256: "(of_char c :: nat) < 256"
  by (cases c) (simp add: of_char_def)

lemma hex_val_hex_char: "n < 16 \<Longrightarrow> hex_val (hex_char n) = Some n"
  by (auto simp: hex_val_def hex_char_def Let_def take_bit_eq_mod)

lemma hex4_char: "hex4 (CHR ''0'') (CHR ''0'') (hex_char (of_char c div 16)) (hex_char (of_char c mod 16))
  = Some (of_char c)"
proof -
  have "hex_val (hex_char (of_char c div 16)) = Some (of_char c div 16)"
    using of_char_lt_256 [of c] by (intro hex_val_hex_char) (simp add: less_mult_imp_div_less)
  moreover have "hex_val (hex_char (of_char c mod 16)) = Some (of_char c mod 16)"
    by (intro hex_val_hex_char) simp
  moreover have "hex_val (CHR ''0'') = Some 0"
    by (simp add: hex_val_def)
  ultimately show ?thesis by (simp add: hex4_def)
qed

lemma p_str_esc: "p_str (esc_char c @ t) = rbind (p_str t) (\<lambda>(x, r). Inr (c # x, r))"
proof -
  consider "c = quote_char" | "c = backslash_char" | "c = CHR 0x0A" | "c = CHR 0x0D"
    | "c = CHR 0x09" | "c = CHR 0x0C" | "c = CHR 0x08"
    | (plain) "c \<noteq> quote_char" "c \<noteq> backslash_char" "c \<noteq> CHR 0x0A" "c \<noteq> CHR 0x0D" "c \<noteq> CHR 0x09"
        "c \<noteq> CHR 0x0C" "c \<noteq> CHR 0x08" "32 \<le> (of_char c :: nat) \<and> (of_char c :: nat) \<le> 126"
    | (hex) "c \<noteq> quote_char" "c \<noteq> backslash_char" "c \<noteq> CHR 0x0A" "c \<noteq> CHR 0x0D" "c \<noteq> CHR 0x09"
        "c \<noteq> CHR 0x0C" "c \<noteq> CHR 0x08" "\<not> (32 \<le> (of_char c :: nat) \<and> (of_char c :: nat) \<le> 126)"
    by blast
  then show ?thesis
  proof cases
    case plain
    then show ?thesis by (simp add: esc_char_def)
  next
    case hex
    then have "esc_char c = [backslash_char, CHR ''u'', CHR ''0'', CHR ''0'',
            hex_char (of_char c div 16), hex_char (of_char c mod 16)]"
      by (simp add: esc_char_def)
    then show ?thesis
      by (simp add: hex4_char of_char_lt_256)
  qed (simp_all add: esc_char_def simple_escape_def)
qed

lemma p_str_dumps: "p_str (concat (map esc_char s) @ quote_char # r) = Inr (s, r)"
  by (induction s) (simp_all add: p_str_esc)

lemma str_dumps_inj: "str_dumps s = str_dumps t \<Longrightarrow> s = t"
proof -
  have "p_str (tl (str_dumps u)) = Inr (u, [])" for u
    using p_str_dumps [of u "[]"] by (simp add: str_dumps_def)
  then show "str_dumps s = str_dumps t \<Longrightarrow> s = t"
    by (metis Inr_inject prod.inject)
qed

section \<open>Integers\<close>

lemma of_char_digit_char: "n < 10 \<Longrightarrow> (of_char (digit_char n) :: nat) = 48 + n"
  by (simp add: digit_char_def take_bit_eq_mod)

lemma is_digit_digit_char: "n < 10 \<Longrightarrow> is_digit (digit_char n)"
  by (simp add: is_digit_def of_char_digit_char)

lemma nat_digits_digits: "c \<in> set (nat_digits n) \<Longrightarrow> is_digit c"
proof (induction n rule: nat_digits.induct)
  case (1 n)
  then show ?case
    by (subst (asm) (2) nat_digits.simps) (auto simp: is_digit_digit_char split: if_splits)
qed

lemma nat_digits_nonempty [simp]: "nat_digits n \<noteq> []"
  by (subst nat_digits.simps) simp

lemma digits_val_snoc: "digits_val (ds @ [c]) = 10 * digits_val ds + (of_char c - 48)"
  by (simp add: digits_val_def)

lemma digits_val_nat_digits: "digits_val (nat_digits n) = n"
proof (induction n rule: nat_digits.induct)
  case (1 n)
  show ?case
  proof (cases "n < 10")
    case True
    then show ?thesis
      by (subst nat_digits.simps) (simp add: digits_val_def of_char_digit_char)
  next
    case False
    with 1 show ?thesis
      by (subst nat_digits.simps) (simp add: digits_val_snoc of_char_digit_char)
  qed
qed

lemma nat_digits_hd: "0 < n \<Longrightarrow> hd (nat_digits n) \<noteq> CHR ''0''"
proof (induction n rule: nat_digits.induct)
  case (1 n)
  show ?case
  proof (cases "n < 10")
    case True
    have "digit_char n \<noteq> CHR ''0''"
    proof
      assume "digit_char n = CHR ''0''"
      then have "(of_char (digit_char n) :: nat) = of_char (CHR ''0'')" by simp
      with True \<open>0 < n\<close> show False by (simp add: of_char_digit_char)
    qed
    with True show ?thesis by (subst nat_digits.simps) simp
  next
    case False
    with 1 show ?thesis by (subst nat_digits.simps) simp
  qed
qed

lemma nat_digits_0: "nat_digits 0 = ''0''"
  by code_simp

lemma length_nat_digits: "0 < k \<Longrightarrow> n < 10 ^ k \<Longrightarrow> length (nat_digits n) \<le> k"
proof (induction n arbitrary: k rule: nat_digits.induct)
  case (1 n)
  show ?case
  proof (cases "n < 10")
    case True
    with 1 show ?thesis by (subst nat_digits.simps) simp
  next
    case False
    with 1 have "1 < k" by (cases "k = 1") auto
    then obtain j where j: "k = Suc j" "0 < j" by (cases k) auto
    from 1 j have "n div 10 < 10 ^ j" by (simp add: less_mult_imp_div_less mult.commute)
    with 1 False j have "length (nat_digits (n div 10)) \<le> j" by simp
    with False j show ?thesis by (subst nat_digits.simps) simp
  qed
qed

lemma int_digits_limit_pos: "0 < int_digits_limit"
  by (simp add: int_digits_limit_def)

text \<open>A continuation at which a number ends.\<close>

definition stops :: "string \<Rightarrow> bool" where
  "stops r \<longleftrightarrow> (case r of [] \<Rightarrow> True
     | c # _ \<Rightarrow> \<not> is_digit c \<and> c \<noteq> CHR ''.'' \<and> c \<noteq> CHR ''e'' \<and> c \<noteq> CHR ''E'')"

lemma takeWhile_stops: "list_all is_digit ds \<Longrightarrow> stops r \<Longrightarrow> takeWhile is_digit (ds @ r) = ds"
  by (induction ds) (auto simp: stops_def split: list.splits)

lemma p_fraction_stops: "stops r \<Longrightarrow> p_fraction r = None"
  by (auto simp: stops_def p_fraction_def split: list.splits)

lemma p_exponent_stops: "stops r \<Longrightarrow> p_exponent r = None"
  by (auto simp: stops_def p_exponent_def split: list.splits)

lemma is_digit_neq: "is_digit c \<Longrightarrow> c \<noteq> CHR ''-''"
  by (auto simp: is_digit_def)

lemma p_number_digits:
  assumes "stops r" "n < 10 ^ int_digits_limit"
  shows "p_number (nat_digits n @ r) = Inr (JInt (int n), r)"
    and "p_number (CHR ''-'' # nat_digits n @ r) = Inr (JInt (- int n), r)"
proof -
  have d: "list_all is_digit (nat_digits n)"
    by (auto simp: list_all_iff nat_digits_digits)
  have tw: "takeWhile is_digit (nat_digits n @ r) = nat_digits n"
    using d assms(1) by (rule takeWhile_stops)
  have hd: "hd (nat_digits n @ r) \<noteq> CHR ''-''"
    using d by (cases "nat_digits n") (auto dest: is_digit_neq)
  have ds: "int_part (nat_digits n) = nat_digits n"
    by (cases "n = 0") (auto simp: int_part_def nat_digits_0 nat_digits_hd)
  have len: "\<not> int_digits_limit < length (nat_digits n)"
    using length_nat_digits [OF int_digits_limit_pos assms(2)] by simp
  show "p_number (nat_digits n @ r) = Inr (JInt (int n), r)"
    using hd len by (simp add: p_number_def tw ds Let_def p_fraction_stops p_exponent_stops assms(1)
        digits_val_nat_digits)
  show "p_number (CHR ''-'' # nat_digits n @ r) = Inr (JInt (- int n), r)"
    using len by (simp add: p_number_def tw ds Let_def p_fraction_stops p_exponent_stops assms(1)
        digits_val_nat_digits)
qed

lemma p_number_int_repr:
  assumes "stops r" "\<bar>i\<bar> < 10 ^ int_digits_limit"
  shows "p_number (int_repr i @ r) = Inr (JInt i, r)"
proof (cases "i < 0")
  case True
  from assms True have "nat (- i) < 10 ^ int_digits_limit" by (simp add: nat_less_iff)
  from p_number_digits(2) [OF assms(1) this] True show ?thesis by (simp add: int_repr_def)
next
  case False
  from assms False have "nat i < 10 ^ int_digits_limit" by (simp add: nat_less_iff)
  from p_number_digits(1) [OF assms(1) this] False show ?thesis by (simp add: int_repr_def)
qed


section \<open>Values\<close>

text \<open>
  Values the printer and the reader agree on: unique keys, no float, integers within the
  interpreter's digit limit.
\<close>

fun json_plain :: "json \<Rightarrow> bool" where
  "json_plain (JInt i) = (\<bar>i\<bar> < 10 ^ int_digits_limit)"
| "json_plain (JFloat _) = False"
| "json_plain (JList vs) = list_all json_plain vs"
| "json_plain (JObj kvs) = (distinct (map fst kvs) \<and> list_all (\<lambda>kv. json_plain (snd kv)) kvs)"
| "json_plain _ = True"

lemma pairs_distinct: "distinct (map fst (out @ kvs)) \<Longrightarrow> pairs out kvs = Inr (out @ kvs)"
  by (induction out kvs rule: pairs.induct) auto

lemma update_fresh: "k \<notin> fst ` set d \<Longrightarrow> AList.update k v d = d @ [(k, v)]"
  by (induction d) auto

lemma foldl_update_distinct:
  "distinct (map fst (d @ kvs)) \<Longrightarrow> foldl (\<lambda>d kv. AList.update (fst kv) (snd kv) d) d kvs = d @ kvs"
proof (induction kvs arbitrary: d)
  case Nil
  then show ?case by simp
next
  case (Cons kv kvs)
  then have "AList.update (fst kv) (snd kv) d = d @ [kv]"
    by (simp add: update_fresh)
  with Cons.IH [of "d @ [kv]"] Cons.prems show ?case by simp
qed

lemma pairs_hook_distinct: "distinct (map fst kvs) \<Longrightarrow> pairs_hook st kvs = Inr kvs"
  using pairs_distinct [of "[]" kvs] foldl_update_distinct [of "[]" kvs]
  by (simp add: pairs_hook_def)

text \<open>The first character of a printed value.\<close>

definition value_start :: "char \<Rightarrow> bool" where
  "value_start c \<longleftrightarrow> \<not> is_ws c \<and> c \<noteq> CHR '']'' \<and> c \<noteq> CHR ''}''"

lemma digit_start: "is_digit c \<Longrightarrow> value_start c"
  by (auto simp: value_start_def is_digit_def is_ws_def)

lemma nat_digits_start: "\<exists>c cs. nat_digits n = c # cs \<and> is_digit c"
  using nat_digits_digits [of _ n] by (cases "nat_digits n") auto

lemma plain_start: "json_plain v \<Longrightarrow> \<exists>c cs. plain_dumps v = c # cs \<and> value_start c"
proof (cases v)
  case (JInt i)
  with nat_digits_start [of "nat i"] show ?thesis
    by (auto simp: int_repr_def value_start_def is_ws_def digit_start)
       (auto simp: value_start_def is_ws_def is_digit_def)
qed (auto simp: value_start_def is_ws_def str_dumps_def)

lemma plain_items_start:
  "vs \<noteq> [] \<Longrightarrow> list_all json_plain vs \<Longrightarrow> \<exists>c cs. plain_items vs = c # cs \<and> value_start c"
  by (cases vs) (auto dest!: plain_start)

lemma skip_ws_start: "value_start c \<Longrightarrow> skip_ws (c # cs) = c # cs"
  by (simp add: skip_ws_def value_start_def)

lemma skip_ws_plain: "json_plain v \<Longrightarrow> skip_ws (plain_dumps v @ r) = plain_dumps v @ r"
  using plain_start [of v] by (auto simp: skip_ws_start)

lemma skip_ws_id: "r = c # cs \<Longrightarrow> \<not> is_ws c \<Longrightarrow> skip_ws r = r"
  by (simp add: skip_ws_def)

lemma p_value_number:
  assumes "is_digit c \<or> (c = CHR ''-'' \<and> cs \<noteq> [] \<and> is_digit (hd cs))"
  shows "p_value st (Suc n) (c # cs) = p_number (c # cs)"
proof -
  have "c \<noteq> quote_char" "c \<noteq> CHR ''{''" "c \<noteq> CHR ''[''"
    using assms by (auto simp: is_digit_def)
  moreover have "\<not> starts (CHR ''n'' # p) (c # cs)" "\<not> starts (CHR ''t'' # p) (c # cs)"
    "\<not> starts (CHR ''f'' # p) (c # cs)" "\<not> starts (CHR ''N'' # p) (c # cs)"
    "\<not> starts (CHR ''I'' # p) (c # cs)" for p
    using assms by (auto simp: starts_def is_digit_def)
  moreover have "\<not> starts ''-Infinity'' (c # cs)"
    using assms by (cases cs) (auto simp: starts_def is_digit_def)
  ultimately show ?thesis by simp
qed

lemma p_value_int:
  assumes "stops r" "\<bar>i\<bar> < 10 ^ int_digits_limit"
  shows "p_value st (Suc n) (int_repr i @ r) = Inr (JInt i, r)"
proof -
  have "\<exists>c cs. int_repr i = c # cs \<and> (is_digit c \<or> (c = CHR ''-'' \<and> cs \<noteq> [] \<and> is_digit (hd cs)))"
    using nat_digits_start [of "nat i"] nat_digits_start [of "nat (- i)"] by (auto simp: int_repr_def)
  then obtain c cs where c: "int_repr i = c # cs"
    and d: "is_digit c \<or> (c = CHR ''-'' \<and> cs \<noteq> [] \<and> is_digit (hd cs))" by blast
  from d have "is_digit c \<or> (c = CHR ''-'' \<and> cs @ r \<noteq> [] \<and> is_digit (hd (cs @ r)))" by auto
  then have "p_value st (Suc n) (c # cs @ r) = p_number (c # cs @ r)"
    by (rule p_value_number)
  with c p_number_int_repr [OF assms] show ?thesis by simp
qed

lemma stops_delims [simp]: "stops (CHR '']'' # r)" "stops (CHR ''}'' # r)" "stops (CHR '','' # r)" "stops []"
  by (simp_all add: stops_def is_digit_def)

lemma p_plain:
  shows p_value_plain: "json_plain v \<Longrightarrow> 2 * length (plain_dumps v) < n \<Longrightarrow> stops r \<Longrightarrow>
      p_value st n (plain_dumps v @ r) = Inr (v, r)"
    and p_items_plain: "vs \<noteq> [] \<Longrightarrow> list_all json_plain vs \<Longrightarrow> 2 * length (plain_items vs) + 1 < n \<Longrightarrow>
      p_items st n (plain_items vs @ CHR '']'' # r) = Inr (vs, r)"
    and p_members_plain: "kvs \<noteq> [] \<Longrightarrow> list_all (\<lambda>kv. json_plain (snd kv)) kvs \<Longrightarrow>
      2 * length (plain_fields kvs) + 1 < n \<Longrightarrow>
      p_members st n (plain_fields kvs @ CHR ''}'' # r) = Inr (kvs, r)"
proof (induction v and vs and kvs arbitrary: n r and n r and n r
    rule: plain_dumps_plain_items_plain_fields.induct)
  case 1
  then obtain m where "n = Suc m" by (cases n) auto
  then show ?case by (simp add: starts_def)
next
  case (2 b)
  then obtain m where "n = Suc m" by (cases n) auto
  then show ?case by (simp add: starts_def)
next
  case (3 i)
  then obtain m where "n = Suc m" by (cases n) auto
  with 3 show ?case by (simp add: p_value_int)
next
  case (5 s)
  then obtain m where "n = Suc m" by (cases n) auto
  then show ?case by (simp add: str_dumps_def p_str_dumps)
next
  case (6 vs)
  then obtain m where n: "n = Suc m" by (cases n) auto
  show ?case
  proof (cases "vs = []")
    case True
    with n show ?thesis by (simp add: skip_ws_def is_ws_def)
  next
    case False
    with 6 obtain c cs where c: "plain_items vs = c # cs" "value_start c"
      using plain_items_start [of vs] by auto
    have "p_items st m (plain_items vs @ CHR '']'' # r) = Inr (vs, r)"
      using 6 False n by simp
    moreover have "c \<noteq> CHR '']''" using c by (simp add: value_start_def)
    ultimately show ?thesis
      using n c by (simp add: skip_ws_start)
  qed
next
  case (7 kvs)
  then obtain m where n: "n = Suc m" by (cases n) auto
  show ?case
  proof (cases "kvs = []")
    case True
    with n show ?thesis by (simp add: skip_ws_def is_ws_def)
  next
    case False
    then obtain k v ws where kvs: "kvs = (k, v) # ws" by (cases kvs) auto
    have "p_members st m (plain_fields kvs @ CHR ''}'' # r) = Inr (kvs, r)"
      using 7 False n by simp
    with n kvs 7 show ?thesis
      by (simp add: str_dumps_def skip_ws_def is_ws_def pairs_hook_distinct)
  qed
next
  case (9 v vs)
  then obtain m where n: "n = Suc m" by (cases n) auto
  show ?case
  proof (cases "vs = []")
    case True
    with 9 n show ?thesis by (simp add: skip_ws_def is_ws_def)
  next
    case False
    then obtain w ws where vs: "vs = w # ws" by (cases vs) auto
    have v: "p_value st m (plain_dumps v @ CHR '','' # plain_items vs @ CHR '']'' # r)
        = Inr (v, CHR '','' # plain_items vs @ CHR '']'' # r)"
      using 9 n False by simp
    have "p_items st m (plain_items vs @ CHR '']'' # r) = Inr (vs, r)"
      using 9 n False by simp
    moreover have "skip_ws (plain_items vs @ CHR '']'' # r) = plain_items vs @ CHR '']'' # r"
      using 9 vs skip_ws_plain [of w] by simp
    ultimately show ?thesis
      using n False v by (simp add: skip_ws_def is_ws_def)
  qed
next
  case (11 k v kvs)
  then obtain m where n: "n = Suc m" by (cases n) auto
  have fuel: "2 * length (plain_dumps v) < m"
    using 11 n by simp
  show ?case
  proof (cases "kvs = []")
    case True
    have "p_value st m (plain_dumps v @ CHR ''}'' # r) = Inr (v, CHR ''}'' # r)"
      using 11 fuel by simp
    with 11 n True show ?thesis
      by (simp add: str_dumps_def p_str_dumps skip_ws_id is_ws_def skip_ws_plain)
  next
    case False
    then obtain k' w ws where kvs: "kvs = (k', w) # ws" by (cases kvs) auto
    have v: "p_value st m (plain_dumps v @ CHR '','' # plain_fields kvs @ CHR ''}'' # r)
        = Inr (v, CHR '','' # plain_fields kvs @ CHR ''}'' # r)"
      using 11 fuel by simp
    have "p_members st m (plain_fields kvs @ CHR ''}'' # r) = Inr (kvs, r)"
      using 11 n False by simp
    moreover have "skip_ws (plain_fields kvs @ CHR ''}'' # r) = plain_fields kvs @ CHR ''}'' # r"
      using kvs by (simp add: str_dumps_def skip_ws_def is_ws_def)
    ultimately show ?thesis
      using 11 n False v
      by (simp add: str_dumps_def p_str_dumps skip_ws_id is_ws_def skip_ws_plain)
  qed
qed auto

lemma json_loads_plain: "json_plain v \<Longrightarrow> json_loads st (plain_dumps v) = Inr v"
  using p_value_plain [of v "2 * length (plain_dumps v) + 1" "[]" st] skip_ws_plain [of v "[]"]
  by (simp add: json_loads_def del: p_value.simps) (simp add: skip_ws_def)

section \<open>The canonical form\<close>

lemma set_sort_fields [simp]:
  "set (sort_key fst (map (\<lambda>kv. (fst kv, f (snd kv))) kvs)) = (\<lambda>kv. (fst kv, f (snd kv))) ` set kvs"
  by simp

lemma distinct_sort_fields:
  "distinct (map fst kvs) \<Longrightarrow>
     distinct (map fst (sort_key fst (map (\<lambda>kv. (fst kv, f (snd kv))) kvs)))"
proof -
  assume d: "distinct (map fst kvs)"
  let ?m = "map (\<lambda>kv. (fst kv, f (snd kv))) kvs"
  have "mset (map fst (sort_key fst ?m)) = mset (map fst ?m)"
    by (simp only: mset_map mset_sort)
  moreover have "map fst ?m = map fst kvs" by simp
  ultimately show ?thesis using d by (metis distinct_count_atmost_1 mset_eq_imp_distinct_iff)
qed

lemma json_plain_sort_keys: "json_plain v \<Longrightarrow> json_plain (sort_keys v)"
proof (induction v)
  case (JObj kvs)
  then show ?case by (fastforce simp: distinct_sort_fields list_all_iff)
qed (auto simp: list_all_iff)

lemma json_plain_finite: "json_plain v \<Longrightarrow> json_finite v"
  by (induction v) (auto simp: list_all_iff)

lemma json_loads_dumps: "json_plain v \<Longrightarrow> json_loads st (json_dumps v) = Inr (sort_keys v)"
  by (simp add: json_dumps_def json_loads_plain json_plain_sort_keys)

lemma json_dumps_inj:
  "json_plain v \<Longrightarrow> json_plain w \<Longrightarrow> json_dumps v = json_dumps w \<Longrightarrow> sort_keys v = sort_keys w"
  by (metis Inr_inject json_loads_dumps)

text \<open>Equal canonical texts of two objects agree on every member.\<close>

lemma map_of_sort_key:
  assumes "distinct (map fst kvs)"
  shows "map_of (sort_key fst kvs) = map_of kvs"
proof (rule map_of_eqI)
  show "set (map fst (sort_key fst kvs)) = set (map fst kvs)" by simp
  show "\<forall>k \<in> set (map fst (sort_key fst kvs)). map_of (sort_key fst kvs) k = map_of kvs k"
  proof
    fix k assume "k \<in> set (map fst (sort_key fst kvs))"
    then obtain v where "(k, v) \<in> set kvs" by auto
    moreover have "distinct (map fst (sort_key fst kvs))"
      using distinct_sort_fields [OF assms, of id] by simp
    ultimately show "map_of (sort_key fst kvs) k = map_of kvs k"
      using assms by (metis map_of_eq_Some_iff set_sort)
  qed
qed

lemma sort_keys_obj_member:
  assumes "distinct (map fst kvs)" "distinct (map fst kvs')"
    "sort_keys (JObj kvs) = sort_keys (JObj kvs')"
  shows "map_option sort_keys (map_of kvs k) = map_option sort_keys (map_of kvs' k)"
proof -
  have m: "map_of (sort_key fst (map (\<lambda>kv. (fst kv, sort_keys (snd kv))) xs)) k
      = map_option sort_keys (map_of xs k)"
    if "distinct (map fst xs)" for xs
  proof -
    have "map_of (map (\<lambda>kv. (fst kv, sort_keys (snd kv))) xs) k = map_option sort_keys (map_of xs k)"
      by (induction xs) auto
    moreover have "distinct (map fst (map (\<lambda>kv. (fst kv, sort_keys (snd kv))) xs))"
      using that by (simp add: comp_def)
    ultimately show ?thesis by (simp add: map_of_sort_key)
  qed
  from assms(3) m [OF assms(1)] m [OF assms(2)] show ?thesis by simp
qed

lemma fingerprint_eq_sort_keys:
  assumes "json_plain v" "json_plain w" "fingerprint sha v = fingerprint sha w"
  shows "sort_keys v = sort_keys w \<or> collision sha (json_dumps v) (json_dumps w)"
  using assms json_dumps_inj [of v w] by (auto simp: fingerprint_def collision_def)

section \<open>The reader's bounds\<close>

lemma json_check_iff:
  shows "json_check d v = Inr () \<longleftrightarrow> d + json_depth v \<le> 32 \<and> json_finite v"
    and "json_check_all d vs = Inr () \<longleftrightarrow>
      (vs = [] \<or> d + json_depths vs \<le> Suc 32) \<and> list_all json_finite vs"
proof (induction d v and d vs rule: json_check_json_check_all.induct)
  case (1 depth obj)
  show ?case
  proof (cases obj)
    case (JList vs)
    with 1 show ?thesis by (cases "vs = []") auto
  next
    case (JObj kvs)
    with 1 show ?thesis by (cases "kvs = []") (auto simp: list_all_iff)
  qed (use 1 in auto)
next
  case (3 depth v vs)
  then show ?case by (cases "vs = []") (auto simp: rbind_Inr_iff)
qed simp

lemma strict_json_Inr_iff:
  "strict_json max_bytes value = Inr kvs \<longleftrightarrow>
     int (utf8_len value) \<le> max_bytes \<and> json_loads True value = Inr (JObj kvs) \<and>
     json_depth (JObj kvs) \<le> 32 \<and> json_finite (JObj kvs)"
  using json_check_iff(1) [of 0 "JObj kvs"]
  by (auto simp: strict_json_def rbind_Inr_iff not_less
      split: sum.splits py_error.splits json.splits)

end
