(* ===== verification/Contracts.thy ===== *)
theory Contracts
  imports Json_Roundtrip
begin

text \<open>
  The wire contracts of \<^verbatim>\<open>src/src/agmina_runtime/contracts.py\<close>: observations, sessions, jobs,
  model contracts, usage, predictions and receipts, each as a record with the validators that
  construction runs, and the two time rules of a job, \<^verbatim>\<open>Job.latest_ns\<close> and
  \<^verbatim>\<open>Job.invalid_reason\<close>. A field constraint (pattern, length, range) that the class declares is
  the first guard of its validator. All times are integers (nanoseconds of a named clock).
\<close>

section \<open>Field types\<close>

definition is_alnum :: "char \<Rightarrow> bool" where
  "is_alnum c \<longleftrightarrow> (let n = (of_char c :: nat) in
     (48 \<le> n \<and> n \<le> 57) \<or> (65 \<le> n \<and> n \<le> 90) \<or> (97 \<le> n \<and> n \<le> 122))"

definition is_name_char :: "char \<Rightarrow> bool" where
  "is_name_char c \<longleftrightarrow> is_alnum c \<or> c \<in> set ''_.:/@+-''"

definition is_name :: "string \<Rightarrow> bool" where
  "is_name s \<longleftrightarrow> s \<noteq> [] \<and> length s \<le> 160 \<and> is_alnum (hd s) \<and> list_all is_name_char (tl s)"

definition is_hex_lower :: "char \<Rightarrow> bool" where
  "is_hex_lower c \<longleftrightarrow> (let n = (of_char c :: nat) in (48 \<le> n \<and> n \<le> 57) \<or> (97 \<le> n \<and> n \<le> 102))"

definition is_sha :: "string \<Rightarrow> bool" where
  "is_sha s \<longleftrightarrow> length s = 64 \<and> list_all is_hex_lower s"

definition is_ns :: "int \<Rightarrow> bool" where
  "is_ns n \<longleftrightarrow> 0 \<le> n \<and> n \<le> 2 ^ 63 - 1"

definition opt_all :: "('a \<Rightarrow> bool) \<Rightarrow> 'a option \<Rightarrow> bool" where
  "opt_all P x = (case x of None \<Rightarrow> True | Some v \<Rightarrow> P v)"

lemma opt_all_simps [simp]: "opt_all P None" "opt_all P (Some v) = P v"
  by (simp_all add: opt_all_def)

abbreviation "field_error \<equiv> ''Field constraint''"

section \<open>Enumerations\<close>

datatype result_kind = CURRENT | HISTORICAL | ACTION_PROPOSAL

datatype job_state =
    QUEUED | RUNNING | SUCCEEDED | CONSUMED | REJECTED | EXPIRED | STALE | CANCELLED | SUPERSEDED
  | FAILED | UNKNOWN

datatype workload = POLICY | SEGMENTATION | SEMANTIC | MAPPING | QUERY

datatype obs_role = ROLE_CURRENT | ROLE_CONTEXT

datatype session_state = ACTIVE | CLOSED

fun kind_value :: "result_kind \<Rightarrow> string" where
  "kind_value CURRENT = ''current''"
| "kind_value HISTORICAL = ''historical''"
| "kind_value ACTION_PROPOSAL = ''action_proposal''"

fun state_value :: "job_state \<Rightarrow> string" where
  "state_value QUEUED = ''queued''"
| "state_value RUNNING = ''running''"
| "state_value SUCCEEDED = ''succeeded''"
| "state_value CONSUMED = ''consumed''"
| "state_value REJECTED = ''rejected''"
| "state_value EXPIRED = ''expired''"
| "state_value STALE = ''stale''"
| "state_value CANCELLED = ''cancelled''"
| "state_value SUPERSEDED = ''superseded''"
| "state_value FAILED = ''failed''"
| "state_value UNKNOWN = ''unknown''"

fun workload_value :: "workload \<Rightarrow> string" where
  "workload_value POLICY = ''policy''"
| "workload_value SEGMENTATION = ''segmentation''"
| "workload_value SEMANTIC = ''semantic''"
| "workload_value MAPPING = ''mapping''"
| "workload_value QUERY = ''query''"

fun role_value :: "obs_role \<Rightarrow> string" where
  "role_value ROLE_CURRENT = ''current''"
| "role_value ROLE_CONTEXT = ''context''"

section \<open>Observations\<close>

record observation =
  obs_id :: string
  obs_source :: string
  obs_sequence :: int
  obs_sha256 :: string
  obs_capture_ns :: int
  obs_available_ns :: int
  obs_uncertainty_ns :: int
  obs_role :: obs_role
  obs_source_time :: "string option"

definition validate_observation :: "observation \<Rightarrow> observation result" where
  "validate_observation o' = guards
     [(\<not> (is_name (obs_id o') \<and> is_name (obs_source o') \<and> is_ns (obs_sequence o') \<and> is_sha (obs_sha256 o') \<and>
          is_ns (obs_capture_ns o') \<and> is_ns (obs_available_ns o') \<and> is_ns (obs_uncertainty_ns o') \<and>
          opt_all (\<lambda>s. length s \<le> 160) (obs_source_time o')), field_error),
      (obs_available_ns o' < obs_capture_ns o', ''Availability precedes mapped capture'')] o'"

definition opt_json :: "('a \<Rightarrow> json) \<Rightarrow> 'a option \<Rightarrow> json" where
  "opt_json f x = (case x of None \<Rightarrow> JNull | Some v \<Rightarrow> f v)"

text \<open>\<open>model_dump(mode="json", exclude={"role"})\<close>, and its whole-observation form.\<close>

definition source_fields :: "observation \<Rightarrow> (string \<times> json) list" where
  "source_fields o' =
     [(''id'', JStr (obs_id o')), (''source'', JStr (obs_source o')), (''sequence'', JInt (obs_sequence o')),
      (''sha256'', JStr (obs_sha256 o')), (''capture_ns'', JInt (obs_capture_ns o')),
      (''available_ns'', JInt (obs_available_ns o')), (''uncertainty_ns'', JInt (obs_uncertainty_ns o')),
      (''source_time'', opt_json JStr (obs_source_time o'))]"

definition observation_json :: "observation \<Rightarrow> json" where
  "observation_json o' = JObj (source_fields o' @ [(''role'', JStr (role_value (obs_role o')))])"

definition source_fingerprint :: "(string \<Rightarrow> string) \<Rightarrow> observation \<Rightarrow> string" where
  "source_fingerprint sha o' = fingerprint sha (JObj (source_fields o'))"

section \<open>Sessions\<close>

record session =
  session_tenant :: string
  session_id :: string
  session_epoch :: int
  session_task_revision :: string
  session_clock_id :: string
  session_state :: session_state
  session_updated_ns :: int
  session_buffer_until_ns :: "int option"

definition validate_session :: "session \<Rightarrow> session result" where
  "validate_session s = guards
     [(\<not> (is_name (session_tenant s) \<and> is_name (session_id s) \<and> is_ns (session_epoch s) \<and>
          is_name (session_task_revision s) \<and> is_name (session_clock_id s) \<and> is_ns (session_updated_ns s) \<and>
          opt_all is_ns (session_buffer_until_ns s)), field_error)] s"

section \<open>Jobs\<close>

record job =
  job_id :: string
  job_tenant :: string
  job_session_id :: string
  job_epoch :: int
  job_task_revision :: string
  job_clock_id :: string
  job_model :: string
  job_operation :: string
  job_workload :: workload
  job_result_kind :: result_kind
  job_observations :: "observation list"
  job_snapshot_ns :: int
  job_deadline_ns :: int
  job_max_age_ns :: "int option"
  job_max_uncertainty_ns :: int
  job_priority :: int
  job_allowed_sites :: "string list"
  job_dependencies :: "string list"
  job_payload_json :: string
  job_replace_key :: "string option"
  job_discardable :: bool
  job_cacheable :: bool

definition payload_limit :: int where
  "payload_limit = 8000000"

text \<open>\<^verbatim>\<open>payload_object\<close>: the payload is replaced by its canonical text.\<close>

definition payload_object :: "string \<Rightarrow> string result" where
  "payload_object value = rbind (strict_json payload_limit value) (\<lambda>kvs. canonical (JObj kvs))"

definition job_fields_ok :: "job \<Rightarrow> bool" where
  "job_fields_ok j \<longleftrightarrow>
     is_name (job_id j) \<and> is_name (job_tenant j) \<and> is_name (job_session_id j) \<and> is_ns (job_epoch j) \<and>
     is_name (job_task_revision j) \<and> is_name (job_clock_id j) \<and> is_name (job_model j) \<and>
     is_name (job_operation j) \<and>
     list_all (\<lambda>o'. is_ok (validate_observation o')) (job_observations j) \<and>
     length (job_observations j) \<le> 32 \<and> is_ns (job_snapshot_ns j) \<and> is_ns (job_deadline_ns j) \<and>
     opt_all is_ns (job_max_age_ns j) \<and> is_ns (job_max_uncertainty_ns j) \<and>
     0 \<le> job_priority j \<and> job_priority j \<le> 3 \<and> list_all is_name (job_allowed_sites j) \<and>
     list_all is_name (job_dependencies j) \<and> length (job_dependencies j) \<le> 32 \<and>
     opt_all is_name (job_replace_key j)"

definition job_guards :: "job \<Rightarrow> (bool \<times> string) list" where
  "job_guards j =
     [(job_observations j = [] \<and> job_workload j \<noteq> QUERY,
         ''Evidence-bound jobs require at least one observation''),
      (job_deadline_ns j \<le> job_snapshot_ns j, ''Deadline must follow evidence cutoff''),
      (\<not> distinct (map obs_id (job_observations j)), ''Repeated observation ID''),
      (list_ex (\<lambda>o'. job_snapshot_ns j < obs_available_ns o') (job_observations j),
         ''Evidence unavailable at snapshot''),
      (list_ex (\<lambda>o'. job_max_uncertainty_ns j < obs_uncertainty_ns o') (job_observations j),
         ''Capture clock uncertainty exceeds operator bound''),
      (job_result_kind j \<noteq> HISTORICAL \<and>
         (job_max_age_ns j = None \<or> \<not> list_ex (\<lambda>o'. obs_role o' = ROLE_CURRENT) (job_observations j)),
         ''Current/action results require current evidence and an age bound''),
      (job_replace_key j \<noteq> None \<and> \<not> job_discardable j,
         ''Latest-only replacement requires explicit discard permission''),
      (job_workload j = POLICY \<and> (job_discardable j \<or> job_cacheable j),
         ''Policy jobs cannot be implicitly dropped or result-cached''),
      (job_cacheable j \<and> job_result_kind j \<noteq> HISTORICAL,
         ''Only exact historical queries may reuse completed results''),
      (job_allowed_sites j = [] \<or> \<not> distinct (job_allowed_sites j), ''Explicit unique allowed sites required''),
      (job_id j \<in> set (job_dependencies j) \<or> \<not> distinct (job_dependencies j), ''Invalid dependency set'')]"

text \<open>
  Construction (\<open>Job.model_validate_json(job.model_dump_json())\<close> re-runs it): the fields, the
  payload normalisation, then the cross-field rules.
\<close>

definition validate_job :: "job \<Rightarrow> job result" where
  "validate_job j =
     rbind (guards [(\<not> job_fields_ok j, field_error)] j) (\<lambda>j.
     rbind (payload_object (job_payload_json j)) (\<lambda>p.
       let j' = j\<lparr>job_payload_json := p\<rparr> in guards (job_guards j') j'))"

definition job_valid :: "job \<Rightarrow> bool" where
  "job_valid j \<longleftrightarrow> job_fields_ok j \<and> (\<forall>g \<in> set (job_guards j). \<not> fst g)"

definition job_fields :: "job \<Rightarrow> (string \<times> json) list" where
  "job_fields j =
     [(''id'', JStr (job_id j)), (''tenant'', JStr (job_tenant j)), (''session_id'', JStr (job_session_id j)),
      (''epoch'', JInt (job_epoch j)), (''task_revision'', JStr (job_task_revision j)),
      (''clock_id'', JStr (job_clock_id j)), (''model'', JStr (job_model j)),
      (''operation'', JStr (job_operation j)), (''workload'', JStr (workload_value (job_workload j))),
      (''result_kind'', JStr (kind_value (job_result_kind j))),
      (''observations'', JList (map observation_json (job_observations j))),
      (''snapshot_ns'', JInt (job_snapshot_ns j)), (''deadline_ns'', JInt (job_deadline_ns j)),
      (''max_age_ns'', opt_json JInt (job_max_age_ns j)),
      (''max_uncertainty_ns'', JInt (job_max_uncertainty_ns j)), (''priority'', JInt (job_priority j)),
      (''allowed_sites'', JList (map JStr (job_allowed_sites j))),
      (''dependencies'', JList (map JStr (job_dependencies j))),
      (''payload_json'', JStr (job_payload_json j)), (''replace_key'', opt_json JStr (job_replace_key j)),
      (''discardable'', JBool (job_discardable j)), (''cacheable'', JBool (job_cacheable j))]"

definition job_fingerprint :: "(string \<Rightarrow> string) \<Rightarrow> job \<Rightarrow> string" where
  "job_fingerprint sha j = fingerprint sha (JObj (job_fields j))"

definition payload :: "job \<Rightarrow> (string \<times> json) list result" where
  "payload j = strict_json payload_limit (job_payload_json j)"

section \<open>Freshness\<close>

text \<open>
  The last useful instant. A job that is not historical has an age bound and current evidence
  (its validator says so); the age of an unvalidated job without a bound is left out.
\<close>

definition age_limits :: "job \<Rightarrow> int list" where
  "age_limits j = (case job_max_age_ns j of None \<Rightarrow> []
     | Some a \<Rightarrow> map (\<lambda>o'. obs_capture_ns o' + a - obs_uncertainty_ns o')
                  (filter (\<lambda>o'. obs_role o' = ROLE_CURRENT) (job_observations j)))"

definition latest_ns :: "job \<Rightarrow> session \<Rightarrow> int" where
  "latest_ns j s =
     (let latest = job_deadline_ns j;
          latest = (if job_result_kind j \<noteq> HISTORICAL then fold min (age_limits j) latest else latest)
      in if job_workload j = POLICY then
           (case session_buffer_until_ns s of None \<Rightarrow> latest | Some b \<Rightarrow> min latest b)
         else latest)"

definition invalid_reason :: "job \<Rightarrow> session \<Rightarrow> int \<Rightarrow> string \<Rightarrow> string option" where
  "invalid_reason j s now clock_id =
     (if job_clock_id j \<noteq> clock_id \<or> session_clock_id s \<noteq> clock_id then Some ''clock_epoch_mismatch''
      else if (job_tenant j, job_session_id j, job_epoch j, job_task_revision j) \<noteq>
              (session_tenant s, session_id s, session_epoch s, session_task_revision s)
              \<or> session_state s \<noteq> ACTIVE then Some ''session_epoch_mismatch''
      else if now < job_snapshot_ns j then Some ''future_snapshot''
      else if latest_ns j s \<le> now then Some ''deadline_or_freshness_expired''
      else None)"

section \<open>Model contracts, usage, predictions, receipts\<close>

record model_contract =
  mc_alias :: string
  mc_weights :: string
  mc_preprocessing :: string
  mc_output_schema :: string
  mc_sampling :: string
  mc_stateful :: bool

definition bounded_text :: "string \<Rightarrow> bool" where
  "bounded_text s \<longleftrightarrow> 1 \<le> length s \<and> length s \<le> 256"

definition validate_model_contract :: "model_contract \<Rightarrow> model_contract result" where
  "validate_model_contract m = guards
     [(\<not> (is_name (mc_alias m) \<and> bounded_text (mc_weights m) \<and> bounded_text (mc_preprocessing m) \<and>
          bounded_text (mc_output_schema m) \<and> bounded_text (mc_sampling m)), field_error),
      (mc_stateful m,
         ''Keep stateful SAM/policy workers host-owned until reset/sequence RPC is qualified'')] m"

definition model_contract_fields :: "model_contract \<Rightarrow> (string \<times> json) list" where
  "model_contract_fields m =
     [(''alias'', JStr (mc_alias m)), (''weights'', JStr (mc_weights m)),
      (''preprocessing'', JStr (mc_preprocessing m)), (''output_schema'', JStr (mc_output_schema m)),
      (''sampling'', JStr (mc_sampling m)), (''stateful'', JBool (mc_stateful m))]"

definition model_fingerprint :: "(string \<Rightarrow> string) \<Rightarrow> model_contract \<Rightarrow> string" where
  "model_fingerprint sha m = fingerprint sha (JObj (model_contract_fields m))"

record usage =
  input_tokens :: "int option"
  output_tokens :: "int option"
  cached_input_tokens :: "int option"
  reasoning_output_tokens :: "int option"
  cost_microusd :: "int option"

text \<open>\<open>part\<close> is given and there is no \<open>whole\<close> that covers it.\<close>

definition exceeds :: "int option \<Rightarrow> int option \<Rightarrow> bool" where
  "exceeds part whole = (case part of None \<Rightarrow> False
     | Some p \<Rightarrow> (case whole of None \<Rightarrow> True | Some w \<Rightarrow> w < p))"

definition validate_usage :: "usage \<Rightarrow> usage result" where
  "validate_usage u = guards
     [(\<not> (opt_all is_ns (input_tokens u) \<and> opt_all is_ns (output_tokens u) \<and>
          opt_all is_ns (cached_input_tokens u) \<and> opt_all is_ns (reasoning_output_tokens u) \<and>
          opt_all is_ns (cost_microusd u)), field_error),
      (exceeds (cached_input_tokens u) (input_tokens u), ''Cached tokens exceed total input''),
      (exceeds (reasoning_output_tokens u) (output_tokens u),
         ''Reasoning must be a documented subset of output'')] u"

definition no_usage :: usage where
  "no_usage = \<lparr>input_tokens = None, output_tokens = None, cached_input_tokens = None,
     reasoning_output_tokens = None, cost_microusd = None\<rparr>"

record prediction =
  pred_payload_json :: string
  pred_usage :: usage
  pred_first_content_ns :: "int option"
  pred_provider_request_id :: "string option"

definition validate_prediction :: "prediction \<Rightarrow> prediction result" where
  "validate_prediction p =
     rbind (guards [(\<not> (is_ok (validate_usage (pred_usage p)) \<and> opt_all is_ns (pred_first_content_ns p) \<and>
              opt_all (\<lambda>s. length s \<le> 256) (pred_provider_request_id p)), field_error)] p) (\<lambda>p.
     rbind (payload_object (pred_payload_json p)) (\<lambda>v. Inr (p\<lparr>pred_payload_json := v\<rparr>)))"

record receipt =
  rc_job_id :: string
  rc_request_fingerprint :: string
  rc_state :: job_state
  rc_endpoint :: "string option"
  rc_reason :: "string option"
  rc_submitted_ns :: int
  rc_started_ns :: "int option"
  rc_completed_ns :: "int option"
  rc_computed_ns :: "int option"
  rc_first_content_ns :: "int option"
  rc_prediction_json :: "string option"
  rc_usage :: "usage option"
  rc_provider_request_id :: "string option"
  rc_cache_hit :: bool
  rc_consumed_by :: "string option"
  rc_consumed_ns :: "int option"

definition validate_receipt :: "receipt \<Rightarrow> receipt result" where
  "validate_receipt r = guards
     [(\<not> (is_name (rc_job_id r) \<and> is_sha (rc_request_fingerprint r) \<and> opt_all is_name (rc_endpoint r) \<and>
          is_ns (rc_submitted_ns r) \<and> opt_all is_ns (rc_started_ns r) \<and> opt_all is_ns (rc_completed_ns r) \<and>
          opt_all is_ns (rc_computed_ns r) \<and> opt_all is_ns (rc_first_content_ns r) \<and>
          opt_all (\<lambda>u. is_ok (validate_usage u)) (rc_usage r) \<and>
          opt_all (\<lambda>s. length s \<le> 256) (rc_provider_request_id r) \<and>
          opt_all is_name (rc_consumed_by r) \<and> opt_all is_ns (rc_consumed_ns r)), field_error)] r"


section \<open>Facts about freshness\<close>

lemma fold_min_le: "fold min xs (a::int) \<le> a" "x \<in> set xs \<Longrightarrow> fold min xs a \<le> x"
proof (induction xs arbitrary: a)
  case (Cons y ys)
  { case 1 show ?case using Cons.IH(1) [of "min y a"] by simp }
  { case 2 then show ?case using Cons.IH [of "min y a"] by auto }
qed simp_all

lemma fold_min_mem: "fold min xs (a::int) \<in> insert a (set xs)"
proof (induction xs arbitrary: a)
  case (Cons y ys)
  show ?case using Cons [of "min y a"] by (auto simp: min_def split: if_splits)
qed simp

lemma latest_le_deadline: "latest_ns j s \<le> job_deadline_ns j"
  using fold_min_le(1) [of "age_limits j" "job_deadline_ns j"]
  by (auto simp: latest_ns_def Let_def split: option.splits)

lemma latest_le_age:
  assumes "job_result_kind j \<noteq> HISTORICAL" "x \<in> set (age_limits j)"
  shows "latest_ns j s \<le> x"
  using assms fold_min_le(2) [OF assms(2), of "job_deadline_ns j"]
  by (auto simp: latest_ns_def Let_def split: option.splits)

lemma latest_le_buffer:
  "job_workload j = POLICY \<Longrightarrow> session_buffer_until_ns s = Some b \<Longrightarrow> latest_ns j s \<le> b"
  by (simp add: latest_ns_def Let_def)

text \<open>The candidates of the minimum, and that it is attained.\<close>

definition limits :: "job \<Rightarrow> session \<Rightarrow> int set" where
  "limits j s = insert (job_deadline_ns j)
     ((if job_result_kind j \<noteq> HISTORICAL then set (age_limits j) else {})
      \<union> (if job_workload j = POLICY then set_option (session_buffer_until_ns s) else {}))"

lemma finite_limits [simp]: "finite (limits j s)"
  by (simp add: limits_def)

lemma latest_ns_eq_Min: "latest_ns j s = Min (limits j s)"
proof (rule Min_eqI [symmetric])
  show "finite (limits j s)" by simp
  show "latest_ns j s \<le> x" if "x \<in> limits j s" for x
    using that latest_le_deadline [of j s] latest_le_age [of j x s] latest_le_buffer [of j s]
    by (auto simp: limits_def split: if_splits)
  show "latest_ns j s \<in> limits j s"
    using fold_min_mem [of "age_limits j" "job_deadline_ns j"]
    by (auto simp: latest_ns_def limits_def Let_def min_def split: option.splits if_splits)
qed

definition same_generation :: "job \<Rightarrow> session \<Rightarrow> bool" where
  "same_generation j s \<longleftrightarrow> job_tenant j = session_tenant s \<and> job_session_id j = session_id s \<and>
     job_epoch j = session_epoch s \<and> job_task_revision j = session_task_revision s"

lemma invalid_reason_None_iff:
  "invalid_reason j s now clk = None \<longleftrightarrow>
     job_clock_id j = clk \<and> session_clock_id s = clk \<and> same_generation j s \<and>
     session_state s = ACTIVE \<and> job_snapshot_ns j \<le> now \<and> now < latest_ns j s"
  by (auto simp: invalid_reason_def same_generation_def not_le not_less)

lemma expired_reason_iff:
  "invalid_reason j s now clk = Some ''deadline_or_freshness_expired'' \<longleftrightarrow>
     job_clock_id j = clk \<and> session_clock_id s = clk \<and> same_generation j s \<and>
     session_state s = ACTIVE \<and> job_snapshot_ns j \<le> now \<and> latest_ns j s \<le> now"
  by (auto simp: invalid_reason_def same_generation_def not_le not_less)

text \<open>Once expired, expired for good: time and a shrinking buffer never revive a job.\<close>

lemma expired_mono:
  assumes "invalid_reason j s now clk = Some ''deadline_or_freshness_expired''" "now \<le> now'"
  shows "invalid_reason j s now' clk = Some ''deadline_or_freshness_expired''"
  using assms by (auto simp: expired_reason_iff)

lemma epoch_change_invalid:
  "session_epoch s \<noteq> job_epoch j \<Longrightarrow> invalid_reason j s now clk \<noteq> None"
  by (auto simp: invalid_reason_None_iff same_generation_def)

section \<open>Facts about fingerprints\<close>

lemma ns_printable: "is_ns i \<Longrightarrow> \<bar>i\<bar> < 10 ^ int_digits_limit"
proof -
  assume "is_ns i"
  then have "\<bar>i\<bar> < 2 ^ 63" by (simp add: is_ns_def)
  also have "(2::int) ^ 63 \<le> 10 ^ 19" by simp
  also have "(10::int) ^ 19 \<le> 10 ^ int_digits_limit"
    by (rule power_increasing) (simp_all add: int_digits_limit_def)
  finally show ?thesis .
qed

lemma small_printable: "(0::int) \<le> i \<Longrightarrow> i \<le> 3 \<Longrightarrow> i < 10 ^ int_digits_limit"
  using ns_printable [of i] by (simp add: is_ns_def)

lemma validate_observation_ok:
  "is_ok (validate_observation o') \<longleftrightarrow>
     is_name (obs_id o') \<and> is_name (obs_source o') \<and> is_ns (obs_sequence o') \<and> is_sha (obs_sha256 o') \<and>
     is_ns (obs_capture_ns o') \<and> is_ns (obs_available_ns o') \<and> is_ns (obs_uncertainty_ns o') \<and>
     opt_all (\<lambda>s. length s \<le> 160) (obs_source_time o') \<and> obs_capture_ns o' \<le> obs_available_ns o'"
  by (auto simp: validate_observation_def is_ok_iff)

lemma source_fields_plain: "is_ok (validate_observation o') \<Longrightarrow> json_plain (JObj (source_fields o'))"
  by (auto simp: validate_observation_ok source_fields_def opt_json_def ns_printable split: option.splits)

lemma observation_json_plain: "is_ok (validate_observation o') \<Longrightarrow> json_plain (observation_json o')"
  using source_fields_plain [of o'] by (simp add: observation_json_def source_fields_def)

lemma job_fields_plain: "job_fields_ok j \<Longrightarrow> json_plain (JObj (job_fields j))"
  by (auto simp: job_fields_ok_def job_fields_def opt_json_def list_all_iff ns_printable small_printable
      observation_json_plain split: option.splits)

lemma opt_json_inj:
  "(\<And>x y. sort_keys (f x) = sort_keys (f y) \<Longrightarrow> x = y) \<Longrightarrow> (\<And>x. sort_keys (f x) \<noteq> JNull) \<Longrightarrow>
   sort_keys (opt_json f a) = sort_keys (opt_json f b) \<longleftrightarrow> a = b"
  by (cases a; cases b) (auto simp: opt_json_def dest: sym)

lemma opt_str_inj [simp]: "sort_keys (opt_json JStr a) = sort_keys (opt_json JStr b) \<longleftrightarrow> a = b"
  by (rule opt_json_inj) simp_all

lemma opt_int_inj [simp]: "sort_keys (opt_json JInt a) = sort_keys (opt_json JInt b) \<longleftrightarrow> a = b"
  by (rule opt_json_inj) simp_all

lemma role_value_inj [simp]: "role_value a = role_value b \<longleftrightarrow> a = b"
  by (cases a; cases b) simp_all

lemma kind_value_inj [simp]: "kind_value a = kind_value b \<longleftrightarrow> a = b"
  by (cases a; cases b) simp_all

lemma workload_value_inj [simp]: "workload_value a = workload_value b \<longleftrightarrow> a = b"
  by (cases a; cases b) simp_all

lemma source_fields_inj:
  assumes "sort_keys (JObj (source_fields a)) = sort_keys (JObj (source_fields b))"
  shows "a\<lparr>obs_role := r\<rparr> = b\<lparr>obs_role := r\<rparr>"
proof -
  have d: "distinct (map fst (source_fields x))" for x by (simp add: source_fields_def)
  note m = sort_keys_obj_member [OF d d assms]
  show ?thesis
    using m [of "''id''"] m [of "''source''"] m [of "''sequence''"] m [of "''sha256''"]
      m [of "''capture_ns''"] m [of "''available_ns''"] m [of "''uncertainty_ns''"] m [of "''source_time''"]
    by (cases a; cases b) (simp add: source_fields_def)
qed

lemma observation_json_inj:
  assumes "sort_keys (observation_json a) = sort_keys (observation_json b)"
  shows "a = b"
proof -
  let ?f = "\<lambda>x. source_fields x @ [(''role'', JStr (role_value (obs_role x)))]"
  have d: "distinct (map fst (?f x))" for x by (simp add: source_fields_def)
  note m = sort_keys_obj_member [OF d d assms [unfolded observation_json_def]]
  show ?thesis
    using m [of "''id''"] m [of "''source''"] m [of "''sequence''"] m [of "''sha256''"]
      m [of "''capture_ns''"] m [of "''available_ns''"] m [of "''uncertainty_ns''"] m [of "''source_time''"]
      m [of "''role''"]
    by (cases a; cases b) (simp add: source_fields_def)
qed

lemma map_sort_keys_inj:
  "(\<And>x y. sort_keys (f x) = sort_keys (f y) \<Longrightarrow> x = y) \<Longrightarrow>
   map (sort_keys \<circ> f) xs = map (sort_keys \<circ> f) ys \<Longrightarrow> xs = ys"
  by (metis comp_apply inj_onI map_injective injI)

lemma job_fields_inj:
  assumes "sort_keys (JObj (job_fields a)) = sort_keys (JObj (job_fields b))"
  shows "a = b"
proof -
  have d: "distinct (map fst (job_fields x))" for x by (simp add: job_fields_def)
  note m = sort_keys_obj_member [OF d d assms]
  have o: "job_observations a = job_observations b"
  proof (rule map_sort_keys_inj [of observation_json])
    show "map (sort_keys \<circ> observation_json) (job_observations a)
        = map (sort_keys \<circ> observation_json) (job_observations b)"
      using m [of "''observations''"] by (simp add: job_fields_def)
  qed (rule observation_json_inj)
  have l: "job_allowed_sites a = job_allowed_sites b" "job_dependencies a = job_dependencies b"
    using m [of "''allowed_sites''"] m [of "''dependencies''"]
    by (simp_all add: job_fields_def comp_def inj_map_eq_map inj_def)
  have id: "job_id a = job_id b" using m [of "''id''"] by (simp add: job_fields_def)
  have tenant: "job_tenant a = job_tenant b" using m [of "''tenant''"] by (simp add: job_fields_def)
  have session_id: "job_session_id a = job_session_id b" using m [of "''session_id''"] by (simp add: job_fields_def)
  have epoch: "job_epoch a = job_epoch b" using m [of "''epoch''"] by (simp add: job_fields_def)
  have task_revision: "job_task_revision a = job_task_revision b" using m [of "''task_revision''"] by (simp add: job_fields_def)
  have clock_id: "job_clock_id a = job_clock_id b" using m [of "''clock_id''"] by (simp add: job_fields_def)
  have model: "job_model a = job_model b" using m [of "''model''"] by (simp add: job_fields_def)
  have operation: "job_operation a = job_operation b" using m [of "''operation''"] by (simp add: job_fields_def)
  have workload: "job_workload a = job_workload b" using m [of "''workload''"] by (simp add: job_fields_def)
  have result_kind: "job_result_kind a = job_result_kind b" using m [of "''result_kind''"] by (simp add: job_fields_def)
  have snapshot_ns: "job_snapshot_ns a = job_snapshot_ns b" using m [of "''snapshot_ns''"] by (simp add: job_fields_def)
  have deadline_ns: "job_deadline_ns a = job_deadline_ns b" using m [of "''deadline_ns''"] by (simp add: job_fields_def)
  have max_age_ns: "job_max_age_ns a = job_max_age_ns b" using m [of "''max_age_ns''"] by (simp add: job_fields_def)
  have max_uncertainty_ns: "job_max_uncertainty_ns a = job_max_uncertainty_ns b" using m [of "''max_uncertainty_ns''"] by (simp add: job_fields_def)
  have priority: "job_priority a = job_priority b" using m [of "''priority''"] by (simp add: job_fields_def)
  have payload_json: "job_payload_json a = job_payload_json b" using m [of "''payload_json''"] by (simp add: job_fields_def)
  have replace_key: "job_replace_key a = job_replace_key b" using m [of "''replace_key''"] by (simp add: job_fields_def)
  have discardable: "job_discardable a = job_discardable b" using m [of "''discardable''"] by (simp add: job_fields_def)
  have cacheable: "job_cacheable a = job_cacheable b" using m [of "''cacheable''"] by (simp add: job_fields_def)
  show ?thesis
    by (rule job.equality) (simp_all add: o l id tenant session_id epoch task_revision clock_id model operation
      workload result_kind snapshot_ns deadline_ns max_age_ns max_uncertainty_ns
      priority payload_json replace_key discardable cacheable)
qed

end
