(* ===== verification/Clocks.thy ===== *)
theory Clocks
  imports Contracts
begin

text \<open>
  \<^verbatim>\<open>src/src/agmina_runtime/clocks.py\<close>: the monotonic clock as a sequence of readings, the manual
  clock, and the explicit mapping between two clocks with its error bound and validity.
\<close>

section \<open>Clocks\<close>

text \<open>
  A clock is its identity and its successive readings; \<open>clk_pos\<close> counts the readings taken.
  \<^verbatim>\<open>time.monotonic_ns\<close> never goes back, which is a hypothesis (\<open>monotonic\<close>) where it is used.
\<close>

record clock =
  clk_id :: string
  clk_read :: "nat \<Rightarrow> int"
  clk_pos :: nat

definition clock_now_ns :: "clock \<Rightarrow> int \<times> clock" where
  "clock_now_ns c = (clk_read c (clk_pos c), c\<lparr>clk_pos := Suc (clk_pos c)\<rparr>)"

definition monotonic :: "clock \<Rightarrow> bool" where
  "monotonic c \<longleftrightarrow> mono (clk_read c)"

lemma clock_now_ns_simps [simp]:
  "fst (clock_now_ns c) = clk_read c (clk_pos c)"
  "snd (clock_now_ns c) = c\<lparr>clk_pos := Suc (clk_pos c)\<rparr>"
  by (simp_all add: clock_now_ns_def)

record manual_clock =
  mc_id :: string
  mc_value :: int

definition manual_now_ns :: "manual_clock \<Rightarrow> int" where
  "manual_now_ns c = mc_value c"

definition advance_to :: "manual_clock \<Rightarrow> int \<Rightarrow> manual_clock result" where
  "advance_to c value =
     (if value < mc_value c then Inl (ValueError ''Cannot move clock backwards'')
      else Inr (c\<lparr>mc_value := value\<rparr>))"

section \<open>Clock maps\<close>

record clock_map =
  cm_source :: string
  cm_target :: string
  cm_offset_ns :: int
  cm_error_ns :: int
  cm_valid_until_ns :: int

definition make_clock_map :: "clock_map \<Rightarrow> clock_map result" where
  "make_clock_map m = guards
     [(cm_source m = [] \<or> cm_target m = [] \<or> cm_error_ns m < 0 \<or> cm_valid_until_ns m < 0,
       ''Explicit finite clock mapping required'')] m"

definition map_clock :: "clock_map \<Rightarrow> int \<Rightarrow> string \<Rightarrow> int \<Rightarrow> (int \<times> int) result" where
  "map_clock m source_ns target_clock now_ns =
     (if source_ns < 0 \<or> now_ns < 0 then Inl (ValueError ''Integer nonnegative clocks required'')
      else if cm_error_ns m < 0 \<or> target_clock \<noteq> cm_target m \<or> cm_valid_until_ns m < now_ns
      then Inl (ValueError ''Clock mapping is absent, expired or for a different coordinator'')
      else
        let mapped = source_ns + cm_offset_ns m in
        if mapped < 0 then Inl (ValueError ''Invalid mapped timestamp'') else Inr (mapped, cm_error_ns m))"

lemma map_clock_Inr_iff:
  "map_clock m t target now = Inr (mapped, err) \<longleftrightarrow>
     0 \<le> t \<and> 0 \<le> now \<and> 0 \<le> cm_error_ns m \<and> target = cm_target m \<and> now \<le> cm_valid_until_ns m \<and>
     0 \<le> t + cm_offset_ns m \<and> mapped = t + cm_offset_ns m \<and> err = cm_error_ns m"
  by (auto simp: map_clock_def Let_def not_less)

text \<open>
  The meaning of a map: the target clock reads within \<open>cm_error_ns\<close> of the mapped value at
  the instant the source clock reads \<open>t\<close>.
\<close>

definition map_accurate :: "clock_map \<Rightarrow> (int \<Rightarrow> int) \<Rightarrow> bool" where
  "map_accurate m true_local \<longleftrightarrow>
     (\<forall>t. \<bar>true_local t - (t + cm_offset_ns m)\<bar> \<le> cm_error_ns m)"

lemma map_clock_conservative:
  assumes "map_clock m t target now = Inr (mapped, err)" "map_accurate m true_local"
  shows "mapped - err \<le> true_local t" "true_local t \<le> mapped + err"
proof -
  have "\<bar>true_local t - (t + cm_offset_ns m)\<bar> \<le> cm_error_ns m"
    using assms(2) by (simp add: map_accurate_def)
  with assms(1) show "mapped - err \<le> true_local t" "true_local t \<le> mapped + err"
    by (auto simp: map_clock_Inr_iff abs_le_iff)
qed

end
