(* ===== verification/Py_Url.thy ===== *)
theory Py_Url
  imports Agmina_Base
begin

text \<open>
  What the source uses of \<^verbatim>\<open>urllib.parse.urlparse\<close>: the scheme, host name, user information, query
  and fragment of a URL, and the loopback rule that the configuration, the client and the
  native-policy transport state with it. Only the parts read are modelled; a bracketed host is
  taken as written between the brackets.
\<close>

definition to_lower :: "string \<Rightarrow> string" where
  "to_lower s = map (\<lambda>c. let n = (of_char c :: nat) in if 65 \<le> n \<and> n \<le> 90 then char_of (n + 32) else c) s"

definition is_alpha :: "char \<Rightarrow> bool" where
  "is_alpha c \<longleftrightarrow> (let n = (of_char c :: nat) in (65 \<le> n \<and> n \<le> 90) \<or> (97 \<le> n \<and> n \<le> 122))"

definition is_scheme_char :: "char \<Rightarrow> bool" where
  "is_scheme_char c \<longleftrightarrow> is_alpha c \<or> c \<in> set ''0123456789+-.''"

text \<open>\<open>s.partition(c)\<close>: the text before the first \<open>c\<close>, whether there is one, and the text after.\<close>

definition partition_at :: "char \<Rightarrow> string \<Rightarrow> string \<times> bool \<times> string" where
  "partition_at c s =
     (takeWhile (\<lambda>x. x \<noteq> c) s, c \<in> set s, drop 1 (dropWhile (\<lambda>x. x \<noteq> c) s))"

definition rpartition_at :: "char \<Rightarrow> string \<Rightarrow> string \<times> bool \<times> string" where
  "rpartition_at c s =
     (case partition_at c (rev s) of (after, found, before) \<Rightarrow>
        if found then (rev before, True, rev after) else ([], False, s))"

record url_parts =
  url_scheme :: string
  url_hostname :: "string option"
  url_username :: "string option"
  url_password :: "string option"
  url_query :: string
  url_fragment :: string

definition strip_controls :: "string \<Rightarrow> string" where
  "strip_controls u =
     filter (\<lambda>c. c \<noteq> CHR 0x09 \<and> c \<noteq> CHR 0x0A \<and> c \<noteq> CHR 0x0D)
       (dropWhile (\<lambda>c. (of_char c :: nat) \<le> 32) u)"

definition split_scheme :: "string \<Rightarrow> string \<times> string" where
  "split_scheme u =
     (case partition_at (CHR '':'') u of (sch, found, rest) \<Rightarrow>
        if found \<and> sch \<noteq> [] \<and> is_alpha (hd sch) \<and> list_all is_scheme_char sch
        then (to_lower sch, rest) else ([], u))"

definition netloc_end :: "char \<Rightarrow> bool" where
  "netloc_end c \<longleftrightarrow> c = CHR ''/'' \<or> c = CHR ''?'' \<or> c = CHR ''#''"

definition split_netloc :: "string \<Rightarrow> string \<times> string" where
  "split_netloc u =
     (if take 2 u = ''//'' then (takeWhile (\<lambda>c. \<not> netloc_end c) (drop 2 u), dropWhile (\<lambda>c. \<not> netloc_end c) (drop 2 u))
      else ([], u))"

definition host_of :: "string \<Rightarrow> string option" where
  "host_of netloc =
     (let info = snd (snd (rpartition_at (CHR ''@'') netloc));
          (_, bracket, bracketed) = partition_at (CHR ''['') info;
          host = (if bracket then fst (partition_at (CHR '']'') bracketed)
                  else fst (partition_at (CHR '':'') info))
      in if host = [] then None else Some (to_lower host))"

definition user_of :: "string \<Rightarrow> string option \<times> string option" where
  "user_of netloc =
     (case rpartition_at (CHR ''@'') netloc of (userinfo, found, _) \<Rightarrow>
        if found then (case partition_at (CHR '':'') userinfo of (user, has_pw, pw) \<Rightarrow>
          (Some user, if has_pw then Some pw else None))
        else (None, None))"

definition urlparse :: "string \<Rightarrow> url_parts" where
  "urlparse url =
     (let (sch, r) = split_scheme (strip_controls url);
          (netloc, r) = split_netloc r;
          (r, _, fragment) = partition_at (CHR ''#'') r;
          (_, _, query) = partition_at (CHR ''?'') r
      in \<lparr>url_scheme = sch, url_hostname = host_of netloc, url_username = fst (user_of netloc),
          url_password = snd (user_of netloc), url_query = query, url_fragment = fragment\<rparr>)"

text \<open>Truth of an optional string: present and nonempty.\<close>

definition truthy :: "string option \<Rightarrow> bool" where
  "truthy x = (case x of None \<Rightarrow> False | Some s \<Rightarrow> s \<noteq> [])"

lemma truthy_simps [simp]: "\<not> truthy None" "truthy (Some s) \<longleftrightarrow> s \<noteq> []"
  by (simp_all add: truthy_def)

definition is_loopback :: "string option \<Rightarrow> bool" where
  "is_loopback h \<longleftrightarrow> h = Some ''127.0.0.1'' \<or> h = Some ''localhost'' \<or> h = Some ''::1''"

end
