(* ===== verification/Config.thy ===== *)
theory Config
  imports Contracts Py_Url
begin

text \<open>
  \<^verbatim>\<open>src/src/agmina_runtime/config.py\<close>: pools, endpoints and the runtime configuration with the
  reference rules its validator enforces.
\<close>

record pool =
  pool_id :: string
  pool_slots :: int

definition validate_pool :: "pool \<Rightarrow> pool result" where
  "validate_pool p = guards [(\<not> (is_name (pool_id p) \<and> 1 \<le> pool_slots p \<and> pool_slots p \<le> 64), field_error)] p"

datatype endpoint_kind = MOCK | CHAT | TRITON | WORKER

record endpoint =
  ep_id :: string
  ep_model :: string
  ep_pool :: string
  ep_site :: string
  ep_kind :: endpoint_kind
  ep_url :: "string option"
  ep_credential_env :: "string option"
  ep_model_name :: string
  ep_model_version :: "string option"
  ep_response_model_required :: bool
  ep_service_p95_ns :: int
  ep_transport_p95_ns :: int
  ep_margin_ns :: int
  ep_timeout_s :: pyfloat
  ep_max_inflight :: int
  ep_reserve_microusd :: int
  ep_externally_billed :: bool
  ep_input_per_million_microusd :: "int option"
  ep_cached_per_million_microusd :: "int option"
  ep_output_per_million_microusd :: "int option"
  ep_stream :: bool
  ep_max_output_tokens :: int
  ep_max_response_bytes :: int
  ep_extra_body_json :: string

definition is_env_name :: "string \<Rightarrow> bool" where
  "is_env_name s \<longleftrightarrow> s \<noteq> [] \<and> 65 \<le> (of_char (hd s) :: nat) \<and> (of_char (hd s) :: nat) \<le> 90 \<and>
     list_all (\<lambda>c. let n = (of_char c :: nat) in (65 \<le> n \<and> n \<le> 90) \<or> (48 \<le> n \<and> n \<le> 57) \<or> n = 95) s"

definition endpoint_fields_ok :: "endpoint \<Rightarrow> bool" where
  "endpoint_fields_ok e \<longleftrightarrow>
     is_name (ep_id e) \<and> is_name (ep_model e) \<and> is_name (ep_pool e) \<and> is_name (ep_site e) \<and>
     opt_all is_env_name (ep_credential_env e) \<and>
     is_ns (ep_service_p95_ns e) \<and> is_ns (ep_transport_p95_ns e) \<and> is_ns (ep_margin_ns e) \<and>
     float_le (ep_timeout_s e) (Dec 3 2) \<and> \<not> float_le (ep_timeout_s e) (Dec 0 0) \<and>
     1 \<le> ep_max_inflight e \<and> ep_max_inflight e \<le> 64 \<and> is_ns (ep_reserve_microusd e) \<and>
     opt_all is_ns (ep_input_per_million_microusd e) \<and> opt_all is_ns (ep_cached_per_million_microusd e) \<and>
     opt_all is_ns (ep_output_per_million_microusd e) \<and>
     1 \<le> ep_max_output_tokens e \<and> ep_max_output_tokens e \<le> 65536 \<and>
     256 \<le> ep_max_response_bytes e \<and> ep_max_response_bytes e \<le> 32000000"

definition reserved_extras :: "string list" where
  "reserved_extras = [''model'', ''messages'', ''stream'', ''max_tokens'', ''max_completion_tokens'']"

text \<open>The validator \<^verbatim>\<open>fixed_url\<close>.\<close>

definition url_guards :: "endpoint \<Rightarrow> (bool \<times> string) list" where
  "url_guards e =
     (let parsed = urlparse (case ep_url e of None \<Rightarrow> [] | Some u \<Rightarrow> u);
          remote = ep_kind e \<noteq> MOCK
      in [(remote \<and> ((url_scheme parsed \<noteq> ''http'' \<and> url_scheme parsed \<noteq> ''https'') \<or> url_hostname parsed = None),
             ''Trusted fixed HTTP(S) endpoint required''),
          (remote \<and> (truthy (url_username parsed) \<or> truthy (url_password parsed) \<or> url_query parsed \<noteq> [] \<or>
                     url_fragment parsed \<noteq> []),
             ''Credentials, queries and fragments do not belong in endpoint URL''),
          (remote \<and> url_scheme parsed = ''http'' \<and> \<not> is_loopback (url_hostname parsed),
             ''Use HTTPS off loopback (or an authenticated local tunnel)''),
          (ep_externally_billed e \<and> ep_reserve_microusd e = 0,
             ''Paid endpoints require a positive charge reservation'')])"

definition validate_endpoint :: "endpoint \<Rightarrow> endpoint result" where
  "validate_endpoint e =
     rbind (guards ((\<not> endpoint_fields_ok e, field_error) # url_guards e) e) (\<lambda>e.
     rbind (strict_json 8192 (ep_extra_body_json e)) (\<lambda>extra.
       guards [(\<exists>k \<in> set (map fst extra). k \<in> set reserved_extras,
                ''Endpoint extras cannot override canonical request limits/model'')] e))"

definition estimate_ns :: "endpoint \<Rightarrow> int" where
  "estimate_ns e = ep_service_p95_ns e + ep_transport_p95_ns e + ep_margin_ns e"

record runtime_config =
  cfg_tenant :: string
  cfg_campaign :: string
  cfg_max_attempts :: int
  cfg_max_microusd :: int
  cfg_max_queue :: int
  cfg_max_jobs :: int
  cfg_scheduler :: string
  cfg_placement :: string
  cfg_cache_entries :: int
  cfg_cache_bytes :: int
  cfg_cache_ttl_ns :: int
  cfg_pools :: "pool list"
  cfg_models :: "model_contract list"
  cfg_endpoints :: "endpoint list"

definition config_fields_ok :: "runtime_config \<Rightarrow> bool" where
  "config_fields_ok c \<longleftrightarrow>
     is_name (cfg_tenant c) \<and> is_name (cfg_campaign c) \<and>
     0 \<le> cfg_max_attempts c \<and> cfg_max_attempts c \<le> 1000000 \<and> is_ns (cfg_max_microusd c) \<and>
     1 \<le> cfg_max_queue c \<and> cfg_max_queue c \<le> 10000 \<and> 1 \<le> cfg_max_jobs c \<and> cfg_max_jobs c \<le> 1000000 \<and>
     cfg_scheduler c \<in> {''fifo'', ''edf'', ''slack''} \<and>
     cfg_placement c \<in> {''fastest'', ''cheapest_feasible''} \<and>
     0 \<le> cfg_cache_entries c \<and> cfg_cache_entries c \<le> 10000 \<and>
     0 \<le> cfg_cache_bytes c \<and> cfg_cache_bytes c \<le> 128000000 \<and> is_ns (cfg_cache_ttl_ns c) \<and>
     list_all (\<lambda>p. is_ok (validate_pool p)) (cfg_pools c) \<and>
     list_all (\<lambda>m. is_ok (validate_model_contract m)) (cfg_models c) \<and>
     list_all (\<lambda>e. is_ok (validate_endpoint e)) (cfg_endpoints c)"

definition registry_bad :: "string list \<Rightarrow> bool" where
  "registry_bad ids \<longleftrightarrow> ids = [] \<or> \<not> distinct ids"

text \<open>The validator \<^verbatim>\<open>references\<close>.\<close>

definition reference_guards :: "runtime_config \<Rightarrow> (bool \<times> string) list" where
  "reference_guards c =
     [(registry_bad (map pool_id (cfg_pools c)) \<or> registry_bad (map mc_alias (cfg_models c)) \<or>
       registry_bad (map ep_id (cfg_endpoints c)), ''Nonempty unique configured registries required''),
      (list_ex (\<lambda>e. ep_pool e \<notin> set (map pool_id (cfg_pools c)) \<or> ep_model e \<notin> set (map mc_alias (cfg_models c)))
         (cfg_endpoints c), ''Endpoint references unknown pool/model''),
      (set (map mc_alias (cfg_models c)) \<noteq> set (map ep_model (cfg_endpoints c)),
         ''Every model contract needs a configured endpoint'')]"

definition validate_config :: "runtime_config \<Rightarrow> runtime_config result" where
  "validate_config c = guards ((\<not> config_fields_ok c, field_error) # reference_guards c) c"

section \<open>Facts\<close>

lemma validate_config_refs:
  assumes "validate_config c = Inr c'"
  shows "c' = c" "config_fields_ok c"
    "distinct (map pool_id (cfg_pools c))" "distinct (map ep_id (cfg_endpoints c))"
    "list_all (\<lambda>e. ep_pool e \<in> set (map pool_id (cfg_pools c)) \<and>
       ep_model e \<in> set (map mc_alias (cfg_models c))) (cfg_endpoints c)"
    "set (map mc_alias (cfg_models c)) = set (map ep_model (cfg_endpoints c))"
  using assms
  by (simp_all add: validate_config_def reference_guards_def registry_bad_def list_ex_iff list_all_iff)

lemma validate_endpoint_fields: "is_ok (validate_endpoint e) \<Longrightarrow> endpoint_fields_ok e"
  by (auto simp: validate_endpoint_def is_ok_iff rbind_Inr_iff)

lemma estimate_nonneg: "is_ok (validate_endpoint e) \<Longrightarrow> 0 \<le> estimate_ns e"
  by (auto dest!: validate_endpoint_fields simp: endpoint_fields_ok_def estimate_ns_def is_ns_def)

end
