(* ===== verification/Scheduling.thy ===== *)
theory Scheduling
  imports Config
begin

text \<open>
  \<^verbatim>\<open>src/src/agmina_runtime/scheduling.py\<close>: the rank tuples of the three policies, compared as Python
  compares tuples, and the placement of a job on a feasible endpoint.
\<close>

section \<open>Rank tuples\<close>

record candidate =
  cand_id :: string
  cand_submitted_ns :: int
  cand_latest_ns :: int
  cand_estimate_ns :: int
  cand_priority :: int

text \<open>
  A rank is a tuple of integers that ends in the job's ID. Tuples compare lexicographically:
  the integers in order, then the IDs by code point.
\<close>

datatype rank_key = Rank (rank_nums: "int list") (rank_id: string)

instantiation rank_key :: linorder
begin

definition less_eq_rank_key :: "rank_key \<Rightarrow> rank_key \<Rightarrow> bool" where
  "less_eq_rank_key a b \<longleftrightarrow> (rank_nums a, rank_id a) \<le> (rank_nums b, rank_id b)"

definition less_rank_key :: "rank_key \<Rightarrow> rank_key \<Rightarrow> bool" where
  "less_rank_key a b \<longleftrightarrow> (rank_nums a, rank_id a) < (rank_nums b, rank_id b)"

instance
proof
  fix a b c :: rank_key
  show "(a < b) = (a \<le> b \<and> \<not> b \<le> a)"
    by (auto simp: less_eq_rank_key_def less_rank_key_def)
  show "a \<le> a" by (simp add: less_eq_rank_key_def)
  show "a \<le> b \<Longrightarrow> b \<le> c \<Longrightarrow> a \<le> c"
    unfolding less_eq_rank_key_def by (rule order_trans)
  show "a \<le> b \<Longrightarrow> b \<le> a \<Longrightarrow> a = b"
    unfolding less_eq_rank_key_def by (drule (1) order_antisym) (cases a; cases b; simp)
  show "a \<le> b \<or> b \<le> a" unfolding less_eq_rank_key_def by (rule linear)
qed

end

definition fifo_key :: "int \<Rightarrow> candidate \<Rightarrow> rank_key" where
  "fifo_key now j = Rank [cand_submitted_ns j] (cand_id j)"

definition edf_key :: "int \<Rightarrow> candidate \<Rightarrow> rank_key" where
  "edf_key now j = Rank [cand_latest_ns j, cand_submitted_ns j] (cand_id j)"

definition slack_key :: "int \<Rightarrow> candidate \<Rightarrow> rank_key" where
  "slack_key now j =
     Rank [cand_latest_ns j - now - cand_estimate_ns j, cand_priority j, cand_submitted_ns j] (cand_id j)"

definition rank :: "candidate \<Rightarrow> int \<Rightarrow> string \<Rightarrow> rank_key result" where
  "rank j now mode =
     (if mode = ''fifo'' then Inr (fifo_key now j)
      else if mode = ''edf'' then Inr (edf_key now j)
      else if mode \<noteq> ''slack'' then Inl (ValueError ''Unknown scheduling policy'')
      else Inr (slack_key now j))"

subsection \<open>What a client of a policy relies on\<close>

text \<open>
  The coordinator and the replay sort their queue by a policy's key. The one law they need is
  that a key ends in the candidate's ID: with unique IDs the order is then strict, so the
  dispatch order is a function of the set of candidates, not of the order of the queue.
\<close>

locale dispatch_policy =
  fixes key :: "int \<Rightarrow> 'a \<Rightarrow> rank_key"
    and ident :: "'a \<Rightarrow> string"
  assumes key_ident: "rank_id (key now c) = ident c"
begin

lemma key_eq_ident: "key now c = key now d \<Longrightarrow> ident c = ident d"
  by (metis key_ident)

lemma key_inj_on: "distinct (map ident xs) \<Longrightarrow> inj_on (key now) (set xs)"
  by (auto intro!: inj_onI dest!: key_eq_ident simp: distinct_map dest: inj_onD)

lemma head_least: "sort_key (key now) xs = y # ys \<Longrightarrow> x \<in> set xs \<Longrightarrow> key now y \<le> key now x"
  by (rule sort_key_hd_least)

lemma order_independent:
  assumes "mset xs = mset ys" "distinct (map ident xs)"
  shows "sort_key (key now) xs = sort_key (key now) ys"
proof (rule properties_for_sort_key)
  show "mset (sort_key (key now) ys) = mset xs" using assms(1) by simp
  show "sorted (map (key now) (sort_key (key now) ys))" by simp
  have "inj_on (key now) (set xs)" using assms(2) by (rule key_inj_on)
  then have one: "length (filter (\<lambda>x. key now x = k) zs) \<le> 1"
    if "mset zs = mset xs" for k zs
  proof -
    have d: "distinct zs" using that assms(2) by (metis distinct_map mset_eq_imp_distinct_iff)
    have "set zs = set xs" using that by (metis set_mset_mset)
    with \<open>inj_on (key now) (set xs)\<close> have "\<exists>a. set (filter (\<lambda>x. key now x = k) zs) \<subseteq> {a}"
      by (auto simp: inj_on_def)
    then obtain a where "set (filter (\<lambda>x. key now x = k) zs) \<subseteq> {a}" by blast
    then have "card (set (filter (\<lambda>x. key now x = k) zs)) \<le> 1"
      by (metis card.empty card_insert_le card_mono finite.emptyI finite_insert is_singletonI is_singleton_altdef)
    with distinct_card [OF distinct_filter [OF d]] show ?thesis by metis
  qed
  show "filter (\<lambda>x. key now k = key now x) (sort_key (key now) ys) = filter (\<lambda>x. key now k = key now x) xs"
    if "k \<in> set (sort_key (key now) ys)" for k
  proof -
    let ?f = "filter (\<lambda>x. key now x = key now k)"
    have "mset (?f (sort_key (key now) ys)) = mset (?f xs)" using assms(1) by simp
    moreover have "length (?f xs) \<le> 1" using one [of xs] by simp
    ultimately have "?f (sort_key (key now) ys) = ?f xs"
      by (rule mset_eq_short)
    then show ?thesis by (simp add: eq_commute)
  qed
qed

end

interpretation fifo: dispatch_policy fifo_key cand_id
  by unfold_locales (simp add: fifo_key_def)

interpretation edf: dispatch_policy edf_key cand_id
  by unfold_locales (simp add: edf_key_def)

interpretation slack: dispatch_policy slack_key cand_id
  by unfold_locales (simp add: slack_key_def)

lemma rank_ident: "rank j now mode = Inr k \<Longrightarrow> rank_id k = cand_id j"
  by (auto simp: rank_def fifo_key_def edf_key_def slack_key_def split: if_splits)

section \<open>Placement\<close>

text \<open>A dictionary of counters read with \<open>get(key, 0)\<close>.\<close>

definition use_count :: "(string \<times> int) list \<Rightarrow> string \<Rightarrow> int" where
  "use_count d k = (case map_of d k of None \<Rightarrow> 0 | Some n \<Rightarrow> n)"

definition slots_of :: "pool list \<Rightarrow> string \<Rightarrow> int option" where
  "slots_of pools k = map_of (map (\<lambda>p. (pool_id p, pool_slots p)) pools) k"

text \<open>
  The conditions of the loop body, in order; a pool without configured slots would raise
  \<^verbatim>\<open>KeyError\<close>, which a validated configuration excludes, and is infeasible here.
\<close>

definition feasible :: "int \<Rightarrow> int \<Rightarrow> string list \<Rightarrow> (string \<Rightarrow> int option) \<Rightarrow> (string \<times> int) list \<Rightarrow>
    (string \<times> int) list \<Rightarrow> string list \<Rightarrow> endpoint \<Rightarrow> bool" where
  "feasible now latest sites slots pool_use endpoint_use quarantined ep \<longleftrightarrow>
     ep_site ep \<in> set sites \<and> ep_pool ep \<notin> set quarantined \<and>
     (case slots (ep_pool ep) of None \<Rightarrow> False | Some n \<Rightarrow> use_count pool_use (ep_pool ep) < n) \<and>
     use_count endpoint_use (ep_id ep) < ep_max_inflight ep \<and>
     now + estimate_ns ep < latest"

definition placement_key :: "string \<Rightarrow> endpoint \<Rightarrow> rank_key" where
  "placement_key placement ep =
     (if placement = ''cheapest_feasible'' then Rank [ep_reserve_microusd ep, estimate_ns ep] (ep_id ep)
      else Rank [estimate_ns ep, ep_reserve_microusd ep] (ep_id ep))"

definition choose_endpoint :: "endpoint list \<Rightarrow> int \<Rightarrow> int \<Rightarrow> string list \<Rightarrow> (string \<Rightarrow> int option) \<Rightarrow>
    (string \<times> int) list \<Rightarrow> (string \<times> int) list \<Rightarrow> string list \<Rightarrow> string \<Rightarrow> endpoint option" where
  "choose_endpoint eps now latest sites slots pool_use endpoint_use quarantined placement =
     min_by (placement_key placement)
       (filter (feasible now latest sites slots pool_use endpoint_use quarantined) eps)"


section \<open>Facts about placement\<close>

lemma choose_endpoint_sound:
  assumes "choose_endpoint eps now latest sites slots pu eu q placement = Some ep"
  shows "ep \<in> set eps" "feasible now latest sites slots pu eu q ep"
  using min_by_mem [OF assms [unfolded choose_endpoint_def]] by auto

lemma choose_endpoint_least:
  assumes "choose_endpoint eps now latest sites slots pu eu q placement = Some ep"
    "e' \<in> set eps" "feasible now latest sites slots pu eu q e'"
  shows "placement_key placement ep \<le> placement_key placement e'"
  using min_by_least [OF assms(1) [unfolded choose_endpoint_def], of e'] assms(2,3) by simp

lemma choose_endpoint_None_iff:
  "choose_endpoint eps now latest sites slots pu eu q placement = None \<longleftrightarrow>
     (\<forall>ep \<in> set eps. \<not> feasible now latest sites slots pu eu q ep)"
  by (simp add: choose_endpoint_def filter_empty_conv)

end
