(* ===== verification/Result_Cache.thy ===== *)
theory Result_Cache
  imports Contracts
begin

text \<open>
  \<^verbatim>\<open>src/src/agmina_runtime/cache.py\<close>: the bounded least-recently-used cache of exact historical
  results. The \<^verbatim>\<open>OrderedDict\<close> is an association list, oldest entry first; an entry is the payload,
  the time it was computed and its size in bytes.
\<close>

type_synonym cache_entry = "string \<times> int \<times> int"

record hcache =
  hc_entries :: int
  hc_max_bytes :: int
  hc_ttl_ns :: int
  hc_data :: "(string \<times> cache_entry) list"
  hc_bytes :: int

definition new_cache :: "int \<Rightarrow> int \<Rightarrow> int \<Rightarrow> hcache" where
  "new_cache entries max_bytes ttl =
     \<lparr>hc_entries = entries, hc_max_bytes = max_bytes, hc_ttl_ns = ttl, hc_data = [], hc_bytes = 0\<rparr>"

section \<open>Keys\<close>

definition unkeyed_fields :: "string list" where
  "unkeyed_fields =
     [''id'', ''deadline_ns'', ''priority'', ''allowed_sites'', ''dependencies'', ''replace_key'', ''discardable'']"

definition keyed_fields :: "job \<Rightarrow> (string \<times> json) list" where
  "keyed_fields j = filter (\<lambda>kv. fst kv \<notin> set unkeyed_fields) (job_fields j)"

definition cache_key :: "(string \<Rightarrow> string) \<Rightarrow> job \<Rightarrow> string \<Rightarrow> string option" where
  "cache_key sha j contract_fingerprint =
     (if \<not> job_cacheable j \<or> job_result_kind j \<noteq> HISTORICAL then None
      else Some (fingerprint sha (JList [JStr contract_fingerprint, JObj (keyed_fields j)])))"

section \<open>Operations\<close>

definition cache_get :: "hcache \<Rightarrow> string option \<Rightarrow> int \<Rightarrow> (string \<times> int) option \<times> hcache" where
  "cache_get c key now =
     (case key of None \<Rightarrow> (None, c)
      | Some k \<Rightarrow>
        (case map_of (hc_data c) k of None \<Rightarrow> (None, c)
         | Some (txt, computed, sz) \<Rightarrow>
             if hc_ttl_ns c \<le> now - computed then
               (None, c\<lparr>hc_data := AList.delete k (hc_data c), hc_bytes := hc_bytes c - sz\<rparr>)
             else (Some (txt, computed),
                   c\<lparr>hc_data := AList.delete k (hc_data c) @ [(k, txt, computed, sz)]\<rparr>)))"

text \<open>The eviction loop: the oldest entries leave until the new one fits.\<close>

fun evict :: "int \<Rightarrow> int \<Rightarrow> int \<Rightarrow> (string \<times> cache_entry) list \<Rightarrow> int \<Rightarrow> (string \<times> cache_entry) list \<times> int" where
  "evict entries max_bytes sz [] bytes = ([], bytes)"
| "evict entries max_bytes sz ((k, p, t, removed) # data) bytes =
     (if entries \<le> int (Suc (length data)) \<or> max_bytes < bytes + sz
      then evict entries max_bytes sz data (bytes - removed)
      else ((k, p, t, removed) # data, bytes))"

definition cache_put :: "hcache \<Rightarrow> string option \<Rightarrow> string \<Rightarrow> int \<Rightarrow> hcache" where
  "cache_put c key txt computed =
     (case key of None \<Rightarrow> c
      | Some k \<Rightarrow>
        if hc_entries c = 0 then c
        else
          let sz = int (utf8_len txt) in
          if hc_max_bytes c < sz then c
          else
            let bytes0 = (case map_of (hc_data c) k of None \<Rightarrow> hc_bytes c
                          | Some (_, _, old) \<Rightarrow> hc_bytes c - old);
                (data, bytes) = evict (hc_entries c) (hc_max_bytes c) sz (AList.delete k (hc_data c)) bytes0
            in c\<lparr>hc_data := AList.update k (txt, computed, sz) data, hc_bytes := bytes + sz\<rparr>)"

section \<open>The contract of a result cache\<close>

text \<open>
  What a client of the cache uses: an entry is a payload with its computation time; a hit is
  an entry of that key younger than the time to live; reading loses entries at most, and
  storing adds at most the entry stored.
\<close>

locale result_cache =
  fixes inv :: "'c \<Rightarrow> bool"
    and get :: "'c \<Rightarrow> 'k option \<Rightarrow> int \<Rightarrow> ('p \<times> int) option \<times> 'c"
    and put :: "'c \<Rightarrow> 'k option \<Rightarrow> 'p \<Rightarrow> int \<Rightarrow> 'c"
    and entry :: "'c \<Rightarrow> 'k \<Rightarrow> ('p \<times> int) option"
    and ttl :: "'c \<Rightarrow> int"
  assumes get_inv: "inv c \<Longrightarrow> inv (snd (get c k now))"
    and put_inv: "inv c \<Longrightarrow> inv (put c k p t)"
    and get_hit: "inv c \<Longrightarrow> fst (get c k now) = Some (p, t) \<Longrightarrow>
      \<exists>k'. k = Some k' \<and> entry c k' = Some (p, t) \<and> now - t < ttl c"
    and get_entry: "inv c \<Longrightarrow> entry (snd (get c k now)) k' = Some e \<Longrightarrow> entry c k' = Some e"
    and put_entry: "inv c \<Longrightarrow> entry (put c k p t) k' = Some e \<Longrightarrow>
      (k = Some k' \<and> e = (p, t)) \<or> entry c k' = Some e"
    and get_ttl: "ttl (snd (get c k now)) = ttl c"
    and put_ttl: "ttl (put c k p t) = ttl c"
begin

text \<open>A property that every stored entry has is a property of every hit.\<close>

lemma entries_all_get:
  assumes "inv c" "\<And>k e. entry c k = Some e \<Longrightarrow> P k e"
  shows "entry (snd (get c k now)) k' = Some e \<Longrightarrow> P k' e"
  using assms get_entry by blast

lemma entries_all_put:
  assumes "inv c" "\<And>k e. entry c k = Some e \<Longrightarrow> P k e" "\<And>k'. k = Some k' \<Longrightarrow> P k' (p, t)"
  shows "entry (put c k p t) k' = Some e \<Longrightarrow> P k' e"
  using assms put_entry by blast

lemma hit_all:
  assumes "inv c" "\<And>k e. entry c k = Some e \<Longrightarrow> P k e" "fst (get c k now) = Some (p, t)"
  shows "\<exists>k'. k = Some k' \<and> P k' (p, t) \<and> now - t < ttl c"
  using assms get_hit by blast

lemma get_None_miss: "inv c \<Longrightarrow> fst (get c None now) = None"
  using get_hit [of c None now] by (cases "fst (get c None now)") auto

end

section \<open>The cache keeps its contract and its bounds\<close>

definition sizes :: "(string \<times> cache_entry) list \<Rightarrow> int" where
  "sizes data = sum_list (map (\<lambda>(_, _, _, sz). sz) data)"

text \<open>
  The invariant: unique keys, a byte count that is the sum of the entries' sizes, each size
  that of its payload, and both bounds.
\<close>

definition cache_inv :: "hcache \<Rightarrow> bool" where
  "cache_inv c \<longleftrightarrow>
     distinct (map fst (hc_data c)) \<and> hc_bytes c = sizes (hc_data c) \<and>
     (\<forall>(k, p, t, sz) \<in> set (hc_data c). sz = int (utf8_len p)) \<and>
     0 \<le> hc_entries c \<and> 0 \<le> hc_max_bytes c \<and>
     int (length (hc_data c)) \<le> hc_entries c \<and> hc_bytes c \<le> hc_max_bytes c"

definition cache_entry_of :: "hcache \<Rightarrow> string \<Rightarrow> (string \<times> int) option" where
  "cache_entry_of c k = map_option (\<lambda>(p, t, _). (p, t)) (map_of (hc_data c) k)"

lemma new_cache_inv: "0 \<le> n \<Longrightarrow> 0 \<le> m \<Longrightarrow> cache_inv (new_cache n m ttl)"
  by (simp add: cache_inv_def new_cache_def sizes_def)

lemma sizes_simps [simp]:
  "sizes [] = 0" "sizes ((k, p, t, sz) # data) = sz + sizes data" "sizes (xs @ ys) = sizes xs + sizes ys"
  by (simp_all add: sizes_def)

lemma sizes_delete:
  "distinct (map fst data) \<Longrightarrow> sizes (AList.delete k data) =
     sizes data - (case map_of data k of None \<Rightarrow> 0 | Some (_, _, sz) \<Rightarrow> sz)"
proof (induction data)
  case (Cons x data)
  then show ?case
    by (cases x) (force split: option.splits)
qed simp

lemma length_delete:
  "distinct (map fst data) \<Longrightarrow> k \<in> fst ` set data \<Longrightarrow> Suc (length (AList.delete k data)) = length data"
  by (induction data) auto

lemma set_delete: "set (AList.delete k data) \<subseteq> set data"
  by (auto simp: AList.delete_eq)

lemma evict_suffix: "\<exists>ys. data = ys @ fst (evict n m sz data b)"
proof (induction n m sz data b rule: evict.induct)
  case (2 n m sz k p t r data b)
  then show ?case by (auto intro: exI [of _ "[]"]) (metis append_Cons)+
qed simp

lemma evict_bytes: "b = sizes data \<Longrightarrow> snd (evict n m sz data b) = sizes (fst (evict n m sz data b))"
  by (induction n m sz data b rule: evict.induct) auto

lemma evict_fits:
  "0 < n \<Longrightarrow> sz \<le> m \<Longrightarrow> b = sizes data \<Longrightarrow>
   int (length (fst (evict n m sz data b))) < n \<and> snd (evict n m sz data b) + sz \<le> m"
  by (induction n m sz data b rule: evict.induct) auto

lemma suffix_lookup:
  assumes "distinct (map fst data)" "data = ys @ zs" "map_of zs k = Some e"
  shows "map_of data k = Some e"
proof -
  have "(k, e) \<in> set data" using assms(2,3) by (auto dest: map_of_SomeD)
  then show ?thesis using assms(1) by simp
qed

lemma cache_get_inv: "cache_inv c \<Longrightarrow> cache_inv (snd (cache_get c k now))"
proof -
  assume inv: "cache_inv c"
  show ?thesis
  proof (cases "\<exists>k' p t sz. k = Some k' \<and> map_of (hc_data c) k' = Some (p, t, sz)")
    case True
    then obtain k' p t sz where k: "k = Some k'" "map_of (hc_data c) k' = Some (p, t, sz)" by blast
    have m: "(k', p, t, sz) \<in> set (hc_data c)" using k by (auto dest: map_of_SomeD)
    then have len: "Suc (length (AList.delete k' (hc_data c))) = length (hc_data c)"
      using inv by (intro length_delete) (force simp: cache_inv_def)+
    have sz: "sz = int (utf8_len p)" using inv m by (fastforce simp: cache_inv_def)
    have sub: "\<forall>(k, p, t, sz) \<in> set (AList.delete k' (hc_data c)). sz = int (utf8_len p)"
      using inv set_delete [of k' "hc_data c"] by (fastforce simp: cache_inv_def)
    have fresh: "k' \<notin> set (map fst (AList.delete k' (hc_data c)))"
      using delete_notin_dom [of k' "hc_data c"] by simp
    show ?thesis
      using inv k len sz sub fresh
      by (simp add: cache_inv_def cache_get_def sizes_delete distinct_delete)
  next
    case False
    with inv show ?thesis
      by (auto simp: cache_get_def split: option.splits)
  qed
qed

text \<open>What a store leaves: the evicted suffix and the new entry at the end.\<close>

lemma cache_put_cases:
  assumes "cache_inv c"
  obtains (same) "cache_put c k p t = c"
  | (stored) k' data where "k = Some k'"
      "cache_put c k p t = c\<lparr>hc_data := data @ [(k', p, t, int (utf8_len p))],
         hc_bytes := sizes data + int (utf8_len p)\<rparr>"
      "k' \<notin> fst ` set data" "\<exists>ys. AList.delete k' (hc_data c) = ys @ data"
      "int (length data) < hc_entries c" "sizes data + int (utf8_len p) \<le> hc_max_bytes c"
proof (cases "\<exists>k'. k = Some k' \<and> hc_entries c \<noteq> 0 \<and> int (utf8_len p) \<le> hc_max_bytes c")
  case False
  then have "cache_put c k p t = c" by (auto simp: cache_put_def Let_def split: option.splits)
  then show ?thesis by (rule same)
next
  case True
  then obtain k' where k: "k = Some k'" and n: "hc_entries c \<noteq> 0"
    and m: "int (utf8_len p) \<le> hc_max_bytes c" by blast
  let ?sz = "int (utf8_len p)"
  let ?d = "AList.delete k' (hc_data c)"
  let ?b = "case map_of (hc_data c) k' of None \<Rightarrow> hc_bytes c | Some (_, _, old) \<Rightarrow> hc_bytes c - old"
  let ?e = "evict (hc_entries c) (hc_max_bytes c) ?sz ?d ?b"
  have b: "?b = sizes ?d"
    using assms by (auto simp: cache_inv_def sizes_delete split: option.splits)
  have pos: "0 < hc_entries c" using assms n by (simp add: cache_inv_def)
  from evict_suffix [of ?d "hc_entries c" "hc_max_bytes c" ?sz ?b] obtain ys where ys: "?d = ys @ fst ?e"
    by blast
  have fresh: "k' \<notin> fst ` set (fst ?e)"
    using delete_notin_dom [of k' "hc_data c"] ys by (metis Un_iff image_Un set_append)
  then have "AList.update k' (p, t, ?sz) (fst ?e) = fst ?e @ [(k', p, t, ?sz)]"
    by (simp add: update_fresh)
  with k n m b have "cache_put c k p t = c\<lparr>hc_data := fst ?e @ [(k', p, t, ?sz)],
         hc_bytes := sizes (fst ?e) + ?sz\<rparr>"
    using evict_bytes [OF b, of "hc_entries c" "hc_max_bytes c" ?sz]
    by (simp add: cache_put_def Let_def split_beta not_less)
  then show ?thesis
    using stored [OF k _ fresh] ys evict_fits [OF pos m b] evict_bytes [OF b, of "hc_entries c" "hc_max_bytes c" ?sz]
    by auto
qed

lemma cache_put_inv: "cache_inv c \<Longrightarrow> cache_inv (cache_put c k p t)"
proof -
  assume inv: "cache_inv c"
  then show ?thesis
  proof (cases rule: cache_put_cases [of c k p t])
    case same
    with inv show ?thesis by simp
  next
    case (stored k' data)
    from stored(4) obtain ys where d: "AList.delete k' (hc_data c) = ys @ data" by blast
    then have "distinct (map fst (ys @ data))"
      using inv distinct_delete [of "hc_data c" k'] by (simp add: cache_inv_def)
    moreover have "set data \<subseteq> set (hc_data c)"
      using d set_delete [of k' "hc_data c"] by auto
    ultimately show ?thesis
      using inv stored by (fastforce simp: cache_inv_def)
  qed
qed

lemma map_of_delete_None: "map_of (AList.delete k data) k = None"
  by (simp add: delete_conv)

lemma cache_get_entry:
  "cache_entry_of (snd (cache_get c k now)) k' = Some e \<Longrightarrow> cache_entry_of c k' = Some e"
  by (auto simp: cache_get_def cache_entry_of_def delete_conv map_add_def split: option.splits if_splits)

lemma cache_put_entry:
  assumes "cache_inv c" "cache_entry_of (cache_put c k p t) k' = Some e"
  shows "(k = Some k' \<and> e = (p, t)) \<or> cache_entry_of c k' = Some e"
  using assms(1)
proof (cases rule: cache_put_cases [of c k p t])
  case same
  with assms show ?thesis by simp
next
  case (stored k2 data)
  from stored(4) obtain ys where d: "AList.delete k2 (hc_data c) = ys @ data" by blast
  show ?thesis
  proof (cases "k' = k2")
    case True
    then have "map_of data k' = None" using stored(3) by (simp add: map_of_eq_None_iff)
    with True assms(2) stored show ?thesis by (simp add: cache_entry_of_def map_add_def)
  next
    case False
    then obtain v where v: "map_of data k' = Some v" "e = (case v of (p, t, _) \<Rightarrow> (p, t))"
      using assms(2) stored by (auto simp: cache_entry_of_def map_add_def split: option.splits)
    have "distinct (map fst (AList.delete k2 (hc_data c)))"
      using assms(1) by (simp add: cache_inv_def distinct_delete)
    from suffix_lookup [OF this d v(1)] False have "map_of (hc_data c) k' = Some v"
      by (simp add: delete_conv)
    with v(2) show ?thesis by (simp add: cache_entry_of_def)
  qed
qed

interpretation historical: result_cache cache_inv cache_get cache_put cache_entry_of hc_ttl_ns
proof unfold_locales
  show "cache_inv c \<Longrightarrow> cache_inv (snd (cache_get c k now))" for c k now
    by (rule cache_get_inv)
  show "cache_inv c \<Longrightarrow> cache_inv (cache_put c k p t)" for c k p t
    by (rule cache_put_inv)
  show "\<exists>k'. k = Some k' \<and> cache_entry_of c k' = Some (p, t) \<and> now - t < hc_ttl_ns c"
    if "fst (cache_get c k now) = Some (p, t)" for c k now p t
    using that by (auto simp: cache_get_def cache_entry_of_def split: option.splits if_splits)
  show "cache_entry_of (snd (cache_get c k now)) k' = Some e \<Longrightarrow> cache_entry_of c k' = Some e" for c k now k' e
    by (rule cache_get_entry)
  show "cache_inv c \<Longrightarrow> cache_entry_of (cache_put c k p t) k' = Some e \<Longrightarrow>
      (k = Some k' \<and> e = (p, t)) \<or> cache_entry_of c k' = Some e" for c k p t k' e
    by (rule cache_put_entry)
  show "hc_ttl_ns (snd (cache_get c k now)) = hc_ttl_ns c" for c k now
    by (simp add: cache_get_def split: option.splits prod.splits)
  show "hc_ttl_ns (cache_put c k p t) = hc_ttl_ns c" for c k p t
    by (simp add: cache_put_def Let_def split: option.splits prod.splits)
qed

end
