(* ===== verification/Ledger_Store.thy ===== *)
theory Ledger_Store
  imports Config
begin

text \<open>
  \<^verbatim>\<open>src/src/agmina_runtime/store.py\<close>: the SQLite journal. Each table is a list of rows in row order;
  a body that the code writes as canonical JSON and validates when it reads it back is kept as
  the contract value itself (\<open>Contracts\<close> and \<open>Json_Roundtrip\<close> show that the text determines it), except for
  the observation bodies, which the code compares as text. An operation that runs in
  \<^verbatim>\<open>with self.db:\<close> returns either the new store or the exception, after which the transaction is
  rolled back and the store is the old one.
\<close>

section \<open>Tables\<close>

record budget_cfg =
  bc_campaign :: string
  bc_max_attempts :: int
  bc_max_microusd :: int

record job_row =
  row_tenant :: string
  row_id :: string
  row_body :: job
  row_receipt :: receipt
  row_state :: job_state

datatype disposition = RESERVED | SETTLED | UNSETTLED

fun disposition_value :: "disposition \<Rightarrow> string" where
  "disposition_value RESERVED = ''reserved''"
| "disposition_value SETTLED = ''settled''"
| "disposition_value UNSETTLED = ''unknown''"

record attempt =
  at_tenant :: string
  at_job :: string
  at_pool :: string
  at_endpoint :: string
  at_quote :: int
  at_actual :: "int option"
  at_disposition :: disposition

record event =
  ev_seq :: nat
  ev_at_ns :: int
  ev_kind :: string
  ev_metadata :: "(string \<times> json) list"

record store =
  st_budget :: budget_cfg
  st_tenant :: "string option"
  st_sessions :: "((string \<times> string) \<times> session) list"
  st_jobs :: "job_row list"
  st_observations :: "((string \<times> string \<times> string) \<times> string) list"
  st_attempts :: "attempt list"
  st_quarantines :: "(string \<times> string) list"
  st_events :: "event list"

section \<open>Opening\<close>

definition empty_store :: "budget_cfg \<Rightarrow> store" where
  "empty_store cfg = \<lparr>st_budget = cfg, st_tenant = None, st_sessions = [], st_jobs = [],
     st_observations = [], st_attempts = [], st_quarantines = [], st_events = []\<rparr>"

text \<open>
  \<^verbatim>\<open>Store.__init__\<close>: \<open>locked\<close> says that another process holds the file lock, \<open>file\<close> is the
  database left by an earlier run. Changed caps are refused; nothing is reset.
\<close>

definition open_store :: "bool \<Rightarrow> store option \<Rightarrow> budget_cfg \<Rightarrow> store result" where
  "open_store locked file cfg =
     (if locked then Inl (RuntimeError ''This database already has a coordinator'')
      else case file of
        None \<Rightarrow> Inr (empty_store cfg)
      | Some st \<Rightarrow>
          if st_budget st \<noteq> cfg
          then Inl (ValueError ''Campaign/caps changed: use explicit offline budget extension, never reset holds'')
          else Inr st)"

definition bind_tenant :: "string \<Rightarrow> store \<Rightarrow> store result" where
  "bind_tenant tenant st =
     (case st_tenant st of
        None \<Rightarrow> Inr (st\<lparr>st_tenant := Some tenant\<rparr>)
      | Some t \<Rightarrow> if t \<noteq> tenant then Inl (PermissionError ''A ledger belongs to one immutable tenant'') else Inr st)"

section \<open>Events and sessions\<close>

definition add_event :: "int \<Rightarrow> string \<Rightarrow> (string \<times> json) list \<Rightarrow> store \<Rightarrow> store" where
  "add_event at_ns kind metadata st =
     st\<lparr>st_events := st_events st @
       [\<lparr>ev_seq = Suc (length (st_events st)), ev_at_ns = at_ns, ev_kind = kind, ev_metadata = metadata\<rparr>]\<rparr>"

definition get_session :: "string \<Rightarrow> string \<Rightarrow> store \<Rightarrow> session result" where
  "get_session tenant sid st =
     (case map_of (st_sessions st) (tenant, sid) of
        None \<Rightarrow> Inl (KeyError ''Unknown session'') | Some s \<Rightarrow> Inr s)"

definition put_session :: "session \<Rightarrow> store \<Rightarrow> store" where
  "put_session s st =
     st\<lparr>st_sessions := AList.update (session_tenant s, session_id s) s (st_sessions st)\<rparr>"

section \<open>Jobs\<close>

definition find_job :: "string \<Rightarrow> string \<Rightarrow> store \<Rightarrow> job_row option" where
  "find_job tenant jid st = find (\<lambda>r. row_tenant r = tenant \<and> row_id r = jid) (st_jobs st)"

definition get_job :: "string \<Rightarrow> string \<Rightarrow> store \<Rightarrow> (job \<times> receipt) result" where
  "get_job tenant jid st =
     (case find_job tenant jid st of
        None \<Rightarrow> Inl (KeyError ''Unknown job'') | Some r \<Rightarrow> Inr (row_body r, row_receipt r))"

text \<open>\<^verbatim>\<open>jobs(tenant, states)\<close>: all rows, or those whose state column is one of \<open>states\<close>, in row order.\<close>

definition list_jobs :: "string \<Rightarrow> job_state list \<Rightarrow> store \<Rightarrow> (job \<times> receipt) list" where
  "list_jobs tenant states st =
     map (\<lambda>r. (row_body r, row_receipt r))
       (filter (\<lambda>r. row_tenant r = tenant \<and> (states = [] \<or> row_state r \<in> set states)) (st_jobs st))"

fun add_observations :: "string \<Rightarrow> string \<Rightarrow> observation list \<Rightarrow>
    ((string \<times> string \<times> string) \<times> string) list \<Rightarrow> ((string \<times> string \<times> string) \<times> string) list result" where
  "add_observations tenant sid [] tab = Inr tab"
| "add_observations tenant sid (o' # os) tab =
     (let key = (tenant, sid, obs_id o'); body = json_dumps (JObj (source_fields o')) in
      case map_of tab key of
        None \<Rightarrow> add_observations tenant sid os (tab @ [(key, body)])
      | Some prev \<Rightarrow>
          if prev \<noteq> body
          then Inl (ValueError ''Observation identity reused with different source/timestamp/content'')
          else add_observations tenant sid os tab)"

definition add_job :: "job \<Rightarrow> receipt \<Rightarrow> store \<Rightarrow> store result" where
  "add_job j r st =
     rbind (add_observations (job_tenant j) (job_session_id j) (job_observations j) (st_observations st)) (\<lambda>tab.
       if find_job (job_tenant j) (job_id j) st \<noteq> None then Inl (IntegrityError ''jobs'')
       else Inr (st\<lparr>st_observations := tab,
              st_jobs := st_jobs st @ [\<lparr>row_tenant = job_tenant j, row_id = job_id j, row_body = j,
                                         row_receipt = r, row_state = rc_state r\<rparr>]\<rparr>))"

definition set_receipt :: "string \<Rightarrow> receipt \<Rightarrow> store \<Rightarrow> store" where
  "set_receipt tenant r st =
     st\<lparr>st_jobs := map (\<lambda>row. if row_tenant row = tenant \<and> row_id row = rc_job_id r
                              then row\<lparr>row_receipt := r, row_state := rc_state r\<rparr> else row) (st_jobs st)\<rparr>"

section \<open>The budget\<close>

text \<open>What an attempt weighs: its charge once known, its quote until then.\<close>

definition held :: "attempt list \<Rightarrow> int" where
  "held rows = sum_list (map at_quote (filter (\<lambda>a. at_actual a = None) rows))"

definition known :: "attempt list \<Rightarrow> int" where
  "known rows = sum_list (map (\<lambda>a. case at_actual a of None \<Rightarrow> 0 | Some n \<Rightarrow> n)
                           (filter (\<lambda>a. at_actual a \<noteq> None) rows))"

record budget_report =
  b_cfg :: budget_cfg
  b_attempts :: int
  b_known_microusd :: int
  b_held_microusd :: int
  b_admission_total_microusd :: int
  b_unknown_attempts :: int
  b_over_ceiling :: bool

definition budget :: "store \<Rightarrow> budget_report" where
  "budget st =
     (let rows = st_attempts st; h = held rows; a = known rows in
      \<lparr>b_cfg = st_budget st, b_attempts = int (length rows), b_known_microusd = a, b_held_microusd = h,
       b_admission_total_microusd = a + h,
       b_unknown_attempts = int (length (filter (\<lambda>r. at_disposition r = UNSETTLED) rows)),
       b_over_ceiling = (bc_max_microusd (st_budget st) < a + h)\<rparr>)"

definition find_attempt :: "string \<Rightarrow> string \<Rightarrow> store \<Rightarrow> attempt option" where
  "find_attempt tenant jid st = find (\<lambda>a. at_tenant a = tenant \<and> at_job a = jid) (st_attempts st)"

definition reserve :: "job \<Rightarrow> endpoint \<Rightarrow> int \<Rightarrow> store \<Rightarrow> store result" where
  "reserve j ep now st =
     (let b = budget st in
      if bc_max_attempts (b_cfg b) \<le> b_attempts b \<or>
         bc_max_microusd (b_cfg b) < b_admission_total_microusd b + ep_reserve_microusd ep
      then Inl (PermissionError ''attempt_or_cost_ceiling'')
      else if find_attempt (job_tenant j) (job_id j) st \<noteq> None then Inl (IntegrityError ''attempts'')
      else Inr (add_event now ''attempt_reserved''
             [(''job_id'', JStr (job_id j)), (''endpoint'', JStr (ep_id ep)),
              (''quote_microusd'', JInt (ep_reserve_microusd ep))]
             (st\<lparr>st_attempts := st_attempts st @
                [\<lparr>at_tenant = job_tenant j, at_job = job_id j, at_pool = ep_pool ep, at_endpoint = ep_id ep,
                  at_quote = ep_reserve_microusd ep, at_actual = None, at_disposition = RESERVED\<rparr>]\<rparr>)))"

definition update_attempts :: "string \<Rightarrow> string \<Rightarrow> (attempt \<Rightarrow> attempt) \<Rightarrow> store \<Rightarrow> store" where
  "update_attempts tenant jid f st =
     st\<lparr>st_attempts := map (\<lambda>a. if at_tenant a = tenant \<and> at_job a = jid then f a else a) (st_attempts st)\<rparr>"

definition settle :: "job \<Rightarrow> usage option \<Rightarrow> store \<Rightarrow> store" where
  "settle j u st =
     (let v = (case u of None \<Rightarrow> None | Some u \<Rightarrow> cost_microusd u) in
      update_attempts (job_tenant j) (job_id j)
        (\<lambda>a. a\<lparr>at_actual := v, at_disposition := (if v = None then UNSETTLED else SETTLED)\<rparr>) st)"

section \<open>Reconciliation\<close>

type_synonym entry = "string \<times> int \<times> string"

text \<open>The validation loop: each entry well formed and its job not seen before.\<close>

fun entries_ok :: "string list \<Rightarrow> entry list \<Rightarrow> unit result" where
  "entries_ok seen [] = Inr ()"
| "entries_ok seen ((jid, actual, evidence) # es) =
     (if jid = [] \<or> 256 < length jid \<or> jid \<in> set seen \<or> actual < 0 \<or> evidence = [] \<or> 1024 < length evidence
      then Inl (ValueError ''Each reconciliation requires a unique job ID, nonnegative charge, and bounded evidence reference'')
      else entries_ok (seen @ [jid]) es)"

text \<open>The lookup loop runs over the set of seen IDs; which of several bad IDs it names is not modelled.\<close>

fun unresolved_ok :: "string \<Rightarrow> store \<Rightarrow> string list \<Rightarrow> unit result" where
  "unresolved_ok tenant st [] = Inr ()"
| "unresolved_ok tenant st (jid # jids) =
     (case find_attempt tenant jid st of
        None \<Rightarrow> Inl (ValueError ''Unknown reconciliation job'')
      | Some row \<Rightarrow> if at_actual row \<noteq> None then Inl (ValueError ''Attempt is already settled'')
                    else unresolved_ok tenant st jids)"

fun settle_entries :: "string \<Rightarrow> int \<Rightarrow> entry list \<Rightarrow> store \<Rightarrow> store result" where
  "settle_entries tenant now [] st = Inr st"
| "settle_entries tenant now ((jid, actual, evidence) # es) st =
     (if length (filter (\<lambda>a. at_tenant a = tenant \<and> at_job a = jid \<and> at_actual a = None) (st_attempts st)) \<noteq> 1
      then Inl (ValueError ''Attempt changed before reconciliation'')
      else settle_entries tenant now es
        (add_event now ''charge_reconciled''
          [(''job_id'', JStr jid), (''actual_microusd'', JInt actual), (''evidence_ref'', JStr evidence)]
          (update_attempts tenant jid
             (\<lambda>a. if at_actual a = None then a\<lparr>at_actual := Some actual, at_disposition := SETTLED\<rparr> else a) st)))"

definition reconcile_many :: "string \<Rightarrow> entry list \<Rightarrow> int \<Rightarrow> store \<Rightarrow> store result" where
  "reconcile_many tenant entries now st =
     rbind (entries_ok [] entries) (\<lambda>_.
     rbind (unresolved_ok tenant st (map fst entries)) (\<lambda>_.
       settle_entries tenant now entries st))"

definition reconcile :: "string \<Rightarrow> string \<Rightarrow> int \<Rightarrow> string \<Rightarrow> int \<Rightarrow> store \<Rightarrow> store result" where
  "reconcile tenant jid actual evidence now st = reconcile_many tenant [(jid, actual, evidence)] now st"

section \<open>Quarantine, recovery, extension\<close>

definition quarantine :: "string \<Rightarrow> string \<Rightarrow> store \<Rightarrow> store" where
  "quarantine p reason st = st\<lparr>st_quarantines := AList.update p reason (st_quarantines st)\<rparr>"

definition quarantined :: "store \<Rightarrow> string list" where
  "quarantined st = map fst (st_quarantines st)"

definition release_pool :: "string \<Rightarrow> string \<Rightarrow> int \<Rightarrow> store \<Rightarrow> store result" where
  "release_pool p evidence now st =
     (if evidence = [] then Inl (ValueError ''Require evidence of backend termination/restart'')
      else Inr (add_event now ''pool_released'' [(''pool'', JStr p), (''evidence_ref'', JStr evidence)]
             (st\<lparr>st_quarantines := AList.delete p (st_quarantines st)\<rparr>)))"

text \<open>\<^verbatim>\<open>recover\<close>, first loop: queued work is cancelled, in-flight work becomes unknown.\<close>

definition recover_job :: "string \<Rightarrow> int \<Rightarrow> job \<times> receipt \<Rightarrow> store \<Rightarrow> store" where
  "recover_job tenant now jr st =
     (let (j, r) = jr;
          state = (if rc_state r = RUNNING then UNKNOWN else CANCELLED);
          st = set_receipt tenant (r\<lparr>rc_state := state, rc_reason := Some ''coordinator_restart''\<rparr>) st;
          st = (if rc_state r = RUNNING then
                  (case find_attempt tenant (job_id j) st of
                     None \<Rightarrow> st
                   | Some row \<Rightarrow> settle j None (quarantine (at_pool row) ''restart_with_unconfirmed_remote_work'' st))
                else st)
      in add_event now ''recovery_invalidated''
           [(''job_id'', JStr (job_id j)), (''state'', JStr (state_value state))] st)"

text \<open>Second loop: an attempt still reserved is unconfirmed remote work.\<close>

definition recover_attempt :: "string \<Rightarrow> int \<Rightarrow> attempt \<Rightarrow> store \<Rightarrow> store" where
  "recover_attempt tenant now row st =
     add_event now ''recovery_unconfirmed_attempt''
       [(''job_id'', JStr (at_job row)), (''pool'', JStr (at_pool row))]
       (update_attempts tenant (at_job row) (\<lambda>a. a\<lparr>at_disposition := UNSETTLED\<rparr>)
         (quarantine (at_pool row) ''restart_with_unconfirmed_reserved_work'' st))"

text \<open>Third loop: every session of the tenant is closed.\<close>

definition recover :: "string \<Rightarrow> int \<Rightarrow> store \<Rightarrow> store" where
  "recover tenant now st =
     (let st = fold (recover_job tenant now) (list_jobs tenant [QUEUED, RUNNING] st) st;
          st = fold (recover_attempt tenant now)
                 (filter (\<lambda>a. at_tenant a = tenant \<and> at_disposition a = RESERVED) (st_attempts st)) st
      in fold (\<lambda>s. put_session (s\<lparr>session_state := CLOSED\<rparr>))
           (map snd (filter (\<lambda>ks. fst (fst ks) = tenant) (st_sessions st))) st)"

definition extend_budget :: "int \<Rightarrow> int \<Rightarrow> string \<Rightarrow> int \<Rightarrow> store \<Rightarrow> store result" where
  "extend_budget max_attempts max_microusd approval now st =
     (let old = b_cfg (budget st) in
      if approval = [] \<or> max_attempts < bc_max_attempts old \<or> max_microusd < bc_max_microusd old
      then Inl (ValueError ''Explicit nondecreasing cumulative caps and an approval reference required'')
      else Inr (add_event now ''budget_extended''
             [(''approval_ref'', JStr approval), (''max_attempts'', JInt max_attempts),
              (''max_microusd'', JInt max_microusd)]
             (st\<lparr>st_budget := \<lparr>bc_campaign = bc_campaign old, bc_max_attempts = max_attempts,
                bc_max_microusd = max_microusd\<rparr>\<rparr>)))"

definition export_events :: "store \<Rightarrow> event list" where
  "export_events st = sort_key ev_seq (st_events st)"

end
