(* ===== verification/Coordinator.thy ===== *)
theory Coordinator
  imports Clocks Scheduling Result_Cache Ledger_Store
begin

text \<open>
  \<^verbatim>\<open>src/src/agmina_runtime/runtime.py\<close>: the single-writer coordinator. A synchronous method is a
  function from the coordinator to its result and the new coordinator; an exception leaves the
  effects that came before it. The coroutine \<^verbatim>\<open>_run\<close> is cut at its one await: \<open>task_begin\<close> is the
  segment up to the backend call, \<open>task_complete\<close> and \<open>task_fail\<close> are the two ways it resumes.
  Every \<^verbatim>\<open>clock.now_ns()\<close> takes one reading.
\<close>

section \<open>State\<close>

record task =
  task_job :: job
  task_endpoint :: endpoint
  task_key :: "string option"
  task_begun :: bool

record runtime =
  rt_sha :: "string \<Rightarrow> string"
  rt_config :: runtime_config
  rt_clock :: clock
  rt_store :: store
  rt_cache :: hcache
  rt_pool_use :: "(string \<times> int) list"
  rt_endpoint_use :: "(string \<times> int) list"
  rt_running :: "(string \<times> task) list"
  rt_backends :: "string list"
  rt_allow_network :: bool
  rt_closed :: bool

definition read_now :: "runtime \<Rightarrow> int \<times> runtime" where
  "read_now rt = (let (n, c) = clock_now_ns (rt_clock rt) in (n, rt\<lparr>rt_clock := c\<rparr>))"

definition on_store :: "(store \<Rightarrow> store) \<Rightarrow> runtime \<Rightarrow> runtime" where
  "on_store f rt = rt\<lparr>rt_store := f (rt_store rt)\<rparr>"

definition emit :: "int \<Rightarrow> string \<Rightarrow> (string \<times> json) list \<Rightarrow> runtime \<Rightarrow> runtime" where
  "emit at_ns kind metadata rt = on_store (add_event at_ns kind metadata) rt"

definition emit_now :: "string \<Rightarrow> (string \<times> json) list \<Rightarrow> runtime \<Rightarrow> runtime" where
  "emit_now kind metadata rt = (let (now, rt) = read_now rt in emit now kind metadata rt)"

abbreviation tenant_of :: "runtime \<Rightarrow> string" where
  "tenant_of rt \<equiv> cfg_tenant (rt_config rt)"

abbreviation clock_id_of :: "runtime \<Rightarrow> string" where
  "clock_id_of rt \<equiv> clk_id (rt_clock rt)"

definition budget_of :: "runtime_config \<Rightarrow> budget_cfg" where
  "budget_of c = \<lparr>bc_campaign = cfg_campaign c, bc_max_attempts = cfg_max_attempts c,
     bc_max_microusd = cfg_max_microusd c\<rparr>"

definition zero_cost :: usage where
  "zero_cost = no_usage\<lparr>cost_microusd := Some 0\<rparr>"

text \<open>
  Construction: the configuration is validated again, the journal opened and bound, earlier
  work recovered; \<open>fp\<close> is the configuration's fingerprint as the start event records it.
\<close>

definition start_runtime :: "(string \<Rightarrow> string) \<Rightarrow> runtime_config \<Rightarrow> clock \<Rightarrow> bool \<Rightarrow> string list \<Rightarrow>
    bool \<Rightarrow> store option \<Rightarrow> string \<Rightarrow> runtime result" where
  "start_runtime sha cfg clk allow_network backends locked file fp =
     rbind (validate_config cfg) (\<lambda>cfg.
     rbind (open_store locked file (budget_of cfg)) (\<lambda>st.
     rbind (bind_tenant (cfg_tenant cfg) st) (\<lambda>st.
       let (now, clk) = clock_now_ns clk; st = recover (cfg_tenant cfg) now st;
           (now, clk) = clock_now_ns clk
       in Inr \<lparr>rt_sha = sha, rt_config = cfg, rt_clock = clk,
           rt_store = add_event now ''coordinator_started''
             [(''clock_id'', JStr (clk_id clk)), (''config_fingerprint'', JStr fp),
              (''native_actions_enabled'', JBool False)] st,
           rt_cache = new_cache (cfg_cache_entries cfg) (cfg_cache_bytes cfg) (cfg_cache_ttl_ns cfg),
           rt_pool_use = [], rt_endpoint_use = [], rt_running = [], rt_backends = backends,
           rt_allow_network = allow_network, rt_closed = False\<rparr>)))"

section \<open>Receipt transitions and expiry\<close>

definition set_state :: "job \<Rightarrow> receipt \<Rightarrow> job_state \<Rightarrow> string option \<Rightarrow> runtime \<Rightarrow> receipt \<times> runtime" where
  "set_state j r state reason rt =
     (let r = r\<lparr>rc_state := state, rc_reason := reason\<rparr>;
          rt = on_store (set_receipt (job_tenant j) r) rt
      in (r, emit_now ''job_state''
            [(''job_id'', JStr (job_id j)), (''state'', JStr (state_value state)),
             (''reason'', opt_json JStr reason)] rt))"

text \<open>\<open>p in s\<close> for strings.\<close>

definition contains :: "string \<Rightarrow> string \<Rightarrow> bool" where
  "contains p s \<longleftrightarrow> list_ex (\<lambda>i. take (length p) (drop i s) = p) [0..<Suc (length s)]"

definition lapse_state :: "string \<Rightarrow> job_state" where
  "lapse_state reason = (if contains ''expired'' reason then EXPIRED else STALE)"

fun expire_loop :: "int \<Rightarrow> (job \<times> receipt) list \<Rightarrow> runtime \<Rightarrow> unit result \<times> runtime" where
  "expire_loop now [] rt = (Inr (), rt)"
| "expire_loop now ((j, r) # jrs) rt =
     (case get_session (job_tenant j) (job_session_id j) (rt_store rt) of
        Inl e \<Rightarrow> (Inl e, rt)
      | Inr s \<Rightarrow>
          (case invalid_reason j s now (clock_id_of rt) of
             None \<Rightarrow> expire_loop now jrs rt
           | Some reason \<Rightarrow>
               expire_loop now jrs (snd (set_state j r (lapse_state reason) (Some reason) rt))))"

definition expire :: "runtime \<Rightarrow> unit result \<times> runtime" where
  "expire rt =
     (let (now, rt) = read_now rt
      in expire_loop now (list_jobs (tenant_of rt) [QUEUED, RUNNING] (rt_store rt)) rt)"

section \<open>Sessions\<close>

definition open_session :: "string \<Rightarrow> string \<Rightarrow> runtime \<Rightarrow> session result \<times> runtime" where
  "open_session sid task_revision rt =
     (let (now, rt) = read_now rt;
          old = (case get_session (tenant_of rt) sid (rt_store rt) of Inl _ \<Rightarrow> None | Inr s \<Rightarrow> Some s)
      in if (case old of None \<Rightarrow> False | Some s \<Rightarrow> session_state s = ACTIVE)
         then (Inl (PermissionError ''Session already active; advance it explicitly''), rt)
         else
           case validate_session \<lparr>session_tenant = tenant_of rt, session_id = sid,
               session_epoch = (case old of None \<Rightarrow> 0 | Some s \<Rightarrow> session_epoch s + 1),
               session_task_revision = task_revision, session_clock_id = clock_id_of rt,
               session_state = ACTIVE, session_updated_ns = now, session_buffer_until_ns = None\<rparr> of
             Inl e \<Rightarrow> (Inl e, rt)
           | Inr s \<Rightarrow>
               (Inr s, emit now ''session_opened''
                  [(''session_id'', JStr (session_id s)), (''epoch'', JInt (session_epoch s))]
                  (on_store (put_session s) rt)))"

definition stale_session :: "session \<Rightarrow> int \<Rightarrow> string \<Rightarrow> bool" where
  "stale_session old expected_epoch clk \<longleftrightarrow>
     session_epoch old \<noteq> expected_epoch \<or> session_clock_id old \<noteq> clk \<or> session_state old \<noteq> ACTIVE"

definition advance_session :: "string \<Rightarrow> int \<Rightarrow> string \<Rightarrow> bool \<Rightarrow> runtime \<Rightarrow> session result \<times> runtime" where
  "advance_session sid expected_epoch task_revision close rt =
     (case get_session (tenant_of rt) sid (rt_store rt) of
        Inl e \<Rightarrow> (Inl e, rt)
      | Inr old \<Rightarrow>
        if stale_session old expected_epoch (clock_id_of rt)
        then (Inl (PermissionError ''Session compare-and-swap failed''), rt)
        else
          let (now, rt) = read_now rt in
          case validate_session \<lparr>session_tenant = session_tenant old, session_id = session_id old,
              session_epoch = session_epoch old + 1, session_task_revision = task_revision,
              session_clock_id = clock_id_of rt, session_state = (if close then CLOSED else ACTIVE),
              session_updated_ns = now, session_buffer_until_ns = None\<rparr> of
            Inl e \<Rightarrow> (Inl e, rt)
          | Inr s \<Rightarrow>
              let rt = on_store (put_session s) rt;
                  rt = emit_now ''session_advanced''
                    [(''session_id'', JStr (session_id s)), (''epoch'', JInt (session_epoch s))] rt;
                  (e, rt) = expire rt
              in (rbind e (\<lambda>_. Inr s), rt))"

definition heartbeat_window :: int where
  "heartbeat_window = 60000000000"

definition heartbeat :: "string \<Rightarrow> int \<Rightarrow> int option \<Rightarrow> runtime \<Rightarrow> session result \<times> runtime" where
  "heartbeat sid expected_epoch buffer_until rt =
     (case get_session (tenant_of rt) sid (rt_store rt) of
        Inl e \<Rightarrow> (Inl e, rt)
      | Inr old \<Rightarrow>
        let (now, rt) = read_now rt in
        if stale_session old expected_epoch (clock_id_of rt) then (Inl (PermissionError ''Stale heartbeat''), rt)
        else if (case buffer_until of None \<Rightarrow> False | Some b \<Rightarrow> \<not> (now \<le> b \<and> b \<le> now + heartbeat_window))
        then (Inl (ValueError ''Advisory buffer time must be within 60 seconds''), rt)
        else
          case validate_session (old\<lparr>session_updated_ns := now, session_buffer_until_ns := buffer_until\<rparr>) of
            Inl e \<Rightarrow> (Inl e, rt)
          | Inr s \<Rightarrow>
              (Inr s, emit now ''buffer_observed''
                 [(''session_id'', JStr sid), (''epoch'', JInt expected_epoch),
                  (''buffer_until_ns'', opt_json JInt buffer_until)] (on_store (put_session s) rt)))"

section \<open>Submission\<close>

fun check_dependencies :: "(string \<Rightarrow> string) \<Rightarrow> store \<Rightarrow> job \<Rightarrow> string list \<Rightarrow> unit result" where
  "check_dependencies sha st j [] = Inr ()"
| "check_dependencies sha st j (dep # deps) =
     (case get_job (job_tenant j) dep st of
        Inl e \<Rightarrow> Inl e
      | Inr (parent, _) \<Rightarrow>
          if (job_session_id parent, job_epoch parent, job_task_revision parent) \<noteq>
             (job_session_id j, job_epoch j, job_task_revision j)
          then Inl (PermissionError ''Dependency crosses task/session generation'')
          else if \<not> set (map (source_fingerprint sha) (job_observations parent)) \<subseteq>
                    set (map (source_fingerprint sha) (job_observations j))
          then Inl (PermissionError ''Dependency source lineage omitted'')
          else check_dependencies sha st j deps)"

definition replaces :: "job \<Rightarrow> job \<Rightarrow> bool" where
  "replaces j prev \<longleftrightarrow>
     (job_session_id prev, job_epoch prev, job_task_revision prev, job_replace_key prev, job_model prev,
      job_operation prev) =
     (job_session_id j, job_epoch j, job_task_revision j, job_replace_key j, job_model j, job_operation j)"

definition has_live_child :: "string \<Rightarrow> store \<Rightarrow> job \<Rightarrow> bool" where
  "has_live_child tenant st prev \<longleftrightarrow>
     list_ex (\<lambda>(child, _). job_id prev \<in> set (job_dependencies child)) (list_jobs tenant [QUEUED, RUNNING] st)"

text \<open>The latest-only scan over the queue: the reject reason and the jobs to supersede.\<close>

fun replace_scan :: "store \<Rightarrow> job \<Rightarrow> (job \<times> receipt) list \<Rightarrow> string option \<Rightarrow> (job \<times> receipt) list \<Rightarrow>
    string option \<times> (job \<times> receipt) list" where
  "replace_scan st j [] reason acc = (reason, acc)"
| "replace_scan st j ((prev, r) # jrs) reason acc =
     (if replaces j prev then
        (if job_snapshot_ns j \<le> job_snapshot_ns prev
         then replace_scan st j jrs (Some ''superseded_by_newer_snapshot'') acc
         else if \<not> has_live_child (job_tenant j) st prev then replace_scan st j jrs reason (acc @ [(prev, r)])
         else replace_scan st j jrs reason acc)
      else replace_scan st j jrs reason acc)"

definition or_else :: "string option \<Rightarrow> bool \<Rightarrow> string \<Rightarrow> string option" where
  "or_else reason c r = (case reason of Some x \<Rightarrow> Some x | None \<Rightarrow> if c then Some r else None)"

definition job_endpoints :: "runtime_config \<Rightarrow> job \<Rightarrow> endpoint list" where
  "job_endpoints cfg j = filter (\<lambda>e. ep_model e = job_model j) (cfg_endpoints cfg)"

definition eligible_endpoints :: "runtime_config \<Rightarrow> job \<Rightarrow> endpoint list" where
  "eligible_endpoints cfg j =
     filter (\<lambda>e. ep_model e = job_model j \<and> ep_site e \<in> set (job_allowed_sites j)) (cfg_endpoints cfg)"

text \<open>The admission decision: why the job is rejected (\<open>None\<close>: queued), and what it supersedes.\<close>

definition admission :: "runtime \<Rightarrow> job \<Rightarrow> string option \<Rightarrow> string option \<times> (job \<times> receipt) list" where
  "admission rt j reason =
     (let st = rt_store rt; queue = list_jobs (job_tenant j) [QUEUED] st;
          (reason, superseded) =
            (if job_replace_key j \<noteq> None \<and> reason = None then replace_scan st j queue reason [] else (reason, []));
          reason = or_else reason
            (cfg_max_queue (rt_config rt) \<le> int (length queue) - int (length superseded)) ''queue_capacity'';
          eps = eligible_endpoints (rt_config rt) j;
          reason = or_else reason (eps = []) ''no_allowed_endpoint'';
          reason = or_else reason
            (eps \<noteq> [] \<and> \<not> rt_allow_network rt \<and>
             list_all (\<lambda>e. ep_kind e \<noteq> MOCK \<and> ep_id e \<notin> set (rt_backends rt)) eps) ''network_not_authorized''
      in (reason, superseded))"

definition new_receipt :: "string \<Rightarrow> string \<Rightarrow> string option \<Rightarrow> int \<Rightarrow> receipt" where
  "new_receipt jid fp reason now =
     \<lparr>rc_job_id = jid, rc_request_fingerprint = fp, rc_state = (if reason \<noteq> None then REJECTED else QUEUED),
      rc_endpoint = None, rc_reason = reason, rc_submitted_ns = now, rc_started_ns = None,
      rc_completed_ns = None, rc_computed_ns = None, rc_first_content_ns = None, rc_prediction_json = None,
      rc_usage = None, rc_provider_request_id = None, rc_cache_hit = False, rc_consumed_by = None,
      rc_consumed_ns = None\<rparr>"

definition supersede :: "(job \<times> receipt) list \<Rightarrow> runtime \<Rightarrow> runtime" where
  "supersede jrs rt =
     fold (\<lambda>(prev, r) rt. snd (set_state prev r SUPERSEDED (Some ''explicit_latest_only_replacement'') rt)) jrs rt"

text \<open>The end of \<^verbatim>\<open>submit\<close>: the row, the replacements it makes, the event.\<close>

definition store_submission :: "int \<Rightarrow> job \<Rightarrow> string option \<Rightarrow> (job \<times> receipt) list \<Rightarrow> runtime \<Rightarrow>
    receipt result \<times> runtime" where
  "store_submission now j reason superseded rt =
     (let fp = job_fingerprint (rt_sha rt) j; r = new_receipt (job_id j) fp reason now
      in case add_job j r (rt_store rt) of
           Inl e \<Rightarrow> (Inl e, rt)
         | Inr st \<Rightarrow>
             let rt = rt\<lparr>rt_store := st\<rparr>;
                 rt = (if reason = None then supersede superseded rt else rt)
             in (Inr r, emit now ''submitted''
                  [(''job_id'', JStr (job_id j)), (''session_id'', JStr (job_session_id j)),
                   (''model'', JStr (job_model j)), (''workload'', JStr (workload_value (job_workload j))),
                   (''state'', JStr (state_value (rc_state r))),
                   (''evidence_count'', JInt (int (length (job_observations j)))),
                   (''request_fingerprint'', JStr fp), (''reason'', opt_json JStr reason)] rt))"

definition submit_new :: "job \<Rightarrow> runtime \<Rightarrow> receipt result \<times> runtime" where
  "submit_new j rt =
     (if job_model j \<notin> set (map mc_alias (cfg_models (rt_config rt)))
      then (Inl (ValueError ''Unregistered model contract''), rt)
      else if cfg_max_jobs (rt_config rt) \<le> int (length (list_jobs (job_tenant j) [] (rt_store rt)))
      then (Inl (PermissionError ''Journal job admission capacity reached; retain/archive this campaign''), rt)
      else case get_session (job_tenant j) (job_session_id j) (rt_store rt) of
        Inl e \<Rightarrow> (Inl e, rt)
      | Inr s \<Rightarrow>
        let (now, rt) = read_now rt; reason = invalid_reason j s now (clock_id_of rt) in
        case check_dependencies (rt_sha rt) (rt_store rt) j (job_dependencies j) of
          Inl e \<Rightarrow> (Inl e, rt)
        | Inr _ \<Rightarrow>
          let (reason, superseded) = admission rt j reason in store_submission now j reason superseded rt)"

definition submit :: "job \<Rightarrow> runtime \<Rightarrow> receipt result \<times> runtime" where
  "submit j rt =
     (case validate_job j of
        Inl e \<Rightarrow> (Inl e, rt)
      | Inr j \<Rightarrow>
        if rt_closed rt \<or> job_tenant j \<noteq> tenant_of rt
        then (Inl (PermissionError ''Closed runtime or foreign tenant''), rt)
        else case get_job (job_tenant j) (job_id j) (rt_store rt) of
          Inr (original, r) \<Rightarrow>
            (if job_fingerprint (rt_sha rt) original \<noteq> job_fingerprint (rt_sha rt) j
             then (Inl (ValueError ''Idempotency ID reused for different work''), rt) else (Inr r, rt))
        | Inl _ \<Rightarrow> submit_new j rt)"

section \<open>Dispatch\<close>

fun dependency_states :: "string \<Rightarrow> store \<Rightarrow> string list \<Rightarrow> job_state list result" where
  "dependency_states tenant st [] = Inr []"
| "dependency_states tenant st (d # ds) =
     rbind (get_job tenant d st) (\<lambda>(_, r). rbind (dependency_states tenant st ds) (\<lambda>xs. Inr (rc_state r # xs)))"

definition estimate_for :: "runtime_config \<Rightarrow> job \<Rightarrow> int result" where
  "estimate_for cfg j =
     (case map estimate_ns (filter (\<lambda>e. ep_site e \<in> set (job_allowed_sites j)) (job_endpoints cfg j)) of
        [] \<Rightarrow> Inl (ValueError ''min() arg is an empty sequence'')
      | x # xs \<Rightarrow> Inr (fold min xs x))"

fun ready_scan :: "int \<Rightarrow> (job \<times> receipt) list \<Rightarrow> (rank_key \<times> job \<times> receipt) list \<Rightarrow> runtime \<Rightarrow>
    (rank_key \<times> job \<times> receipt) list result \<times> runtime" where
  "ready_scan now [] ready rt = (Inr ready, rt)"
| "ready_scan now ((j, r) # jrs) ready rt =
     (case dependency_states (job_tenant j) (rt_store rt) (job_dependencies j) of
        Inl e \<Rightarrow> (Inl e, rt)
      | Inr states \<Rightarrow>
        if list_ex (\<lambda>x. x \<notin> {QUEUED, RUNNING, SUCCEEDED, CONSUMED}) states
        then ready_scan now jrs ready (snd (set_state j r REJECTED (Some ''dependency_failed'') rt))
        else if list_ex (\<lambda>x. x \<notin> {SUCCEEDED, CONSUMED}) states then ready_scan now jrs ready rt
        else case get_session (job_tenant j) (job_session_id j) (rt_store rt) of
          Inl e \<Rightarrow> (Inl e, rt)
        | Inr s \<Rightarrow>
          (case rbind (estimate_for (rt_config rt) j) (\<lambda>estimate.
               rank \<lparr>cand_id = job_id j, cand_submitted_ns = rc_submitted_ns r, cand_latest_ns = latest_ns j s,
                     cand_estimate_ns = estimate, cand_priority = job_priority j\<rparr>
                 now (cfg_scheduler (rt_config rt))) of
             Inl e \<Rightarrow> (Inl e, rt)
           | Inr k \<Rightarrow> ready_scan now jrs (ready @ [(k, j, r)]) rt))"

definition use_add :: "string \<Rightarrow> int \<Rightarrow> (string \<times> int) list \<Rightarrow> (string \<times> int) list" where
  "use_add k d use = AList.update k (use_count use k + d) use"

definition model_of :: "runtime_config \<Rightarrow> string \<Rightarrow> model_contract option" where
  "model_of cfg alias = find (\<lambda>m. mc_alias m = alias) (cfg_models cfg)"

text \<open>A cache hit completes the job at once, with no attempt.\<close>

definition serve_hit :: "int \<Rightarrow> job \<Rightarrow> receipt \<Rightarrow> string \<times> int \<Rightarrow> runtime \<Rightarrow> runtime" where
  "serve_hit now j r hit rt =
     (let (txt, computed) = hit;
          done = r\<lparr>rc_state := SUCCEEDED, rc_prediction_json := Some txt, rc_completed_ns := Some now,
                   rc_computed_ns := Some computed, rc_cache_hit := True, rc_usage := Some zero_cost\<rparr>
      in emit now ''cache_hit'' [(''job_id'', JStr (job_id j)), (''computed_ns'', JInt computed)]
           (on_store (set_receipt (job_tenant j) done) rt))"

text \<open>After a successful reservation: the running receipt, the counters, the task.\<close>

definition launch :: "int \<Rightarrow> job \<Rightarrow> receipt \<Rightarrow> session \<Rightarrow> endpoint \<Rightarrow> string option \<Rightarrow> runtime \<Rightarrow> runtime" where
  "launch now j r s ep key rt =
     (let rt = on_store (set_receipt (job_tenant j)
                 (r\<lparr>rc_state := RUNNING, rc_endpoint := Some (ep_id ep), rc_started_ns := Some now\<rparr>)) rt;
          rt = rt\<lparr>rt_pool_use := use_add (ep_pool ep) 1 (rt_pool_use rt),
                  rt_endpoint_use := use_add (ep_id ep) 1 (rt_endpoint_use rt)\<rparr>;
          rt = emit now ''dispatched''
                 [(''job_id'', JStr (job_id j)), (''endpoint'', JStr (ep_id ep)), (''pool'', JStr (ep_pool ep)),
                  (''estimate_ns'', JInt (estimate_ns ep)), (''latest_ns'', JInt (latest_ns j s))] rt
      in rt\<lparr>rt_running := AList.update (job_id j)
              \<lparr>task_job = j, task_endpoint = ep, task_key = key, task_begun = False\<rparr> (rt_running rt)\<rparr>)"

definition place :: "int \<Rightarrow> job \<Rightarrow> session \<Rightarrow> runtime \<Rightarrow> endpoint option" where
  "place now j s rt =
     choose_endpoint (job_endpoints (rt_config rt) j) now (latest_ns j s) (job_allowed_sites j)
       (slots_of (cfg_pools (rt_config rt))) (rt_pool_use rt) (rt_endpoint_use rt)
       (quarantined (rt_store rt)) (cfg_placement (rt_config rt))"

definition dispatch_one :: "job \<times> receipt \<Rightarrow> runtime \<Rightarrow> unit result \<times> runtime" where
  "dispatch_one jr rt =
     (let (j, r) = jr; (now, rt) = read_now rt in
      case get_session (job_tenant j) (job_session_id j) (rt_store rt) of
        Inl e \<Rightarrow> (Inl e, rt)
      | Inr s \<Rightarrow>
        (case invalid_reason j s now (clock_id_of rt) of
           Some reason \<Rightarrow> (Inr (), snd (set_state j r (lapse_state reason) (Some reason) rt))
         | None \<Rightarrow>
           (case model_of (rt_config rt) (job_model j) of
              None \<Rightarrow> (Inl (KeyError (job_model j)), rt)
            | Some m \<Rightarrow>
              let key = cache_key (rt_sha rt) j (model_fingerprint (rt_sha rt) m);
                  (hit, c) = cache_get (rt_cache rt) key now;
                  rt = rt\<lparr>rt_cache := c\<rparr>
              in case hit of
                   Some h \<Rightarrow> (Inr (), serve_hit now j r h rt)
                 | None \<Rightarrow>
                   (case place now j s rt of
                      None \<Rightarrow> (Inr (), rt)
                    | Some ep \<Rightarrow>
                      (case reserve j ep now (rt_store rt) of
                         Inl (PermissionError m) \<Rightarrow>
                           (Inr (), snd (set_state j r REJECTED (Some ''attempt_or_cost_ceiling'') rt))
                       | Inl e \<Rightarrow> (Inl e, rt)
                       | Inr st \<Rightarrow> (Inr (), launch now j r s ep key (rt\<lparr>rt_store := st\<rparr>)))))))"

fun dispatch_loop :: "(rank_key \<times> job \<times> receipt) list \<Rightarrow> runtime \<Rightarrow> unit result \<times> runtime" where
  "dispatch_loop [] rt = (Inr (), rt)"
| "dispatch_loop ((k, jr) # rest) rt =
     (case dispatch_one jr rt of
        (Inl e, rt) \<Rightarrow> (Inl e, rt)
      | (Inr _, rt) \<Rightarrow> dispatch_loop rest rt)"

definition tick :: "runtime \<Rightarrow> unit result \<times> runtime" where
  "tick rt =
     (if rt_closed rt then (Inr (), rt)
      else case expire rt of
        (Inl e, rt) \<Rightarrow> (Inl e, rt)
      | (Inr _, rt) \<Rightarrow>
        let (now, rt) = read_now rt in
        case ready_scan now (list_jobs (tenant_of rt) [QUEUED] (rt_store rt)) [] rt of
          (Inl e, rt) \<Rightarrow> (Inl e, rt)
        | (Inr ready, rt) \<Rightarrow> dispatch_loop (sort_key fst ready) rt)"

section \<open>The task of a dispatched job\<close>

datatype failure = Failure (fail_code: string) (fail_termination_known: bool) (fail_not_sent: bool)

text \<open>\<^verbatim>\<open>BackendFailure\<close>: a request that was not sent has certainly terminated.\<close>

definition backend_failure :: "string \<Rightarrow> bool \<Rightarrow> bool \<Rightarrow> failure" where
  "backend_failure code termination_known not_sent = Failure code (termination_known \<or> not_sent) not_sent"

text \<open>Any other exception: its class name, nothing known about the remote work.\<close>

definition other_exception :: "string \<Rightarrow> failure" where
  "other_exception class_name = Failure class_name False False"

fun exception_name :: "py_error \<Rightarrow> string" where
  "exception_name (ValueError _) = ''ValueError''"
| "exception_name (PermissionError _) = ''PermissionError''"
| "exception_name (KeyError _) = ''KeyError''"
| "exception_name (RuntimeError _) = ''RuntimeError''"
| "exception_name (TimeoutError _) = ''TimeoutError''"
| "exception_name RecursionError = ''RecursionError''"
| "exception_name (IntegrityError _) = ''IntegrityError''"
| "exception_name (JSONDecodeError _) = ''JSONDecodeError''"
| "exception_name (TypeError _) = ''TypeError''"
| "exception_name (AttributeError _) = ''AttributeError''"
| "exception_name (IndexError _) = ''IndexError''"
| "exception_name (OverflowError _) = ''OverflowError''"
| "exception_name (UnicodeError _) = ''UnicodeDecodeError''"
| "exception_name (HTTPError _) = ''HTTPStatusError''"
| "exception_name (FileExistsError _) = ''FileExistsError''"
| "exception_name (ZeroDivisionError _) = ''ZeroDivisionError''"
| "exception_name (FileNotFoundError _) = ''FileNotFoundError''"
| "exception_name (AssertionError _) = ''AssertionError''"

text \<open>The \<^verbatim>\<open>finally\<close> clause, and the done callback that forgets the task.\<close>

definition release_task :: "string \<Rightarrow> task \<Rightarrow> runtime \<Rightarrow> runtime" where
  "release_task jid t rt =
     rt\<lparr>rt_pool_use := use_add (ep_pool (task_endpoint t)) (- 1) (rt_pool_use rt),
        rt_endpoint_use := use_add (ep_id (task_endpoint t)) (- 1) (rt_endpoint_use rt),
        rt_running := AList.delete jid (rt_running rt)\<rparr>"

text \<open>The \<^verbatim>\<open>except BaseException\<close> clause; the job's row is looked up after the settlement.\<close>

definition fail_task :: "string \<Rightarrow> task \<Rightarrow> failure \<Rightarrow> runtime \<Rightarrow> runtime" where
  "fail_task jid t f rt =
     (let j = task_job t;
          rt = on_store (settle j (if fail_not_sent f then Some zero_cost else None)) rt;
          rt = (if fail_not_sent f then emit_now ''backend_not_sent''
                  [(''job_id'', JStr (job_id j)), (''reason'', JStr (fail_code f))] rt else rt)
      in case get_job (job_tenant j) (job_id j) (rt_store rt) of
           Inl e \<Rightarrow> release_task jid t rt
         | Inr (_, old) \<Rightarrow>
           let state = (if rc_state old \<noteq> RUNNING then rc_state old
                        else if fail_termination_known f then FAILED else UNKNOWN);
               (now, rt) = read_now rt;
               rt = snd (set_state j (old\<lparr>rc_completed_ns := Some now\<rparr>) state (Some (fail_code f)) rt);
               rt = (if fail_termination_known f then rt
                     else emit_now ''pool_quarantined''
                       [(''pool'', JStr (ep_pool (task_endpoint t))), (''job_id'', JStr (job_id j))]
                       (on_store (quarantine (ep_pool (task_endpoint t)) ''unconfirmed_backend_termination'') rt))
           in release_task jid t rt)"

text \<open>From the start of the coroutine to the backend call: the check immediately before dispatch.\<close>

definition task_begin :: "string \<Rightarrow> runtime \<Rightarrow> runtime" where
  "task_begin jid rt =
     (case map_of (rt_running rt) jid of
        None \<Rightarrow> rt
      | Some t \<Rightarrow>
        if task_begun t then rt
        else let j = task_job t in
        case get_session (job_tenant j) (job_session_id j) (rt_store rt) of
          Inl e \<Rightarrow> fail_task jid t (other_exception (exception_name e)) rt
        | Inr current \<Rightarrow>
          let (now, rt) = read_now rt in
          (case invalid_reason j current now (clock_id_of rt) of
             None \<Rightarrow> rt\<lparr>rt_running := AList.update jid (t\<lparr>task_begun := True\<rparr>) (rt_running rt)\<rparr>
           | Some reason \<Rightarrow>
             let rt = on_store (settle j (Some zero_cost)) rt in
             (case get_job (job_tenant j) (job_id j) (rt_store rt) of
                Inl e \<Rightarrow> fail_task jid t (other_exception (exception_name e)) rt
              | Inr (_, old) \<Rightarrow>
                let rt = snd (set_state j old (lapse_state reason) (Some reason) rt);
                    rt = emit_now ''not_sent_after_dispatch_check'' [(''job_id'', JStr (job_id j))] rt
                in release_task jid t rt)))"

text \<open>The backend returned a prediction (an object that is not one is a failure with known end).\<close>

definition first_content_bad :: "receipt \<Rightarrow> prediction \<Rightarrow> int \<Rightarrow> bool" where
  "first_content_bad old p now =
     (case pred_first_content_ns p of None \<Rightarrow> False
      | Some f \<Rightarrow> \<not> ((case rc_started_ns old of None \<Rightarrow> False | Some s \<Rightarrow> s \<le> f) \<and> f \<le> now))"

definition finished_receipt :: "receipt \<Rightarrow> job_state \<Rightarrow> string option \<Rightarrow> prediction \<Rightarrow> int \<Rightarrow> receipt" where
  "finished_receipt old state reason p now =
     old\<lparr>rc_state := state, rc_reason := reason, rc_completed_ns := Some now, rc_computed_ns := Some now,
         rc_prediction_json := Some (pred_payload_json p), rc_usage := Some (pred_usage p),
         rc_first_content_ns := pred_first_content_ns p,
         rc_provider_request_id := pred_provider_request_id p\<rparr>"

definition finish_outcome :: "receipt \<Rightarrow> string option \<Rightarrow> job_state \<times> string option" where
  "finish_outcome old reason =
     (if rc_state old \<noteq> RUNNING then (rc_state old, rc_reason old)
      else case reason of Some x \<Rightarrow> (lapse_state x, reason) | None \<Rightarrow> (SUCCEEDED, None))"

definition elapsed_json :: "int \<Rightarrow> int option \<Rightarrow> json" where
  "elapsed_json later earlier = (case earlier of None \<Rightarrow> JNull | Some x \<Rightarrow> JInt (later - x))"

definition task_complete :: "string \<Rightarrow> prediction \<Rightarrow> runtime \<Rightarrow> runtime" where
  "task_complete jid p rt =
     (case map_of (rt_running rt) jid of
        None \<Rightarrow> rt
      | Some t \<Rightarrow>
        if \<not> task_begun t then rt
        else let j = task_job t; (now, rt) = read_now rt in
        case get_job (job_tenant j) (job_id j) (rt_store rt) of
          Inl e \<Rightarrow> fail_task jid t (other_exception (exception_name e)) rt
        | Inr (_, old) \<Rightarrow>
          if first_content_bad old p now
          then fail_task jid t (backend_failure ''invalid_first_content_clock'' True False) rt
          else let rt = on_store (settle j (Some (pred_usage p))) rt in
          case get_session (job_tenant j) (job_session_id j) (rt_store rt) of
            Inl e \<Rightarrow> fail_task jid t (other_exception (exception_name e)) rt
          | Inr s \<Rightarrow>
            let (state, reason) = finish_outcome old (invalid_reason j s now (clock_id_of rt));
                rt = on_store (set_receipt (job_tenant j) (finished_receipt old state reason p now)) rt;
                rt = (if state = SUCCEEDED
                      then rt\<lparr>rt_cache := cache_put (rt_cache rt) (task_key t) (pred_payload_json p) now\<rparr> else rt);
                rt = emit now ''completed''
                  [(''job_id'', JStr (job_id j)), (''state'', JStr (state_value state)),
                   (''queue_ns'', (case rc_started_ns old of None \<Rightarrow> JNull | Some x \<Rightarrow> JInt (x - rc_submitted_ns old))),
                   (''backend_roundtrip_ns'', elapsed_json now (rc_started_ns old)),
                   (''first_content_ns'', opt_json JInt (pred_first_content_ns p)),
                   (''deadline_met'', JBool (state = SUCCEEDED)),
                   (''cost_microusd'', opt_json JInt (cost_microusd (pred_usage p)))] rt
            in release_task jid t rt)"

text \<open>The backend call raised, timed out or was cancelled.\<close>

definition task_fail :: "string \<Rightarrow> failure \<Rightarrow> runtime \<Rightarrow> runtime" where
  "task_fail jid f rt =
     (case map_of (rt_running rt) jid of
        None \<Rightarrow> rt
      | Some t \<Rightarrow> if task_begun t then fail_task jid t f rt else rt)"

section \<open>Delivery\<close>

definition cancel :: "string \<Rightarrow> runtime \<Rightarrow> receipt result \<times> runtime" where
  "cancel jid rt =
     (case get_job (tenant_of rt) jid (rt_store rt) of
        Inl e \<Rightarrow> (Inl e, rt)
      | Inr (j, r) \<Rightarrow>
          if rc_state r \<in> {QUEUED, RUNNING, SUCCEEDED}
          then (let (r, rt) = set_state j r CANCELLED (Some ''consumer_cancelled'') rt in (Inr r, rt))
          else (Inr r, rt))"

definition job_result :: "string \<Rightarrow> runtime \<Rightarrow> receipt result" where
  "job_result jid rt = rbind (get_job (tenant_of rt) jid (rt_store rt)) (\<lambda>(_, r). Inr r)"

definition max_opt :: "int list \<Rightarrow> int option" where
  "max_opt xs = (case xs of [] \<Rightarrow> None | y # ys \<Rightarrow> Some (fold max ys y))"

text \<open>The ages of the current observations, each with a reading of its own.\<close>

fun read_ages :: "observation list \<Rightarrow> runtime \<Rightarrow> int list \<times> runtime" where
  "read_ages [] rt = ([], rt)"
| "read_ages (o' # os) rt =
     (if obs_role o' = ROLE_CURRENT then
        (let (now, rt) = read_now rt; (ages, rt) = read_ages os rt
         in ((now - obs_capture_ns o' + obs_uncertainty_ns o') # ages, rt))
      else read_ages os rt)"

text \<open>
  \<^verbatim>\<open>consume\<close>: of the rebuilt receipt only the consumer ID is new, so it is the only field whose
  constraint can fail.
\<close>

definition consume :: "string \<Rightarrow> string \<Rightarrow> runtime \<Rightarrow> receipt result \<times> runtime" where
  "consume jid consumer rt =
     (case get_job (tenant_of rt) jid (rt_store rt) of
        Inl e \<Rightarrow> (Inl e, rt)
      | Inr (j, r) \<Rightarrow>
        (case get_session (job_tenant j) (job_session_id j) (rt_store rt) of
           Inl e \<Rightarrow> (Inl e, rt)
         | Inr s \<Rightarrow>
           let (now, rt) = read_now rt in
           (case invalid_reason j s now (clock_id_of rt) of
              Some reason \<Rightarrow> (Inl (PermissionError (''Consumption rejected: '' @ reason)), rt)
            | None \<Rightarrow>
              if rc_state r \<notin> {SUCCEEDED, CONSUMED} then (Inl (PermissionError ''No acceptable result''), rt)
              else case rc_consumed_by r of
                Some c \<Rightarrow>
                  (if c \<noteq> consumer
                   then (Inl (PermissionError ''Result already claimed by another consumer''), rt) else (Inr r, rt))
              | None \<Rightarrow>
                let (now, rt) = read_now rt in
                if \<not> is_name consumer then (Inl (ValueError field_error), rt)
                else
                  let done = r\<lparr>rc_state := CONSUMED, rc_consumed_by := Some consumer, rc_consumed_ns := Some now\<rparr>;
                      rt = on_store (set_receipt (job_tenant j) done) rt;
                      (now, rt) = read_now rt; (ages, rt) = read_ages (job_observations j) rt
                  in (Inr done, emit now ''consumed''
                        [(''job_id'', JStr (job_id j)), (''consumer_id'', JStr consumer),
                         (''max_current_age_ns'', opt_json JInt (max_opt ages)),
                         (''action_authorized'', JBool False)] rt))))"

definition record_outcome :: "string \<Rightarrow> string \<Rightarrow> string \<Rightarrow> string \<Rightarrow> runtime \<Rightarrow> unit result \<times> runtime" where
  "record_outcome jid consumer outcome evidence rt =
     (case job_result jid rt of
        Inl e \<Rightarrow> (Inl e, rt)
      | Inr r \<Rightarrow>
        if rc_consumed_by r \<noteq> Some consumer \<or> outcome \<notin> {''accepted'', ''executed'', ''rejected'', ''unknown''}
        then (Inl (PermissionError ''Outcome requires the claiming consumer and declared outcome type''), rt)
        else if evidence = [] \<or> 256 < length evidence
        then (Inl (ValueError ''External evidence reference required''), rt)
        else (Inr (), emit_now ''consumer_reported_outcome''
               [(''job_id'', JStr jid), (''outcome'', JStr outcome), (''evidence_ref'', JStr evidence),
                (''independently_verified'', JBool False)] rt))"

section \<open>Waiting and shutdown\<close>

text \<open>
  One turn of the \<^verbatim>\<open>wait\<close> loop: \<open>Inr (Some r)\<close> returns, \<open>Inr None\<close> sleeps and goes round again;
  \<open>elapsed\<close> says that the client's timeout has passed on the event loop's clock.
\<close>

definition wait_turn :: "string \<Rightarrow> bool \<Rightarrow> runtime \<Rightarrow> receipt option result \<times> runtime" where
  "wait_turn jid elapsed rt =
     (case tick rt of
        (Inl e, rt) \<Rightarrow> (Inl e, rt)
      | (Inr _, rt) \<Rightarrow>
        (case get_job (tenant_of rt) jid (rt_store rt) of
           Inl e \<Rightarrow> (Inl e, rt)
         | Inr (j, r) \<Rightarrow>
           if rc_state r \<notin> {QUEUED, RUNNING} then (Inr (Some r), rt)
           else
             let eligible = eligible_endpoints (rt_config rt) j in
             if rc_state r = QUEUED \<and> eligible \<noteq> [] \<and>
                list_all (\<lambda>e. ep_pool e \<in> set (quarantined (rt_store rt))) eligible
             then (Inl (RuntimeError ''Job blocked: all eligible endpoint pools are quarantined''), rt)
             else if elapsed
             then (Inl (TimeoutError ''Client wait elapsed; work may still run, call cancel explicitly''), rt)
             else (Inr None, rt)))"

text \<open>\<^verbatim>\<open>close\<close>: queued work is cancelled first; tasks still pending after the drain are cancelled.\<close>

definition close_queue :: "runtime \<Rightarrow> runtime" where
  "close_queue rt =
     fold (\<lambda>(j, r) rt. snd (set_state j r CANCELLED (Some ''coordinator_shutdown'') rt))
       (list_jobs (tenant_of rt) [QUEUED] (rt_store rt)) (rt\<lparr>rt_closed := True\<rparr>)"

definition close_tasks :: "runtime \<Rightarrow> runtime" where
  "close_tasks rt =
     emit_now ''coordinator_stopped''
       [(''unconfirmed_pools'', JList (map JStr (quarantined (rt_store
          (fold (\<lambda>jid. task_fail jid (other_exception ''CancelledError'')) (map fst (rt_running rt)) rt)))))]
       (fold (\<lambda>jid. task_fail jid (other_exception ''CancelledError'')) (map fst (rt_running rt)) rt)"

definition close_begin :: "runtime \<Rightarrow> runtime" where
  "close_begin rt = (if rt_closed rt then rt else close_queue rt)"

end
