(* ===== verification/Samples.thy ===== *)
theory Samples
  imports Config
begin

text \<open>
  One small deployment, shared by the instances that show the hypotheses of the properties can
  hold: an open session, a historical query and a current-state job in it, a priced endpoint with
  one slot, and the configuration that names them.
\<close>

definition sample_sha :: string where
  "sample_sha = replicate 64 (CHR ''0'')"

definition sample_observation :: observation where
  "sample_observation = \<lparr>obs_id = ''o1'', obs_source = ''cam'', obs_sequence = 1, obs_sha256 = sample_sha,
     obs_capture_ns = 5, obs_available_ns = 6, obs_uncertainty_ns = 2, obs_role = ROLE_CURRENT,
     obs_source_time = None\<rparr>"

definition sample_session :: session where
  "sample_session = \<lparr>session_tenant = ''t'', session_id = ''s'', session_epoch = 0,
     session_task_revision = ''r0'', session_clock_id = ''clk'', session_state = ACTIVE,
     session_updated_ns = 1, session_buffer_until_ns = None\<rparr>"

definition sample_job :: job where
  "sample_job = \<lparr>job_id = ''j1'', job_tenant = ''t'', job_session_id = ''s'', job_epoch = 0,
     job_task_revision = ''r0'', job_clock_id = ''clk'', job_model = ''m'', job_operation = ''op'',
     job_workload = QUERY, job_result_kind = HISTORICAL, job_observations = [], job_snapshot_ns = 10,
     job_deadline_ns = 1000, job_max_age_ns = None, job_max_uncertainty_ns = 0, job_priority = 1,
     job_allowed_sites = [''local''], job_dependencies = [], job_payload_json = ''{}'', job_replace_key = None,
     job_discardable = False, job_cacheable = False\<rparr>"

definition sample_current_job :: job where
  "sample_current_job = sample_job\<lparr>job_id := ''j2'', job_workload := SEMANTIC, job_result_kind := CURRENT,
     job_observations := [sample_observation], job_max_age_ns := Some 500, job_max_uncertainty_ns := 3\<rparr>"

definition sample_endpoint :: endpoint where
  "sample_endpoint = \<lparr>ep_id = ''e1'', ep_model = ''m'', ep_pool = ''p'', ep_site = ''local'', ep_kind = MOCK,
     ep_url = None, ep_credential_env = None, ep_model_name = ''fixture'', ep_model_version = None,
     ep_response_model_required = True, ep_service_p95_ns = 10, ep_transport_p95_ns = 0, ep_margin_ns = 5,
     ep_timeout_s = Dec 3 1, ep_max_inflight = 1, ep_reserve_microusd = 60, ep_externally_billed = False,
     ep_input_per_million_microusd = None, ep_cached_per_million_microusd = None,
     ep_output_per_million_microusd = None, ep_stream = False, ep_max_output_tokens = 256,
     ep_max_response_bytes = 2000000, ep_extra_body_json = ''{}''\<rparr>"

definition sample_model :: model_contract where
  "sample_model = \<lparr>mc_alias = ''m'', mc_weights = ''w'', mc_preprocessing = ''p'', mc_output_schema = ''o'',
     mc_sampling = ''g'', mc_stateful = False\<rparr>"

definition sample_pool :: pool where
  "sample_pool = \<lparr>pool_id = ''p'', pool_slots = 1\<rparr>"

definition sample_config :: runtime_config where
  "sample_config = \<lparr>cfg_tenant = ''t'', cfg_campaign = ''c'', cfg_max_attempts = 2, cfg_max_microusd = 100,
     cfg_max_queue = 4, cfg_max_jobs = 8, cfg_scheduler = ''slack'', cfg_placement = ''fastest'',
     cfg_cache_entries = 4, cfg_cache_bytes = 1000, cfg_cache_ttl_ns = 50, cfg_pools = [sample_pool],
     cfg_models = [sample_model], cfg_endpoints = [sample_endpoint]\<rparr>"

lemmas sample_defs = sample_sha_def sample_observation_def sample_session_def sample_job_def
  sample_current_job_def sample_endpoint_def sample_model_def sample_pool_def sample_config_def

text \<open>The empty object is its own payload.\<close>

lemma empty_object_loads: "json_loads True ''{}'' = Inr (JObj [])"
  by code_simp

lemma empty_object: "2 \<le> n \<Longrightarrow> strict_json n ''{}'' = Inr []"
  by (simp add: strict_json_Inr_iff empty_object_loads utf8_len_def)

lemma empty_payload: "payload_object ''{}'' = Inr ''{}''"
proof -
  have "canonical (JObj []) = Inr ''{}''" by code_simp
  then show ?thesis by (simp add: payload_object_def empty_object payload_limit_def)
qed

lemma sample_job_valid: "validate_job sample_job = Inr sample_job"
proof -
  have "job_fields_ok sample_job"
    by (simp add: sample_job_def job_fields_ok_def is_name_def is_alnum_def is_name_char_def is_ns_def)
  then show ?thesis
    by (auto simp: validate_job_def sample_job_def empty_payload job_guards_def Let_def rbind_Inr_iff)
qed

lemma sample_observation_valid: "is_ok (validate_observation sample_observation)"
  by (simp add: validate_observation_def sample_observation_def sample_sha_def is_sha_def is_name_def is_alnum_def
      is_name_char_def is_ns_def is_hex_lower_def list_all_iff)

lemma sample_current_job_valid: "validate_job sample_current_job = Inr sample_current_job"
proof -
  have "job_fields_ok sample_current_job"
    by (simp add: sample_current_job_def sample_job_def job_fields_ok_def is_name_def is_alnum_def is_name_char_def
        is_ns_def sample_observation_valid)
  then show ?thesis
    by (auto simp: validate_job_def sample_current_job_def sample_job_def sample_observation_def empty_payload
        job_guards_def Let_def rbind_Inr_iff)
qed

lemma sample_endpoint_valid: "validate_endpoint sample_endpoint = Inr sample_endpoint"
proof -
  have "endpoint_fields_ok sample_endpoint"
    by (simp add: sample_endpoint_def endpoint_fields_ok_def is_name_def is_alnum_def is_name_char_def is_ns_def)
  then show ?thesis
    by (auto simp: validate_endpoint_def sample_endpoint_def url_guards_def empty_object Let_def rbind_Inr_iff)
qed

lemma sample_config_valid: "validate_config sample_config = Inr sample_config"
proof -
  have "is_ok (validate_model_contract sample_model)" "is_ok (validate_pool sample_pool)"
    by (simp_all add: sample_model_def sample_pool_def validate_model_contract_def validate_pool_def bounded_text_def
        is_name_def is_alnum_def is_name_char_def)
  then have "config_fields_ok sample_config"
    by (simp add: sample_config_def config_fields_ok_def is_name_def is_alnum_def is_name_char_def is_ns_def
        sample_endpoint_valid)
  then show ?thesis
    by (auto simp: validate_config_def sample_config_def sample_pool_def sample_model_def sample_endpoint_def
        reference_guards_def registry_bad_def)
qed

end
