(* ===== verification/Ledger_Facts.thy ===== *)
theory Ledger_Facts
  imports Ledger_Store Samples
begin

text \<open>
  What the journal guarantees: its rows are keyed and consistent, the admission total never
  passes the cap by more than the charges that overran their own quotes, reconciliation is all
  or nothing, and a restart leaves no live work behind.
\<close>

named_theorems ledger "how each operation of the journal reads back"

section \<open>Rows by key\<close>

definition row_key :: "job_row \<Rightarrow> string \<times> string" where
  "row_key r = (row_tenant r, row_id r)"

definition at_key :: "attempt \<Rightarrow> string \<times> string" where
  "at_key a = (at_tenant a, at_job a)"

definition row_ok :: "job_row \<Rightarrow> bool" where
  "row_ok r \<longleftrightarrow> row_tenant r = job_tenant (row_body r) \<and> row_id r = job_id (row_body r) \<and>
     rc_job_id (row_receipt r) = row_id r \<and> row_state r = rc_state (row_receipt r)"

definition attempt_ok :: "attempt \<Rightarrow> bool" where
  "attempt_ok a \<longleftrightarrow> (at_disposition a = SETTLED \<longleftrightarrow> at_actual a \<noteq> None)"

definition store_ok :: "store \<Rightarrow> bool" where
  "store_ok st \<longleftrightarrow>
     distinct (map row_key (st_jobs st)) \<and> (\<forall>r \<in> set (st_jobs st). row_ok r) \<and>
     distinct (map at_key (st_attempts st)) \<and> (\<forall>a \<in> set (st_attempts st). attempt_ok a) \<and>
     distinct (map fst (st_sessions st)) \<and>
     (\<forall>(k, s) \<in> set (st_sessions st). k = (session_tenant s, session_id s))"

lemma find_job_key: "find_job t i st = find (\<lambda>r. row_key r = (t, i)) (st_jobs st)"
  by (simp add: find_job_def row_key_def)

lemma row_key_simp [simp]:
  "row_key \<lparr>row_tenant = t, row_id = i, row_body = b, row_receipt = r, row_state = s\<rparr> = (t, i)"
  by (simp add: row_key_def)

lemma at_key_simp [simp]:
  "at_key \<lparr>at_tenant = t, at_job = i, at_pool = p, at_endpoint = e, at_quote = q, at_actual = v,
     at_disposition = d\<rparr> = (t, i)"
  by (simp add: at_key_def)

lemma find_job_None_iff: "find_job t i st = None \<longleftrightarrow> (t, i) \<notin> row_key ` set (st_jobs st)"
  by (simp add: find_job_key find_key_None)

lemma find_attempt_key: "find_attempt t i st = find (\<lambda>a. at_key a = (t, i)) (st_attempts st)"
  by (simp add: find_attempt_def at_key_def)

lemma find_attempt_None_iff: "find_attempt t i st = None \<longleftrightarrow> (t, i) \<notin> at_key ` set (st_attempts st)"
  by (simp add: find_attempt_key find_key_None)

lemma find_job_Some_iff:
  "store_ok st \<Longrightarrow> find_job t i st = Some r \<longleftrightarrow> r \<in> set (st_jobs st) \<and> row_key r = (t, i)"
  by (simp add: find_job_key find_key_iff store_ok_def)

lemma find_job_ok:
  assumes "store_ok st" "find_job t i st = Some r"
  shows "row_ok r" "row_tenant r = t" "row_id r = i"
  using assms by (auto simp: find_job_Some_iff row_key_def) (simp add: store_ok_def)

lemma find_attempt_Some_iff:
  "store_ok st \<Longrightarrow> find_attempt t i st = Some a \<longleftrightarrow> a \<in> set (st_attempts st) \<and> at_key a = (t, i)"
  by (simp add: find_attempt_key find_key_iff store_ok_def)

lemma find_attempt_ok:
  assumes "store_ok st" "find_attempt t i st = Some a"
  shows "attempt_ok a" "at_tenant a = t" "at_job a = i"
  using assms by (auto simp: find_attempt_Some_iff at_key_def) (simp add: store_ok_def)

lemma list_jobs_iff:
  assumes "store_ok st"
  shows "(j, r) \<in> set (list_jobs t states st) \<longleftrightarrow>
    (\<exists>row. find_job t (job_id j) st = Some row \<and> row_body row = j \<and> row_receipt row = r \<and>
       (states = [] \<or> rc_state r \<in> set states))"
proof -
  have "row_id row = job_id (row_body row)" "row_state row = rc_state (row_receipt row)"
    if "row \<in> set (st_jobs st)" for row
    using assms that by (auto simp: store_ok_def row_ok_def)
  then show ?thesis
    by (force simp: list_jobs_def find_job_Some_iff [OF assms] row_key_def)
qed

lemma list_jobs_ids:
  assumes "store_ok st"
  shows "distinct (map (\<lambda>(j, r). job_id j) (list_jobs t states st))"
proof -
  let ?P = "\<lambda>r. row_tenant r = t \<and> (states = [] \<or> row_state r \<in> set states)"
  have "map (\<lambda>(j, r). job_id j) (list_jobs t states st) = map row_id (filter ?P (st_jobs st))"
    using assms by (auto simp: list_jobs_def store_ok_def row_ok_def)
  moreover have "distinct (map row_key (filter ?P (st_jobs st)))"
    using assms by (simp add: store_ok_def distinct_map_filter)
  then have "distinct (map row_id (filter ?P (st_jobs st)))"
    by (auto simp: distinct_map row_key_def inj_on_def)
  ultimately show ?thesis by simp
qed

section \<open>How the operations read back\<close>

lemma add_event_frame [simp]:
  "st_budget (add_event n k m st) = st_budget st" "st_tenant (add_event n k m st) = st_tenant st"
  "st_sessions (add_event n k m st) = st_sessions st" "st_jobs (add_event n k m st) = st_jobs st"
  "st_observations (add_event n k m st) = st_observations st"
  "st_attempts (add_event n k m st) = st_attempts st"
  "st_quarantines (add_event n k m st) = st_quarantines st"
  by (simp_all add: add_event_def)

lemma put_session_frame [simp]:
  "st_budget (put_session s st) = st_budget st" "st_tenant (put_session s st) = st_tenant st"
  "st_jobs (put_session s st) = st_jobs st" "st_observations (put_session s st) = st_observations st"
  "st_attempts (put_session s st) = st_attempts st" "st_quarantines (put_session s st) = st_quarantines st"
  "st_events (put_session s st) = st_events st"
  by (simp_all add: put_session_def)

lemma set_receipt_frame [simp]:
  "st_budget (set_receipt t r st) = st_budget st" "st_tenant (set_receipt t r st) = st_tenant st"
  "st_sessions (set_receipt t r st) = st_sessions st"
  "st_observations (set_receipt t r st) = st_observations st"
  "st_attempts (set_receipt t r st) = st_attempts st" "st_quarantines (set_receipt t r st) = st_quarantines st"
  "st_events (set_receipt t r st) = st_events st"
  by (simp_all add: set_receipt_def)

lemma update_attempts_frame [simp]:
  "st_budget (update_attempts t i f st) = st_budget st" "st_tenant (update_attempts t i f st) = st_tenant st"
  "st_sessions (update_attempts t i f st) = st_sessions st" "st_jobs (update_attempts t i f st) = st_jobs st"
  "st_observations (update_attempts t i f st) = st_observations st"
  "st_quarantines (update_attempts t i f st) = st_quarantines st"
  "st_events (update_attempts t i f st) = st_events st"
  by (simp_all add: update_attempts_def)

lemma quarantine_frame [simp]:
  "st_budget (quarantine p why st) = st_budget st" "st_tenant (quarantine p m st) = st_tenant st"
  "st_sessions (quarantine p why st) = st_sessions st" "st_jobs (quarantine p m st) = st_jobs st"
  "st_observations (quarantine p why st) = st_observations st"
  "st_attempts (quarantine p why st) = st_attempts st" "st_events (quarantine p m st) = st_events st"
  by (simp_all add: quarantine_def)

lemma settle_frame [simp]:
  "st_budget (settle j u st) = st_budget st" "st_tenant (settle j u st) = st_tenant st"
  "st_sessions (settle j u st) = st_sessions st" "st_jobs (settle j u st) = st_jobs st"
  "st_observations (settle j u st) = st_observations st"
  "st_quarantines (settle j u st) = st_quarantines st" "st_events (settle j u st) = st_events st"
  by (simp_all add: settle_def Let_def)

text \<open>Reading a job, an attempt or a session depends on one table only.\<close>

lemma find_job_cong: "st_jobs st = st_jobs st' \<Longrightarrow> find_job t i st = find_job t i st'"
  by (simp add: find_job_def)

lemma find_attempt_cong: "st_attempts st = st_attempts st' \<Longrightarrow> find_attempt t i st = find_attempt t i st'"
  by (simp add: find_attempt_def)

lemma get_session_cong: "st_sessions st = st_sessions st' \<Longrightarrow> get_session t i st = get_session t i st'"
  by (simp add: get_session_def)

lemma find_job_frame [ledger]:
  "find_job t i (add_event n k m st) = find_job t i st"
  "find_job t i (put_session s st) = find_job t i st"
  "find_job t i (update_attempts t' i' f st) = find_job t i st"
  "find_job t i (quarantine p why st) = find_job t i st"
  "find_job t i (settle j u st) = find_job t i st"
  by (simp_all add: find_job_def)

lemma find_attempt_frame [ledger]:
  "find_attempt t i (add_event n k m st) = find_attempt t i st"
  "find_attempt t i (put_session s st) = find_attempt t i st"
  "find_attempt t i (set_receipt t' r st) = find_attempt t i st"
  "find_attempt t i (quarantine p why st) = find_attempt t i st"
  by (simp_all add: find_attempt_def)

lemma get_session_frame [ledger]:
  "get_session t i (add_event n k m st) = get_session t i st"
  "get_session t i (set_receipt t' r st) = get_session t i st"
  "get_session t i (update_attempts t' i' f st) = get_session t i st"
  "get_session t i (quarantine p why st) = get_session t i st"
  "get_session t i (settle j u st) = get_session t i st"
  by (simp_all add: get_session_def)

lemma find_job_set_receipt:
  "find_job t i (set_receipt t' r st) =
    (if t = t' \<and> i = rc_job_id r then map_option (\<lambda>row. row\<lparr>row_receipt := r, row_state := rc_state r\<rparr>) (find_job t i st)
     else find_job t i st)"
  using find_key_update [of row_key "\<lambda>row. row\<lparr>row_receipt := r, row_state := rc_state r\<rparr>" "(t, i)" "(t', rc_job_id r)" "st_jobs st"]
  by (simp add: find_job_def set_receipt_def row_key_def)

lemma find_attempt_update [ledger]:
  assumes "\<And>a. at_key (f a) = at_key a"
  shows "find_attempt t i (update_attempts t' i' f st) =
    (if t = t' \<and> i = i' then map_option f (find_attempt t i st) else find_attempt t i st)"
  using find_key_update [of at_key f "(t, i)" "(t', i')" "st_attempts st"] assms
  by (simp add: find_attempt_def update_attempts_def at_key_def)

definition settled_as :: "int option \<Rightarrow> attempt \<Rightarrow> attempt" where
  "settled_as v a = a\<lparr>at_actual := v, at_disposition := (if v = None then UNSETTLED else SETTLED)\<rparr>"

definition charge_of :: "usage option \<Rightarrow> int option" where
  "charge_of u = (case u of None \<Rightarrow> None | Some u \<Rightarrow> cost_microusd u)"

lemma settle_alt: "settle j u st = update_attempts (job_tenant j) (job_id j) (settled_as (charge_of u)) st"
  by (simp add: settle_def Let_def settled_as_def [abs_def] charge_of_def)

lemma settled_as_key [simp]: "at_key (settled_as v a) = at_key a"
  by (simp add: settled_as_def at_key_def)

lemma settled_as_ok [simp]: "attempt_ok (settled_as v a)"
  by (simp add: settled_as_def attempt_ok_def)

lemma find_attempt_settle [ledger]:
  "find_attempt t i (settle j u st) =
    (if t = job_tenant j \<and> i = job_id j then map_option (settled_as (charge_of u)) (find_attempt t i st)
     else find_attempt t i st)"
  by (simp add: settle_alt find_attempt_update)

lemma get_session_put [ledger]:
  "get_session t i (put_session s st) =
    (if (t, i) = (session_tenant s, session_id s) then Inr s else get_session t i st)"
  by (auto simp: get_session_def put_session_def update_conv)

lemma get_job_Inr_iff:
  "get_job t i st = Inr (j, r) \<longleftrightarrow> (\<exists>row. find_job t i st = Some row \<and> row_body row = j \<and> row_receipt row = r)"
  by (auto simp: get_job_def split: option.splits)

lemma get_job_Inl_iff: "get_job t i st = Inl e \<longleftrightarrow> find_job t i st = None \<and> e = KeyError ''Unknown job''"
  by (auto simp: get_job_def split: option.splits)

section \<open>Consistency is kept\<close>

lemma set_update_cases: "kv \<in> set (AList.update k v al) \<Longrightarrow> kv = (k, v) \<or> kv \<in> set al"
  by (induction al) (auto split: if_splits)

named_theorems store_keep "operations that keep the journal consistent"

lemma store_ok_cong:
  "st_jobs st = st_jobs st' \<Longrightarrow> st_attempts st = st_attempts st' \<Longrightarrow> st_sessions st = st_sessions st' \<Longrightarrow>
   store_ok st = store_ok st'"
  by (simp add: store_ok_def)

lemma store_ok_empty [store_keep]: "store_ok (empty_store cfg)"
  by (simp add: store_ok_def empty_store_def)

lemma store_ok_add_event [store_keep]: "store_ok (add_event n k m st) = store_ok st"
  by (rule store_ok_cong) simp_all

lemma store_ok_quarantine [store_keep]: "store_ok (quarantine p why st) = store_ok st"
  by (rule store_ok_cong) simp_all

lemma store_ok_put_session [store_keep]: "store_ok st \<Longrightarrow> store_ok (put_session s st)"
  unfolding store_ok_def put_session_def
  by (simp add: distinct_update) (blast dest: set_update_cases)

lemma store_ok_set_receipt [store_keep]:
  assumes "store_ok st"
  shows "store_ok (set_receipt t r st)"
proof -
  let ?f = "\<lambda>row. row\<lparr>row_receipt := r, row_state := rc_state r\<rparr>"
  have "st_jobs (set_receipt t r st) =
      map (\<lambda>row. if row_key row = (t, rc_job_id r) then ?f row else row) (st_jobs st)"
    by (simp add: set_receipt_def row_key_def)
  moreover have "row_key (?f row) = row_key row" for row by (simp add: row_key_def)
  ultimately have "map row_key (st_jobs (set_receipt t r st)) = map row_key (st_jobs st)"
    by (simp only: update_keys)
  moreover have "\<forall>row \<in> set (st_jobs (set_receipt t r st)). row_ok row"
    using assms by (auto simp: store_ok_def set_receipt_def row_ok_def)
  ultimately show ?thesis
    using assms by (simp add: store_ok_def)
qed

lemma store_ok_update_attempts:
  assumes "store_ok st" "\<And>a. at_key (f a) = at_key a" "\<And>a. attempt_ok a \<Longrightarrow> at_key a = (t, i) \<Longrightarrow>
    find_attempt t i st = Some a \<Longrightarrow> attempt_ok (f a)"
  shows "store_ok (update_attempts t i f st)"
proof -
  have eq: "st_attempts (update_attempts t i f st) =
      map (\<lambda>a. if at_key a = (t, i) then f a else a) (st_attempts st)"
    by (simp add: update_attempts_def at_key_def)
  then have "map at_key (st_attempts (update_attempts t i f st)) = map at_key (st_attempts st)"
    by (simp only: update_keys assms(2))
  moreover have "\<forall>a \<in> set (st_attempts (update_attempts t i f st)). attempt_ok a"
    using assms(1,3) find_attempt_Some_iff [OF assms(1), of t i] unfolding eq
    by (auto simp: store_ok_def)
  ultimately show ?thesis
    using assms(1) by (simp add: store_ok_def)
qed

lemma store_ok_settle [store_keep]: "store_ok st \<Longrightarrow> store_ok (settle j u st)"
  by (simp add: settle_alt store_ok_update_attempts)

lemma add_job_Inr_iff:
  "add_job j r st = Inr st' \<longleftrightarrow> find_job (job_tenant j) (job_id j) st = None \<and>
    (\<exists>tab. add_observations (job_tenant j) (job_session_id j) (job_observations j) (st_observations st) = Inr tab \<and>
      st' = st\<lparr>st_observations := tab, st_jobs := st_jobs st @
        [\<lparr>row_tenant = job_tenant j, row_id = job_id j, row_body = j, row_receipt = r, row_state = rc_state r\<rparr>]\<rparr>)"
  by (auto simp: add_job_def rbind_Inr_iff)

lemma add_job_frame:
  assumes "add_job j r st = Inr st'"
  shows "st_budget st' = st_budget st" "st_tenant st' = st_tenant st" "st_sessions st' = st_sessions st"
    "st_attempts st' = st_attempts st" "st_quarantines st' = st_quarantines st" "st_events st' = st_events st"
  using assms by (auto simp: add_job_Inr_iff)

lemma find_job_add:
  assumes "add_job j r st = Inr st'"
  shows "find_job t i st' =
    (if t = job_tenant j \<and> i = job_id j
     then Some \<lparr>row_tenant = job_tenant j, row_id = job_id j, row_body = j, row_receipt = r, row_state = rc_state r\<rparr>
     else find_job t i st)"
  using assms by (auto simp: add_job_Inr_iff find_job_def find_snoc split: option.splits)

lemma store_ok_add_job:
  assumes "store_ok st" "add_job j r st = Inr st'" "rc_job_id r = job_id j"
  shows "store_ok st'"
  using assms
  by (auto simp: add_job_Inr_iff store_ok_def row_ok_def find_job_None_iff)

lemma reserve_Inr_iff:
  "reserve j ep now st = Inr st' \<longleftrightarrow>
     int (length (st_attempts st)) < bc_max_attempts (st_budget st) \<and>
     known (st_attempts st) + held (st_attempts st) + ep_reserve_microusd ep \<le> bc_max_microusd (st_budget st) \<and>
     find_attempt (job_tenant j) (job_id j) st = None \<and>
     st' = add_event now ''attempt_reserved''
             [(''job_id'', JStr (job_id j)), (''endpoint'', JStr (ep_id ep)),
              (''quote_microusd'', JInt (ep_reserve_microusd ep))]
             (st\<lparr>st_attempts := st_attempts st @
                [\<lparr>at_tenant = job_tenant j, at_job = job_id j, at_pool = ep_pool ep, at_endpoint = ep_id ep,
                  at_quote = ep_reserve_microusd ep, at_actual = None, at_disposition = RESERVED\<rparr>]\<rparr>)"
  by (auto simp: reserve_def budget_def Let_def)

lemma reserve_frame:
  assumes "reserve j ep now st = Inr st'"
  shows "st_budget st' = st_budget st" "st_tenant st' = st_tenant st" "st_sessions st' = st_sessions st"
    "st_jobs st' = st_jobs st" "st_quarantines st' = st_quarantines st"
  using assms by (auto simp: reserve_Inr_iff)

lemma find_attempt_reserve:
  assumes "reserve j ep now st = Inr st'"
  shows "find_attempt t i st' =
    (if t = job_tenant j \<and> i = job_id j
     then Some \<lparr>at_tenant = job_tenant j, at_job = job_id j, at_pool = ep_pool ep, at_endpoint = ep_id ep,
                at_quote = ep_reserve_microusd ep, at_actual = None, at_disposition = RESERVED\<rparr>
     else find_attempt t i st)"
  using assms
  by (auto simp: reserve_Inr_iff find_attempt_def find_snoc add_event_def split: option.splits)

lemma store_ok_reserve:
  assumes "store_ok st" "reserve j ep now st = Inr st'"
  shows "store_ok st'"
  using assms
  by (auto simp: reserve_Inr_iff store_ok_def attempt_ok_def find_attempt_None_iff)

section \<open>Amounts\<close>

definition weight :: "attempt \<Rightarrow> int" where
  "weight a = (case at_actual a of None \<Rightarrow> at_quote a | Some n \<Rightarrow> n)"

text \<open>How far a known charge passed its own quote.\<close>

definition overrun :: "attempt \<Rightarrow> int" where
  "overrun a = (case at_actual a of None \<Rightarrow> 0 | Some n \<Rightarrow> max 0 (n - at_quote a))"

definition admitted :: "store \<Rightarrow> int" where
  "admitted st = sum_list (map weight (st_attempts st))"

definition overruns :: "store \<Rightarrow> int" where
  "overruns st = sum_list (map overrun (st_attempts st))"

lemma known_held: "known rows + held rows = sum_list (map weight rows)"
  by (induction rows) (auto simp: known_def held_def weight_def split: option.splits)

lemma admission_total: "b_admission_total_microusd (budget st) = admitted st"
  by (simp add: budget_def Let_def known_held admitted_def)

lemma weight_overrun: "weight a - overrun a = (case at_actual a of None \<Rightarrow> at_quote a | Some n \<Rightarrow> min n (at_quote a))"
  by (auto simp: weight_def overrun_def split: option.splits)

lemma overrun_nonneg: "0 \<le> overrun a"
  by (simp add: overrun_def split: option.splits)

lemma overruns_nonneg: "0 \<le> overruns st"
  by (auto simp: overruns_def intro!: sum_list_nonneg overrun_nonneg)

lemma amounts_cong:
  "st_attempts st = st_attempts st' \<Longrightarrow> admitted st = admitted st'"
  "st_attempts st = st_attempts st' \<Longrightarrow> overruns st = overruns st'"
  by (simp_all add: admitted_def overruns_def)

lemma amount_update:
  fixes h :: "attempt \<Rightarrow> int"
  assumes "store_ok st" "find_attempt t i st = Some a"
  shows "sum_list (map h (st_attempts (update_attempts t i f st))) =
    sum_list (map h (st_attempts st)) - h a + h (f a)"
  using assms sum_update [of at_key "st_attempts st" "(t, i)" a h f]
  by (simp add: update_attempts_def store_ok_def find_attempt_key at_key_def)

lemma update_attempts_absent:
  assumes "find_attempt t i st = None"
  shows "update_attempts t i f st = st"
proof -
  have "map (\<lambda>a. if at_key a = (t, i) then f a else a) (st_attempts st) = st_attempts st"
    using assms by (intro update_absent) (simp add: find_attempt_key find_key_None)
  then show ?thesis by (simp add: update_attempts_def at_key_def)
qed

lemma admitted_settle:
  assumes "store_ok st"
  shows "admitted (settle j u st) - overruns (settle j u st) =
    (case find_attempt (job_tenant j) (job_id j) st of
       None \<Rightarrow> admitted st - overruns st
     | Some a \<Rightarrow> admitted st - overruns st - (weight a - overrun a) +
         (case charge_of u of None \<Rightarrow> at_quote a | Some n \<Rightarrow> min n (at_quote a)))"
proof (cases "find_attempt (job_tenant j) (job_id j) st")
  case None
  then show ?thesis by (simp add: settle_alt update_attempts_absent)
next
  case (Some a)
  have q: "at_quote (settled_as v a) = at_quote a" "at_actual (settled_as v a) = v" for v
    by (simp_all add: settled_as_def)
  show ?thesis
    using amount_update [OF assms Some, of weight] amount_update [OF assms Some, of overrun]
      weight_overrun [of "settled_as (charge_of u) a"]
    by (cases "charge_of u") (simp_all add: settle_alt admitted_def overruns_def Some q)
qed

section \<open>Reconciliation is all or nothing\<close>

definition entry_ok :: "entry \<Rightarrow> bool" where
  "entry_ok e = (case e of (jid, actual, evidence) \<Rightarrow>
     jid \<noteq> [] \<and> length jid \<le> 256 \<and> 0 \<le> actual \<and> evidence \<noteq> [] \<and> length evidence \<le> 1024)"

lemma entries_ok_iff:
  "entries_ok seen es = Inr u \<longleftrightarrow> list_all entry_ok es \<and> distinct (map fst es) \<and> set (map fst es) \<inter> set seen = {}"
  by (induction seen es rule: entries_ok.induct) (auto simp: entry_ok_def not_le not_less)

definition unresolved :: "string \<Rightarrow> store \<Rightarrow> string \<Rightarrow> bool" where
  "unresolved t st jid \<longleftrightarrow> (\<exists>a. find_attempt t jid st = Some a \<and> at_actual a = None)"

lemma unresolved_ok_iff: "unresolved_ok t st jids = Inr u \<longleftrightarrow> (\<forall>jid \<in> set jids. unresolved t st jid)"
  by (induction t st jids rule: unresolved_ok.induct) (auto simp: unresolved_def split: option.splits)

lemma open_count:
  assumes "store_ok st"
  shows "length (filter (\<lambda>a. at_tenant a = t \<and> at_job a = jid \<and> at_actual a = None) (st_attempts st)) = 1
    \<longleftrightarrow> unresolved t st jid"
proof -
  have d: "distinct (map at_key (st_attempts st))" using assms by (simp add: store_ok_def)
  have "length (filter (\<lambda>a. at_tenant a = t \<and> at_job a = jid \<and> at_actual a = None) xs) =
      (if \<exists>a. find (\<lambda>a. at_key a = (t, jid)) xs = Some a \<and> at_actual a = None then 1 else 0)"
    if "distinct (map at_key xs)" for xs
    using that
  proof (induction xs)
    case (Cons a xs)
    show ?case
    proof (cases "at_key a = (t, jid)")
      case True
      then have "(t, jid) \<notin> at_key ` set xs" using Cons.prems by auto
      then have "filter (\<lambda>a. at_tenant a = t \<and> at_job a = jid \<and> at_actual a = None) xs = []"
        by (auto simp: filter_empty_conv at_key_def)
      with True show ?thesis by (simp add: at_key_def)
    next
      case False
      then have "\<not> (at_tenant a = t \<and> at_job a = jid \<and> at_actual a = None)" by (auto simp: at_key_def)
      then have "filter (\<lambda>a. at_tenant a = t \<and> at_job a = jid \<and> at_actual a = None) (a # xs) =
          filter (\<lambda>a. at_tenant a = t \<and> at_job a = jid \<and> at_actual a = None) xs"
        by (simp only: filter.simps if_False)
      moreover have "find (\<lambda>a. at_key a = (t, jid)) (a # xs) = find (\<lambda>a. at_key a = (t, jid)) xs"
        using False by simp
      ultimately show ?thesis using Cons by (simp only: distinct.simps list.map simp_thms)
    qed
  qed simp
  from this [OF d] show ?thesis by (simp add: unresolved_def find_attempt_key)
qed

text \<open>What one entry does to the journal.\<close>

definition apply_entry :: "string \<Rightarrow> int \<Rightarrow> entry \<Rightarrow> store \<Rightarrow> store" where
  "apply_entry t now e st = (case e of (jid, actual, evidence) \<Rightarrow>
     add_event now ''charge_reconciled''
       [(''job_id'', JStr jid), (''actual_microusd'', JInt actual), (''evidence_ref'', JStr evidence)]
       (update_attempts t jid (settled_as (Some actual)) st))"

lemma apply_entry_frame [simp]:
  "st_budget (apply_entry t now e st) = st_budget st" "st_tenant (apply_entry t now e st) = st_tenant st"
  "st_sessions (apply_entry t now e st) = st_sessions st" "st_jobs (apply_entry t now e st) = st_jobs st"
  "st_observations (apply_entry t now e st) = st_observations st"
  "st_quarantines (apply_entry t now e st) = st_quarantines st"
  by (simp_all add: apply_entry_def split_beta)

lemma find_attempt_apply [ledger]:
  "find_attempt t i (apply_entry t' now e st) =
    (if t = t' \<and> i = fst e then map_option (settled_as (Some (fst (snd e)))) (find_attempt t i st)
     else find_attempt t i st)"
  by (simp add: apply_entry_def ledger split_beta)

lemma unresolved_apply: "i \<noteq> fst e \<Longrightarrow> unresolved t (apply_entry t' now e st) i = unresolved t st i"
  by (simp add: unresolved_def ledger)

lemma store_ok_apply [store_keep]: "store_ok st \<Longrightarrow> store_ok (apply_entry t now e st)"
  by (simp add: apply_entry_def store_keep store_ok_update_attempts split_beta)

lemma guarded_update:
  assumes "store_ok st" "unresolved t st jid"
  shows "update_attempts t jid
      (\<lambda>a. if at_actual a = None then a\<lparr>at_actual := Some n, at_disposition := SETTLED\<rparr> else a) st =
    update_attempts t jid (settled_as (Some n)) st"
proof -
  have "at_actual a = None" if "a \<in> set (st_attempts st)" "at_tenant a = t" "at_job a = jid" for a
  proof -
    have "find_attempt t jid st = Some a"
      using that by (simp add: find_attempt_Some_iff [OF assms(1)] at_key_def)
    with assms(2) show ?thesis by (simp add: unresolved_def)
  qed
  then show ?thesis by (simp add: update_attempts_def settled_as_def)
qed

lemma settle_entries_eq:
  assumes "store_ok st" "distinct (map fst es)" "\<forall>jid \<in> set (map fst es). unresolved t st jid"
  shows "settle_entries t now es st = Inr (fold (apply_entry t now) es st)"
  using assms
proof (induction es arbitrary: st)
  case (Cons e es)
  obtain jid n ev where e: "e = (jid, n, ev)" by (cases e) auto
  have u: "unresolved t st jid" using Cons.prems e by simp
  have "\<forall>i \<in> set (map fst es). unresolved t (apply_entry t now e st) i"
  proof
    fix i assume i: "i \<in> set (map fst es)"
    then have "i \<noteq> fst e" using Cons.prems(2) by (metis distinct.simps(2) list.simps(9))
    then show "unresolved t (apply_entry t now e st) i"
      using Cons.prems(3) i by (auto simp: unresolved_apply)
  qed
  then have "settle_entries t now es (apply_entry t now e st) = Inr (fold (apply_entry t now) (e # es) st)"
    using Cons by (simp add: store_keep)
  moreover have "settle_entries t now (e # es) st = settle_entries t now es (apply_entry t now e st)"
    using open_count [OF Cons.prems(1), of t jid] u guarded_update [OF Cons.prems(1) u, of n]
    by (simp add: e apply_entry_def)
  ultimately show ?case by simp
qed simp

lemma reconcile_many_eq:
  assumes "store_ok st"
  shows "reconcile_many t es now st = Inr st' \<longleftrightarrow>
    list_all entry_ok es \<and> distinct (map fst es) \<and> (\<forall>jid \<in> set (map fst es). unresolved t st jid) \<and>
    st' = fold (apply_entry t now) es st"
  using assms
  by (auto simp: reconcile_many_def rbind_Inr_iff entries_ok_iff unresolved_ok_iff settle_entries_eq)

lemma fold_apply_store_ok: "store_ok st \<Longrightarrow> store_ok (fold (apply_entry t now) es st)"
  by (induction es arbitrary: st) (simp_all add: store_keep)

lemma fold_apply_frame [simp]:
  "st_budget (fold (apply_entry t now) es st) = st_budget st"
  "st_tenant (fold (apply_entry t now) es st) = st_tenant st"
  "st_sessions (fold (apply_entry t now) es st) = st_sessions st"
  "st_jobs (fold (apply_entry t now) es st) = st_jobs st"
  "st_observations (fold (apply_entry t now) es st) = st_observations st"
  "st_quarantines (fold (apply_entry t now) es st) = st_quarantines st"
  by (induction es arbitrary: st) simp_all

lemma fold_apply_attempt:
  assumes "distinct (map fst es)"
  shows "find_attempt t' i (fold (apply_entry t now) es st) =
    (case map_of es i of
       Some (n, _) \<Rightarrow> if t' = t then map_option (settled_as (Some n)) (find_attempt t' i st) else find_attempt t' i st
     | None \<Rightarrow> find_attempt t' i st)"
  using assms
proof (induction es arbitrary: st)
  case (Cons e es)
  obtain jid n ev where e: "e = (jid, n, ev)" by (cases e) auto
  have "map_of es jid = None" using Cons.prems e by (force simp: map_of_eq_None_iff)
  then show ?case using Cons by (auto simp: e ledger split: option.splits)
qed simp

lemma apply_entry_amounts:
  assumes "store_ok st" "find_attempt t (fst e) st = Some a" "at_actual a = None"
  shows "admitted (apply_entry t now e st) = admitted st - at_quote a + fst (snd e)"
    "overruns (apply_entry t now e st) = overruns st + max 0 (fst (snd e) - at_quote a)"
proof -
  have q: "at_quote (settled_as v a) = at_quote a" "at_actual (settled_as v a) = v" for v
    by (simp_all add: settled_as_def)
  have atts: "st_attempts (apply_entry t now e st) =
      st_attempts (update_attempts t (fst e) (settled_as (Some (fst (snd e)))) st)"
    by (simp add: apply_entry_def split_beta)
  show "admitted (apply_entry t now e st) = admitted st - at_quote a + fst (snd e)"
    using amount_update [OF assms(1,2), of weight] assms(3) by (simp add: admitted_def atts weight_def q)
  show "overruns (apply_entry t now e st) = overruns st + max 0 (fst (snd e) - at_quote a)"
    using amount_update [OF assms(1,2), of overrun] assms(3) by (simp add: overruns_def atts overrun_def q)
qed

section \<open>Recovery\<close>

definition recovered :: "receipt \<Rightarrow> receipt" where
  "recovered r = r\<lparr>rc_state := (if rc_state r = RUNNING then UNKNOWN else CANCELLED),
     rc_reason := Some ''coordinator_restart''\<rparr>"

lemma recovered_id [simp]: "rc_job_id (recovered r) = rc_job_id r"
  by (simp add: recovered_def)

lemma recovered_state [simp]: "rc_state (recovered r) = (if rc_state r = RUNNING then UNKNOWN else CANCELLED)"
  by (simp add: recovered_def)

definition with_receipt :: "receipt \<Rightarrow> job_row \<Rightarrow> job_row" where
  "with_receipt r row = row\<lparr>row_receipt := r, row_state := rc_state r\<rparr>"

lemma with_receipt_simps [simp]:
  "row_tenant (with_receipt r row) = row_tenant row" "row_id (with_receipt r row) = row_id row"
  "row_body (with_receipt r row) = row_body row" "row_receipt (with_receipt r row) = r"
  "row_state (with_receipt r row) = rc_state r"
  "with_receipt r (with_receipt r' row) = with_receipt r row"
  by (simp_all add: with_receipt_def)

lemma find_job_receipt [ledger]:
  "find_job t i (set_receipt t' r st) =
    (if t = t' \<and> i = rc_job_id r then map_option (with_receipt r) (find_job t i st) else find_job t i st)"
  by (simp add: find_job_set_receipt with_receipt_def [abs_def])

definition release_in_flight :: "string \<Rightarrow> job \<times> receipt \<Rightarrow> store \<Rightarrow> store" where
  "release_in_flight t jr st =
     (if rc_state (snd jr) = RUNNING then
        (case find_attempt t (job_id (fst jr)) st of None \<Rightarrow> st
         | Some row \<Rightarrow> settle (fst jr) None (quarantine (at_pool row) ''restart_with_unconfirmed_remote_work'' st))
      else st)"

lemma recover_job_alt:
  "recover_job t now (j, r) st = add_event now ''recovery_invalidated''
     [(''job_id'', JStr (job_id j)), (''state'', JStr (state_value (rc_state (recovered r))))]
     (release_in_flight t (j, r) (set_receipt t (recovered r) st))"
  by (auto simp: recover_job_def release_in_flight_def recovered_def Let_def split: option.splits)

lemma release_in_flight_frame [simp]:
  "st_budget (release_in_flight t jr st) = st_budget st" "st_sessions (release_in_flight t jr st) = st_sessions st"
  "st_jobs (release_in_flight t jr st) = st_jobs st" "find_job t' i (release_in_flight t jr st) = find_job t' i st"
  by (auto simp: release_in_flight_def ledger split: option.splits)

lemma release_in_flight_attempt [ledger]:
  assumes "job_tenant (fst jr) = t"
  shows "find_attempt t' i (release_in_flight t jr st) =
    (if t' = t \<and> i = job_id (fst jr) \<and> rc_state (snd jr) = RUNNING
     then map_option (settled_as None) (find_attempt t' i st) else find_attempt t' i st)"
  using assms by (auto simp: release_in_flight_def ledger charge_of_def split: option.splits)

lemma store_ok_release_in_flight [store_keep]: "store_ok st \<Longrightarrow> store_ok (release_in_flight t jr st)"
  by (auto simp: release_in_flight_def store_keep split: option.splits)

lemma quarantined_quarantine [simp]: "set (quarantined (quarantine p why st)) = insert p (set (quarantined st))"
  by (simp add: quarantined_def quarantine_def dom_update)

lemma quarantined_frame [simp]:
  "quarantined (add_event n k m st) = quarantined st" "quarantined (set_receipt t r st) = quarantined st"
  "quarantined (settle j u st) = quarantined st" "quarantined (put_session s st) = quarantined st"
  "quarantined (update_attempts t i f st) = quarantined st"
  by (simp_all add: quarantined_def)

lemma release_in_flight_pools:
  "set (quarantined (release_in_flight t jr st)) = set (quarantined st) \<union>
     {at_pool a | a. rc_state (snd jr) = RUNNING \<and> find_attempt t (job_id (fst jr)) st = Some a}"
  by (auto simp: release_in_flight_def split: option.splits)

lemma store_ok_recover_job [store_keep]: "store_ok st \<Longrightarrow> store_ok (recover_job t now jr st)"
  by (cases jr) (simp add: recover_job_alt store_keep)

text \<open>The first loop, over live rows with distinct IDs.\<close>

lemma recover_jobs:
  assumes "distinct (map (\<lambda>(j, r). job_id j) jrs)"
    "\<forall>(j, r) \<in> set jrs. rc_job_id r = job_id j \<and> job_tenant j = t"
  shows "(\<forall>t' i. find_job t' i (fold (recover_job t now) jrs st) =
      (if t' = t then case map_of (map (\<lambda>(j, r). (job_id j, r)) jrs) i of
          None \<Rightarrow> find_job t i st | Some r \<Rightarrow> map_option (with_receipt (recovered r)) (find_job t i st)
       else find_job t' i st)) \<and>
    (\<forall>t' i. find_attempt t' i (fold (recover_job t now) jrs st) =
      (if t' = t \<and> (\<exists>(j, r) \<in> set jrs. job_id j = i \<and> rc_state r = RUNNING)
       then map_option (settled_as None) (find_attempt t' i st) else find_attempt t' i st)) \<and>
    set (quarantined (fold (recover_job t now) jrs st)) = set (quarantined st) \<union>
      {at_pool a | a j r. (j, r) \<in> set jrs \<and> rc_state r = RUNNING \<and> find_attempt t (job_id j) st = Some a} \<and>
    st_budget (fold (recover_job t now) jrs st) = st_budget st \<and>
    st_sessions (fold (recover_job t now) jrs st) = st_sessions st"
  using assms
proof (induction jrs arbitrary: st)
  case (Cons jr jrs)
  obtain j r where jr: "jr = (j, r)" by (cases jr)
  let ?st = "recover_job t now (j, r) st"
  have ok: "rc_job_id r = job_id j" "job_tenant j = t" using Cons.prems jr by auto
  have fresh: "job_id j \<notin> (\<lambda>(j, r). job_id j) ` set jrs" using Cons.prems jr by auto
  then have none: "map_of (map (\<lambda>(j, r). (job_id j, r)) jrs) (job_id j) = None"
    by (auto simp: map_of_eq_None_iff image_iff)
  have job: "find_job t' i ?st = (if t' = t \<and> i = job_id j
      then map_option (with_receipt (recovered r)) (find_job t' i st) else find_job t' i st)" for t' i
    by (simp add: jr recover_job_alt ledger ok)
  have att: "find_attempt t' i ?st = (if t' = t \<and> i = job_id j \<and> rc_state r = RUNNING
      then map_option (settled_as None) (find_attempt t' i st) else find_attempt t' i st)" for t' i
    using ok by (simp add: jr recover_job_alt ledger)
  have pools: "set (quarantined ?st) = set (quarantined st) \<union>
      {at_pool a | a. rc_state r = RUNNING \<and> find_attempt t (job_id j) st = Some a}"
    by (simp add: jr recover_job_alt release_in_flight_pools ledger)
  have other: "find_attempt t (job_id j') ?st = find_attempt t (job_id j') st" if "(j', r') \<in> set jrs" for j' r'
    using fresh that by (force simp: att)
  have keep: "st_budget ?st = st_budget st" "st_sessions ?st = st_sessions st"
    by (simp_all add: jr recover_job_alt)
  have "distinct (map (\<lambda>(j, r). job_id j) jrs)"
    "\<forall>(j, r) \<in> set jrs. rc_job_id r = job_id j \<and> job_tenant j = t"
    using Cons.prems by simp_all
  note IH = Cons.IH [of ?st, OF this]
  note IH1 = IH [THEN conjunct1, rule_format]
  note IH2 = IH [THEN conjunct2, THEN conjunct1, rule_format]
  note IH3 = IH [THEN conjunct2, THEN conjunct2, THEN conjunct1]
  show ?case
  proof (intro conjI allI)
    fix t' i
    show "find_job t' i (fold (recover_job t now) (jr # jrs) st) =
      (if t' = t then case map_of (map (\<lambda>(j, r). (job_id j, r)) (jr # jrs)) i of
          None \<Rightarrow> find_job t i st | Some r \<Rightarrow> map_option (with_receipt (recovered r)) (find_job t i st)
       else find_job t' i st)"
      by (cases "i = job_id j") (simp_all add: jr IH1 job none split: option.split)
    show "find_attempt t' i (fold (recover_job t now) (jr # jrs) st) =
      (if t' = t \<and> (\<exists>(j, r) \<in> set (jr # jrs). job_id j = i \<and> rc_state r = RUNNING)
       then map_option (settled_as None) (find_attempt t' i st) else find_attempt t' i st)"
    proof (cases "i = job_id j")
      case True
      then have "\<not> (\<exists>(j', r') \<in> set jrs. job_id j' = i \<and> rc_state r' = RUNNING)"
        using fresh by force
      with True show ?thesis by (simp add: jr IH2 att)
    next
      case False
      then show ?thesis by (auto simp: jr IH2 att)
    qed
  next
    show "set (quarantined (fold (recover_job t now) (jr # jrs) st)) = set (quarantined st) \<union>
      {at_pool a | a j r. (j, r) \<in> set (jr # jrs) \<and> rc_state r = RUNNING \<and> find_attempt t (job_id j) st = Some a}"
    proof -
      have "{at_pool a | a j r. (j, r) \<in> set jrs \<and> rc_state r = RUNNING \<and> find_attempt t (job_id j) ?st = Some a} =
          {at_pool a | a j r. (j, r) \<in> set jrs \<and> rc_state r = RUNNING \<and> find_attempt t (job_id j) st = Some a}"
        using other by (intro Collect_cong) metis
      then show ?thesis using IH3 pools by (simp add: jr) blast
    qed
  qed (use IH keep in \<open>simp_all add: jr\<close>)
qed simp

text \<open>The second loop, over the attempts still reserved.\<close>

definition unconfirm :: "attempt \<Rightarrow> attempt" where
  "unconfirm a = a\<lparr>at_disposition := UNSETTLED\<rparr>"

lemma unconfirm_simps [simp]:
  "at_key (unconfirm a) = at_key a" "at_tenant (unconfirm a) = at_tenant a" "at_job (unconfirm a) = at_job a"
  "at_pool (unconfirm a) = at_pool a" "at_quote (unconfirm a) = at_quote a"
  "at_actual (unconfirm a) = at_actual a" "at_disposition (unconfirm a) = UNSETTLED"
  "unconfirm (unconfirm a) = unconfirm a"
  by (simp_all add: unconfirm_def at_key_def)

lemma recover_attempt_alt:
  "recover_attempt t now row st = add_event now ''recovery_unconfirmed_attempt''
     [(''job_id'', JStr (at_job row)), (''pool'', JStr (at_pool row))]
     (update_attempts t (at_job row) unconfirm
       (quarantine (at_pool row) ''restart_with_unconfirmed_reserved_work'' st))"
  by (simp add: recover_attempt_def unconfirm_def [abs_def])

lemma recover_attempt_reads:
  "find_job t' i (recover_attempt t now row st) = find_job t' i st"
  "find_attempt t' i (recover_attempt t now row st) =
     (if t' = t \<and> i = at_job row then map_option unconfirm (find_attempt t' i st) else find_attempt t' i st)"
  "set (quarantined (recover_attempt t now row st)) = insert (at_pool row) (set (quarantined st))"
  "st_budget (recover_attempt t now row st) = st_budget st"
  "st_sessions (recover_attempt t now row st) = st_sessions st"
  "st_jobs (recover_attempt t now row st) = st_jobs st"
  by (simp_all add: recover_attempt_alt ledger find_attempt_update)

lemma recover_attempts:
  "find_job t' i (fold (recover_attempt t now) rows st) = find_job t' i st"
  "find_attempt t' i (fold (recover_attempt t now) rows st) =
     (if t' = t \<and> i \<in> at_job ` set rows then map_option unconfirm (find_attempt t' i st) else find_attempt t' i st)"
  "set (quarantined (fold (recover_attempt t now) rows st)) = set (quarantined st) \<union> at_pool ` set rows"
  "st_budget (fold (recover_attempt t now) rows st) = st_budget st"
  "st_sessions (fold (recover_attempt t now) rows st) = st_sessions st"
  "st_jobs (fold (recover_attempt t now) rows st) = st_jobs st"
proof (induction rows arbitrary: st)
  case (Cons a rows)
  { case 1 show ?case by (simp add: Cons recover_attempt_reads) }
  { case 2 show ?case by (auto simp: Cons recover_attempt_reads option.map_comp comp_def) }
  { case 3 show ?case by (auto simp: Cons recover_attempt_reads) }
  { case 4 show ?case by (simp add: Cons recover_attempt_reads) }
  { case 5 show ?case by (simp add: Cons recover_attempt_reads) }
  { case 6 show ?case by (simp add: Cons recover_attempt_reads) }
qed simp_all

lemma store_ok_recover_attempt:
  assumes "store_ok st" "unresolved t st (at_job row) \<or> find_attempt t (at_job row) st = None"
  shows "store_ok (recover_attempt t now row st)"
proof -
  let ?q = "quarantine (at_pool row) ''restart_with_unconfirmed_reserved_work'' st"
  have "store_ok (update_attempts t (at_job row) unconfirm ?q)"
  proof (rule store_ok_update_attempts)
    show "store_ok ?q" using assms(1) by (simp add: store_keep)
    show "attempt_ok (unconfirm a)" if "find_attempt t (at_job row) ?q = Some a" for a
      using that assms(2) by (auto simp: ledger unresolved_def attempt_ok_def)
  qed simp
  then show ?thesis by (simp add: recover_attempt_alt store_keep)
qed

lemma store_ok_recover_attempts:
  assumes "store_ok st" "\<forall>row \<in> set rows. unresolved t st (at_job row)"
  shows "store_ok (fold (recover_attempt t now) rows st)"
  using assms
proof (induction rows arbitrary: st)
  case (Cons row rows)
  have "unresolved t (recover_attempt t now row st) i" if "unresolved t st i" for i
    using that by (auto simp: unresolved_def recover_attempt_reads)
  then show ?case using Cons by (simp add: store_ok_recover_attempt)
qed simp

text \<open>The third loop: every session of the tenant is closed, under its own key.\<close>

definition closed :: "session \<Rightarrow> session" where
  "closed s = s\<lparr>session_state := CLOSED\<rparr>"

lemma closed_simps [simp]:
  "session_tenant (closed s) = session_tenant s" "session_id (closed s) = session_id s"
  "session_state (closed s) = CLOSED" "session_epoch (closed s) = session_epoch s"
  by (simp_all add: closed_def)

lemma close_sessions_frame [simp]:
  "st_jobs (fold (\<lambda>s. put_session (closed s)) ss st) = st_jobs st"
  "st_attempts (fold (\<lambda>s. put_session (closed s)) ss st) = st_attempts st"
  "st_quarantines (fold (\<lambda>s. put_session (closed s)) ss st) = st_quarantines st"
  "st_budget (fold (\<lambda>s. put_session (closed s)) ss st) = st_budget st"
  by (induction ss arbitrary: st) simp_all

lemma close_sessions_ok: "store_ok st \<Longrightarrow> store_ok (fold (\<lambda>s. put_session (closed s)) ss st)"
  by (induction ss arbitrary: st) (simp_all add: store_keep)

lemma close_sessions_get:
  assumes "distinct (map (\<lambda>s. (session_tenant s, session_id s)) ss)"
  shows "get_session t i (fold (\<lambda>s. put_session (closed s)) ss st) =
    (case find (\<lambda>s. (session_tenant s, session_id s) = (t, i)) ss of
       Some s \<Rightarrow> Inr (closed s) | None \<Rightarrow> get_session t i st)"
  using assms
proof (induction ss arbitrary: st)
  case (Cons s ss)
  have none: "find (\<lambda>s'. (session_tenant s', session_id s') = (session_tenant s, session_id s)) ss = None"
    using Cons.prems by (auto simp: find_None_iff image_iff)
  show ?case
  proof (cases "(session_tenant s, session_id s) = (t, i)")
    case True
    with Cons none show ?thesis by (simp add: ledger)
  next
    case False
    then have "get_session t i (put_session (closed s) st) = get_session t i st"
      by (auto simp: ledger)
    moreover have "find (\<lambda>s. (session_tenant s, session_id s) = (t, i)) (s # ss) =
        find (\<lambda>s. (session_tenant s, session_id s) = (t, i)) ss"
      using False by auto
    ultimately show ?thesis using Cons by (simp del: find.simps split: option.split)
  qed
qed simp

text \<open>All three loops: what a restart leaves of a consistent journal.\<close>

lemma recover_parts:
  fixes t st now
  defines "live \<equiv> list_jobs t [QUEUED, RUNNING] st"
  defines "st1 \<equiv> fold (recover_job t now) live st"
  defines "rows \<equiv> filter (\<lambda>a. at_tenant a = t \<and> at_disposition a = RESERVED) (st_attempts st1)"
  defines "st2 \<equiv> fold (recover_attempt t now) rows st1"
  defines "ss \<equiv> map snd (filter (\<lambda>ks. fst (fst ks) = t) (st_sessions st2))"
  shows "recover t now st = fold (\<lambda>s. put_session (closed s)) ss st2"
  by (simp add: recover_def Let_def closed_def [abs_def] ss_def st2_def rows_def st1_def live_def)

lemma list_jobs_row:
  assumes "store_ok st" "(j, r) \<in> set (list_jobs t states st)"
  shows "\<exists>row. find_job t (job_id j) st = Some row \<and> row_body row = j \<and> row_receipt row = r \<and>
    rc_job_id r = job_id j \<and> job_tenant j = t \<and> row_state row = rc_state r \<and> (states = [] \<or> rc_state r \<in> set states)"
proof -
  from assms obtain row where row: "find_job t (job_id j) st = Some row" "row_body row = j"
      "row_receipt row = r" "states = [] \<or> rc_state r \<in> set states"
    by (auto simp: list_jobs_iff)
  with find_job_ok [OF assms(1) row(1)] show ?thesis by (auto simp: row_ok_def)
qed

lemma list_jobs_at:
  assumes "store_ok st"
  shows "(\<exists>j. (j, r) \<in> set (list_jobs t states st) \<and> job_id j = i) \<longleftrightarrow>
    (\<exists>row. find_job t i st = Some row \<and> row_receipt row = r \<and> (states = [] \<or> row_state row \<in> set states))"
proof
  show "\<exists>row. find_job t i st = Some row \<and> row_receipt row = r \<and> (states = [] \<or> row_state row \<in> set states)"
    if "\<exists>j. (j, r) \<in> set (list_jobs t states st) \<and> job_id j = i"
    using that list_jobs_row [OF assms] by fastforce
next
  assume "\<exists>row. find_job t i st = Some row \<and> row_receipt row = r \<and> (states = [] \<or> row_state row \<in> set states)"
  then obtain row where row: "find_job t i st = Some row" "row_receipt row = r" "states = [] \<or> row_state row \<in> set states"
    by blast
  then have "row_id row = i" "row_ok row" using find_job_ok [OF assms row(1)] by auto
  with row have "(row_body row, r) \<in> set (list_jobs t states st) \<and> job_id (row_body row) = i"
    by (auto simp: list_jobs_iff [OF assms] row_ok_def)
  then show "\<exists>j. (j, r) \<in> set (list_jobs t states st) \<and> job_id j = i" by blast
qed

lemma map_of_live:
  assumes "store_ok st"
  shows "map_of (map (\<lambda>(j, r). (job_id j, r)) (list_jobs t [QUEUED, RUNNING] st)) i =
    (case find_job t i st of None \<Rightarrow> None
     | Some row \<Rightarrow> if row_state row \<in> {QUEUED, RUNNING} then Some (row_receipt row) else None)"
    (is "map_of ?m i = ?v")
proof -
  have d: "distinct (map fst ?m)"
    using list_jobs_ids [OF assms, of t "[QUEUED, RUNNING]"] by (simp add: comp_def split_beta')
  have "map_of ?m i = Some r \<longleftrightarrow> ?v = Some r" for r
  proof -
    have "map_of ?m i = Some r \<longleftrightarrow> (\<exists>j. (j, r) \<in> set (list_jobs t [QUEUED, RUNNING] st) \<and> job_id j = i)"
      using d by (auto simp: map_of_eq_Some_iff [OF d])
    also have "\<dots> \<longleftrightarrow> ?v = Some r"
      by (subst list_jobs_at [OF assms]) (auto split: option.splits)
    finally show ?thesis .
  qed
  then show ?thesis by (rule option_eqI)
qed

lemma fold_recover_job_ok: "store_ok st \<Longrightarrow> store_ok (fold (recover_job t now) jrs st)"
  by (induction jrs arbitrary: st) (simp_all add: store_keep)

text \<open>The journal after the first loop, and after the second.\<close>

lemma recover_first:
  fixes t :: string and now :: int
  assumes ok: "store_ok st"
  defines "st1 \<equiv> fold (recover_job t now) (list_jobs t [QUEUED, RUNNING] st) st"
  shows "find_job t' i st1 = map_option
      (\<lambda>row. if t' = t \<and> row_state row \<in> {QUEUED, RUNNING} then with_receipt (recovered (row_receipt row)) row else row)
      (find_job t' i st)"
    and "find_attempt t' i st1 = map_option
      (\<lambda>a. if t' = t \<and> (\<exists>row. find_job t i st = Some row \<and> row_state row = RUNNING) then settled_as None a else a)
      (find_attempt t' i st)"
    and "set (quarantined st1) = set (quarantined st) \<union>
      {at_pool a | a i. find_attempt t i st = Some a \<and> (\<exists>row. find_job t i st = Some row \<and> row_state row = RUNNING)}"
    and "st_budget st1 = st_budget st" "st_sessions st1 = st_sessions st" "store_ok st1"
proof -
  let ?live = "list_jobs t [QUEUED, RUNNING] st"
  have pre: "distinct (map (\<lambda>(j, r). job_id j) ?live)" "\<forall>(j, r) \<in> set ?live. rc_job_id r = job_id j \<and> job_tenant j = t"
    using list_jobs_ids [OF ok] list_jobs_row [OF ok, of _ _ t "[QUEUED, RUNNING]"] by auto
  note R = recover_jobs [OF pre, of now st, folded st1_def]
  have run: "(\<exists>(j, r) \<in> set ?live. job_id j = i \<and> rc_state r = RUNNING) \<longleftrightarrow>
      (\<exists>row. find_job t i st = Some row \<and> row_state row = RUNNING)" for i
  proof -
    have "(\<exists>(j, r) \<in> set ?live. job_id j = i \<and> rc_state r = RUNNING) \<longleftrightarrow>
        (\<exists>r. rc_state r = RUNNING \<and> (\<exists>j. (j, r) \<in> set ?live \<and> job_id j = i))"
      by blast
    also have "\<dots> \<longleftrightarrow> (\<exists>row. find_job t i st = Some row \<and> row_state row = RUNNING)"
      using find_job_ok(1) [OF ok, of t i] by (auto simp: list_jobs_at [OF ok] row_ok_def)
    finally show ?thesis .
  qed
  show "find_job t' i st1 = map_option
      (\<lambda>row. if t' = t \<and> row_state row \<in> {QUEUED, RUNNING} then with_receipt (recovered (row_receipt row)) row else row)
      (find_job t' i st)"
    using R [THEN conjunct1, rule_format, of t' i] by (auto simp: map_of_live [OF ok] option.map_ident split: option.splits)
  show "find_attempt t' i st1 = map_option
      (\<lambda>a. if t' = t \<and> (\<exists>row. find_job t i st = Some row \<and> row_state row = RUNNING) then settled_as None a else a)
      (find_attempt t' i st)"
    using R [THEN conjunct2, THEN conjunct1, rule_format, of t' i, unfolded run]
    by (cases "find_attempt t' i st") auto
  have "{at_pool a | a j r. (j, r) \<in> set ?live \<and> rc_state r = RUNNING \<and> find_attempt t (job_id j) st = Some a} =
      {at_pool a | a i. find_attempt t i st = Some a \<and> (\<exists>(j, r) \<in> set ?live. job_id j = i \<and> rc_state r = RUNNING)}"
    by blast
  also have "\<dots> = {at_pool a | a i. find_attempt t i st = Some a \<and>
      (\<exists>row. find_job t i st = Some row \<and> row_state row = RUNNING)}"
    by (simp only: run)
  finally show "set (quarantined st1) = set (quarantined st) \<union>
      {at_pool a | a i. find_attempt t i st = Some a \<and> (\<exists>row. find_job t i st = Some row \<and> row_state row = RUNNING)}"
    using R by simp
  show "st_budget st1 = st_budget st" "st_sessions st1 = st_sessions st" using R by blast+
  show "store_ok st1" unfolding st1_def by (rule fold_recover_job_ok [OF ok])
qed

lemma find_session:
  assumes "\<forall>(k, s) \<in> set tab. k = (session_tenant s, session_id s)"
  shows "find (\<lambda>s. (session_tenant s, session_id s) = (t', i)) (map snd (filter (\<lambda>ks. fst (fst ks) = t) tab)) =
    (if t' = t then map_of tab (t, i) else None)"
  using assms by (induction tab) (auto split: if_splits)

lemma recover_reads:
  fixes t :: string and now :: int
  assumes ok: "store_ok st"
  shows "store_ok (recover t now st)"
    and "find_job t' i (recover t now st) = map_option
      (\<lambda>row. if t' = t \<and> row_state row \<in> {QUEUED, RUNNING} then with_receipt (recovered (row_receipt row)) row else row)
      (find_job t' i st)"
    and "find_attempt t' i (recover t now st) = map_option
      (\<lambda>a. if t' = t \<and> (\<exists>row. find_job t i st = Some row \<and> row_state row = RUNNING) then settled_as None a
           else if t' = t \<and> at_disposition a = RESERVED then unconfirm a else a) (find_attempt t' i st)"
    and "set (quarantined (recover t now st)) = set (quarantined st) \<union>
      {at_pool a | a i. find_attempt t i st = Some a \<and>
        (at_disposition a = RESERVED \<or> (\<exists>row. find_job t i st = Some row \<and> row_state row = RUNNING))}"
    and "get_session t' i (recover t now st) =
      (if t' = t then map_sum id closed (get_session t i st) else get_session t' i st)"
    and "st_budget (recover t now st) = st_budget st"
proof -
  define st1 where "st1 = fold (recover_job t now) (list_jobs t [QUEUED, RUNNING] st) st"
  define rows where "rows = filter (\<lambda>a. at_tenant a = t \<and> at_disposition a = RESERVED) (st_attempts st1)"
  define st2 where "st2 = fold (recover_attempt t now) rows st1"
  define ss where "ss = map snd (filter (\<lambda>ks. fst (fst ks) = t) (st_sessions st2))"
  note first = recover_first [OF ok, where t = t and now = now, folded st1_def] and second = recover_attempts [where t = t and now = now and rows = rows and st = st1, folded st2_def]
  have parts: "recover t now st = fold (\<lambda>s. put_session (closed s)) ss st2"
    by (simp add: recover_parts st1_def st2_def rows_def ss_def)
  have row: "a \<in> set rows \<longleftrightarrow> find_attempt t (at_job a) st1 = Some a \<and> at_disposition a = RESERVED" for a
    by (auto simp: rows_def find_attempt_Some_iff [OF first(6)] at_key_def)
  have rows: "i \<in> at_job ` set rows \<longleftrightarrow> (\<exists>a. find_attempt t i st1 = Some a \<and> at_disposition a = RESERVED)" for i
  proof
    show "\<exists>a. find_attempt t i st1 = Some a \<and> at_disposition a = RESERVED" if "i \<in> at_job ` set rows"
      using that row by auto
    show "i \<in> at_job ` set rows" if "\<exists>a. find_attempt t i st1 = Some a \<and> at_disposition a = RESERVED"
    proof -
      from that obtain a where a: "find_attempt t i st1 = Some a" "at_disposition a = RESERVED" by blast
      then have "at_job a = i" using find_attempt_ok(3) [OF first(6)] by blast
      with a row show ?thesis by (metis image_eqI)
    qed
  qed
  have "unresolved t st1 (at_job a)" if "a \<in> set rows" for a
    using that find_attempt_ok(1) [OF first(6), of t "at_job a" a] unfolding row
    by (auto simp: unresolved_def attempt_ok_def)
  then have ok2: "store_ok st2" unfolding st2_def using first(6) by (intro store_ok_recover_attempts) auto
  then show "store_ok (recover t now st)" unfolding parts by (rule close_sessions_ok)
  show "find_job t' i (recover t now st) = map_option
      (\<lambda>row. if t' = t \<and> row_state row \<in> {QUEUED, RUNNING} then with_receipt (recovered (row_receipt row)) row else row)
      (find_job t' i st)"
    using find_job_cong [of "recover t now st" st2 t' i] parts second(1) first(1) by simp
  have "find_attempt t' i (recover t now st) = find_attempt t' i st2"
    by (rule find_attempt_cong) (simp add: parts)
  then show "find_attempt t' i (recover t now st) = map_option
      (\<lambda>a. if t' = t \<and> (\<exists>row. find_job t i st = Some row \<and> row_state row = RUNNING) then settled_as None a
           else if t' = t \<and> at_disposition a = RESERVED then unconfirm a else a) (find_attempt t' i st)"
    unfolding second(2) rows first(2)
    by (cases "find_attempt t' i st") (auto simp: settled_as_def)
  have "at_pool ` set rows = {at_pool a | a i. find_attempt t i st1 = Some a \<and> at_disposition a = RESERVED}"
  proof -
    have one: "(\<exists>i. find_attempt t i st1 = Some a) \<longleftrightarrow> find_attempt t (at_job a) st1 = Some a" for a
      using find_attempt_ok(3) [OF first(6), of t _ a] by auto
    have "at_pool ` set rows = {at_pool a | a. (\<exists>i. find_attempt t i st1 = Some a) \<and> at_disposition a = RESERVED}"
      unfolding one using row by blast
    then show ?thesis by blast
  qed
  also have "\<dots> = {at_pool a | a i. find_attempt t i st = Some a \<and> at_disposition a = RESERVED \<and>
      \<not> (\<exists>row. find_job t i st = Some row \<and> row_state row = RUNNING)}"
  proof -
    have "find_attempt t i st1 = Some a \<and> at_disposition a = RESERVED \<longleftrightarrow> find_attempt t i st = Some a \<and>
        at_disposition a = RESERVED \<and> \<not> (\<exists>row. find_job t i st = Some row \<and> row_state row = RUNNING)" for i a
      using first(2) [of t i] by (cases "find_attempt t i st") (auto simp: settled_as_def)
    then show ?thesis by simp
  qed
  finally show "set (quarantined (recover t now st)) = set (quarantined st) \<union>
      {at_pool a | a i. find_attempt t i st = Some a \<and>
        (at_disposition a = RESERVED \<or> (\<exists>row. find_job t i st = Some row \<and> row_state row = RUNNING))}"
    using second(3) first(3) by (simp add: parts quarantined_def) blast
  have sess: "st_sessions st2 = st_sessions st" using second(5) first(5) by simp
  have d: "distinct (map (\<lambda>s. (session_tenant s, session_id s)) ss)"
    and key: "\<forall>(k, s) \<in> set (st_sessions st). k = (session_tenant s, session_id s)"
  proof -
    show key: "\<forall>(k, s) \<in> set (st_sessions st). k = (session_tenant s, session_id s)"
      using ok by (simp add: store_ok_def)
    have "map (\<lambda>s. (session_tenant s, session_id s)) ss = map fst (filter (\<lambda>ks. fst (fst ks) = t) (st_sessions st))"
      using key unfolding ss_def sess by (auto simp: split_beta')
    then show "distinct (map (\<lambda>s. (session_tenant s, session_id s)) ss)"
      using ok by (simp add: store_ok_def distinct_map_filter)
  qed
  have find: "find (\<lambda>s. (session_tenant s, session_id s) = (t', i)) ss =
      (if t' = t then map_of (st_sessions st) (t, i) else None)"
    unfolding ss_def sess using key by (rule find_session)
  show "get_session t' i (recover t now st) =
      (if t' = t then map_sum id closed (get_session t i st) else get_session t' i st)"
    unfolding parts close_sessions_get [OF d] find
    using get_session_cong [of st2 st] sess by (auto simp: get_session_def split: option.splits)
  show "st_budget (recover t now st) = st_budget st"
    using second(4) first(4) by (simp add: parts)
qed

section \<open>A ledger that is never over its cap by more than its overruns\<close>

text \<open>
  The contract between a ledger and whoever spends against it: a step never raises what is
  admitted, net of the overruns, above the larger of its old value and the cap, never lowers
  the cap, and never holds more attempts than its limit. Then no run does.
\<close>

locale capped_ledger =
  fixes step :: "'s \<Rightarrow> 's \<Rightarrow> bool"
    and inv :: "'s \<Rightarrow> bool"
    and total :: "'s \<Rightarrow> int"
    and over :: "'s \<Rightarrow> int"
    and cap :: "'s \<Rightarrow> int"
    and count :: "'s \<Rightarrow> int"
    and limit :: "'s \<Rightarrow> int"
  assumes step_inv: "step s s' \<Longrightarrow> inv s \<Longrightarrow> inv s'"
    and step_total: "step s s' \<Longrightarrow> inv s \<Longrightarrow> total s' - over s' \<le> max (total s - over s) (cap s')"
    and step_cap: "step s s' \<Longrightarrow> inv s \<Longrightarrow> cap s \<le> cap s'"
    and step_count: "step s s' \<Longrightarrow> inv s \<Longrightarrow> count s \<le> limit s \<Longrightarrow> count s' \<le> limit s'"
begin

lemma step_within:
  assumes "step s s'" "inv s \<and> total s \<le> cap s + over s \<and> count s \<le> limit s"
  shows "inv s' \<and> total s' \<le> cap s' + over s' \<and> count s' \<le> limit s'"
  using assms step_inv [of s s'] step_total [of s s'] step_cap [of s s'] step_count [of s s'] by auto

lemma run_within:
  assumes "step\<^sup>*\<^sup>* s s'" "inv s" "total s \<le> cap s + over s" "count s \<le> limit s"
  shows "inv s' \<and> total s' \<le> cap s' + over s' \<and> count s' \<le> limit s'"
  using assms
proof (induction rule: rtranclp_induct)
  case (step y z)
  then show ?case using step_within [of y z] by blast
qed blast

end

text \<open>
  The steps of the journal. \<open>settle\<close> is taken for an attempt still held: the coordinator
  settles an attempt once. \<open>recover\<close> is taken when no in-flight row has a settled attempt.
\<close>

definition in_flight_held :: "string \<Rightarrow> store \<Rightarrow> bool" where
  "in_flight_held t st \<longleftrightarrow> (\<forall>i row a. find_job t i st = Some row \<longrightarrow> row_state row = RUNNING \<longrightarrow>
     find_attempt t i st = Some a \<longrightarrow> at_actual a = None)"

inductive ledger_step :: "store \<Rightarrow> store \<Rightarrow> bool" where
  event: "ledger_step st (add_event n k m st)"
| session: "ledger_step st (put_session s st)"
| add: "add_job j r st = Inr st' \<Longrightarrow> rc_job_id r = job_id j \<Longrightarrow> ledger_step st st'"
| receipt: "ledger_step st (set_receipt t r st)"
| reserve: "reserve j ep n st = Inr st' \<Longrightarrow> ledger_step st st'"
| settle: "unresolved (job_tenant j) st (job_id j) \<Longrightarrow> ledger_step st (settle j u st)"
| reconcile: "reconcile_many t es n st = Inr st' \<Longrightarrow> ledger_step st st'"
| quarantine: "ledger_step st (quarantine p why st)"
| release: "release_pool p evidence n st = Inr st' \<Longrightarrow> ledger_step st st'"
| recover: "in_flight_held t st \<Longrightarrow> ledger_step st (recover t n st)"
| extend: "extend_budget attempts microusd approval n st = Inr st' \<Longrightarrow> ledger_step st st'"

lemma map_by_key:
  assumes "map key xs = map key ys" "distinct (map key ys)"
    "\<And>k. map_option h (find (\<lambda>r. key r = k) xs) = map_option h (find (\<lambda>r. key r = k) ys)"
  shows "map h xs = map h ys"
proof -
  have len: "length xs = length ys" using assms(1) by (rule map_eq_imp_length_eq)
  have "h (xs ! n) = h (ys ! n)" if "n < length ys" for n
  proof -
    have k: "key (xs ! n) = key (ys ! n)" using assms(1) len that by (metis nth_map)
    have "find (\<lambda>r. key r = key (ys ! n)) ys = Some (ys ! n)"
      using that by (simp add: find_key_iff [OF assms(2)])
    moreover have "find (\<lambda>r. key r = key (ys ! n)) xs = Some (xs ! n)"
      using that len k assms(1,2) by (simp add: find_key_iff)
    ultimately show ?thesis using assms(3) [of "key (ys ! n)"] by simp
  qed
  with len show ?thesis by (simp add: list_eq_iff_nth_eq)
qed

lemma update_attempts_keys:
  assumes "\<And>a. at_key (f a) = at_key a"
  shows "map at_key (st_attempts (update_attempts t i f st)) = map at_key (st_attempts st)"
  using update_keys [of at_key f "(t, i)" "st_attempts st"] assms
  by (simp add: update_attempts_def at_key_def)

lemma recover_job_keys: "map at_key (st_attempts (recover_job t now jr st)) = map at_key (st_attempts st)"
  by (cases jr) (auto simp: recover_job_alt release_in_flight_def settle_alt update_attempts_keys
      simp del: list.map_comp map_map split: option.splits)

lemma recover_keys: "map at_key (st_attempts (recover t now st)) = map at_key (st_attempts st)"
proof -
  have 1: "map at_key (st_attempts (fold (recover_job t now) jrs st)) = map at_key (st_attempts st)" for jrs st
    by (induction jrs arbitrary: st) (simp_all add: recover_job_keys)
  have "map at_key (st_attempts (recover_attempt t now row st)) = map at_key (st_attempts st)" for row st
    by (simp add: recover_attempt_alt update_attempts_keys)
  then have 2: "map at_key (st_attempts (fold (recover_attempt t now) rows st)) = map at_key (st_attempts st)" for rows st
    by (induction rows arbitrary: st) simp_all
  show ?thesis by (simp add: recover_parts 1 2)
qed

lemma recover_amounts:
  assumes "store_ok st" "in_flight_held t st"
  shows "map (\<lambda>a. (at_quote a, at_actual a)) (st_attempts (recover t now st)) =
    map (\<lambda>a. (at_quote a, at_actual a)) (st_attempts st)"
proof (rule map_by_key [OF recover_keys])
  show "distinct (map at_key (st_attempts st))" using assms(1) by (simp add: store_ok_def)
  fix k :: "string \<times> string"
  obtain t' i where k: "k = (t', i)" by (cases k)
  have "map_option (\<lambda>a. (at_quote a, at_actual a)) (find_attempt t' i (recover t now st)) =
      map_option (\<lambda>a. (at_quote a, at_actual a)) (find_attempt t' i st)"
  proof (cases "find_attempt t' i st")
    case (Some a)
    then have "at_actual a = None" if "t' = t" "find_job t i st = Some row" "row_state row = RUNNING" for row
      using assms(2) that by (auto simp: in_flight_held_def)
    with Some show ?thesis by (auto simp: recover_reads(3) [OF assms(1)] settled_as_def)
  qed (simp add: recover_reads(3) [OF assms(1)])
  then show "map_option (\<lambda>a. (at_quote a, at_actual a)) (find (\<lambda>r. at_key r = k) (st_attempts (recover t now st))) =
      map_option (\<lambda>a. (at_quote a, at_actual a)) (find (\<lambda>r. at_key r = k) (st_attempts st))"
    by (simp add: k find_attempt_key)
qed

lemma recover_totals:
  assumes "store_ok st" "in_flight_held t st"
  shows "admitted (recover t now st) = admitted st" "overruns (recover t now st) = overruns st"
    "length (st_attempts (recover t now st)) = length (st_attempts st)"
proof -
  note eq = recover_amounts [OF assms, of now]
  have w: "map weight xs = map (\<lambda>(q, v). case v of None \<Rightarrow> q | Some n \<Rightarrow> n) (map (\<lambda>a. (at_quote a, at_actual a)) xs)"
    and o: "map overrun xs =
      map (\<lambda>(q, v). case v of None \<Rightarrow> 0 | Some n \<Rightarrow> max 0 (n - q)) (map (\<lambda>a. (at_quote a, at_actual a)) xs)" for xs
    by (simp_all add: weight_def overrun_def)
  show "admitted (recover t now st) = admitted st" "overruns (recover t now st) = overruns st"
    by (simp_all only: admitted_def overruns_def w o eq)
  show "length (st_attempts (recover t now st)) = length (st_attempts st)"
    using eq by (rule map_eq_imp_length_eq)
qed

section \<open>The journal keeps the contract\<close>

lemma settle_length [simp]: "length (st_attempts (settle j u st)) = length (st_attempts st)"
  by (simp add: settle_def Let_def update_attempts_def)

lemma fold_apply_amounts:
  assumes "store_ok st" "distinct (map fst es)" "\<forall>i \<in> set (map fst es). unresolved t st i"
  shows "admitted (fold (apply_entry t now) es st) - overruns (fold (apply_entry t now) es st) \<le>
      admitted st - overruns st \<and>
    length (st_attempts (fold (apply_entry t now) es st)) = length (st_attempts st)"
  using assms
proof (induction es arbitrary: st)
  case (Cons e es)
  let ?st = "apply_entry t now e st"
  have len: "length (st_attempts ?st) = length (st_attempts st)"
    by (simp add: apply_entry_def split_beta update_attempts_def)
  from Cons.prems obtain a where a: "find_attempt t (fst e) st = Some a" "at_actual a = None"
    by (auto simp: unresolved_def)
  have "unresolved t ?st i" if "i \<in> set (map fst es)" for i
    using that Cons.prems(2,3) by (metis distinct.simps(2) list.set_intros(2) list.simps(9) unresolved_apply)
  then have "admitted (fold (apply_entry t now) es ?st) - overruns (fold (apply_entry t now) es ?st) \<le>
      admitted ?st - overruns ?st \<and> length (st_attempts (fold (apply_entry t now) es ?st)) = length (st_attempts ?st)"
    using Cons by (simp add: store_keep)
  with apply_entry_amounts [OF Cons.prems(1) a, of now] len show ?case
    by (simp add: max_def split: if_splits)
qed simp

definition ledger_cap :: "store \<Rightarrow> int" where
  "ledger_cap st = bc_max_microusd (st_budget st)"

definition attempt_count :: "store \<Rightarrow> int" where
  "attempt_count st = int (length (st_attempts st))"

definition attempt_limit :: "store \<Rightarrow> int" where
  "attempt_limit st = bc_max_attempts (st_budget st)"

text \<open>One step, all four laws at once, by the operation taken.\<close>

lemma ledger_step_laws:
  assumes "ledger_step st st'" "store_ok st"
  shows "store_ok st' \<and> admitted st' - overruns st' \<le> max (admitted st - overruns st) (ledger_cap st') \<and>
    ledger_cap st \<le> ledger_cap st' \<and> (attempt_count st \<le> attempt_limit st \<longrightarrow> attempt_count st' \<le> attempt_limit st')"
  using assms
proof (cases rule: ledger_step.cases)
  case (add j r)
  then show ?thesis using assms(2) add_job_frame [OF add(1)] store_ok_add_job [OF assms(2) add]
    by (simp add: admitted_def overruns_def ledger_cap_def attempt_count_def attempt_limit_def)
next
  case (reserve j ep n)
  then have "admitted st' \<le> ledger_cap st'" "overruns st' = overruns st" "overruns st \<ge> 0"
    using known_held [of "st_attempts st"] overruns_nonneg
    by (auto simp: reserve_Inr_iff admitted_def overruns_def ledger_cap_def weight_def overrun_def)
  moreover have "attempt_count st' \<le> attempt_limit st'"
    using reserve by (auto simp: reserve_Inr_iff attempt_count_def attempt_limit_def)
  ultimately show ?thesis
    using store_ok_reserve [OF assms(2) reserve] reserve_frame(1) [OF reserve] by (simp add: ledger_cap_def)
next
  case (settle j u)
  then obtain a where "find_attempt (job_tenant j) (job_id j) st = Some a" "at_actual a = None"
    by (auto simp: unresolved_def)
  then show ?thesis using settle assms(2) admitted_settle [OF assms(2), of j u]
    by (auto simp: weight_def overrun_def ledger_cap_def attempt_count_def attempt_limit_def store_keep
        split: option.splits)
next
  case (reconcile t es n)
  then show ?thesis using assms(2) fold_apply_amounts [OF assms(2), of es t n] fold_apply_store_ok [OF assms(2)]
    by (auto simp: reconcile_many_eq [OF assms(2)] ledger_cap_def attempt_count_def attempt_limit_def)
next
  case (release p evidence n)
  then have "st_attempts st' = st_attempts st" "st_budget st' = st_budget st" "st_jobs st' = st_jobs st"
    "st_sessions st' = st_sessions st"
    by (auto simp: release_pool_def split: if_splits)
  then show ?thesis using assms(2) store_ok_cong [of st' st]
    by (simp add: admitted_def overruns_def ledger_cap_def attempt_count_def attempt_limit_def)
next
  case (recover t n)
  then show ?thesis using assms(2) recover_totals [OF assms(2), of t n] recover_reads(1,6) [OF assms(2)]
    by (simp add: ledger_cap_def attempt_count_def attempt_limit_def)
next
  case (extend attempts microusd approval n)
  then have "st_attempts st' = st_attempts st" "st_jobs st' = st_jobs st" "st_sessions st' = st_sessions st"
    "bc_max_attempts (st_budget st) \<le> bc_max_attempts (st_budget st')"
    "bc_max_microusd (st_budget st) \<le> bc_max_microusd (st_budget st')"
    by (auto simp: extend_budget_def budget_def Let_def split: if_splits)
  then show ?thesis using assms(2) store_ok_cong [of st' st]
    by (auto simp: admitted_def overruns_def ledger_cap_def attempt_count_def attempt_limit_def)
qed (use assms(2) in \<open>simp_all add: admitted_def overruns_def ledger_cap_def attempt_count_def attempt_limit_def store_keep\<close>)

interpretation journal: capped_ledger ledger_step store_ok admitted overruns ledger_cap attempt_count attempt_limit
  by unfold_locales (use ledger_step_laws in blast)+

section \<open>Properties\<close>


text \<open>A small campaign: one reservation of 60 under a cap of 100, settled at 40.\<close>

definition sample_ledger :: store where
  "sample_ledger = empty_store \<lparr>bc_campaign = ''c'', bc_max_attempts = 2, bc_max_microusd = 100\<rparr>"

definition sample_reserved :: store where
  "sample_reserved = (case reserve sample_job sample_endpoint 20 sample_ledger of Inr st \<Rightarrow> st | Inl _ \<Rightarrow> sample_ledger)"

definition sample_usage :: usage where
  "sample_usage = no_usage\<lparr>cost_microusd := Some 40\<rparr>"

lemma sample_reserve: "reserve sample_job sample_endpoint 20 sample_ledger = Inr sample_reserved"
  by (simp add: sample_reserved_def sample_ledger_def reserve_def budget_def empty_store_def held_def known_def
      find_attempt_def sample_endpoint_def Let_def)

lemma sample_held: "find_attempt ''t'' ''j1'' sample_reserved =
  Some \<lparr>at_tenant = ''t'', at_job = ''j1'', at_pool = ''p'', at_endpoint = ''e1'', at_quote = 60, at_actual = None,
    at_disposition = RESERVED\<rparr>"
  using find_attempt_reserve [OF sample_reserve, of "''t''" "''j1''"]
  by (simp add: sample_job_def sample_endpoint_def)

lemma sample_ledger_ok: "store_ok sample_ledger" "store_ok sample_reserved"
  using store_ok_empty store_ok_reserve [OF _ sample_reserve] by (simp_all add: sample_ledger_def)

lemma sample_run: "ledger_step\<^sup>*\<^sup>* sample_ledger (settle sample_job (Some sample_usage) sample_reserved)"
proof -
  have "ledger_step sample_ledger sample_reserved"
    using sample_reserve by (rule ledger_step.reserve)
  moreover have "unresolved (job_tenant sample_job) sample_reserved (job_id sample_job)"
    using sample_held by (simp add: unresolved_def sample_job_def)
  then have "ledger_step sample_reserved (settle sample_job (Some sample_usage) sample_reserved)"
    by (rule ledger_step.settle)
  ultimately show ?thesis by (meson converse_rtranclp_into_rtranclp rtranclp.rtrancl_refl)
qed




text \<open>C17: a restart leaves nothing live: no row of the tenant is queued or running, no attempt is
  reserved, no session is active, and every pool that had an attempt reserved or a running job's attempt
  is quarantined; rows that had finished are untouched and no attempt becomes cheaper than it was held for.\<close>

theorem recover_leaves_nothing_live:
  assumes "store_ok st"
  shows "(\<forall>i row. find_job t i (recover t now st) = Some row \<longrightarrow> row_state row \<notin> {QUEUED, RUNNING}) \<and>
    (\<forall>i a. find_attempt t i (recover t now st) = Some a \<longrightarrow> at_disposition a \<noteq> RESERVED) \<and>
    (\<forall>i s. get_session t i (recover t now st) = Inr s \<longrightarrow> session_state s = CLOSED) \<and>
    (\<forall>i a row. find_attempt t i st = Some a \<longrightarrow>
       at_disposition a = RESERVED \<or> (find_job t i st = Some row \<and> row_state row = RUNNING) \<longrightarrow>
       at_pool a \<in> set (quarantined (recover t now st))) \<and>
    (\<forall>i row. find_job t i st = Some row \<longrightarrow> row_state row \<notin> {QUEUED, RUNNING} \<longrightarrow>
       find_job t i (recover t now st) = Some row)"
proof (intro conjI allI impI)
  show "session_state s = CLOSED" if "get_session t i (recover t now st) = Inr s" for i s
    using that by (cases "get_session t i st") (auto simp: recover_reads(5) [OF assms])
  show "at_disposition a \<noteq> RESERVED" if "find_attempt t i (recover t now st) = Some a" for i a
    using that by (auto simp: recover_reads(3) [OF assms] settled_as_def split: if_splits)
  show "at_pool a \<in> set (quarantined (recover t now st))"
    if "find_attempt t i st = Some a"
      "at_disposition a = RESERVED \<or> (find_job t i st = Some row \<and> row_state row = RUNNING)" for i a row
    using that unfolding recover_reads(4) [OF assms] by blast
  show "row_state row \<notin> {QUEUED, RUNNING}" if "find_job t i (recover t now st) = Some row" for i row
  proof -
    from that obtain z where "row = (if row_state z \<in> {QUEUED, RUNNING} then with_receipt (recovered (row_receipt z)) z else z)"
      by (auto simp: recover_reads(2) [OF assms])
    then show ?thesis by (cases "row_state z \<in> {QUEUED, RUNNING}") simp_all
  qed
qed (simp add: recover_reads(2) [OF assms])

theorem recover_leaves_nothing_live_witness:
  "\<exists>a. find_attempt ''t'' ''j1'' (recover ''t'' 50 sample_reserved) = Some a \<and> at_disposition a \<noteq> RESERVED"
proof -
  have "\<exists>a. find_attempt ''t'' ''j1'' (recover ''t'' 50 sample_reserved) = Some a"
    unfolding recover_reads(3) [OF sample_ledger_ok(2)] sample_held by simp
  with recover_leaves_nothing_live [OF sample_ledger_ok(2), of "''t''" 50] show ?thesis by blast
qed

text \<open>C18: a charge reconciled while its job is still recorded as running, as after a crash, is
  forgotten by the next start of the coordinator: recovery settles the attempt again with no charge, so it
  is held at its quote and unknown once more.\<close>

theorem restart_forgets_reconciled_charge:
  assumes "store_ok st" "find_job t i st = Some row" "row_state row = RUNNING"
    "reconcile_many t [(i, n, evidence)] now st = Inr st'"
  shows "\<exists>a a'. find_attempt t i st' = Some a \<and> at_actual a = Some n \<and>
    find_attempt t i (recover t later st') = Some a' \<and> at_actual a' = None \<and> at_disposition a' = UNSETTLED \<and>
    at_quote a' = at_quote a"
proof -
  have st': "unresolved t st i" "st' = apply_entry t now (i, n, evidence) st"
    using assms(4) by (auto simp: reconcile_many_eq [OF assms(1)])
  then have "store_ok st'" "find_job t i st' = Some row"
    using assms(1,2) find_job_cong [of st' st] by (simp_all add: store_keep)
  with st' assms(3) show ?thesis
    by (auto simp: unresolved_def ledger recover_reads(3) settled_as_def)
qed

definition sample_running :: store where
  "sample_running = sample_reserved\<lparr>st_jobs := [\<lparr>row_tenant = ''t'', row_id = ''j1'', row_body = sample_job,
     row_receipt = \<lparr>rc_job_id = ''j1'', rc_request_fingerprint = [], rc_state = RUNNING, rc_endpoint = Some ''e1'',
       rc_reason = None, rc_submitted_ns = 10, rc_started_ns = Some 20, rc_completed_ns = None,
       rc_computed_ns = None, rc_first_content_ns = None, rc_prediction_json = None, rc_usage = None,
       rc_provider_request_id = None, rc_cache_hit = False, rc_consumed_by = None, rc_consumed_ns = None\<rparr>,
     row_state = RUNNING\<rparr>]\<rparr>"

lemma sample_running_ok: "store_ok sample_running"
  using sample_ledger_ok(2) by (simp add: store_ok_def sample_running_def row_ok_def sample_job_def)

theorem restart_forgets_reconciled_charge_witness:
  "\<exists>st' a. reconcile_many ''t'' [(''j1'', 90, ''invoice'')] 30 sample_running = Inr st' \<and>
     find_attempt ''t'' ''j1'' (recover ''t'' 50 st') = Some a \<and> at_actual a = None"
proof -
  have held: "find_attempt ''t'' ''j1'' sample_running = find_attempt ''t'' ''j1'' sample_reserved"
    by (rule find_attempt_cong) (simp add: sample_running_def)
  have row: "\<exists>row. find_job ''t'' ''j1'' sample_running = Some row \<and> row_state row = RUNNING"
    by (simp add: find_job_def sample_running_def)
  obtain st' where "reconcile_many ''t'' [(''j1'', 90, ''invoice'')] 30 sample_running = Inr st'"
    by (simp add: reconcile_many_eq [OF sample_running_ok] entry_ok_def unresolved_def held sample_held)
  with row restart_forgets_reconciled_charge [OF sample_running_ok] show ?thesis by blast
qed

end
