(* ===== verification/Coordinator_Inv.thy ===== *)
theory Coordinator_Inv
  imports Coordinator Ledger_Facts
begin

text \<open>
  The invariant of the coordinator and what every operation keeps of it. \<open>coord_ok\<close> says how the
  journal, the tasks and the counters agree; \<open>moves\<close> says what may change between two states:
  receipts only advance, session epochs only grow, and the journal takes ledger steps. Each
  operation is shown \<open>good\<close>: from a state that satisfies the invariant it moves to another.
\<close>

named_theorems coord "how the coordinator's state reads back"

section \<open>Reads\<close>

lemma clock_id_kept: "clk_id (snd (clock_now_ns c)) = clk_id c"
  by simp

declare clock_now_ns_simps [simp del] clock_id_kept [simp]

lemma read_now_eq [coord]: "read_now rt = (fst (clock_now_ns (rt_clock rt)), rt\<lparr>rt_clock := snd (clock_now_ns (rt_clock rt))\<rparr>)"
  by (simp add: read_now_def split_beta)

lemma on_store_reads [simp]:
  "rt_store (on_store f rt) = f (rt_store rt)" "rt_config (on_store f rt) = rt_config rt"
  "rt_clock (on_store f rt) = rt_clock rt" "rt_cache (on_store f rt) = rt_cache rt"
  "rt_running (on_store f rt) = rt_running rt" "rt_pool_use (on_store f rt) = rt_pool_use rt"
  "rt_endpoint_use (on_store f rt) = rt_endpoint_use rt" "rt_closed (on_store f rt) = rt_closed rt"
  "rt_sha (on_store f rt) = rt_sha rt"
  by (simp_all add: on_store_def)

lemma emit_reads [simp]:
  "rt_store (emit n k m rt) = add_event n k m (rt_store rt)" "rt_config (emit n k m rt) = rt_config rt"
  "rt_clock (emit n k m rt) = rt_clock rt" "rt_cache (emit n k m rt) = rt_cache rt"
  "rt_running (emit n k m rt) = rt_running rt" "rt_pool_use (emit n k m rt) = rt_pool_use rt"
  "rt_endpoint_use (emit n k m rt) = rt_endpoint_use rt" "rt_closed (emit n k m rt) = rt_closed rt"
  "rt_sha (emit n k m rt) = rt_sha rt"
  by (simp_all add: emit_def)

lemma emit_now_eq: "emit_now k m rt = emit (fst (clock_now_ns (rt_clock rt))) k m (rt\<lparr>rt_clock := snd (clock_now_ns (rt_clock rt))\<rparr>)"
  by (simp add: emit_now_def read_now_eq)

lemma emit_now_reads [simp]:
  "rt_store (emit_now k m rt) = add_event (fst (clock_now_ns (rt_clock rt))) k m (rt_store rt)"
  "rt_config (emit_now k m rt) = rt_config rt"
  "rt_clock (emit_now k m rt) = snd (clock_now_ns (rt_clock rt))" "rt_cache (emit_now k m rt) = rt_cache rt"
  "rt_running (emit_now k m rt) = rt_running rt" "rt_pool_use (emit_now k m rt) = rt_pool_use rt"
  "rt_endpoint_use (emit_now k m rt) = rt_endpoint_use rt" "rt_closed (emit_now k m rt) = rt_closed rt"
  "rt_sha (emit_now k m rt) = rt_sha rt"
  by (simp_all add: emit_now_eq)

section \<open>How a receipt may change\<close>

text \<open>
  Which states may follow which, over any number of operations. A job that is over never
  becomes live again; only the check immediately before dispatch may still rewrite a cancelled,
  expired or stale receipt, as expired or stale.
\<close>

fun reaches :: "job_state \<Rightarrow> job_state \<Rightarrow> bool" where
  "reaches QUEUED s = True"
| "reaches RUNNING s = (s \<notin> {QUEUED, REJECTED, SUPERSEDED})"
| "reaches SUCCEEDED s = (s \<in> {SUCCEEDED, CONSUMED, CANCELLED, EXPIRED, STALE})"
| "reaches CANCELLED s = (s \<in> {CANCELLED, EXPIRED, STALE})"
| "reaches EXPIRED s = (s \<in> {EXPIRED, STALE})"
| "reaches STALE s = (s \<in> {EXPIRED, STALE})"
| "reaches s s' = (s' = s)"

lemma reaches_refl [simp]: "reaches s s"
  by (cases s) simp_all

lemma reaches_trans: "reaches a b \<Longrightarrow> reaches b c \<Longrightarrow> reaches a c"
  by (cases a; cases b; cases c) simp_all

definition receipt_le :: "receipt \<Rightarrow> receipt \<Rightarrow> bool" where
  "receipt_le r r' \<longleftrightarrow> rc_job_id r' = rc_job_id r \<and> rc_request_fingerprint r' = rc_request_fingerprint r \<and>
     rc_submitted_ns r' = rc_submitted_ns r \<and> reaches (rc_state r) (rc_state r') \<and>
     (rc_prediction_json r \<noteq> None \<longrightarrow> rc_prediction_json r' = rc_prediction_json r) \<and>
     (rc_consumed_by r \<noteq> None \<longrightarrow> rc_consumed_by r' = rc_consumed_by r)"

lemma receipt_le_refl [simp]: "receipt_le r r"
  by (simp add: receipt_le_def)

lemma receipt_le_trans: "receipt_le a b \<Longrightarrow> receipt_le b c \<Longrightarrow> receipt_le a c"
  unfolding receipt_le_def by (elim conjE, intro conjI) (auto dest: reaches_trans)

definition rows_advance :: "string \<Rightarrow> store \<Rightarrow> store \<Rightarrow> bool" where
  "rows_advance t st st' \<longleftrightarrow> (\<forall>i row. find_job t i st = Some row \<longrightarrow>
     (\<exists>row'. find_job t i st' = Some row' \<and> row_body row' = row_body row \<and>
       receipt_le (row_receipt row) (row_receipt row')))"

definition sessions_advance :: "string \<Rightarrow> store \<Rightarrow> store \<Rightarrow> bool" where
  "sessions_advance t st st' \<longleftrightarrow> (\<forall>i s. get_session t i st = Inr s \<longrightarrow>
     (\<exists>s'. get_session t i st' = Inr s' \<and> session_epoch s \<le> session_epoch s'))"

lemma rows_advance_refl [simp]: "rows_advance t st st"
  by (simp add: rows_advance_def)

lemma rows_advance_trans: "rows_advance t a b \<Longrightarrow> rows_advance t b c \<Longrightarrow> rows_advance t a c"
proof (unfold rows_advance_def, intro allI impI)
  fix i row
  assume ab: "\<forall>i row. find_job t i a = Some row \<longrightarrow> (\<exists>row'. find_job t i b = Some row' \<and>
      row_body row' = row_body row \<and> receipt_le (row_receipt row) (row_receipt row'))"
    and bc: "\<forall>i row. find_job t i b = Some row \<longrightarrow> (\<exists>row'. find_job t i c = Some row' \<and>
      row_body row' = row_body row \<and> receipt_le (row_receipt row) (row_receipt row'))"
    and "find_job t i a = Some row"
  then obtain r1 where r1: "find_job t i b = Some r1" "row_body r1 = row_body row"
      "receipt_le (row_receipt row) (row_receipt r1)" by blast
  with bc obtain r2 where "find_job t i c = Some r2" "row_body r2 = row_body r1"
      "receipt_le (row_receipt r1) (row_receipt r2)" by blast
  with r1 show "\<exists>row'. find_job t i c = Some row' \<and> row_body row' = row_body row \<and>
      receipt_le (row_receipt row) (row_receipt row')"
    using receipt_le_trans by auto
qed

lemma sessions_advance_refl [simp]: "sessions_advance t st st"
  by (auto simp: sessions_advance_def)

lemma sessions_advance_trans: "sessions_advance t a b \<Longrightarrow> sessions_advance t b c \<Longrightarrow> sessions_advance t a c"
  unfolding sessions_advance_def by (metis order_trans)

section \<open>The invariant\<close>

text \<open>Every row of the journal has its session and its dependencies, and every attempt has its row.\<close>

definition file_ok :: "string \<Rightarrow> store \<Rightarrow> bool" where
  "file_ok t st \<longleftrightarrow> store_ok st \<and>
     (\<forall>i row. find_job t i st = Some row \<longrightarrow> is_ok (get_session t (job_session_id (row_body row)) st) \<and>
        (\<forall>d \<in> set (job_dependencies (row_body row)). find_job t d st \<noteq> None)) \<and>
     (\<forall>i a. find_attempt t i st = Some a \<longrightarrow> find_job t i st \<noteq> None)"

text \<open>A queued row can be dispatched: its model is registered, some endpoint may serve it, and
  nothing has been spent on it.\<close>

definition queued_fits :: "runtime_config \<Rightarrow> store \<Rightarrow> job_row \<Rightarrow> bool" where
  "queued_fits cfg st row \<longleftrightarrow> (row_state row = QUEUED \<longrightarrow>
     job_model (row_body row) \<in> set (map mc_alias (cfg_models cfg)) \<and>
     eligible_endpoints cfg (row_body row) \<noteq> [] \<and>
     find_attempt (cfg_tenant cfg) (row_id row) st = None \<and> rc_prediction_json (row_receipt row) = None)"

text \<open>A task stands for a job that was dispatched and whose attempt is still reserved on its endpoint.\<close>

definition task_fits :: "runtime_config \<Rightarrow> store \<Rightarrow> string \<Rightarrow> task \<Rightarrow> bool" where
  "task_fits cfg st i t \<longleftrightarrow>
     (\<exists>row a. find_job (cfg_tenant cfg) i st = Some row \<and> row_body row = task_job t \<and>
        row_state row \<in> {RUNNING, EXPIRED, STALE, CANCELLED} \<and> rc_started_ns (row_receipt row) \<noteq> None \<and>
        rc_prediction_json (row_receipt row) = None \<and>
        find_attempt (cfg_tenant cfg) i st = Some a \<and> at_disposition a = RESERVED \<and>
        at_endpoint a = ep_id (task_endpoint t) \<and> at_pool a = ep_pool (task_endpoint t) \<and>
        task_endpoint t \<in> set (eligible_endpoints cfg (task_job t)))"

definition uses_fit :: "runtime_config \<Rightarrow> (string \<times> task) list \<Rightarrow> (string \<times> int) list \<Rightarrow> (string \<times> int) list \<Rightarrow> bool" where
  "uses_fit cfg running pool_use endpoint_use \<longleftrightarrow>
     (\<forall>p. use_count pool_use p = int (length (filter (\<lambda>it. ep_pool (task_endpoint (snd it)) = p) running))) \<and>
     (\<forall>e. use_count endpoint_use e = int (length (filter (\<lambda>it. ep_id (task_endpoint (snd it)) = e) running))) \<and>
     (\<forall>p n. slots_of (cfg_pools cfg) p = Some n \<longrightarrow> use_count pool_use p \<le> n) \<and>
     (\<forall>e \<in> set (cfg_endpoints cfg). use_count endpoint_use (ep_id e) \<le> ep_max_inflight e)"

definition coord_ok :: "runtime \<Rightarrow> bool" where
  "coord_ok rt \<longleftrightarrow>
     validate_config (rt_config rt) = Inr (rt_config rt) \<and> cache_inv (rt_cache rt) \<and>
     file_ok (tenant_of rt) (rt_store rt) \<and>
     (\<forall>i row. find_job (tenant_of rt) i (rt_store rt) = Some row \<longrightarrow> queued_fits (rt_config rt) (rt_store rt) row) \<and>
     (\<forall>i row. find_job (tenant_of rt) i (rt_store rt) = Some row \<longrightarrow> row_state row = RUNNING \<longrightarrow>
        i \<in> fst ` set (rt_running rt)) \<and>
     (\<forall>i a. find_attempt (tenant_of rt) i (rt_store rt) = Some a \<longrightarrow> at_disposition a = RESERVED \<longrightarrow>
        i \<in> fst ` set (rt_running rt)) \<and>
     distinct (map fst (rt_running rt)) \<and>
     (\<forall>(i, t) \<in> set (rt_running rt). task_fits (rt_config rt) (rt_store rt) i t) \<and>
     uses_fit (rt_config rt) (rt_running rt) (rt_pool_use rt) (rt_endpoint_use rt) \<and>
     (rt_closed rt \<longrightarrow> (\<forall>i row. find_job (tenant_of rt) i (rt_store rt) = Some row \<longrightarrow> row_state row \<noteq> QUEUED))"

lemma coord_store_ok: "coord_ok rt \<Longrightarrow> store_ok (rt_store rt)"
  by (simp add: coord_ok_def file_ok_def)

lemma file_ok_cong:
  "st_jobs st' = st_jobs st \<Longrightarrow> st_attempts st' = st_attempts st \<Longrightarrow> st_sessions st' = st_sessions st \<Longrightarrow>
   file_ok t st' = file_ok t st"
  by (simp add: file_ok_def find_job_cong [of st' st] find_attempt_cong [of st' st] get_session_cong [of st' st]
      store_ok_cong [of st' st])

lemma queued_fits_cong:
  "st_attempts st' = st_attempts st \<Longrightarrow> queued_fits cfg st' row = queued_fits cfg st row"
  by (simp add: queued_fits_def find_attempt_cong [of st' st])

lemma task_fits_cong:
  "st_jobs st' = st_jobs st \<Longrightarrow> st_attempts st' = st_attempts st \<Longrightarrow> task_fits cfg st' i t = task_fits cfg st i t"
  by (simp add: task_fits_def find_job_cong [of st' st] find_attempt_cong [of st' st])

lemma coord_ok_cong:
  assumes "rt_config rt' = rt_config rt" "rt_cache rt' = rt_cache rt" "rt_running rt' = rt_running rt"
    "rt_pool_use rt' = rt_pool_use rt" "rt_endpoint_use rt' = rt_endpoint_use rt" "rt_closed rt' = rt_closed rt"
    "st_jobs (rt_store rt') = st_jobs (rt_store rt)" "st_attempts (rt_store rt') = st_attempts (rt_store rt)"
    "st_sessions (rt_store rt') = st_sessions (rt_store rt)"
  shows "coord_ok rt' = coord_ok rt"
  unfolding coord_ok_def assms find_job_cong [OF assms(7)] find_attempt_cong [OF assms(8)]
    queued_fits_cong [OF assms(8)] task_fits_cong [OF assms(7,8)] file_ok_cong [OF assms(7,8,9)] ..

section \<open>What may change\<close>

definition moves :: "runtime \<Rightarrow> runtime \<Rightarrow> bool" where
  "moves rt rt' \<longleftrightarrow> rt_config rt' = rt_config rt \<and> clock_id_of rt' = clock_id_of rt \<and>
     ledger_step\<^sup>*\<^sup>* (rt_store rt) (rt_store rt') \<and> rows_advance (tenant_of rt) (rt_store rt) (rt_store rt') \<and>
     sessions_advance (tenant_of rt) (rt_store rt) (rt_store rt')"

definition good :: "runtime \<Rightarrow> runtime \<Rightarrow> bool" where
  "good rt rt' \<longleftrightarrow> (coord_ok rt \<longrightarrow> coord_ok rt' \<and> moves rt rt')"

lemma moves_trans: "moves a b \<Longrightarrow> moves b c \<Longrightarrow> moves a c"
  by (auto simp: moves_def intro: rows_advance_trans sessions_advance_trans)

lemma good_refl [simp]: "good rt rt"
  by (simp add: good_def moves_def)

lemma good_trans: "good a b \<Longrightarrow> good b c \<Longrightarrow> good a c"
  by (auto simp: good_def intro: moves_trans)

lemma goodI: "(coord_ok rt \<Longrightarrow> coord_ok rt' \<and> moves rt rt') \<Longrightarrow> good rt rt'"
  by (simp add: good_def)

lemma good_assume: "(coord_ok rt \<Longrightarrow> good rt rt') \<Longrightarrow> good rt rt'"
  by (simp add: good_def)

lemma goodD: "good rt rt' \<Longrightarrow> coord_ok rt \<Longrightarrow> coord_ok rt'"
  by (simp add: good_def)

lemma good_clock: "good rt (rt\<lparr>rt_clock := snd (clock_now_ns (rt_clock rt))\<rparr>)"
  using coord_ok_cong [of "rt\<lparr>rt_clock := snd (clock_now_ns (rt_clock rt))\<rparr>" rt]
  by (simp add: good_def moves_def)

lemma good_emit: "good rt (emit n k m rt)"
proof -
  have "coord_ok (emit n k m rt) = coord_ok rt" by (rule coord_ok_cong) simp_all
  moreover have "ledger_step (rt_store rt) (rt_store (emit n k m rt))" by (simp add: ledger_step.event)
  ultimately show ?thesis
    by (auto simp: good_def moves_def rows_advance_def sessions_advance_def ledger)
qed

lemma good_emit_now: "good rt (emit_now k m rt)"
  unfolding emit_now_eq by (rule good_trans [OF good_clock good_emit])

section \<open>Setting a receipt\<close>

text \<open>When a receipt may be written over row \<open>i\<close>: it ends the job's live phase, and while a task
  still stands for the job it neither succeeds nor loses the start time.\<close>

definition may_set :: "runtime \<Rightarrow> string \<Rightarrow> receipt \<Rightarrow> bool" where
  "may_set rt i r \<longleftrightarrow> (\<exists>row. find_job (tenant_of rt) i (rt_store rt) = Some row \<and> rc_job_id r = i \<and>
     receipt_le (row_receipt row) r \<and> rc_state r \<notin> {QUEUED, RUNNING} \<and>
     (i \<in> fst ` set (rt_running rt) \<longrightarrow> rc_state r \<in> {EXPIRED, STALE, CANCELLED} \<and>
        rc_started_ns r = rc_started_ns (row_receipt row) \<and> rc_prediction_json r = rc_prediction_json (row_receipt row)))"

lemma file_ok_set_receipt:
  assumes "file_ok t st"
  shows "file_ok t (set_receipt t r st)"
proof -
  have "find_job t i (set_receipt t r st) = None \<longleftrightarrow> find_job t i st = None" for i
    by (simp add: ledger)
  moreover have "\<exists>row. find_job t i st = Some row \<and> row_body row = row_body row'"
    if "find_job t i (set_receipt t r st) = Some row'" for i row'
    using that by (auto simp: ledger split: if_splits)
  ultimately show ?thesis
    using assms unfolding file_ok_def find_attempt_frame get_session_frame
    by (metis store_ok_set_receipt)
qed

lemma good_receipt:
  assumes "coord_ok rt \<Longrightarrow> may_set rt i r"
  shows "good rt (on_store (set_receipt (tenant_of rt) r) rt)"
proof (rule goodI)
  assume ok: "coord_ok rt"
  let ?T = "tenant_of rt" and ?st = "rt_store rt"
  let ?st' = "set_receipt ?T r ?st"
  from assms [OF ok] obtain row where row: "find_job ?T i ?st = Some row" "rc_job_id r = i"
    "receipt_le (row_receipt row) r" "rc_state r \<notin> {QUEUED, RUNNING}"
    and task: "i \<in> fst ` set (rt_running rt) \<Longrightarrow> rc_state r \<in> {EXPIRED, STALE, CANCELLED} \<and>
      rc_started_ns r = rc_started_ns (row_receipt row) \<and> rc_prediction_json r = rc_prediction_json (row_receipt row)"
    by (auto simp: may_set_def)
  have find: "find_job ?T k ?st' = (if k = i then Some (with_receipt r row) else find_job ?T k ?st)" for k
    using row by (simp add: ledger)
  have fits: "queued_fits (rt_config rt) ?st' row'" if "find_job ?T k ?st' = Some row'" for k row'
  proof -
    have "queued_fits (rt_config rt) ?st row''" if "find_job ?T k' ?st = Some row''" for k' row''
      using ok that by (auto simp: coord_ok_def)
    with that row(4) show ?thesis
      by (cases "k = i") (auto simp: find queued_fits_def find_attempt_frame)
  qed
  have tasks: "task_fits (rt_config rt) ?st' k t" if "(k, t) \<in> set (rt_running rt)" for k t
  proof -
    have "task_fits (rt_config rt) ?st k t" using ok that by (auto simp: coord_ok_def)
    moreover have "i \<in> fst ` set (rt_running rt)" if "k = i" using that \<open>(k, t) \<in> set (rt_running rt)\<close> by force
    ultimately show ?thesis using row task by (cases "k = i") (auto simp: task_fits_def find ledger)
  qed
  have "coord_ok (on_store (set_receipt ?T r) rt)"
    unfolding coord_ok_def on_store_reads find_attempt_frame
    using ok fits tasks row(4)
    by (intro conjI) (auto simp: coord_ok_def file_ok_set_receipt find split: if_splits)
  moreover have "rows_advance ?T ?st ?st'"
    using row by (auto simp: rows_advance_def find)
  ultimately show "coord_ok (on_store (set_receipt ?T r) rt) \<and> moves rt (on_store (set_receipt ?T r) rt)"
    by (auto simp: moves_def sessions_advance_def ledger intro: ledger_step.receipt)
qed

lemma set_state_eq:
  "set_state j r state reason rt = (r\<lparr>rc_state := state, rc_reason := reason\<rparr>,
     emit_now ''job_state'' [(''job_id'', JStr (job_id j)), (''state'', JStr (state_value state)),
       (''reason'', opt_json JStr reason)]
       (on_store (set_receipt (job_tenant j) (r\<lparr>rc_state := state, rc_reason := reason\<rparr>)) rt))"
  by (simp add: set_state_def Let_def)

lemma good_set_state:
  assumes "coord_ok rt \<Longrightarrow> may_set rt i (r\<lparr>rc_state := state, rc_reason := reason\<rparr>)"
    "coord_ok rt \<Longrightarrow> job_tenant j = tenant_of rt"
  shows "good rt (snd (set_state j r state reason rt))"
proof (rule good_assume)
  assume "coord_ok rt"
  then have t: "job_tenant j = tenant_of rt" by (rule assms(2))
  show "good rt (snd (set_state j r state reason rt))"
    unfolding set_state_eq snd_conv t by (rule good_trans [OF good_receipt good_emit_now]) (rule assms(1))
qed

text \<open>A snapshot of rows taken from a state, read while the loop over it changes earlier ones.\<close>

definition row_is :: "runtime \<Rightarrow> job \<times> receipt \<Rightarrow> bool" where
  "row_is rt jr = (case jr of (j, r) \<Rightarrow> job_tenant j = tenant_of rt \<and> rc_job_id r = job_id j \<and>
     (\<exists>row. find_job (tenant_of rt) (job_id j) (rt_store rt) = Some row \<and> row_body row = j \<and> row_receipt row = r))"

lemma snapshot_rows:
  assumes "coord_ok rt" "jr \<in> set (list_jobs (tenant_of rt) states (rt_store rt))"
  shows "row_is rt jr" "states \<noteq> [] \<Longrightarrow> rc_state (snd jr) \<in> set states"
proof -
  have ok: "store_ok (rt_store rt)" using assms(1) by (rule coord_store_ok)
  show "row_is rt jr" "states \<noteq> [] \<Longrightarrow> rc_state (snd jr) \<in> set states"
    using list_jobs_row [OF ok, of "fst jr" "snd jr" "tenant_of rt" states] assms(2)
    by (auto simp: row_is_def split_beta)
qed

lemma snapshot_distinct:
  "coord_ok rt \<Longrightarrow> distinct (map (job_id \<circ> fst) (list_jobs (tenant_of rt) states (rt_store rt)))"
  using list_jobs_ids [of "rt_store rt" "tenant_of rt" states]
  by (simp add: coord_store_ok comp_def split_beta')

lemma row_is_set_state:
  assumes "row_is rt jr" "job_id (fst jr) \<noteq> rc_job_id r"
  shows "row_is (snd (set_state j r state reason rt)) jr"
  using assms by (auto simp: row_is_def set_state_eq ledger split_beta)

lemma row_is_clock [simp]: "row_is (rt\<lparr>rt_clock := c\<rparr>) jr = row_is rt jr"
  by (simp add: row_is_def)

section \<open>Expiry\<close>

lemma lapse_state_cases: "lapse_state reason \<in> {EXPIRED, STALE}"
  by (simp add: lapse_state_def)

lemma may_set_end:
  assumes "row_is rt (j, r)" "rc_state r \<in> {QUEUED, RUNNING}" "s \<in> {EXPIRED, STALE, CANCELLED}"
  shows "may_set rt (job_id j) (r\<lparr>rc_state := s, rc_reason := reason\<rparr>)"
  using assms by (auto simp: may_set_def row_is_def receipt_le_def)

lemma may_set_queued:
  assumes "coord_ok rt" "row_is rt (j, r)" "rc_state r = QUEUED" "receipt_le r r'" "rc_state r' \<notin> {QUEUED, RUNNING}"
  shows "may_set rt (job_id j) r'"
proof -
  have ok: "store_ok (rt_store rt)" using assms(1) by (rule coord_store_ok)
  from assms(2) obtain row where row: "find_job (tenant_of rt) (job_id j) (rt_store rt) = Some row"
    "row_receipt row = r" "rc_job_id r = job_id j" by (auto simp: row_is_def)
  have "row_state row = QUEUED" "row_id row = job_id j"
    using find_job_ok [OF ok row(1)] row(2) assms(3) by (auto simp: row_ok_def)
  with row assms(1) have "find_attempt (tenant_of rt) (job_id j) (rt_store rt) = None"
    unfolding coord_ok_def queued_fits_def by metis
  then have "job_id j \<notin> fst ` set (rt_running rt)"
    using assms(1) by (fastforce simp: coord_ok_def task_fits_def)
  with row assms(4,5) show ?thesis by (auto simp: may_set_def receipt_le_def)
qed

lemma set_state_reads [simp]:
  "tenant_of (snd (set_state j r state reason rt)) = tenant_of rt"
  "rt_config (snd (set_state j r state reason rt)) = rt_config rt"
  "rt_closed (snd (set_state j r state reason rt)) = rt_closed rt"
  "rt_running (snd (set_state j r state reason rt)) = rt_running rt"
  "rt_cache (snd (set_state j r state reason rt)) = rt_cache rt"
  "rt_sha (snd (set_state j r state reason rt)) = rt_sha rt"
  "rt_pool_use (snd (set_state j r state reason rt)) = rt_pool_use rt"
  "rt_endpoint_use (snd (set_state j r state reason rt)) = rt_endpoint_use rt"
  "st_sessions (rt_store (snd (set_state j r state reason rt))) = st_sessions (rt_store rt)"
  "clk_id (rt_clock (snd (set_state j r state reason rt))) = clk_id (rt_clock rt)"
  by (simp_all add: set_state_eq)

lemma session_of_row:
  assumes "coord_ok rt" "row_is rt (j, r)"
  obtains s where "get_session (job_tenant j) (job_session_id j) (rt_store rt) = Inr s"
proof -
  from assms(2) obtain row where "find_job (tenant_of rt) (job_id j) (rt_store rt) = Some row" "row_body row = j"
    and t: "job_tenant j = tenant_of rt" by (auto simp: row_is_def)
  with assms(1) have "is_ok (get_session (tenant_of rt) (job_session_id j) (rt_store rt))"
    by (auto simp: coord_ok_def file_ok_def)
  with t that show ?thesis by (auto simp: is_ok_iff)
qed

lemma rest_ids:
  assumes "distinct (map (job_id \<circ> fst) (jr # jrs))" "jr' \<in> set jrs"
  shows "job_id (fst jr') \<noteq> job_id (fst jr)"
proof -
  have "job_id (fst jr') \<in> (\<lambda>x. job_id (fst x)) ` set jrs" using assms(2) by (rule imageI)
  moreover have "job_id (fst jr) \<notin> (\<lambda>x. job_id (fst x)) ` set jrs" using assms(1) by (simp add: comp_def)
  ultimately show ?thesis by metis
qed

lemma expire_loop_good:
  assumes "\<And>jr. coord_ok rt \<Longrightarrow> jr \<in> set jrs \<Longrightarrow> row_is rt jr \<and> rc_state (snd jr) \<in> {QUEUED, RUNNING}"
    "distinct (map (job_id \<circ> fst) jrs)"
  shows "good rt (snd (expire_loop now jrs rt)) \<and> (coord_ok rt \<longrightarrow> fst (expire_loop now jrs rt) = Inr ())"
proof (cases "coord_ok rt")
  case True
  with assms show ?thesis
  proof (induction jrs arbitrary: rt)
    case (Cons jr jrs)
    obtain j r where jr: "jr = (j, r)" by (cases jr)
    have here: "row_is rt (j, r)" "rc_state r \<in> {QUEUED, RUNNING}" using Cons.prems(1) [OF Cons.prems(3), of jr] jr by auto
    then have id: "rc_job_id r = job_id j" "job_tenant j = tenant_of rt" by (auto simp: row_is_def)
    obtain s where s: "get_session (job_tenant j) (job_session_id j) (rt_store rt) = Inr s"
      using session_of_row [OF Cons.prems(3) here(1)] .
    show ?case
    proof (cases "invalid_reason j s now (clock_id_of rt)")
      case None
      with s Cons show ?thesis by (simp add: jr)
    next
      case (Some reason)
      let ?rt = "snd (set_state j r (lapse_state reason) (Some reason) rt)"
      have g: "good rt ?rt"
        using may_set_end [OF here] lapse_state_cases [of reason] id by (intro good_set_state) auto
      have "row_is ?rt jr' \<and> rc_state (snd jr') \<in> {QUEUED, RUNNING}" if "jr' \<in> set jrs" for jr'
        using Cons.prems(1) [OF Cons.prems(3), of jr'] rest_ids [OF Cons.prems(2) that] that id
        by (auto simp: jr intro!: row_is_set_state)
      with Cons.IH [of ?rt] Cons.prems goodD [OF g]
      have "good ?rt (snd (expire_loop now jrs ?rt)) \<and> fst (expire_loop now jrs ?rt) = Inr ()" by simp
      with s Some g show ?thesis by (auto simp: jr intro: good_trans)
    qed
  qed simp
qed (simp add: good_def)

lemma expire_good: "good rt (snd (expire rt)) \<and> (coord_ok rt \<longrightarrow> fst (expire rt) = Inr ())"
proof -
  let ?rt = "rt\<lparr>rt_clock := snd (clock_now_ns (rt_clock rt))\<rparr>"
  let ?now = "fst (clock_now_ns (rt_clock rt))"
  let ?jrs = "list_jobs (tenant_of rt) [QUEUED, RUNNING] (rt_store rt)"
  have eq: "expire rt = expire_loop ?now ?jrs ?rt" by (simp add: expire_def read_now_eq)
  show ?thesis
  proof (cases "coord_ok rt")
    case True
    then have ok: "coord_ok ?rt" by (rule goodD [OF good_clock])
    have "row_is ?rt jr \<and> rc_state (snd jr) \<in> {QUEUED, RUNNING}" if "jr \<in> set ?jrs" for jr
      using snapshot_rows [OF True that] by simp
    with expire_loop_good [of ?rt ?jrs ?now] snapshot_distinct [OF True] ok
    show ?thesis unfolding eq by (auto intro: good_trans [OF good_clock])
  qed (simp add: good_def)
qed

section \<open>Sessions\<close>

lemma validate_session_eq: "validate_session s = Inr s' \<Longrightarrow> s' = s"
  by (simp add: validate_session_def)

lemma good_put_session:
  assumes "coord_ok rt \<Longrightarrow> session_tenant s = tenant_of rt \<and>
    (\<forall>old. get_session (tenant_of rt) (session_id s) (rt_store rt) = Inr old \<longrightarrow> session_epoch old \<le> session_epoch s)"
  shows "good rt (on_store (put_session s) rt)"
proof (rule goodI)
  assume ok: "coord_ok rt"
  let ?T = "tenant_of rt" and ?st = "rt_store rt"
  have jobs: "find_job t i (put_session s ?st) = find_job t i ?st"
    "find_attempt t i (put_session s ?st) = find_attempt t i ?st" for t i by (simp_all add: ledger)
  have "is_ok (get_session ?T i (put_session s ?st))" if "is_ok (get_session ?T i ?st)" for i
    using that by (auto simp: ledger)
  then have "file_ok ?T (put_session s ?st)"
    using ok by (auto simp: coord_ok_def file_ok_def jobs store_keep)
  moreover have fits: "queued_fits c (put_session s ?st) row = queued_fits c ?st row"
    "task_fits c (put_session s ?st) i t = task_fits c ?st i t" for c row i t
    by (simp_all add: queued_fits_def task_fits_def jobs)
  ultimately have "coord_ok (on_store (put_session s) rt)"
    using ok unfolding coord_ok_def on_store_reads jobs fits by blast
  moreover have "sessions_advance ?T ?st (put_session s ?st)"
    using assms [OF ok] by (auto simp: sessions_advance_def ledger)
  ultimately show "coord_ok (on_store (put_session s) rt) \<and> moves rt (on_store (put_session s) rt)"
    by (auto simp: moves_def rows_advance_def jobs intro: ledger_step.session)
qed

lemma good_put_emit:
  assumes "coord_ok rt \<Longrightarrow> session_tenant s = tenant_of rt \<and>
    (\<forall>old. get_session (tenant_of rt) (session_id s) (rt_store rt) = Inr old \<longrightarrow> session_epoch old \<le> session_epoch s)"
  shows "good rt (emit n k m (on_store (put_session s) rt))"
  by (rule good_trans [OF good_put_session good_emit]) (rule assms)

lemma open_session_good: "good rt (snd (open_session sid revision rt))"
proof -
  let ?rt = "rt\<lparr>rt_clock := snd (clock_now_ns (rt_clock rt))\<rparr>"
  have "good ?rt (snd (open_session sid revision rt))"
    unfolding open_session_def read_now_eq
    by (auto simp: Let_def dest!: validate_session_eq intro!: good_put_emit split: sum.splits)
  then show ?thesis by (rule good_trans [OF good_clock])
qed

lemma get_session_key:
  assumes "coord_ok rt" "get_session (tenant_of rt) i (rt_store rt) = Inr s"
  shows "session_tenant s = tenant_of rt" "session_id s = i"
  using coord_store_ok [OF assms(1)] assms(2)
  by (auto simp: store_ok_def get_session_def dest!: map_of_SomeD split: option.splits)

lemma advance_session_good: "good rt (snd (advance_session sid epoch revision close rt))"
proof (cases "get_session (tenant_of rt) sid (rt_store rt)")
  case (Inr old)
  let ?rt = "rt\<lparr>rt_clock := snd (clock_now_ns (rt_clock rt))\<rparr>"
  have put: "good ?rt (emit_now k m (on_store (put_session s) ?rt))"
    if "s = \<lparr>session_tenant = session_tenant old, session_id = session_id old, session_epoch = session_epoch old + 1,
        session_task_revision = revision, session_clock_id = clk, session_state = st, session_updated_ns = n,
        session_buffer_until_ns = None\<rparr>" for s clk st n k m
    using get_session_key [of ?rt sid old] Inr that
    by (intro good_trans [OF good_put_session good_emit_now]) auto
  show ?thesis
  proof (cases "stale_session old epoch (clock_id_of rt)")
    case False
    let ?s = "\<lparr>session_tenant = session_tenant old, session_id = session_id old, session_epoch = session_epoch old + 1,
        session_task_revision = revision, session_clock_id = clock_id_of rt,
        session_state = (if close then CLOSED else ACTIVE), session_updated_ns = fst (clock_now_ns (rt_clock rt)),
        session_buffer_until_ns = None\<rparr>"
    show ?thesis
    proof (cases "validate_session ?s")
      case (Inl e)
      with False show ?thesis
        by (simp add: advance_session_def Inr read_now_eq good_clock)
    next
      case (Inr s)
      then have s: "s = ?s" by (rule validate_session_eq)
      have "snd (advance_session sid epoch revision close rt) = snd (expire (emit_now ''session_advanced''
          [(''session_id'', JStr (session_id s)), (''epoch'', JInt (session_epoch s))] (on_store (put_session s) ?rt)))"
        using False Inr \<open>get_session (tenant_of rt) sid (rt_store rt) = Inr old\<close>
        by (simp add: advance_session_def read_now_eq split_beta Let_def)
      then show ?thesis
        using good_trans [OF good_clock good_trans [OF put [OF s] expire_good [THEN conjunct1]]] by simp
    qed
  qed (simp add: advance_session_def Inr)
qed (simp add: advance_session_def)

lemma heartbeat_good: "good rt (snd (heartbeat sid epoch until rt))"
proof (cases "get_session (tenant_of rt) sid (rt_store rt)")
  case (Inr old)
  let ?rt = "rt\<lparr>rt_clock := snd (clock_now_ns (rt_clock rt))\<rparr>"
  have put: "good ?rt (emit n k m (on_store (put_session s) ?rt))"
    if "s = old\<lparr>session_updated_ns := u, session_buffer_until_ns := b\<rparr>" for s u b k m n
    using get_session_key [of ?rt sid old] Inr that by (intro good_put_emit) auto
  show ?thesis
  proof (cases "validate_session (old\<lparr>session_updated_ns := fst (clock_now_ns (rt_clock rt)), session_buffer_until_ns := until\<rparr>)")
    case (Inl e)
    then show ?thesis by (simp add: heartbeat_def Inr read_now_eq good_clock)
  next
    case (Inr s)
    then have s: "s = old\<lparr>session_updated_ns := fst (clock_now_ns (rt_clock rt)), session_buffer_until_ns := until\<rparr>"
      by (rule validate_session_eq)
    show ?thesis
      using good_trans [OF good_clock put [OF s]] Inr \<open>get_session (tenant_of rt) sid (rt_store rt) = Inr old\<close>
      by (simp add: heartbeat_def read_now_eq good_clock)
  qed
qed (simp add: heartbeat_def)

section \<open>Submission\<close>

lemma check_dependencies_found:
  "check_dependencies sha st j deps = Inr u \<Longrightarrow> d \<in> set deps \<Longrightarrow> find_job (job_tenant j) d st \<noteq> None"
  by (induction sha st j deps rule: check_dependencies.induct)
    (auto simp: get_job_Inr_iff get_job_Inl_iff split: sum.splits if_splits prod.splits option.splits)

text \<open>The new row: queued only if some endpoint may serve it.\<close>

lemma good_add_job:
  assumes "coord_ok rt" "\<not> rt_closed rt" "add_job j r (rt_store rt) = Inr st" "job_tenant j = tenant_of rt"
    "rc_job_id r = job_id j" "rc_state r \<in> {QUEUED, REJECTED}" "rc_prediction_json r = None"
    "job_model j \<in> set (map mc_alias (cfg_models (rt_config rt)))"
    "is_ok (get_session (job_tenant j) (job_session_id j) (rt_store rt))"
    "\<forall>d \<in> set (job_dependencies j). find_job (job_tenant j) d (rt_store rt) \<noteq> None"
    "rc_state r = QUEUED \<Longrightarrow> eligible_endpoints (rt_config rt) j \<noteq> []"
  shows "coord_ok (rt\<lparr>rt_store := st\<rparr>) \<and> moves rt (rt\<lparr>rt_store := st\<rparr>)"
proof -
  let ?T = "tenant_of rt" and ?st = "rt_store rt"
  let ?row = "\<lparr>row_tenant = ?T, row_id = job_id j, row_body = j, row_receipt = r, row_state = rc_state r\<rparr>"
  have find: "find_job ?T i st = (if i = job_id j then Some ?row else find_job ?T i ?st)" for i
    using find_job_add [OF assms(3), of ?T i] assms(4) by simp
  have new: "find_job ?T (job_id j) ?st = None" using assms(3,4) by (auto simp: add_job_Inr_iff)
  have att: "find_attempt t i st = find_attempt t i ?st" and sess: "get_session t i st = get_session t i ?st" for t i
    using add_job_frame [OF assms(3)] find_attempt_cong [of st ?st] get_session_cong [of st ?st] by auto
  have none: "find_attempt ?T (job_id j) ?st = None"
  proof (rule ccontr)
    assume "find_attempt ?T (job_id j) ?st \<noteq> None"
    with assms(1) new show False by (auto simp: coord_ok_def file_ok_def)
  qed
  have "store_ok st" using store_ok_add_job [OF coord_store_ok [OF assms(1)] assms(3,5)] .
  then have fileok: "file_ok ?T st"
    using assms(1,9,10) assms(4) new unfolding coord_ok_def file_ok_def by (auto simp: find att sess)
  have "queued_fits (rt_config rt) st row" if "find_job ?T i st = Some row" for i row
  proof (cases "i = job_id j")
    case True
    with that have "row = ?row" by (simp add: find)
    with assms(6,7,8,11) none show ?thesis by (auto simp: queued_fits_def att)
  next
    case False
    with that assms(1) have "queued_fits (rt_config rt) ?st row" by (auto simp: find coord_ok_def)
    then show ?thesis by (simp add: queued_fits_def att)
  qed
  moreover have "task_fits (rt_config rt) st i t" if "(i, t) \<in> set (rt_running rt)" for i t
  proof -
    have "task_fits (rt_config rt) ?st i t" using assms(1) that by (auto simp: coord_ok_def)
    with new show ?thesis by (auto simp: task_fits_def find att)
  qed
  ultimately have "coord_ok (rt\<lparr>rt_store := st\<rparr>)"
    using assms(1,2,6) fileok unfolding coord_ok_def by (auto simp: find att)
  moreover have "rows_advance ?T ?st st" using new by (auto simp: rows_advance_def find)
  ultimately show ?thesis
    using ledger_step.add [OF assms(3,5)] by (auto simp: moves_def sessions_advance_def sess)
qed

lemma superseded_le: "receipt_le r (r\<lparr>rc_state := SUPERSEDED, rc_reason := reason\<rparr>) \<longleftrightarrow> rc_state r \<in> {QUEUED, SUPERSEDED}"
  by (cases "rc_state r") (auto simp: receipt_le_def)

text \<open>A loop over a snapshot of queued rows that ends each of them.\<close>

lemma good_end_queued:
  assumes "coord_ok rt" "\<forall>jr \<in> set jrs. row_is rt jr \<and> rc_state (snd jr) = QUEUED"
    "distinct (map (job_id \<circ> fst) jrs)" "s \<notin> {QUEUED, RUNNING}"
  shows "good rt (fold (\<lambda>(j, r) rt. snd (set_state j r s reason rt)) jrs rt)"
  using assms(1-3)
proof (induction jrs arbitrary: rt)
  case (Cons jr jrs)
  obtain j r where jr: "jr = (j, r)" by (cases jr)
  let ?rt = "snd (set_state j r s reason rt)"
  have here: "row_is rt (j, r)" "rc_state r = QUEUED" using Cons.prems jr by auto
  then have id: "rc_job_id r = job_id j" "job_tenant j = tenant_of rt" by (auto simp: row_is_def)
  have g: "good rt ?rt"
    using may_set_queued [OF Cons.prems(1) here] assms(4) id here(2)
    by (intro good_set_state [of rt "job_id j"]) (auto simp: receipt_le_def)
  have "\<forall>jr \<in> set jrs. row_is ?rt jr \<and> rc_state (snd jr) = QUEUED"
  proof
    fix jr' assume mem: "jr' \<in> set jrs"
    then have "job_id (fst jr') \<noteq> rc_job_id r" using rest_ids [OF Cons.prems(3) mem] id(1) jr by simp
    with Cons.prems(2) mem show "row_is ?rt jr' \<and> rc_state (snd jr') = QUEUED"
      by (simp add: row_is_set_state)
  qed
  with Cons.IH [of ?rt] goodD [OF g Cons.prems(1)] Cons.prems(3)
  have "good ?rt (fold (\<lambda>(j, r) rt. snd (set_state j r s reason rt)) jrs ?rt)" by simp
  with g show ?case by (auto simp: jr intro: good_trans)
qed simp

text \<open>What the latest-only scan selects: rows of the queue, each once.\<close>

lemma replace_scan_subset:
  "set (snd (replace_scan st j jrs reason acc)) \<subseteq> set acc \<union> set jrs"
  by (induction st j jrs reason acc rule: replace_scan.induct) auto

lemma replace_scan_distinct:
  "distinct (map f (acc @ jrs)) \<Longrightarrow> distinct (map f (snd (replace_scan st j jrs reason acc)))"
proof (induction st j jrs reason acc rule: replace_scan.induct)
  case (2 st j prev r jrs reason acc)
  then have "distinct (map f (acc @ jrs))" "distinct (map f ((acc @ [(prev, r)]) @ jrs))" by auto
  with 2 show ?case by simp
qed simp

lemma row_is_store:
  assumes "rt_config rt' = rt_config rt" "find_job (tenant_of rt) (job_id (fst jr)) (rt_store rt') =
    find_job (tenant_of rt) (job_id (fst jr)) (rt_store rt)"
  shows "row_is rt' jr = row_is rt jr"
  using assms by (simp add: row_is_def split_beta)

lemma admission_superseded:
  assumes "coord_ok rt" "job_tenant j = tenant_of rt"
  shows "\<forall>jr \<in> set (snd (admission rt j reason)). row_is rt jr \<and> rc_state (snd jr) = QUEUED"
    "distinct (map (job_id \<circ> fst) (snd (admission rt j reason)))"
proof -
  let ?q = "list_jobs (job_tenant j) [QUEUED] (rt_store rt)"
  have eq: "snd (admission rt j reason) = (if job_replace_key j \<noteq> None \<and> reason = None
      then snd (replace_scan (rt_store rt) j ?q reason []) else [])"
    by (simp add: admission_def Let_def split_beta)
  have "set (snd (admission rt j reason)) \<subseteq> set ?q"
    using replace_scan_subset [of "rt_store rt" j ?q reason "[]"] by (auto simp: eq)
  then show "\<forall>jr \<in> set (snd (admission rt j reason)). row_is rt jr \<and> rc_state (snd jr) = QUEUED"
    using snapshot_rows [OF assms(1), of _ "[QUEUED]"] assms(2) by fastforce
  show "distinct (map (job_id \<circ> fst) (snd (admission rt j reason)))"
    using replace_scan_distinct [of "job_id \<circ> fst" "[]" ?q] snapshot_distinct [OF assms(1), of "[QUEUED]"]
      assms(2) by (simp add: eq)
qed

lemma admission_None:
  assumes "fst (admission rt j reason) = None"
  shows "reason = None" "eligible_endpoints (rt_config rt) j \<noteq> []"
proof -
  have keep: "fst (replace_scan st j jrs (Some x) acc) \<noteq> None" for st jrs x acc
    by (induction st j jrs "Some x" acc arbitrary: x rule: replace_scan.induct) auto
  show "reason = None" "eligible_endpoints (rt_config rt) j \<noteq> []"
    using assms by (auto simp: admission_def Let_def or_else_def split_beta split: option.splits if_splits)
qed

lemma add_job_keeps_rows:
  assumes "add_job j r (rt_store rt) = Inr st" "row_is rt jr"
  shows "row_is (rt\<lparr>rt_store := st\<rparr>) jr"
proof -
  have "find_job (job_tenant j) (job_id j) (rt_store rt) = None" using assms(1) by (auto simp: add_job_Inr_iff)
  with assms show ?thesis by (auto simp: row_is_def find_job_add [OF assms(1)])
qed

lemma new_receipt_reads [simp]:
  "rc_job_id (new_receipt i fp reason n) = i" "rc_request_fingerprint (new_receipt i fp reason n) = fp"
  "rc_state (new_receipt i fp reason n) = (if reason = None then QUEUED else REJECTED)"
  "rc_prediction_json (new_receipt i fp reason n) = None" "rc_started_ns (new_receipt i fp reason n) = None"
  "rc_submitted_ns (new_receipt i fp reason n) = n" "rc_reason (new_receipt i fp reason n) = reason"
  "rc_consumed_by (new_receipt i fp reason n) = None"
  by (simp_all add: new_receipt_def)

lemma store_submission_good:
  assumes "coord_ok rt" "\<not> rt_closed rt" "job_tenant j = tenant_of rt"
    "job_model j \<in> set (map mc_alias (cfg_models (rt_config rt)))"
    "is_ok (get_session (job_tenant j) (job_session_id j) (rt_store rt))"
    "\<forall>d \<in> set (job_dependencies j). find_job (job_tenant j) d (rt_store rt) \<noteq> None"
    "reason = None \<Longrightarrow> eligible_endpoints (rt_config rt) j \<noteq> []"
    "\<forall>jr \<in> set jrs. row_is rt jr \<and> rc_state (snd jr) = QUEUED" "distinct (map (job_id \<circ> fst) jrs)"
  shows "good rt (snd (store_submission now j reason jrs rt))"
proof -
  let ?r = "new_receipt (job_id j) (job_fingerprint (rt_sha rt) j) reason now"
  show ?thesis
  proof (cases "add_job j ?r (rt_store rt)")
    case (Inl e)
    then show ?thesis by (simp add: store_submission_def)
  next
    case added: (Inr st)
    let ?rt1 = "rt\<lparr>rt_store := st\<rparr>"
    have step: "coord_ok ?rt1 \<and> moves rt ?rt1"
      using added assms(1-7) by (intro good_add_job [OF assms(1), of j ?r]) (auto split: if_splits)
    have "good ?rt1 (supersede jrs ?rt1)"
      unfolding supersede_def
      using assms(8,9) add_job_keeps_rows [OF added] step by (intro good_end_queued) auto
    then have g2: "good ?rt1 (if reason = None then supersede jrs ?rt1 else ?rt1)" by simp
    have g1: "good rt ?rt1" using step by (simp add: good_def)
    show ?thesis
      by (simp add: store_submission_def added Let_def good_trans [OF g1 good_trans [OF g2 good_emit], simplified]
          del: new_receipt_reads)
  qed
qed

lemma submit_new_good:
  assumes "\<not> rt_closed rt" "job_tenant j = tenant_of rt"
  shows "good rt (snd (submit_new j rt))"
proof (rule good_assume)
  assume ok: "coord_ok rt"
  let ?rt = "rt\<lparr>rt_clock := snd (clock_now_ns (rt_clock rt))\<rparr>" and ?now = "fst (clock_now_ns (rt_clock rt))"
  have ok1: "coord_ok ?rt" by (rule goodD [OF good_clock ok])
  have "good ?rt (snd (store_submission ?now j (fst (admission ?rt j reason)) (snd (admission ?rt j reason)) ?rt))"
    if "job_model j \<in> set (map mc_alias (cfg_models (rt_config rt)))"
      "is_ok (get_session (job_tenant j) (job_session_id j) (rt_store rt))"
      "check_dependencies (rt_sha rt) (rt_store rt) j (job_dependencies j) = Inr u" for reason u
    using that assms check_dependencies_found [OF that(3)] admission_None(2) [of ?rt j reason]
      admission_superseded [OF ok1, of j reason]
    by (intro store_submission_good [OF ok1]) auto
  note stored = this
  show ?thesis
  proof (cases "job_model j \<in> set (map mc_alias (cfg_models (rt_config rt))) \<and>
      int (length (list_jobs (job_tenant j) [] (rt_store rt))) < cfg_max_jobs (rt_config rt)")
    case False
    then show ?thesis by (auto simp: submit_new_def)
  next
    case model: True
    show ?thesis
    proof (cases "get_session (job_tenant j) (job_session_id j) (rt_store rt)")
      case (Inl e)
      with model show ?thesis by (simp add: submit_new_def)
    next
      case session: (Inr s)
      let ?reason = "invalid_reason j s ?now (clock_id_of rt)"
      show ?thesis
      proof (cases "check_dependencies (rt_sha rt) (rt_store rt) j (job_dependencies j)")
        case (Inl e)
        with model session show ?thesis by (simp add: submit_new_def read_now_eq good_clock)
      next
        case deps: (Inr u)
        have "snd (submit_new j rt) =
            snd (store_submission ?now j (fst (admission ?rt j ?reason)) (snd (admission ?rt j ?reason)) ?rt)"
          using model session deps by (simp add: submit_new_def read_now_eq split_beta)
        with good_trans [OF good_clock stored [of u ?reason]] model session deps show ?thesis by simp
      qed
    qed
  qed
qed

lemma validate_job_tenant: "validate_job j = Inr j' \<Longrightarrow> job_tenant j' = job_tenant j \<and> job_id j' = job_id j"
  by (auto simp: validate_job_def rbind_Inr_iff Let_def)

lemma submit_good: "good rt (snd (submit j rt))"
  using submit_new_good
  by (auto simp: submit_def split: sum.splits prod.splits if_splits)

section \<open>Dispatch\<close>

lemma row_of:
  assumes "coord_ok rt" "row_is rt (j, r)"
  obtains row where "find_job (tenant_of rt) (job_id j) (rt_store rt) = Some row" "row_body row = j"
    "row_receipt row = r" "row_state row = rc_state r" "row_id row = job_id j" "row_tenant row = tenant_of rt"
    "rc_job_id r = job_id j" "job_tenant j = tenant_of rt" "queued_fits (rt_config rt) (rt_store rt) row"
proof -
  from assms(2) obtain row where row: "find_job (tenant_of rt) (job_id j) (rt_store rt) = Some row"
    "row_body row = j" "row_receipt row = r" "rc_job_id r = job_id j" "job_tenant j = tenant_of rt"
    by (auto simp: row_is_def)
  moreover have "queued_fits (rt_config rt) (rt_store rt) row" using assms(1) row(1) by (auto simp: coord_ok_def)
  moreover have "row_state row = rc_state r" "row_id row = job_id j" "row_tenant row = tenant_of rt"
    using find_job_ok [OF coord_store_ok [OF assms(1)] row(1)] row(3) by (auto simp: row_ok_def)
  ultimately show ?thesis using that by blast
qed

lemma distinct_drop: "distinct (map f (xs @ y # ys)) \<Longrightarrow> distinct (map f (xs @ ys))"
  by auto

lemma queued_row:
  assumes "coord_ok rt" "row_is rt (j, r)" "rc_state r = QUEUED"
  shows "job_model j \<in> set (map mc_alias (cfg_models (rt_config rt)))" "eligible_endpoints (rt_config rt) j \<noteq> []"
    "find_attempt (tenant_of rt) (job_id j) (rt_store rt) = None" "rc_prediction_json r = None"
    "job_id j \<notin> fst ` set (rt_running rt)"
proof -
  obtain row where row: "find_job (tenant_of rt) (job_id j) (rt_store rt) = Some row" "row_body row = j"
    "row_receipt row = r" "row_state row = QUEUED" "row_id row = job_id j" "queued_fits (rt_config rt) (rt_store rt) row"
    using row_of [OF assms(1,2)] assms(3) by metis
  then show "job_model j \<in> set (map mc_alias (cfg_models (rt_config rt)))" "eligible_endpoints (rt_config rt) j \<noteq> []"
    and none: "find_attempt (tenant_of rt) (job_id j) (rt_store rt) = None" and "rc_prediction_json r = None"
    by (simp_all add: queued_fits_def)
  show "job_id j \<notin> fst ` set (rt_running rt)"
    using assms(1) none by (fastforce simp: coord_ok_def task_fits_def)
qed

lemma dependency_states_ok:
  "\<forall>d \<in> set ds. find_job t d st \<noteq> None \<Longrightarrow> \<exists>xs. dependency_states t st ds = Inr xs"
  by (induction ds) (auto simp: get_job_def)

lemma estimate_for_ok: "eligible_endpoints cfg j \<noteq> [] \<Longrightarrow> \<exists>x. estimate_for cfg j = Inr x"
proof -
  have "filter (\<lambda>e. ep_site e \<in> set (job_allowed_sites j)) (job_endpoints cfg j) = eligible_endpoints cfg j"
    by (simp add: job_endpoints_def eligible_endpoints_def conj_commute)
  then show "eligible_endpoints cfg j \<noteq> [] \<Longrightarrow> \<exists>x. estimate_for cfg j = Inr x"
    by (auto simp: estimate_for_def split: list.split)
qed

lemma rank_ok: "validate_config cfg = Inr cfg \<Longrightarrow> \<exists>k. rank c now (cfg_scheduler cfg) = Inr k"
  using validate_config_refs(2) [of cfg cfg] by (auto simp: config_fields_ok_def rank_def)

lemma ready_scan_good:
  assumes "coord_ok rt" "\<forall>jr \<in> set jrs. row_is rt jr \<and> rc_state (snd jr) = QUEUED"
    "\<forall>kjr \<in> set ready. row_is rt (snd kjr) \<and> rc_state (snd (snd kjr)) = QUEUED"
    "distinct (map (job_id \<circ> fst) (map snd ready @ jrs))"
  shows "good rt (snd (ready_scan now jrs ready rt)) \<and>
    (\<exists>ready'. fst (ready_scan now jrs ready rt) = Inr ready' \<and>
      (\<forall>kjr \<in> set ready'. row_is (snd (ready_scan now jrs ready rt)) (snd kjr) \<and> rc_state (snd (snd kjr)) = QUEUED) \<and>
      distinct (map (job_id \<circ> fst) (map snd ready')))"
  using assms
proof (induction jrs arbitrary: ready rt)
  case (Cons jr jrs)
  obtain j r where jr: "jr = (j, r)" by (cases jr)
  have here: "row_is rt (j, r)" "rc_state r = QUEUED" using Cons.prems(2) jr by auto
  obtain row where row: "find_job (tenant_of rt) (job_id j) (rt_store rt) = Some row" "row_body row = j"
    "rc_job_id r = job_id j" "job_tenant j = tenant_of rt"
    using row_of [OF Cons.prems(1) here(1)] by metis
  then have "\<forall>d \<in> set (job_dependencies j). find_job (job_tenant j) d (rt_store rt) \<noteq> None"
    using Cons.prems(1) by (auto simp: coord_ok_def file_ok_def)
  then obtain states where states: "dependency_states (job_tenant j) (rt_store rt) (job_dependencies j) = Inr states"
    using dependency_states_ok by blast
  obtain s where s: "get_session (job_tenant j) (job_session_id j) (rt_store rt) = Inr s"
    using session_of_row [OF Cons.prems(1) here(1)] .
  obtain est where est: "estimate_for (rt_config rt) j = Inr est"
    using estimate_for_ok [OF queued_row(2) [OF Cons.prems(1) here]] by blast
  have cfg: "validate_config (rt_config rt) = Inr (rt_config rt)" using Cons.prems(1) by (simp add: coord_ok_def)
  obtain k where k: "rank \<lparr>cand_id = job_id j, cand_submitted_ns = rc_submitted_ns r, cand_latest_ns = latest_ns j s,
      cand_estimate_ns = est, cand_priority = job_priority j\<rparr> now (cfg_scheduler (rt_config rt)) = Inr k"
    using rank_ok [OF cfg] by blast
  consider (failed) "list_ex (\<lambda>x. x \<notin> {QUEUED, RUNNING, SUCCEEDED, CONSUMED}) states"
    | (waiting) "\<not> list_ex (\<lambda>x. x \<notin> {QUEUED, RUNNING, SUCCEEDED, CONSUMED}) states"
        "list_ex (\<lambda>x. x \<notin> {SUCCEEDED, CONSUMED}) states"
    | (ready) "\<not> list_ex (\<lambda>x. x \<notin> {QUEUED, RUNNING, SUCCEEDED, CONSUMED}) states"
        "\<not> list_ex (\<lambda>x. x \<notin> {SUCCEEDED, CONSUMED}) states" by blast
  then show ?case
  proof cases
    case failed
    let ?rt = "snd (set_state j r REJECTED (Some ''dependency_failed'') rt)"
    have g: "good rt ?rt"
      using may_set_queued [OF Cons.prems(1) here] row here(2)
      by (intro good_set_state [of rt "job_id j"]) (auto simp: receipt_le_def)
    have ids: "job_id j \<notin> set (map (job_id \<circ> fst) (map snd ready @ jrs))" using Cons.prems(4) by (auto simp: jr)
    then have rest: "\<forall>jr \<in> set jrs. row_is ?rt jr \<and> rc_state (snd jr) = QUEUED"
      and sofar: "\<forall>kjr \<in> set ready. row_is ?rt (snd kjr) \<and> rc_state (snd (snd kjr)) = QUEUED"
      using Cons.prems(2,3) row(3) by (auto intro!: row_is_set_state simp: image_iff)
    have eq: "ready_scan now (jr # jrs) ready rt = ready_scan now jrs ready ?rt" using states failed by (simp add: jr)
    show ?thesis
      unfolding eq
      using Cons.IH [OF goodD [OF g Cons.prems(1)] rest sofar distinct_drop [OF Cons.prems(4)]] good_trans [OF g]
      by blast
  next
    case waiting
    have eq: "ready_scan now (jr # jrs) ready rt = ready_scan now jrs ready rt" using waiting states by (simp add: jr)
    show ?thesis
      unfolding eq using Cons.prems(2) by (intro Cons.IH [OF Cons.prems(1) _ Cons.prems(3) distinct_drop [OF Cons.prems(4)]]) auto
  next
    case ready
    have eq: "ready_scan now (jr # jrs) ready rt = ready_scan now jrs (ready @ [(k, j, r)]) rt"
      using ready states s est k by (simp add: jr)
    have d: "distinct (map (job_id \<circ> fst) (map snd (ready @ [(k, j, r)]) @ jrs))"
      using Cons.prems(4) by (simp add: jr comp_def)
    show ?thesis
      unfolding eq using Cons.prems(2,3) here by (intro Cons.IH [OF Cons.prems(1) _ _ d]) simp_all
  qed
qed simp

lemma good_cache:
  assumes "coord_ok rt \<Longrightarrow> cache_inv c"
  shows "good rt (rt\<lparr>rt_cache := c\<rparr>)"
proof (rule goodI)
  assume ok: "coord_ok rt"
  then have "coord_ok (rt\<lparr>rt_cache := c\<rparr>)" using assms by (auto simp: coord_ok_def)
  then show "coord_ok (rt\<lparr>rt_cache := c\<rparr>) \<and> moves rt (rt\<lparr>rt_cache := c\<rparr>)" by (simp add: moves_def)
qed

lemma use_count_add: "use_count (use_add k d use) k' = use_count use k' + (if k' = k then d else 0)"
  by (simp add: use_add_def use_count_def update_conv)

text \<open>Counting tasks with one more of them.\<close>

lemma uses_fit_launch:
  assumes "uses_fit cfg running pu eu" "use_count pu (ep_pool (task_endpoint t)) < n"
    "slots_of (cfg_pools cfg) (ep_pool (task_endpoint t)) = Some n"
    "use_count eu (ep_id (task_endpoint t)) < ep_max_inflight (task_endpoint t)"
    "task_endpoint t \<in> set (cfg_endpoints cfg)" "distinct (map ep_id (cfg_endpoints cfg))"
  shows "uses_fit cfg (running @ [(i, t)]) (use_add (ep_pool (task_endpoint t)) 1 pu) (use_add (ep_id (task_endpoint t)) 1 eu)"
proof -
  have "ep_max_inflight e = ep_max_inflight (task_endpoint t)"
    if "e \<in> set (cfg_endpoints cfg)" "ep_id e = ep_id (task_endpoint t)" for e
    using that assms(5,6) by (metis distinct_map inj_onD)
  with assms(4) have max: "use_count eu (ep_id e) + 1 \<le> ep_max_inflight e"
    if "e \<in> set (cfg_endpoints cfg)" "ep_id e = ep_id (task_endpoint t)" for e
    using that by fastforce
  show ?thesis
    unfolding uses_fit_def use_count_add
  proof (intro conjI allI ballI impI)
    show "use_count pu p + (if p = ep_pool (task_endpoint t) then 1 else 0) =
        int (length (filter (\<lambda>it. ep_pool (task_endpoint (snd it)) = p) (running @ [(i, t)])))" for p
      using assms(1) by (auto simp: uses_fit_def)
    show "use_count eu e + (if e = ep_id (task_endpoint t) then 1 else 0) =
        int (length (filter (\<lambda>it. ep_id (task_endpoint (snd it)) = e) (running @ [(i, t)])))" for e
      using assms(1) by (auto simp: uses_fit_def)
    show "use_count pu p + (if p = ep_pool (task_endpoint t) then 1 else 0) \<le> m"
      if "slots_of (cfg_pools cfg) p = Some m" for p m
    proof (cases "p = ep_pool (task_endpoint t)")
      case True
      then have "m = n" using that assms(3) by simp
      with True assms(2) show ?thesis by simp
    next
      case False
      have "use_count pu p \<le> m" using assms(1) that unfolding uses_fit_def by blast
      with False show ?thesis by simp
    qed
    show "use_count eu (ep_id e) + (if ep_id e = ep_id (task_endpoint t) then 1 else 0) \<le> ep_max_inflight e"
      if "e \<in> set (cfg_endpoints cfg)" for e
    proof (cases "ep_id e = ep_id (task_endpoint t)")
      case True
      then show ?thesis using max [OF that] by simp
    next
      case False
      have "use_count eu (ep_id e) \<le> ep_max_inflight e" using assms(1) that unfolding uses_fit_def by blast
      with False show ?thesis by simp
    qed
  qed
qed

text \<open>Dispatching a queued row to an endpoint that was placed and on which the attempt was reserved.\<close>

lemma good_launch:
  assumes ok: "coord_ok rt" and here: "row_is rt (j, r)" "rc_state r = QUEUED"
    and res: "reserve j ep now (rt_store rt) = Inr st"
    and ep: "ep \<in> set (eligible_endpoints (rt_config rt) j)"
    and slots: "slots_of (cfg_pools (rt_config rt)) (ep_pool ep) = Some n" "use_count (rt_pool_use rt) (ep_pool ep) < n"
    and inflight: "use_count (rt_endpoint_use rt) (ep_id ep) < ep_max_inflight ep"
  shows "good rt (launch now j r s ep key (rt\<lparr>rt_store := st\<rparr>))"
    and "job_id (fst jr) \<noteq> job_id j \<Longrightarrow> row_is rt jr \<Longrightarrow> row_is (launch now j r s ep key (rt\<lparr>rt_store := st\<rparr>)) jr"
proof -
  let ?T = "tenant_of rt" and ?st = "rt_store rt" and ?rt' = "launch now j r s ep key (rt\<lparr>rt_store := st\<rparr>)"
  let ?t = "\<lparr>task_job = j, task_endpoint = ep, task_key = key, task_begun = False\<rparr>"
  let ?r = "r\<lparr>rc_state := RUNNING, rc_endpoint := Some (ep_id ep), rc_started_ns := Some now\<rparr>"
  obtain row where row: "find_job ?T (job_id j) ?st = Some row" "row_body row = j" "row_receipt row = r"
    "row_state row = QUEUED" "row_id row = job_id j" "rc_job_id r = job_id j" "job_tenant j = ?T"
    using row_of [OF ok here(1)] here(2) by metis
  note q = queued_row [OF ok here]
  have fresh: "job_id j \<notin> fst ` set (rt_running rt)" by (rule q(5))
  have run: "rt_running ?rt' = rt_running rt @ [(job_id j, ?t)]"
    using fresh by (simp add: launch_def Let_def update_fresh)
  have reads: "rt_config ?rt' = rt_config rt" "rt_cache ?rt' = rt_cache rt" "rt_closed ?rt' = rt_closed rt"
    "rt_clock ?rt' = rt_clock rt"
    "rt_pool_use ?rt' = use_add (ep_pool ep) 1 (rt_pool_use rt)"
    "rt_endpoint_use ?rt' = use_add (ep_id ep) 1 (rt_endpoint_use rt)"
    by (simp_all add: launch_def Let_def)
  let ?m = "[(''job_id'', JStr (job_id j)), (''endpoint'', JStr (ep_id ep)), (''pool'', JStr (ep_pool ep)),
    (''estimate_ns'', JInt (estimate_ns ep)), (''latest_ns'', JInt (latest_ns j s))]"
  have store: "rt_store ?rt' = add_event now ''dispatched'' ?m (set_receipt ?T ?r st)"
    by (simp add: launch_def Let_def row(7))
  have keep: "find_job t i st = find_job t i ?st" "get_session t i st = get_session t i ?st" for t i
    using reserve_frame [OF res] find_job_cong [of st ?st] get_session_cong [of st ?st] by auto
  have find: "find_job ?T i (rt_store ?rt') =
      (if i = job_id j then Some (with_receipt ?r row) else find_job ?T i ?st)" for i
    using row by (simp add: store ledger keep)
  have att: "find_attempt ?T i (rt_store ?rt') = (if i = job_id j then Some \<lparr>at_tenant = ?T, at_job = job_id j,
      at_pool = ep_pool ep, at_endpoint = ep_id ep, at_quote = ep_reserve_microusd ep, at_actual = None,
      at_disposition = RESERVED\<rparr> else find_attempt ?T i ?st)" for i
    using find_attempt_reserve [OF res, of ?T i] row(7) by (simp add: store ledger)
  have sess: "get_session ?T i (rt_store ?rt') = get_session ?T i ?st" for i
    by (simp add: store ledger keep)
  have cfg: "validate_config (rt_config rt) = Inr (rt_config rt)" using ok by (simp add: coord_ok_def)
  have ep': "ep \<in> set (cfg_endpoints (rt_config rt))" using ep by (simp add: eligible_endpoints_def)
  have "distinct (map ep_id (cfg_endpoints (rt_config rt)))" using validate_config_refs [OF cfg] by blast
  then have uses: "uses_fit (rt_config rt) (rt_running ?rt') (rt_pool_use ?rt') (rt_endpoint_use ?rt')"
    using uses_fit_launch [of "rt_config rt" "rt_running rt" "rt_pool_use rt" "rt_endpoint_use rt" ?t n "job_id j"]
      ok slots inflight ep' unfolding run reads by (simp add: coord_ok_def)
  have "store_ok (rt_store ?rt')"
    using store_ok_reserve [OF coord_store_ok [OF ok] res] by (simp add: store store_keep)
  then have fileok: "file_ok ?T (rt_store ?rt')"
    using ok row unfolding coord_ok_def file_ok_def by (auto simp: find att sess)
  have "queued_fits (rt_config rt) (rt_store ?rt') row'" if "find_job ?T i (rt_store ?rt') = Some row'" for i row'
  proof (cases "i = job_id j")
    case False
    with that have f: "find_job ?T i ?st = Some row'" by (simp add: find)
    then have "queued_fits (rt_config rt) ?st row'" "row_id row' = i"
      using ok find_job_ok(3) [OF coord_store_ok [OF ok]] by (auto simp: coord_ok_def)
    with False show ?thesis by (simp add: queued_fits_def att)
  qed (use that in \<open>auto simp: find queued_fits_def\<close>)
  moreover have "task_fits (rt_config rt) (rt_store ?rt') i t" if "(i, t) \<in> set (rt_running ?rt')" for i t
  proof (cases "i = job_id j")
    case True
    then have "t = ?t" using that fresh by (force simp: run)
    with True ep q(4) row show ?thesis by (simp add: task_fits_def find att)
  next
    case False
    then have "task_fits (rt_config rt) ?st i t" using ok that by (auto simp: run coord_ok_def)
    with False show ?thesis by (simp add: task_fits_def find att)
  qed
  ultimately have "coord_ok ?rt'"
    using ok fileok uses fresh row(1,4) unfolding coord_ok_def reads by (auto simp: run find att)
  moreover have "rows_advance ?T ?st (rt_store ?rt')"
    using row by (auto simp: rows_advance_def find receipt_le_def here(2))
  moreover have "ledger_step\<^sup>*\<^sup>* ?st (rt_store ?rt')"
    unfolding store
    by (meson ledger_step.event ledger_step.receipt ledger_step.reserve [OF res] converse_rtranclp_into_rtranclp
        rtranclp.rtrancl_refl)
  ultimately show "good rt ?rt'"
    by (simp add: good_def moves_def reads sessions_advance_def sess)
  show "row_is ?rt' jr" if "job_id (fst jr) \<noteq> job_id j" "row_is rt jr"
    using that by (simp add: row_is_def reads find split_beta)
qed

lemma model_of_ok: "alias \<in> set (map mc_alias (cfg_models cfg)) \<Longrightarrow> \<exists>m. model_of cfg alias = Some m"
  by (auto simp: model_of_def find_None_iff not_None_eq [symmetric] simp del: not_None_eq)

lemma reserve_refused:
  assumes "reserve j ep now st = Inl e" "find_attempt (job_tenant j) (job_id j) st = None"
  shows "e = PermissionError ''attempt_or_cost_ceiling''"
  using assms by (auto simp: reserve_def Let_def split: if_splits)

lemma row_is_receipt:
  assumes "row_is rt jr" "job_id (fst jr) \<noteq> rc_job_id r"
  shows "row_is (emit n k m (on_store (set_receipt t r) rt)) jr"
  using assms by (simp add: row_is_def ledger split_beta)

lemma dispatch_one_good:
  assumes ok: "coord_ok rt" and here: "row_is rt (j, r)" "rc_state r = QUEUED"
  shows "good rt (snd (dispatch_one (j, r) rt)) \<and> fst (dispatch_one (j, r) rt) = Inr () \<and>
    (\<forall>jr. job_id (fst jr) \<noteq> job_id j \<longrightarrow> row_is rt jr \<longrightarrow> row_is (snd (dispatch_one (j, r) rt)) jr)"
proof -
  let ?rt = "rt\<lparr>rt_clock := snd (clock_now_ns (rt_clock rt))\<rparr>" and ?now = "fst (clock_now_ns (rt_clock rt))"
  have ok1: "coord_ok ?rt" and here1: "row_is ?rt (j, r)" using goodD [OF good_clock ok] here by simp_all
  have id: "rc_job_id r = job_id j" "job_tenant j = tenant_of rt" using here(1) by (auto simp: row_is_def)
  obtain s where s: "get_session (job_tenant j) (job_session_id j) (rt_store rt) = Inr s"
    using session_of_row [OF ok here(1)] .
  show ?thesis
  proof (cases "invalid_reason j s ?now (clock_id_of rt)")
    case (Some reason)
    let ?fin = "snd (set_state j r (lapse_state reason) (Some reason) ?rt)"
    have "good ?rt ?fin"
      using may_set_end [OF here1] here(2) lapse_state_cases [of reason] id
      by (intro good_set_state [of ?rt "job_id j"]) auto
    moreover have "dispatch_one (j, r) rt = (Inr (), ?fin)"
      using s Some by (simp add: dispatch_one_def read_now_eq)
    ultimately show ?thesis using good_trans [OF good_clock] id by (auto intro!: row_is_set_state)
  next
    case valid: None
    obtain m where m: "model_of (rt_config rt) (job_model j) = Some m"
      using model_of_ok [OF queued_row(1) [OF ok here]] by blast
    let ?key = "cache_key (rt_sha rt) j (model_fingerprint (rt_sha rt) m)"
    let ?get = "cache_get (rt_cache rt) ?key ?now"
    let ?rt2 = "?rt\<lparr>rt_cache := snd ?get\<rparr>"
    have g2: "good rt ?rt2"
      using ok by (intro good_trans [OF good_clock good_cache] historical.get_inv) (simp add: coord_ok_def)
    have ok2: "coord_ok ?rt2" by (rule goodD [OF g2 ok])
    have here2: "row_is ?rt2 (j, r)" using here(1) by (simp add: row_is_def)
    have others2: "row_is ?rt2 jr = row_is rt jr" for jr by (simp add: row_is_def)
    have eq: "dispatch_one (j, r) rt = (case fst ?get of
        Some h \<Rightarrow> (Inr (), serve_hit ?now j r h ?rt2)
      | None \<Rightarrow> (case place ?now j s ?rt2 of None \<Rightarrow> (Inr (), ?rt2)
        | Some ep \<Rightarrow> (case reserve j ep ?now (rt_store rt) of
            Inl (PermissionError m) \<Rightarrow> (Inr (), snd (set_state j r REJECTED (Some ''attempt_or_cost_ceiling'') ?rt2))
          | Inl e \<Rightarrow> (Inl e, ?rt2)
          | Inr st \<Rightarrow> (Inr (), launch ?now j r s ep ?key (?rt2\<lparr>rt_store := st\<rparr>)))))"
      unfolding dispatch_one_def read_now_eq Let_def split_beta fst_conv snd_conv
      by (simp add: s valid m cong: option.case_cong sum.case_cong py_error.case_cong)
    show ?thesis
    proof (cases "fst ?get")
      case (Some h)
      let ?r = "r\<lparr>rc_state := SUCCEEDED, rc_prediction_json := Some (fst h), rc_completed_ns := Some ?now,
                   rc_computed_ns := Some (snd h), rc_cache_hit := True, rc_usage := Some zero_cost\<rparr>"
      have "may_set ?rt2 (job_id j) ?r"
        using queued_row(4) [OF ok here] here(2)
        by (intro may_set_queued [OF ok2 here2 here(2)]) (simp_all add: receipt_le_def)
      then have "good ?rt2 (on_store (set_receipt (tenant_of ?rt2) ?r) ?rt2)" by (intro good_receipt)
      moreover have hit: "serve_hit ?now j r h ?rt2 = emit ?now ''cache_hit''
          [(''job_id'', JStr (job_id j)), (''computed_ns'', JInt (snd h))] (on_store (set_receipt (tenant_of ?rt2) ?r) ?rt2)"
        using id by (simp add: serve_hit_def Let_def split_beta)
      ultimately have "good rt (serve_hit ?now j r h ?rt2)"
        using good_trans [OF g2 good_trans [OF _ good_emit]] by simp
      then show ?thesis using Some id others2 by (auto simp: eq hit intro!: row_is_receipt)
    next
      case miss: None
      show ?thesis
      proof (cases "place ?now j s ?rt2")
        case None
        then show ?thesis using g2 miss others2 by (simp add: eq)
      next
        case (Some ep)
        then have ep: "ep \<in> set (job_endpoints (rt_config rt) j)"
          "feasible ?now (latest_ns j s) (job_allowed_sites j) (slots_of (cfg_pools (rt_config rt))) (rt_pool_use rt)
             (rt_endpoint_use rt) (quarantined (rt_store rt)) ep"
          using choose_endpoint_sound [of "job_endpoints (rt_config rt) j"] by (auto simp: place_def)
        then obtain n where slots: "slots_of (cfg_pools (rt_config rt)) (ep_pool ep) = Some n"
          "use_count (rt_pool_use rt) (ep_pool ep) < n" "use_count (rt_endpoint_use rt) (ep_id ep) < ep_max_inflight ep"
          by (auto simp: feasible_def split: option.splits)
        have el: "ep \<in> set (eligible_endpoints (rt_config rt) j)"
          using ep by (auto simp: eligible_endpoints_def job_endpoints_def feasible_def)
        show ?thesis
        proof (cases "reserve j ep ?now (rt_store rt)")
          case (Inl e)
          let ?fin = "snd (set_state j r REJECTED (Some ''attempt_or_cost_ceiling'') ?rt2)"
          have "e = PermissionError ''attempt_or_cost_ceiling''"
            using reserve_refused [OF Inl] queued_row(3) [OF ok here] id by simp
          moreover have "good ?rt2 ?fin"
            using may_set_queued [OF ok2 here2 here(2)] here(2) id
            by (intro good_set_state [of ?rt2 "job_id j"]) (auto simp: receipt_le_def)
          ultimately show ?thesis
            using good_trans [OF g2] miss Some Inl others2 id by (auto simp: eq intro!: row_is_set_state)
        next
          case (Inr st)
          have "good ?rt2 (launch ?now j r s ep ?key (?rt2\<lparr>rt_store := st\<rparr>))"
            and "\<And>jr. job_id (fst jr) \<noteq> job_id j \<Longrightarrow> row_is ?rt2 jr \<Longrightarrow>
              row_is (launch ?now j r s ep ?key (?rt2\<lparr>rt_store := st\<rparr>)) jr"
            using good_launch [OF ok2 here2 here(2), of ep ?now st n] Inr el slots by simp_all
          then show ?thesis using good_trans [OF g2] miss Some Inr others2 by (simp add: eq)
        qed
      qed
    qed
  qed
qed

lemma dispatch_loop_good:
  assumes "coord_ok rt" "\<forall>kjr \<in> set ready. row_is rt (snd kjr) \<and> rc_state (snd (snd kjr)) = QUEUED"
    "distinct (map (job_id \<circ> fst) (map snd ready))"
  shows "good rt (snd (dispatch_loop ready rt)) \<and> fst (dispatch_loop ready rt) = Inr ()"
  using assms
proof (induction ready arbitrary: rt)
  case (Cons kjr ready)
  obtain k j r where kjr: "kjr = (k, j, r)" by (cases kjr)
  have here: "row_is rt (j, r)" "rc_state r = QUEUED" using Cons.prems(2) kjr by auto
  let ?rt = "snd (dispatch_one (j, r) rt)"
  note one = dispatch_one_good [OF Cons.prems(1) here]
  have "row_is ?rt (snd x) \<and> rc_state (snd (snd x)) = QUEUED" if "x \<in> set ready" for x
  proof -
    have "job_id (fst (snd x)) \<noteq> job_id (fst (snd kjr))"
      using Cons.prems(3) that by (intro rest_ids [of "snd kjr" "map snd ready"]) (simp_all add: comp_def)
    moreover have "row_is rt (snd x) \<and> rc_state (snd (snd x)) = QUEUED" using Cons.prems(2) that by simp
    ultimately show ?thesis using one kjr by (metis fst_conv snd_conv)
  qed
  moreover have "distinct (map (job_id \<circ> fst) (map snd ready))" using Cons.prems(3) by (simp add: comp_def)
  ultimately have "good ?rt (snd (dispatch_loop ready ?rt)) \<and> fst (dispatch_loop ready ?rt) = Inr ()"
    using goodD [of rt ?rt] one Cons.prems(1) by (intro Cons.IH) blast+
  moreover have "dispatch_loop (kjr # ready) rt = dispatch_loop ready ?rt"
    using one by (simp add: kjr split_beta)
  ultimately show ?case using one good_trans [of rt ?rt] by simp
qed simp

text \<open>A tick expires first; what follows is again a run that the invariant allows.\<close>

lemma tick_rest:
  assumes ok: "coord_ok rt" and "\<not> rt_closed rt"
  shows "good (snd (expire rt)) (snd (tick rt)) \<and> fst (tick rt) = Inr ()"
proof -
  let ?rt1 = "snd (expire rt)"
  let ?rt2 = "?rt1\<lparr>rt_clock := snd (clock_now_ns (rt_clock ?rt1))\<rparr>" and ?now = "fst (clock_now_ns (rt_clock ?rt1))"
  let ?q = "list_jobs (tenant_of ?rt2) [QUEUED] (rt_store ?rt2)"
  have exp: "fst (expire rt) = Inr ()" using expire_good [of rt] ok by simp
  have g2: "good rt ?rt2" using good_trans [OF expire_good [THEN conjunct1] good_clock] .
  have ok2: "coord_ok ?rt2" by (rule goodD [OF g2 ok])
  have q: "\<forall>jr \<in> set ?q. row_is ?rt2 jr \<and> rc_state (snd jr) = QUEUED"
    using snapshot_rows [OF ok2, of _ "[QUEUED]"] by auto
  have d: "distinct (map (job_id \<circ> fst) (map snd ([] :: (rank_key \<times> job \<times> receipt) list) @ ?q))"
    using snapshot_distinct [OF ok2, of "[QUEUED]"] by simp
  let ?scan = "ready_scan ?now ?q [] ?rt2"
  note scan = ready_scan_good [OF ok2 q _ d, of ?now, simplified]
  obtain ready where ready: "fst ?scan = Inr ready"
    "\<forall>kjr \<in> set ready. row_is (snd ?scan) (snd kjr) \<and> rc_state (snd (snd kjr)) = QUEUED"
    "distinct (map (job_id \<circ> fst) (map snd ready))"
    using ready_scan_good [OF ok2 q _ d, of ?now] by auto
  have g3: "good ?rt2 (snd ?scan)" using ready_scan_good [OF ok2 q _ d, of ?now] by simp
  have "distinct (map (job_id \<circ> fst) (map snd (sort_key fst ready)))"
  proof -
    have "mset (map (job_id \<circ> fst) (map snd (sort_key fst ready))) = mset (map (job_id \<circ> fst) (map snd ready))"
      by (simp add: mset_map)
    then show ?thesis using ready(3) by (metis mset_eq_imp_distinct_iff)
  qed
  then have "good (snd ?scan) (snd (dispatch_loop (sort_key fst ready) (snd ?scan))) \<and>
      fst (dispatch_loop (sort_key fst ready) (snd ?scan)) = Inr ()"
    using ready(2) goodD [OF g3 ok2] by (intro dispatch_loop_good) simp_all
  moreover have "tick rt = dispatch_loop (sort_key fst ready) (snd ?scan)"
    using \<open>\<not> rt_closed rt\<close> exp ready(1) by (simp add: tick_def read_now_eq split_beta Let_def)
  ultimately show ?thesis using good_trans [OF good_clock [of ?rt1] good_trans [OF g3]] by simp
qed

lemma tick_good: "good rt (snd (tick rt)) \<and> (coord_ok rt \<longrightarrow> fst (tick rt) = Inr ())"
proof (cases "coord_ok rt \<and> \<not> rt_closed rt")
  case True
  then show ?thesis using tick_rest [of rt] good_trans [OF expire_good [THEN conjunct1]] by blast
qed (auto simp: good_def moves_def tick_def)

section \<open>The end of a task\<close>

lemma ledger_steps_event: "ledger_step\<^sup>*\<^sup>* st st' \<Longrightarrow> ledger_step\<^sup>*\<^sup>* st (add_event n k m st')"
  by (rule rtranclp.rtrancl_into_rtrancl) (auto intro: ledger_step.event)

lemma ledger_steps_receipt: "ledger_step\<^sup>*\<^sup>* st st' \<Longrightarrow> ledger_step\<^sup>*\<^sup>* st (set_receipt t r st')"
  by (rule rtranclp.rtrancl_into_rtrancl) (auto intro: ledger_step.receipt)

lemma ledger_steps_quarantine: "ledger_step\<^sup>*\<^sup>* st st' \<Longrightarrow> ledger_step\<^sup>*\<^sup>* st (quarantine p why st')"
  by (rule rtranclp.rtrancl_into_rtrancl) (auto intro: ledger_step.quarantine)

lemma ledger_steps_settle:
  "ledger_step\<^sup>*\<^sup>* st st' \<Longrightarrow> unresolved (job_tenant j) st' (job_id j) \<Longrightarrow> ledger_step\<^sup>*\<^sup>* st (settle j u st')"
  by (rule rtranclp.rtrancl_into_rtrancl) (auto intro: ledger_step.settle)

lemmas ledger_steps = ledger_steps_event ledger_steps_receipt ledger_steps_quarantine

lemma length_filter_delete:
  assumes "distinct (map fst al)" "map_of al i = Some t"
  shows "int (length (filter P (AList.delete i al))) = int (length (filter P al)) - (if P (i, t) then 1 else 0)"
  using assms
proof (induction al)
  case (Cons x al)
  show ?case
  proof (cases "fst x = i")
    case True
    then have "i \<notin> fst ` set al" using Cons.prems(1) by auto
    then have "AList.delete i al = al" by (simp add: delete_id)
    with True Cons.prems(2) show ?thesis by (cases x) (auto simp: AList.delete_eq)
  next
    case False
    with Cons show ?thesis by (cases x) (auto simp: AList.delete_eq)
  qed
qed simp

lemma uses_fit_release:
  assumes "uses_fit cfg running pu eu" "distinct (map fst running)" "map_of running i = Some t"
  shows "uses_fit cfg (AList.delete i running) (use_add (ep_pool (task_endpoint t)) (- 1) pu)
    (use_add (ep_id (task_endpoint t)) (- 1) eu)"
proof -
  have "use_count pu p + (if p = ep_pool (task_endpoint t) then - 1 else 0) \<le> n"
    if "slots_of (cfg_pools cfg) p = Some n" for p n
  proof -
    have "use_count pu p \<le> n" using assms(1) that unfolding uses_fit_def by blast
    then show ?thesis by (cases "p = ep_pool (task_endpoint t)") simp_all
  qed
  moreover have "use_count eu (ep_id e) + (if ep_id e = ep_id (task_endpoint t) then - 1 else 0) \<le> ep_max_inflight e"
    if "e \<in> set (cfg_endpoints cfg)" for e
  proof -
    have "use_count eu (ep_id e) \<le> ep_max_inflight e" using assms(1) that unfolding uses_fit_def by blast
    then show ?thesis by (cases "ep_id e = ep_id (task_endpoint t)") simp_all
  qed
  ultimately show ?thesis
    using assms(1) unfolding uses_fit_def use_count_add length_filter_delete [OF assms(2,3)] by auto
qed

text \<open>The state after a task has ended: one attempt settled, one receipt written, the slot given back.\<close>

lemma finish_ok:
  assumes ok: "coord_ok rt" and task: "map_of (rt_running rt) i = Some t"
    and row: "find_job (tenant_of rt) i (rt_store rt) = Some row"
    and r: "rc_job_id r = i" "receipt_le (row_receipt row) r" "rc_state r \<notin> {QUEUED, RUNNING}"
    and keep: "rt_config rt' = rt_config rt" "rt_closed rt' = rt_closed rt" "cache_inv (rt_cache rt')"
    and running: "rt_running rt' = AList.delete i (rt_running rt)"
    and uses: "rt_pool_use rt' = use_add (ep_pool (task_endpoint t)) (- 1) (rt_pool_use rt)"
      "rt_endpoint_use rt' = use_add (ep_id (task_endpoint t)) (- 1) (rt_endpoint_use rt)"
    and store: "st_jobs (rt_store rt') = st_jobs (set_receipt (tenant_of rt) r (rt_store rt))"
      "st_attempts (rt_store rt') = st_attempts (settle (task_job t) u (rt_store rt))"
      "st_sessions (rt_store rt') = st_sessions (rt_store rt)"
  shows "coord_ok rt'" "rows_advance (tenant_of rt) (rt_store rt) (rt_store rt')"
    "sessions_advance (tenant_of rt) (rt_store rt) (rt_store rt')"
proof -
  let ?T = "tenant_of rt" and ?st = "rt_store rt" and ?st' = "rt_store rt'"
  have mem: "(i, t) \<in> set (rt_running rt)" using task by (rule map_of_SomeD)
  then have fits: "task_fits (rt_config rt) ?st i t" using ok by (auto simp: coord_ok_def)
  then have body: "row_body row = task_job t" and "\<exists>a. find_attempt ?T i ?st = Some a"
    using row by (auto simp: task_fits_def)
  then obtain a where a: "find_attempt ?T i ?st = Some a" by blast
  have id: "job_tenant (task_job t) = ?T" "job_id (task_job t) = i"
    using find_job_ok [OF coord_store_ok [OF ok] row] body by (auto simp: row_ok_def)
  have find: "find_job ?T k ?st' = (if k = i then Some (with_receipt r row) else find_job ?T k ?st)" for k
    using row r(1) find_job_cong [OF store(1), of ?T k] by (simp add: ledger)
  have att: "find_attempt ?T k ?st' = (if k = i then Some (settled_as (charge_of u) a) else find_attempt ?T k ?st)" for k
    using a id find_attempt_cong [OF store(2), of ?T k] by (simp add: ledger)
  have sess: "get_session t' k ?st' = get_session t' k ?st" for t' k
    by (rule get_session_cong [OF store(3)])
  have "store_ok (settle (task_job t) u (set_receipt ?T r ?st))"
    using coord_store_ok [OF ok] by (simp add: store_keep)
  moreover have "st_attempts (settle (task_job t) u (set_receipt ?T r ?st)) = st_attempts ?st'"
    unfolding store(2) by (simp add: settle_alt update_attempts_def)
  ultimately have "store_ok ?st'"
    using store_ok_cong [of ?st' "settle (task_job t) u (set_receipt ?T r ?st)"] store by simp
  then have fileok: "file_ok ?T ?st'"
    using ok row unfolding coord_ok_def file_ok_def by (auto simp: find att sess)
  have q: "queued_fits (rt_config rt) ?st' row'" if "find_job ?T k ?st' = Some row'" for k row'
  proof (cases "k = i")
    case False
    with that have f: "find_job ?T k ?st = Some row'" by (simp add: find)
    then have "queued_fits (rt_config rt) ?st row'" "row_id row' = k"
      using ok find_job_ok(3) [OF coord_store_ok [OF ok]] by (auto simp: coord_ok_def)
    with False show ?thesis by (simp add: queued_fits_def att)
  qed (use that r(3) in \<open>auto simp: find queued_fits_def\<close>)
  have rest: "k \<in> fst ` set (AList.delete i (rt_running rt)) \<longleftrightarrow> k \<in> fst ` set (rt_running rt) \<and> k \<noteq> i" for k
    by (force simp: AList.delete_eq)
  have tasks: "task_fits (rt_config rt) ?st' k t'" if "(k, t') \<in> set (AList.delete i (rt_running rt))" for k t'
  proof -
    have "k \<noteq> i" "(k, t') \<in> set (rt_running rt)" using that by (auto simp: AList.delete_eq)
    moreover then have "task_fits (rt_config rt) ?st k t'" using ok by (auto simp: coord_ok_def)
    ultimately show ?thesis by (simp add: task_fits_def find att)
  qed
  have d: "distinct (map fst (rt_running rt))" using ok by (simp add: coord_ok_def)
  have "uses_fit (rt_config rt) (rt_running rt') (rt_pool_use rt') (rt_endpoint_use rt')"
    unfolding running uses using ok task d by (intro uses_fit_release) (simp_all add: coord_ok_def)
  moreover have "k \<in> fst ` set (rt_running rt)" if "find_job ?T k ?st = Some row'" "row_state row' = RUNNING" for k row'
    using ok that by (auto simp: coord_ok_def)
  moreover have "k \<in> fst ` set (rt_running rt)" if "find_attempt ?T k ?st = Some a'" "at_disposition a' = RESERVED" for k a'
    using ok that by (auto simp: coord_ok_def)
  moreover have "at_disposition (settled_as (charge_of u) a) \<noteq> RESERVED" by (simp add: settled_as_def)
  moreover have "row_state row' \<noteq> QUEUED" if "rt_closed rt" "find_job ?T k ?st = Some row'" for k row'
    using ok that by (auto simp: coord_ok_def)
  moreover have "validate_config (rt_config rt) = Inr (rt_config rt)" using ok by (simp add: coord_ok_def)
  ultimately show "coord_ok rt'"
    using fileok q tasks r(3) keep(3) distinct_delete [OF d, of i]
    unfolding coord_ok_def keep(1,2) running rest
    by (intro conjI allI impI ballI) (auto simp: find att split: if_splits)
  show "rows_advance ?T ?st ?st'" using row r(2) by (auto simp: rows_advance_def find)
  show "sessions_advance ?T ?st ?st'" by (auto simp: sessions_advance_def sess)
qed

lemma row_session:
  "coord_ok rt \<Longrightarrow> find_job (tenant_of rt) i (rt_store rt) = Some row \<Longrightarrow>
   is_ok (get_session (tenant_of rt) (job_session_id (row_body row)) (rt_store rt))"
  unfolding coord_ok_def file_ok_def by blast

text \<open>What the invariant says of a task.\<close>

lemma task_of:
  assumes "coord_ok rt" "map_of (rt_running rt) i = Some t"
  obtains row a s where "find_job (tenant_of rt) i (rt_store rt) = Some row" "row_body row = task_job t"
    "job_tenant (task_job t) = tenant_of rt" "job_id (task_job t) = i"
    "rc_job_id (row_receipt row) = i" "rc_state (row_receipt row) \<in> {RUNNING, EXPIRED, STALE, CANCELLED}"
    "rc_started_ns (row_receipt row) \<noteq> None" "rc_prediction_json (row_receipt row) = None"
    "find_attempt (tenant_of rt) i (rt_store rt) = Some a" "at_actual a = None"
    "get_session (job_tenant (task_job t)) (job_session_id (task_job t)) (rt_store rt) = Inr s"
proof -
  have mem: "(i, t) \<in> set (rt_running rt)" using assms(2) by (rule map_of_SomeD)
  with assms(1) have "task_fits (rt_config rt) (rt_store rt) i t" by (auto simp: coord_ok_def)
  then obtain row a where row: "find_job (tenant_of rt) i (rt_store rt) = Some row" "row_body row = task_job t"
    "row_state row \<in> {RUNNING, EXPIRED, STALE, CANCELLED}" "rc_started_ns (row_receipt row) \<noteq> None"
    "rc_prediction_json (row_receipt row) = None"
    and a: "find_attempt (tenant_of rt) i (rt_store rt) = Some a" "at_disposition a = RESERVED"
    by (auto simp: task_fits_def)
  note st = coord_store_ok [OF assms(1)]
  have "is_ok (get_session (tenant_of rt) (job_session_id (task_job t)) (rt_store rt))"
    using row_session [OF assms(1) row(1)] row(2) by simp
  moreover have "at_actual a = None" using find_attempt_ok(1) [OF st a(1)] a(2) by (simp add: attempt_ok_def)
  moreover have "job_tenant (task_job t) = tenant_of rt" "job_id (task_job t) = i" "rc_job_id (row_receipt row) = i"
    "rc_state (row_receipt row) = row_state row"
    using find_job_ok [OF st row(1)] row(2) by (auto simp: row_ok_def)
  ultimately show ?thesis using that [OF row(1,2)] row(3-5) a(1) by (auto simp: is_ok_iff)
qed

lemma release_task_reads [simp]:
  "rt_store (release_task i t rt) = rt_store rt" "rt_config (release_task i t rt) = rt_config rt"
  "rt_clock (release_task i t rt) = rt_clock rt" "rt_cache (release_task i t rt) = rt_cache rt"
  "rt_closed (release_task i t rt) = rt_closed rt"
  "rt_running (release_task i t rt) = AList.delete i (rt_running rt)"
  "rt_pool_use (release_task i t rt) = use_add (ep_pool (task_endpoint t)) (- 1) (rt_pool_use rt)"
  "rt_endpoint_use (release_task i t rt) = use_add (ep_id (task_endpoint t)) (- 1) (rt_endpoint_use rt)"
  by (simp_all add: release_task_def)

lemma set_state_store:
  "rt_store (snd (set_state j r state reason rt)) = add_event (fst (clock_now_ns (rt_clock rt))) ''job_state''
     [(''job_id'', JStr (job_id j)), (''state'', JStr (state_value state)), (''reason'', opt_json JStr reason)]
     (set_receipt (job_tenant j) (r\<lparr>rc_state := state, rc_reason := reason\<rparr>) (rt_store rt))"
  by (simp add: set_state_eq)

lemma st_jobs_set_receipt_cong:
  "st_jobs st = st_jobs st' \<Longrightarrow> st_jobs (set_receipt t r st) = st_jobs (set_receipt t r st')"
  by (simp add: set_receipt_def)

lemma st_attempts_settle_cong:
  "st_attempts st = st_attempts st' \<Longrightarrow> st_attempts (settle j u st) = st_attempts (settle j u st')"
  by (simp add: settle_alt update_attempts_def)

lemma unresolved_cong: "st_attempts st = st_attempts st' \<Longrightarrow> unresolved t st i = unresolved t st' i"
  by (simp add: unresolved_def find_attempt_cong [of st st'])

lemma good_finish:
  assumes ok: "coord_ok rt" and task: "map_of (rt_running rt) i = Some t"
    and row: "find_job (tenant_of rt) i (rt_store rt) = Some row"
    and r: "rc_job_id r = i" "receipt_le (row_receipt row) r" "rc_state r \<notin> {QUEUED, RUNNING}"
    and keep: "rt_config rt' = rt_config rt" "rt_closed rt' = rt_closed rt" "cache_inv (rt_cache rt')"
      "clock_id_of rt' = clock_id_of rt"
    and running: "rt_running rt' = AList.delete i (rt_running rt)"
    and uses: "rt_pool_use rt' = use_add (ep_pool (task_endpoint t)) (- 1) (rt_pool_use rt)"
      "rt_endpoint_use rt' = use_add (ep_id (task_endpoint t)) (- 1) (rt_endpoint_use rt)"
    and store: "st_jobs (rt_store rt') = st_jobs (set_receipt (tenant_of rt) r (rt_store rt))"
      "st_attempts (rt_store rt') = st_attempts (settle (task_job t) u (rt_store rt))"
      "st_sessions (rt_store rt') = st_sessions (rt_store rt)"
    and steps: "ledger_step\<^sup>*\<^sup>* (rt_store rt) (rt_store rt')"
  shows "good rt rt'"
  using finish_ok [OF ok task row r keep(1-3) running uses store] steps keep
  by (simp add: good_def moves_def)

lemma fail_task_good:
  assumes "map_of (rt_running rt) i = Some t"
  shows "good rt (fail_task i t f rt)"
proof (rule good_assume)
  assume ok: "coord_ok rt"
  from task_of [OF ok assms] obtain row a where row: "find_job (tenant_of rt) i (rt_store rt) = Some row"
    "row_body row = task_job t" "rc_job_id (row_receipt row) = i"
    "rc_state (row_receipt row) \<in> {RUNNING, EXPIRED, STALE, CANCELLED}"
    and a: "find_attempt (tenant_of rt) i (rt_store rt) = Some a" "at_actual a = None"
    and id: "job_tenant (task_job t) = tenant_of rt" "job_id (task_job t) = i"
    by metis
  let ?u = "if fail_not_sent f then Some zero_cost else None"
  let ?old = "row_receipt row"
  let ?state = "if rc_state ?old \<noteq> RUNNING then rc_state ?old else if fail_termination_known f then FAILED else UNKNOWN"
  let ?rt1 = "on_store (settle (task_job t) ?u) rt"
  let ?rt2 = "if fail_not_sent f then emit_now ''backend_not_sent''
      [(''job_id'', JStr (job_id (task_job t))), (''reason'', JStr (fail_code f))] ?rt1 else ?rt1"
  let ?r0 = "?old\<lparr>rc_completed_ns := Some (fst (clock_now_ns (rt_clock ?rt2)))\<rparr>"
  let ?rt3 = "snd (set_state (task_job t) ?r0 ?state (Some (fail_code f)) (?rt2\<lparr>rt_clock := snd (clock_now_ns (rt_clock ?rt2))\<rparr>))"
  let ?rt4 = "if fail_termination_known f then ?rt3 else emit_now ''pool_quarantined''
      [(''pool'', JStr (ep_pool (task_endpoint t))), (''job_id'', JStr (job_id (task_job t)))]
      (on_store (quarantine (ep_pool (task_endpoint t)) ''unconfirmed_backend_termination'') ?rt3)"
  have get: "get_job (job_tenant (task_job t)) (job_id (task_job t)) (rt_store ?rt2) = Inr (task_job t, ?old)"
    using row by (auto simp: get_job_Inr_iff id ledger)
  have eq: "fail_task i t f rt = release_task i t ?rt4"
    using get by (simp add: fail_task_def Let_def read_now_eq cong: sum.case_cong)
  let ?r = "?r0\<lparr>rc_state := ?state, rc_reason := Some (fail_code f)\<rparr>"
  have "unresolved (job_tenant (task_job t)) (rt_store rt) (job_id (task_job t))"
    using a id by (simp add: unresolved_def)
  then have "ledger_step\<^sup>*\<^sup>* (rt_store rt) (rt_store ?rt1)"
    using ledger_steps_settle [OF rtranclp.rtrancl_refl] by simp
  then have steps2: "ledger_step\<^sup>*\<^sup>* (rt_store rt) (rt_store ?rt2)"
    by (cases "fail_not_sent f") (simp_all add: ledger_steps)
  then have "ledger_step\<^sup>*\<^sup>* (rt_store rt) (rt_store ?rt3)"
    unfolding set_state_store by (intro ledger_steps) simp
  then have steps: "ledger_step\<^sup>*\<^sup>* (rt_store rt) (rt_store ?rt4)"
    using ledger_steps by simp
  have t2: "st_jobs (rt_store ?rt2) = st_jobs (rt_store rt)" "st_sessions (rt_store ?rt2) = st_sessions (rt_store rt)"
    "st_attempts (rt_store ?rt2) = st_attempts (settle (task_job t) ?u (rt_store rt))" by simp_all
  have t3: "st_jobs (rt_store ?rt3) = st_jobs (set_receipt (tenant_of rt) ?r (rt_store rt))"
    "st_sessions (rt_store ?rt3) = st_sessions (rt_store rt)"
    "st_attempts (rt_store ?rt3) = st_attempts (settle (task_job t) ?u (rt_store rt))"
    unfolding set_state_store using t2 st_jobs_set_receipt_cong [OF t2(1)] id by simp_all
  have t4: "st_jobs (rt_store ?rt4) = st_jobs (rt_store ?rt3)" "st_sessions (rt_store ?rt4) = st_sessions (rt_store ?rt3)"
    "st_attempts (rt_store ?rt4) = st_attempts (rt_store ?rt3)" by simp_all
  show ?thesis
    unfolding eq
  proof (rule good_finish [OF ok assms row(1), of ?r])
    show "receipt_le ?old ?r" "rc_state ?r \<notin> {QUEUED, RUNNING}" "rc_job_id ?r = i"
      using row(3,4) by (auto simp: receipt_le_def)
    show "cache_inv (rt_cache (release_task i t ?rt4))" using ok by (simp add: coord_ok_def)
    show "st_jobs (rt_store (release_task i t ?rt4)) = st_jobs (set_receipt (tenant_of rt) ?r (rt_store rt))"
      "st_attempts (rt_store (release_task i t ?rt4)) = st_attempts (settle (task_job t) ?u (rt_store rt))"
      "st_sessions (rt_store (release_task i t ?rt4)) = st_sessions (rt_store rt)"
      unfolding release_task_reads t4 t3 by (rule refl)+
    show "ledger_step\<^sup>*\<^sup>* (rt_store rt) (rt_store (release_task i t ?rt4))"
      unfolding release_task_reads by (rule steps)
  qed simp_all
qed

lemma update_present_keys: "map_of al i = Some t \<Longrightarrow> map fst (AList.update i t' al) = map fst al"
  by (induction al) (auto split: if_splits)

lemma update_present_count:
  "map_of al i = Some t \<Longrightarrow> P (i, t') = P (i, t) \<Longrightarrow>
   length (filter P (AList.update i t' al)) = length (filter P al)"
  by (induction al) (auto split: if_splits)

lemma good_task_begun:
  assumes "map_of (rt_running rt) i = Some t"
  shows "good rt (rt\<lparr>rt_running := AList.update i (t\<lparr>task_begun := True\<rparr>) (rt_running rt)\<rparr>)"
proof (rule goodI)
  assume ok: "coord_ok rt"
  let ?t = "t\<lparr>task_begun := True\<rparr>" and ?run = "AList.update i (t\<lparr>task_begun := True\<rparr>) (rt_running rt)"
  note keys = update_present_keys [OF assms, of ?t]
  have fst_keys: "fst ` set ?run = fst ` set (rt_running rt)" using keys by (metis set_map)
  have fits: "task_fits c st k ?t = task_fits c st k t" for c st k by (simp add: task_fits_def)
  have tasks: "task_fits (rt_config rt) (rt_store rt) k t'" if "(k, t') \<in> set ?run" for k t'
    using set_update_cases [OF that] map_of_SomeD [OF assms] ok fits by (auto simp: coord_ok_def)
  have count: "length (filter (\<lambda>it. ep_pool (task_endpoint (snd it)) = x) ?run) =
      length (filter (\<lambda>it. ep_pool (task_endpoint (snd it)) = x) (rt_running rt))"
    "length (filter (\<lambda>it. ep_id (task_endpoint (snd it)) = x) ?run) =
      length (filter (\<lambda>it. ep_id (task_endpoint (snd it)) = x) (rt_running rt))" for x
    by (rule update_present_count [OF assms], simp)+
  have "uses_fit (rt_config rt) (rt_running rt) (rt_pool_use rt) (rt_endpoint_use rt)"
    using ok by (simp add: coord_ok_def)
  then have "uses_fit (rt_config rt) ?run (rt_pool_use rt) (rt_endpoint_use rt)"
    unfolding uses_fit_def count .
  then have "coord_ok (rt\<lparr>rt_running := ?run\<rparr>)"
    using ok tasks keys fst_keys by (auto simp: coord_ok_def)
  then show "coord_ok (rt\<lparr>rt_running := ?run\<rparr>) \<and> moves rt (rt\<lparr>rt_running := ?run\<rparr>)"
    by (simp add: moves_def)
qed

lemma task_begin_good: "good rt (task_begin i rt)"
proof (cases "map_of (rt_running rt) i")
  case (Some t)
  show ?thesis
  proof (rule good_assume)
    assume ok: "coord_ok rt"
    from task_of [OF ok Some] obtain row a s where row: "find_job (tenant_of rt) i (rt_store rt) = Some row"
      "row_body row = task_job t" "rc_job_id (row_receipt row) = i"
      "rc_state (row_receipt row) \<in> {RUNNING, EXPIRED, STALE, CANCELLED}"
      and a: "find_attempt (tenant_of rt) i (rt_store rt) = Some a" "at_actual a = None"
      and id: "job_tenant (task_job t) = tenant_of rt" "job_id (task_job t) = i"
      and s: "get_session (job_tenant (task_job t)) (job_session_id (task_job t)) (rt_store rt) = Inr s"
      by metis
    let ?rt = "rt\<lparr>rt_clock := snd (clock_now_ns (rt_clock rt))\<rparr>" and ?now = "fst (clock_now_ns (rt_clock rt))"
    show ?thesis
    proof (cases "task_begun t")
      case False
      show ?thesis
      proof (cases "invalid_reason (task_job t) s ?now (clock_id_of rt)")
        case None
        then have "task_begin i rt = ?rt\<lparr>rt_running := AList.update i (t\<lparr>task_begun := True\<rparr>) (rt_running ?rt)\<rparr>"
          using Some False s by (simp add: task_begin_def Let_def read_now_eq)
        then show ?thesis using good_trans [OF good_clock good_task_begun [of ?rt i t]] Some by simp
      next
        case (Some reason)
        let ?old = "row_receipt row"
        let ?rt1 = "on_store (settle (task_job t) (Some zero_cost)) ?rt"
        let ?rt2 = "snd (set_state (task_job t) ?old (lapse_state reason) (Some reason) ?rt1)"
        let ?rt3 = "emit_now ''not_sent_after_dispatch_check'' [(''job_id'', JStr (job_id (task_job t)))] ?rt2"
        let ?r = "?old\<lparr>rc_state := lapse_state reason, rc_reason := Some reason\<rparr>"
        have get: "get_job (job_tenant (task_job t)) (job_id (task_job t)) (rt_store ?rt1) = Inr (task_job t, ?old)"
          using row by (auto simp: get_job_Inr_iff id ledger)
        have eq: "task_begin i rt = release_task i t ?rt3"
          using \<open>map_of (rt_running rt) i = Some t\<close> False s Some get by (simp add: task_begin_def Let_def read_now_eq)
        have un: "unresolved (job_tenant (task_job t)) (rt_store rt) (job_id (task_job t))"
          using a id by (simp add: unresolved_def)
        show ?thesis
          unfolding eq
        proof (rule good_finish [OF ok \<open>map_of (rt_running rt) i = Some t\<close> row(1), of ?r])
          show "receipt_le ?old ?r" "rc_state ?r \<notin> {QUEUED, RUNNING}" "rc_job_id ?r = i"
            using row(3,4) lapse_state_cases [of reason] by (auto simp: receipt_le_def)
          show "cache_inv (rt_cache (release_task i t ?rt3))" using ok by (simp add: coord_ok_def)
          show "st_jobs (rt_store (release_task i t ?rt3)) = st_jobs (set_receipt (tenant_of rt) ?r (rt_store rt))"
            using st_jobs_set_receipt_cong [of "settle (task_job t) (Some zero_cost) (rt_store rt)" "rt_store rt"] id
            by (simp add: set_state_store)
          show "ledger_step\<^sup>*\<^sup>* (rt_store rt) (rt_store (release_task i t ?rt3))"
            using un by (simp add: set_state_store ledger_steps ledger_steps_settle)
        qed (simp_all add: set_state_store)
      qed
    qed (simp add: task_begin_def Some)
  qed
qed (simp add: task_begin_def)

lemma task_fail_good: "good rt (task_fail i f rt)"
  using fail_task_good by (simp add: task_fail_def split: option.split)

lemma task_complete_good: "good rt (task_complete i p rt)"
proof (cases "map_of (rt_running rt) i")
  case (Some t)
  show ?thesis
  proof (rule good_assume)
    assume ok: "coord_ok rt"
    from task_of [OF ok Some] obtain row a s where row: "find_job (tenant_of rt) i (rt_store rt) = Some row"
      "row_body row = task_job t" "rc_job_id (row_receipt row) = i"
      "rc_state (row_receipt row) \<in> {RUNNING, EXPIRED, STALE, CANCELLED}"
      "rc_prediction_json (row_receipt row) = None"
      and a: "find_attempt (tenant_of rt) i (rt_store rt) = Some a" "at_actual a = None"
      and id: "job_tenant (task_job t) = tenant_of rt" "job_id (task_job t) = i"
      and s: "get_session (job_tenant (task_job t)) (job_session_id (task_job t)) (rt_store rt) = Inr s"
      by metis
    let ?rt = "rt\<lparr>rt_clock := snd (clock_now_ns (rt_clock rt))\<rparr>" and ?now = "fst (clock_now_ns (rt_clock rt))"
    let ?old = "row_receipt row"
    have get: "get_job (job_tenant (task_job t)) (job_id (task_job t)) (rt_store rt) = Inr (task_job t, ?old)"
      using row by (auto simp: get_job_Inr_iff id)
    consider (idle) "\<not> task_begun t" | (bad) "task_begun t" "first_content_bad ?old p ?now"
      | (finished) "task_begun t" "\<not> first_content_bad ?old p ?now" by blast
    then show ?thesis
    proof cases
      case idle
      then show ?thesis by (simp add: task_complete_def Some)
    next
      case bad
      then show ?thesis
        using get Some good_trans [OF good_clock fail_task_good [of ?rt i t]]
        by (simp add: task_complete_def read_now_eq)
    next
      case finished
      let ?rt1 = "on_store (settle (task_job t) (Some (pred_usage p))) ?rt"
      let ?out = "finish_outcome ?old (invalid_reason (task_job t) s ?now (clock_id_of rt))"
      let ?r = "finished_receipt ?old (fst ?out) (snd ?out) p ?now"
      let ?rt2 = "on_store (set_receipt (job_tenant (task_job t)) ?r) ?rt1"
      let ?rt3 = "if fst ?out = SUCCEEDED
          then ?rt2\<lparr>rt_cache := cache_put (rt_cache ?rt2) (task_key t) (pred_payload_json p) ?now\<rparr> else ?rt2"
      let ?m = "[(''job_id'', JStr (job_id (task_job t))), (''state'', JStr (state_value (fst ?out))),
          (''queue_ns'', (case rc_started_ns ?old of None \<Rightarrow> JNull | Some x \<Rightarrow> JInt (x - rc_submitted_ns ?old))),
          (''backend_roundtrip_ns'', elapsed_json ?now (rc_started_ns ?old)),
          (''first_content_ns'', opt_json JInt (pred_first_content_ns p)),
          (''deadline_met'', JBool (fst ?out = SUCCEEDED)),
          (''cost_microusd'', opt_json JInt (cost_microusd (pred_usage p)))]"
      have eq: "task_complete i p rt = release_task i t (emit ?now ''completed'' ?m ?rt3)"
        using get s Some finished by (simp add: task_complete_def read_now_eq split_beta Let_def ledger)
      have out: "fst ?out \<notin> {QUEUED, RUNNING} \<and> reaches (rc_state ?old) (fst ?out)"
        using row(4) by (auto simp: finish_outcome_def lapse_state_def split: option.splits)
      have t3: "rt_store ?rt3 = rt_store ?rt2" "rt_config ?rt3 = rt_config rt" "rt_closed ?rt3 = rt_closed rt"
        "rt_running ?rt3 = rt_running rt" "rt_pool_use ?rt3 = rt_pool_use rt"
        "rt_endpoint_use ?rt3 = rt_endpoint_use rt" "clock_id_of ?rt3 = clock_id_of rt"
        by simp_all
      have un: "unresolved (job_tenant (task_job t)) (rt_store rt) (job_id (task_job t))"
        using a id by (simp add: unresolved_def)
      show ?thesis
        unfolding eq
      proof (rule good_finish [OF ok Some row(1), of ?r])
        show "receipt_le ?old ?r" "rc_state ?r \<notin> {QUEUED, RUNNING}" "rc_job_id ?r = i"
          using row(3,5) out by (auto simp: receipt_le_def finished_receipt_def)
        show "cache_inv (rt_cache (release_task i t (emit ?now ''completed'' ?m ?rt3)))"
          using ok historical.put_inv by (simp add: coord_ok_def)
        show "st_jobs (rt_store (release_task i t (emit ?now ''completed'' ?m ?rt3))) =
            st_jobs (set_receipt (tenant_of rt) ?r (rt_store rt))"
          using st_jobs_set_receipt_cong [of "settle (task_job t) (Some (pred_usage p)) (rt_store rt)" "rt_store rt"] id
          by (simp add: t3)
        show "ledger_step\<^sup>*\<^sup>* (rt_store rt) (rt_store (release_task i t (emit ?now ''completed'' ?m ?rt3)))"
          using un by (simp add: t3 ledger_steps ledger_steps_settle)
      qed (simp_all add: t3)
    qed
  qed
qed (simp add: task_complete_def)

end
