(* ===== verification/Coordinator_Run.thy ===== *)
theory Coordinator_Run
  imports Coordinator_Inv
begin

text \<open>
  The coordinator over time: delivery and shutdown keep the invariant, a run is a sequence of
  operations in any order (\<open>rt_step\<close>), and \<open>reachable\<close> are the coordinators that some sequence of
  starts, runs, crashes and offline ledger operations leads to.
\<close>

section \<open>Delivery\<close>

lemma get_job_row:
  assumes "coord_ok rt" "get_job (tenant_of rt) i (rt_store rt) = Inr (j, r)"
  shows "row_is rt (j, r) \<and> job_id j = i"
proof -
  from assms(2) obtain row where row: "find_job (tenant_of rt) i (rt_store rt) = Some row" "row_body row = j"
    "row_receipt row = r" by (auto simp: get_job_Inr_iff)
  with find_job_ok [OF coord_store_ok [OF assms(1)] row(1)] show ?thesis
    by (auto simp: row_is_def row_ok_def)
qed

lemma cancel_good: "good rt (snd (cancel i rt))"
proof (rule good_assume)
  assume ok: "coord_ok rt"
  show ?thesis
  proof (cases "get_job (tenant_of rt) i (rt_store rt)")
    case (Inr jr)
    obtain j r where jr: "jr = (j, r)" by (cases jr)
    with get_job_row [OF ok] Inr have row: "row_is rt (j, r)" by auto
    then have t: "job_tenant j = tenant_of rt" by (simp add: row_is_def)
    have "may_set rt (job_id j) (r\<lparr>rc_state := CANCELLED, rc_reason := x\<rparr>)" if "rc_state r \<in> {QUEUED, RUNNING, SUCCEEDED}" for x
    proof (cases "rc_state r = SUCCEEDED")
      case True
      from row obtain row' where row': "find_job (tenant_of rt) (job_id j) (rt_store rt) = Some row'"
        "row_receipt row' = r" "rc_job_id r = job_id j" by (auto simp: row_is_def)
      then have "row_state row' = SUCCEEDED"
        using True find_job_ok(1) [OF coord_store_ok [OF ok] row'(1)] by (simp add: row_ok_def)
      then have "job_id j \<notin> fst ` set (rt_running rt)"
        using ok row'(1) by (fastforce simp: coord_ok_def task_fits_def)
      with row' True show ?thesis by (auto simp: may_set_def receipt_le_def)
    qed (use that may_set_end [OF row] in auto)
    then show ?thesis
      using Inr jr good_set_state [where rt = rt and i = "job_id j" and r = r and state = CANCELLED and j = j and reason = "Some ''consumer_cancelled''"] t
      by (auto simp: cancel_def split_beta)
  qed (simp add: cancel_def)
qed

lemma read_ages_store [simp]: "rt_store (snd (read_ages os rt)) = rt_store rt"
  by (induction os arbitrary: rt) (simp_all add: read_now_eq split_beta Let_def)

lemma read_ages_good: "good rt (snd (read_ages os rt))"
proof (induction os arbitrary: rt)
  case (Cons o' os)
  then show ?case using good_trans [OF good_clock Cons] by (simp add: read_now_eq split_beta Let_def)
qed simp

lemma consume_good: "good rt (snd (consume i c rt))"
proof (rule good_assume)
  assume ok: "coord_ok rt"
  let ?rt1 = "rt\<lparr>rt_clock := snd (clock_now_ns (rt_clock rt))\<rparr>"
  let ?rt2 = "?rt1\<lparr>rt_clock := snd (clock_now_ns (rt_clock ?rt1))\<rparr>"
  have g1: "good rt ?rt1" by (rule good_clock)
  have g2: "good rt ?rt2" by (rule good_trans [OF good_clock good_clock])
  show ?thesis
  proof (cases "fst (consume i c rt)")
    case (Inl e)
    then show ?thesis using g1 g2
      by (auto simp: consume_def read_now_eq Let_def split_beta split: sum.splits option.splits if_splits)
  next
    case (Inr done')
    then obtain j r s where get: "get_job (tenant_of rt) i (rt_store rt) = Inr (j, r)"
      and s: "get_session (job_tenant j) (job_session_id j) (rt_store rt) = Inr s"
      by (auto simp: consume_def split: sum.splits)
    have row: "row_is rt (j, r)" "job_id j = i" using get_job_row [OF ok get] by auto
    have st: "rc_state r \<in> {SUCCEEDED, CONSUMED}"
      using Inr get s by (auto simp: consume_def read_now_eq Let_def split: option.splits if_splits)
    show ?thesis
    proof (cases "rc_consumed_by r")
      case (Some c')
      then show ?thesis using g1 Inr get s
        by (auto simp: consume_def read_now_eq Let_def split: option.splits if_splits)
    next
      case None
      let ?r = "r\<lparr>rc_state := CONSUMED, rc_consumed_by := Some c, rc_consumed_ns := Some (fst (clock_now_ns (rt_clock ?rt1)))\<rparr>"
      let ?rt3 = "on_store (set_receipt (tenant_of ?rt2) ?r) ?rt2"
      let ?rt4 = "?rt3\<lparr>rt_clock := snd (clock_now_ns (rt_clock ?rt3))\<rparr>"
      from row obtain row' where row': "find_job (tenant_of rt) (job_id j) (rt_store rt) = Some row'"
        "row_receipt row' = r" "rc_job_id r = job_id j" "job_tenant j = tenant_of rt" by (auto simp: row_is_def)
      then have "row_state row' \<in> {SUCCEEDED, CONSUMED}"
        using st find_job_ok(1) [OF coord_store_ok [OF ok] row'(1)] by (simp add: row_ok_def)
      then have "job_id j \<notin> fst ` set (rt_running rt)"
        using ok row'(1) by (fastforce simp: coord_ok_def task_fits_def)
      with row' st None have "may_set ?rt2 (job_id j) ?r" by (auto simp: may_set_def receipt_le_def)
      then have "good ?rt2 ?rt3" by (rule good_receipt)
      then have g: "good rt (snd (read_ages (job_observations j) ?rt4))"
        by (rule good_trans [OF good_trans [OF g2] good_trans [OF good_clock read_ages_good]])
      have "snd (consume i c rt) = emit (fst (clock_now_ns (rt_clock ?rt3))) ''consumed''
          [(''job_id'', JStr (job_id j)), (''consumer_id'', JStr c),
           (''max_current_age_ns'', opt_json JInt (max_opt (fst (read_ages (job_observations j) ?rt4)))),
           (''action_authorized'', JBool False)] (snd (read_ages (job_observations j) ?rt4))"
        using Inr get s st None row'(4)
        by (auto simp: consume_def read_now_eq Let_def split_beta split: option.splits if_splits)
      then show ?thesis using good_trans [OF g good_emit] by simp
    qed
  qed
qed

lemma record_outcome_good: "good rt (snd (record_outcome i c outcome evidence rt))"
  by (auto simp: record_outcome_def good_emit_now split: sum.split)

lemma wait_turn_snd: "snd (wait_turn i elapsed rt) = snd (tick rt)"
  by (auto simp: wait_turn_def Let_def split: sum.splits prod.splits)

section \<open>Shutdown\<close>

lemma set_state_closed:
  "snd (set_state j r s reason (rt\<lparr>rt_closed := b\<rparr>)) = (snd (set_state j r s reason rt))\<lparr>rt_closed := b\<rparr>"
  by (simp add: set_state_eq emit_now_eq emit_def on_store_def)

lemma fold_closed:
  "fold (\<lambda>(j, r) rt. snd (set_state j r s reason rt)) jrs (rt\<lparr>rt_closed := b\<rparr>) =
   (fold (\<lambda>(j, r) rt. snd (set_state j r s reason rt)) jrs rt)\<lparr>rt_closed := b\<rparr>"
  by (induction jrs arbitrary: rt) (auto simp: set_state_closed)

lemma fold_ended:
  assumes "\<forall>jr \<in> set jrs. rc_job_id (snd jr) = job_id (fst jr) \<and> job_tenant (fst jr) = t" "s \<noteq> QUEUED"
    "find_job t i (rt_store (fold (\<lambda>(j, r) rt. snd (set_state j r s reason rt)) jrs rt)) = Some row"
    "row_state row = QUEUED"
  shows "find_job t i (rt_store rt) = Some row \<and> i \<notin> job_id ` fst ` set jrs"
  using assms
proof (induction jrs arbitrary: rt)
  case (Cons jr jrs)
  obtain j r where jr: "jr = (j, r)" by (cases jr)
  have "find_job t i (rt_store (snd (set_state j r s reason rt))) = Some row" "i \<notin> job_id ` fst ` set jrs"
    using Cons.IH [of "snd (set_state j r s reason rt)"] Cons.prems jr by auto
  with Cons.prems jr show ?case
    by (auto simp: set_state_store find_job_set_receipt find_job_frame split: if_splits option.splits)
qed simp

lemma close_queue_good: "good rt (close_queue rt)"
proof (rule goodI)
  assume ok: "coord_ok rt"
  let ?q = "list_jobs (tenant_of rt) [QUEUED] (rt_store rt)"
  let ?fin = "fold (\<lambda>(j, r) rt. snd (set_state j r CANCELLED (Some ''coordinator_shutdown'') rt)) ?q rt"
  have q: "\<forall>jr \<in> set ?q. row_is rt jr \<and> rc_state (snd jr) = QUEUED"
    using snapshot_rows [OF ok, of _ "[QUEUED]"] by auto
  have g: "good rt ?fin" using good_end_queued [OF ok q snapshot_distinct [OF ok]] by simp
  then have ok': "coord_ok ?fin" and m: "moves rt ?fin" using ok by (simp_all add: good_def)
  have "row_state row \<noteq> QUEUED" if "find_job (tenant_of rt) i (rt_store ?fin) = Some row" for i row
  proof
    assume st: "row_state row = QUEUED"
    have ids: "\<forall>jr \<in> set ?q. rc_job_id (snd jr) = job_id (fst jr) \<and> job_tenant (fst jr) = tenant_of rt"
      using q by (auto simp: row_is_def)
    have row: "find_job (tenant_of rt) i (rt_store rt) = Some row" "i \<notin> job_id ` fst ` set ?q"
      using fold_ended [OF ids _ that st] by auto
    moreover have "(row_body row, row_receipt row) \<in> set ?q \<and> job_id (row_body row) = i"
      using find_job_ok [OF coord_store_ok [OF ok] row(1)] row(1) st
      by (auto simp: list_jobs_iff [OF coord_store_ok [OF ok]] row_ok_def)
    ultimately show False by (force simp: image_iff)
  qed
  moreover have "tenant_of ?fin = tenant_of rt" using m by (simp add: moves_def)
  ultimately have "coord_ok (?fin\<lparr>rt_closed := True\<rparr>)"
    using ok' by (simp add: coord_ok_def)
  then show "coord_ok (close_queue rt) \<and> moves rt (close_queue rt)"
    using m by (simp add: close_queue_def fold_closed moves_def)
qed

lemma close_begin_good: "good rt (close_begin rt)"
  by (simp add: close_begin_def close_queue_good)

lemma fold_task_fail_good: "good rt (fold (\<lambda>i. task_fail i f) is rt)"
  by (induction "is" arbitrary: rt) (auto intro: good_trans [OF task_fail_good])

lemma close_tasks_good: "good rt (close_tasks rt)"
  unfolding close_tasks_def by (rule good_trans [OF fold_task_fail_good good_emit_now])

section \<open>Starting\<close>

lemma fold_kept: "(\<And>x st. f (g x st) = f st) \<Longrightarrow> f (fold g xs st) = f st"
  by (induction xs arbitrary: st) auto

lemma recover_tenant [simp]: "st_tenant (recover t now st) = st_tenant st"
proof -
  have "st_tenant (recover_job t now jr st) = st_tenant st" for jr st
    by (cases jr) (auto simp: recover_job_alt release_in_flight_def split: option.split)
  moreover have "st_tenant (recover_attempt t now a st) = st_tenant st" for a st
    by (simp add: recover_attempt_def)
  ultimately show ?thesis by (simp add: recover_def Let_def fold_kept)
qed

lemma ledger_step_tenant: "ledger_step st st' \<Longrightarrow> store_ok st \<Longrightarrow> st_tenant st' = st_tenant st"
  by (induction rule: ledger_step.cases)
    (auto simp: reconcile_many_eq add_job_def rbind_Inr_iff reserve_def release_pool_def extend_budget_def Let_def split: if_splits)

lemma ledger_steps_tenant:
  assumes "ledger_step\<^sup>*\<^sup>* st st'" "store_ok st"
  shows "st_tenant st' = st_tenant st \<and> store_ok st'"
  using assms(1)
proof induction
  case (step st1 st2)
  then show ?case using ledger_step_tenant [of st1 st2] ledger_step_laws [of st1 st2] by simp
qed (simp add: assms(2))

lemma moves_tenant: "moves rt rt' \<Longrightarrow> coord_ok rt \<Longrightarrow> st_tenant (rt_store rt') = st_tenant (rt_store rt)"
  using ledger_steps_tenant coord_store_ok by (auto simp: moves_def)

lemma file_ok_recover:
  assumes "file_ok t st"
  shows "file_ok t (recover t now st)"
proof -
  have ok: "store_ok st" using assms by (simp add: file_ok_def)
  note reads = recover_reads [OF ok, where t = t and now = now]
  have "find_job t i (recover t now st) = None \<longleftrightarrow> find_job t i st = None" for i by (simp add: reads(2))
  moreover have "\<exists>row. find_job t i st = Some row \<and> row_body row = row_body row'"
    if "find_job t i (recover t now st) = Some row'" for i row'
    using that by (auto simp: reads(2))
  moreover have "find_attempt t i (recover t now st) = None \<longleftrightarrow> find_attempt t i st = None" for i
    by (simp add: reads(3))
  moreover have "is_ok (get_session t i (recover t now st)) \<longleftrightarrow> is_ok (get_session t i st)" for i
    by (simp add: reads(5) is_ok_iff) (cases "get_session t i st"; simp)
  ultimately show ?thesis
    using assms reads(1) unfolding file_ok_def by (metis not_None_eq)
qed

lemma file_ok_empty: "file_ok t (empty_store b)"
  using store_ok_empty [of b] by (simp add: file_ok_def find_job_def find_attempt_def empty_store_def)

lemma start_ok:
  assumes "start_runtime sha cfg clk net bks locked file_left fp = Inr rt"
    "\<And>st. file_left = Some st \<Longrightarrow> \<exists>t. st_tenant st = Some t \<and> file_ok t st"
  shows "coord_ok rt \<and> st_tenant (rt_store rt) = Some (tenant_of rt)"
proof -
  from assms(1) obtain st1 st2 now1 now2 clk' m where val: "validate_config cfg = Inr cfg"
    and opened: "open_store locked file_left (budget_of cfg) = Inr st1" "bind_tenant (cfg_tenant cfg) st1 = Inr st2"
    and rt: "rt = \<lparr>rt_sha = sha, rt_config = cfg, rt_clock = clk',
        rt_store = add_event now2 ''coordinator_started'' m (recover (cfg_tenant cfg) now1 st2),
        rt_cache = new_cache (cfg_cache_entries cfg) (cfg_cache_bytes cfg) (cfg_cache_ttl_ns cfg),
        rt_pool_use = [], rt_endpoint_use = [], rt_running = [], rt_backends = bks,
        rt_allow_network = net, rt_closed = False\<rparr>"
    using validate_config_refs(1)
    by (fastforce simp: start_runtime_def rbind_Inr_iff Let_def split_beta)
  have fields: "config_fields_ok cfg" using validate_config_refs(2) [OF val] .
  have st2: "st_tenant st2 = Some (cfg_tenant cfg) \<and> file_ok (cfg_tenant cfg) st2"
  proof (cases file_left)
    case None
    then have "st2 = (empty_store (budget_of cfg))\<lparr>st_tenant := Some (cfg_tenant cfg)\<rparr>"
      using opened by (auto simp: open_store_def bind_tenant_def empty_store_def split: if_splits)
    then show ?thesis
      using file_ok_empty [of "cfg_tenant cfg" "budget_of cfg"] file_ok_cong [of st2 "empty_store (budget_of cfg)"] by simp
  next
    case (Some st)
    then show ?thesis using opened assms(2) [OF Some]
      by (auto simp: open_store_def bind_tenant_def split: if_splits)
  qed
  let ?st = "recover (cfg_tenant cfg) now1 st2"
  have ok: "store_ok st2" and fine: "file_ok (cfg_tenant cfg) ?st" using st2 file_ok_recover by (auto simp: file_ok_def)
  note reads = recover_reads [OF ok, where t = "cfg_tenant cfg" and now = now1]
  have rows: "row_state row \<notin> {QUEUED, RUNNING}" if row: "find_job (cfg_tenant cfg) i ?st = Some row" for i row
  proof -
    from row obtain row0 where row0: "find_job (cfg_tenant cfg) i st2 = Some row0"
      "row = (if row_state row0 \<in> {QUEUED, RUNNING} then with_receipt (recovered (row_receipt row0)) row0 else row0)"
      unfolding reads(2) by auto
    show ?thesis unfolding row0(2) by (cases "row_state row0 \<in> {QUEUED, RUNNING}") auto
  qed
  have atts: "at_disposition a \<noteq> RESERVED" if "find_attempt (cfg_tenant cfg) i ?st = Some a" for i a
    using that by (auto simp: reads(3) settled_as_def split: if_splits)
  have fine': "file_ok (cfg_tenant cfg) (add_event now2 ''coordinator_started'' m ?st)"
    using fine file_ok_cong [of "add_event now2 ''coordinator_started'' m ?st" ?st] by simp
  have cache: "cache_inv (new_cache (cfg_cache_entries cfg) (cfg_cache_bytes cfg) (cfg_cache_ttl_ns cfg))"
    using fields by (intro new_cache_inv) (simp_all add: config_fields_ok_def)
  have "0 \<le> pool_slots p" if "p \<in> set (cfg_pools cfg)" for p
    using that fields by (fastforce simp: validate_pool_def config_fields_ok_def list_all_iff)
  then have slots: "0 \<le> n" if "slots_of (cfg_pools cfg) p = Some n" for p n
    using map_of_SomeD [OF that [unfolded slots_of_def]] by auto
  have inflight: "0 \<le> ep_max_inflight e" if "e \<in> set (cfg_endpoints cfg)" for e
  proof -
    have "is_ok (validate_endpoint e)" using that fields by (simp add: config_fields_ok_def list_all_iff)
    then have "1 \<le> ep_max_inflight e" by (auto dest: validate_endpoint_fields simp: endpoint_fields_ok_def)
    then show ?thesis by simp
  qed
  have uses: "uses_fit cfg [] [] []" using slots inflight by (simp add: uses_fit_def use_count_def)
  have "coord_ok rt"
    unfolding coord_ok_def rt runtime.simps find_job_frame find_attempt_frame
    using val fine' rows atts cache uses by (intro conjI) (auto simp: queued_fits_def)
  with st2 show ?thesis by (simp add: rt)
qed

section \<open>Runs\<close>

text \<open>One operation of a live coordinator, whatever its arguments and its result.\<close>

inductive rt_step :: "runtime \<Rightarrow> runtime \<Rightarrow> bool" where
  open_session: "rt_step rt (snd (open_session sid revision rt))"
| advance: "rt_step rt (snd (advance_session sid epoch revision close rt))"
| heartbeat: "rt_step rt (snd (heartbeat sid epoch until rt))"
| submit: "rt_step rt (snd (submit j rt))"
| tick: "rt_step rt (snd (tick rt))"
| wait: "rt_step rt (snd (wait_turn i elapsed rt))"
| begun: "rt_step rt (task_begin i rt)"
| completed: "rt_step rt (task_complete i p rt)"
| failed: "rt_step rt (task_fail i f rt)"
| cancel: "rt_step rt (snd (cancel i rt))"
| consume: "rt_step rt (snd (consume i c rt))"
| outcome: "rt_step rt (snd (record_outcome i c outcome evidence rt))"
| close_begin: "rt_step rt (close_begin rt)"
| close_tasks: "rt_step rt (close_tasks rt)"
| clock: "rt_step rt (rt\<lparr>rt_clock := snd (clock_now_ns (rt_clock rt))\<rparr>)"

lemmas operation_good = open_session_good advance_session_good heartbeat_good submit_good
  tick_good [THEN conjunct1] task_begin_good task_complete_good task_fail_good cancel_good consume_good
  record_outcome_good close_begin_good close_tasks_good good_clock

lemma rt_step_good: "rt_step rt rt' \<Longrightarrow> good rt rt'"
  by (induction rule: rt_step.induct) (simp_all only: operation_good wait_turn_snd)

lemma rt_steps_good: "rt_step\<^sup>*\<^sup>* rt rt' \<Longrightarrow> good rt rt'"
  by (induction rule: rtranclp_induct) (auto intro: good_trans rt_step_good)

text \<open>
  The coordinators a deployment can be in, and the journals it can leave on disk: a crash leaves
  the journal as it is between two operations, and the offline tools may reconcile charges,
  release pools and extend the budget before the next start.
\<close>

inductive reachable :: "runtime \<Rightarrow> bool" and left_behind :: "store \<Rightarrow> bool" where
  fresh: "start_runtime sha cfg clk net bks locked None fp = Inr rt \<Longrightarrow> reachable rt"
| restart: "left_behind st \<Longrightarrow> start_runtime sha cfg clk net bks locked (Some st) fp = Inr rt \<Longrightarrow> reachable rt"
| step: "reachable rt \<Longrightarrow> rt_step rt rt' \<Longrightarrow> reachable rt'"
| crash: "reachable rt \<Longrightarrow> left_behind (rt_store rt)"
| reconciled: "left_behind st \<Longrightarrow> reconcile_many t es n st = Inr st' \<Longrightarrow> left_behind st'"
| released: "left_behind st \<Longrightarrow> release_pool p evidence n st = Inr st' \<Longrightarrow> left_behind st'"
| extended: "left_behind st \<Longrightarrow> extend_budget attempts microusd approval n st = Inr st' \<Longrightarrow> left_behind st'"

lemma file_ok_reconcile:
  assumes "file_ok t st" "reconcile_many t' es n st = Inr st'"
  shows "file_ok t st' \<and> st_tenant st' = st_tenant st"
proof -
  have ok: "store_ok st" using assms(1) by (simp add: file_ok_def)
  then have st': "st' = fold (apply_entry t' n) es st" using assms(2) by (simp add: reconcile_many_eq)
  have "(find_attempt t i st' = None) = (find_attempt t i st = None)" for i
  proof -
    have "(find_attempt t i (fold (apply_entry t' n) es st) = None) = (find_attempt t i st = None)"
      by (induction es arbitrary: st) (simp_all add: find_attempt_apply)
    then show ?thesis by (simp add: st')
  qed
  moreover have "find_job t i st' = find_job t i st" "get_session t i st' = get_session t i st" for i
    by (rule find_job_cong get_session_cong, simp add: st')+
  moreover have "store_ok st'" using ok fold_apply_store_ok by (simp add: st')
  moreover have "st_tenant st' = st_tenant st" using ledger_step_tenant [OF ledger_step.reconcile [OF assms(2)] ok] .
  ultimately show ?thesis using assms(1) unfolding file_ok_def by (metis not_None_eq)
qed

lemma reachable_ok:
  "reachable rt \<Longrightarrow> coord_ok rt \<and> st_tenant (rt_store rt) = Some (tenant_of rt)"
  "left_behind st \<Longrightarrow> \<exists>t. st_tenant st = Some t \<and> file_ok t st"
proof (induction rule: reachable_left_behind.inducts)
  case (step rt rt')
  then have "coord_ok rt' \<and> moves rt rt'" using rt_step_good [of rt rt'] by (simp add: good_def)
  with step show ?case using moves_tenant [of rt rt'] by (simp add: moves_def)
next
  case (crash rt)
  then show ?case by (simp add: coord_ok_def)
next
  case (reconciled st t es n st')
  then show ?case using file_ok_reconcile by metis
next
  case (released st p evidence n st')
  then have "st_jobs st' = st_jobs st" "st_attempts st' = st_attempts st" "st_sessions st' = st_sessions st"
    "st_tenant st' = st_tenant st" by (auto simp: release_pool_def split: if_splits)
  with released show ?case using file_ok_cong [of st' st] by metis
next
  case (extended st attempts microusd approval n st')
  then have "st_jobs st' = st_jobs st" "st_attempts st' = st_attempts st" "st_sessions st' = st_sessions st"
    "st_tenant st' = st_tenant st" by (auto simp: extend_budget_def Let_def split: if_splits)
  with extended show ?case using file_ok_cong [of st' st] by metis
qed (use start_ok in blast)+

section \<open>What a run never changes\<close>

definition fixed :: "runtime \<Rightarrow> (string \<Rightarrow> string) \<times> budget_cfg" where
  "fixed rt = (rt_sha rt, st_budget (rt_store rt))"

lemma fixed_update [simp]:
  "fixed (rt\<lparr>rt_clock := c\<rparr>) = fixed rt" "fixed (rt\<lparr>rt_cache := h\<rparr>) = fixed rt"
  "fixed (rt\<lparr>rt_running := ts\<rparr>) = fixed rt" "fixed (rt\<lparr>rt_pool_use := u\<rparr>) = fixed rt"
  "fixed (rt\<lparr>rt_endpoint_use := u\<rparr>) = fixed rt" "fixed (rt\<lparr>rt_closed := b\<rparr>) = fixed rt"
  "st_budget st = st_budget (rt_store rt) \<Longrightarrow> fixed (rt\<lparr>rt_store := st\<rparr>) = fixed rt"
  "st_budget (f (rt_store rt)) = st_budget (rt_store rt) \<Longrightarrow> fixed (on_store f rt) = fixed rt"
  "fixed (emit n k m rt) = fixed rt" "fixed (emit_now k m rt) = fixed rt"
  "fixed (release_task i t rt) = fixed rt" "fixed (snd (set_state j r s reason rt)) = fixed rt"
  by (simp_all add: fixed_def release_task_def set_state_eq)

lemma fixed_fold: "(\<And>x rt. fixed (f x rt) = fixed rt) \<Longrightarrow> fixed (fold f xs rt) = fixed rt"
  by (induction xs arbitrary: rt) auto

lemma fixed_expire [simp]: "fixed (snd (expire rt)) = fixed rt"
proof -
  have "fixed (snd (expire_loop now jrs rt)) = fixed rt" for now jrs rt
    by (induction now jrs rt rule: expire_loop.induct) (simp_all split: sum.split option.split)
  then show ?thesis by (simp add: expire_def read_now_eq)
qed

lemma fixed_sessions [simp]:
  "fixed (snd (open_session sid revision rt)) = fixed rt" "fixed (snd (advance_session sid e revision close rt)) = fixed rt"
  "fixed (snd (heartbeat sid e until rt)) = fixed rt"
  by (simp_all add: open_session_def advance_session_def heartbeat_def read_now_eq Let_def split_beta split: sum.split)

lemma fixed_submit [simp]: "fixed (snd (submit j rt)) = fixed rt"
proof -
  have "fixed (supersede jrs rt) = fixed rt" for jrs rt
    unfolding supersede_def by (rule fixed_fold) (simp add: split_beta)
  moreover have "fixed (rt\<lparr>rt_store := st\<rparr>) = fixed rt" if "add_job j r (rt_store rt) = Inr st" for st j r rt
    using add_job_frame [OF that] by simp
  ultimately have "fixed (snd (store_submission now j reason jrs rt)) = fixed rt" for now j reason jrs rt
    by (auto simp: store_submission_def Let_def split: sum.split)
  then show ?thesis
    by (simp add: submit_def submit_new_def read_now_eq split_beta Let_def split: sum.split)
qed

lemma fixed_dispatch_one: "fixed (snd (dispatch_one jr rt)) = fixed rt"
proof -
  have "fixed (serve_hit now j r h rt) = fixed rt" "fixed (launch now j r s ep key rt) = fixed rt" for now j r h s ep key rt
    by (simp_all add: serve_hit_def launch_def Let_def split_beta)
  moreover have "fixed (rt\<lparr>rt_clock := c, rt_cache := h, rt_store := st\<rparr>) = fixed rt"
    if "reserve j ep now (rt_store rt) = Inr st" for c h st j ep now
    using reserve_frame(1) [OF that] by (simp add: fixed_def)
  ultimately show ?thesis
    by (simp add: dispatch_one_def read_now_eq Let_def split_beta split: sum.split option.split py_error.split)
qed

lemma fixed_tick [simp]: "fixed (snd (tick rt)) = fixed rt"
proof -
  have "fixed (snd (ready_scan now jrs ready rt)) = fixed rt" for now jrs ready rt
    by (induction now jrs ready rt rule: ready_scan.induct) (simp_all split: sum.split)
  moreover have "fixed (snd (dispatch_loop ks rt)) = fixed rt" for ks rt
  proof (induction ks arbitrary: rt)
    case (Cons kjr ks)
    obtain k jr e rt1 where "kjr = (k, jr)" "dispatch_one jr rt = (e, rt1)" by (metis prod.exhaust)
    with Cons fixed_dispatch_one [of jr rt] show ?case by (simp split: sum.split)
  qed simp
  ultimately show ?thesis
    by (simp add: tick_def read_now_eq split_beta split: sum.split prod.split)
qed

lemma fixed_fail [simp]: "fixed (fail_task i t f rt) = fixed rt"
  by (simp add: fail_task_def read_now_eq Let_def split_beta split: sum.split)

lemma fixed_tasks [simp]:
  "fixed (task_begin i rt) = fixed rt" "fixed (task_complete i p rt) = fixed rt" "fixed (task_fail i f rt) = fixed rt"
  by (simp_all add: task_begin_def task_complete_def task_fail_def read_now_eq Let_def split_beta
      split: sum.split option.split)

lemma fixed_delivery [simp]:
  "fixed (snd (cancel i rt)) = fixed rt" "fixed (snd (consume i c rt)) = fixed rt"
  "fixed (snd (record_outcome i c outcome evidence rt)) = fixed rt"
proof -
  have "fixed (snd (read_ages os rt)) = fixed rt" for os rt
    by (induction os arbitrary: rt) (simp_all add: read_now_eq split_beta Let_def)
  then show "fixed (snd (cancel i rt)) = fixed rt" "fixed (snd (consume i c rt)) = fixed rt"
    "fixed (snd (record_outcome i c outcome evidence rt)) = fixed rt"
    by (simp_all add: cancel_def consume_def record_outcome_def read_now_eq Let_def split_beta
        split: sum.split option.split)
qed

lemma fixed_close [simp]: "fixed (close_begin rt) = fixed rt" "fixed (close_tasks rt) = fixed rt"
  by (simp_all add: close_begin_def close_queue_def close_tasks_def fixed_fold split_beta)

lemma rt_steps_fixed: "rt_step\<^sup>*\<^sup>* rt rt' \<Longrightarrow> rt_sha rt' = rt_sha rt \<and> st_budget (rt_store rt') = st_budget (rt_store rt)"
proof -
  have "fixed b = fixed a" if "rt_step a b" for a b
    using that by (induction rule: rt_step.induct) (simp_all add: wait_turn_snd)
  note one = this
  assume "rt_step\<^sup>*\<^sup>* rt rt'"
  then have "fixed rt' = fixed rt" by (induction rule: rtranclp_induct) (auto dest: one)
  then show "rt_sha rt' = rt_sha rt \<and> st_budget (rt_store rt') = st_budget (rt_store rt)" by (simp add: fixed_def)
qed

end
