(* ===== verification/Sample_Run.thy ===== *)
theory Sample_Run
  imports Coordinator_Run Samples
begin

text \<open>
  The small deployment of \<open>Samples\<close>, run from its start to a claimed result: the states the
  instances of the coordinator's properties are taken at, and what can be read in them.
\<close>

definition sample_clock :: clock where
  "sample_clock = \<lparr>clk_id = ''clk'', clk_read = (\<lambda>n. 20), clk_pos = 0\<rparr>"

definition sample_start :: runtime where
  "sample_start = \<lparr>rt_sha = (\<lambda>_. ''fp''), rt_config = sample_config, rt_clock = sample_clock\<lparr>clk_pos := 2\<rparr>,
     rt_store = add_event 20 ''coordinator_started''
       [(''clock_id'', JStr ''clk''), (''config_fingerprint'', JStr ''fp''), (''native_actions_enabled'', JBool False)]
       ((empty_store (budget_of sample_config))\<lparr>st_tenant := Some ''t''\<rparr>),
     rt_cache = new_cache 4 1000 50, rt_pool_use = [], rt_endpoint_use = [], rt_running = [], rt_backends = [],
     rt_allow_network = False, rt_closed = False\<rparr>"

lemma sample_start: "start_runtime (\<lambda>_. ''fp'') sample_config sample_clock False [] False None ''fp'' = Inr sample_start"
  unfolding sample_start_def
  by (simp add: start_runtime_def sample_config_valid open_store_def sample_clock_def clock_now_ns_def bind_tenant_def)
    (simp add: sample_config_def budget_of_def empty_store_def recover_def list_jobs_def)

definition sample_prediction :: prediction where
  "sample_prediction = \<lparr>pred_payload_json = ''{}'', pred_usage = sample_usage, pred_first_content_ns = None,
     pred_provider_request_id = None\<rparr>"

definition sample_opened :: runtime where
  "sample_opened = snd (open_session ''s'' ''r0'' sample_start)"

definition sample_queued :: runtime where
  "sample_queued = snd (submit sample_job sample_opened)"

definition sample_sent :: runtime where
  "sample_sent = task_begin ''j1'' (snd (tick sample_queued))"

definition sample_done :: runtime where
  "sample_done = task_complete ''j1'' sample_prediction sample_sent"

definition sample_claimed :: runtime where
  "sample_claimed = snd (consume ''j1'' ''bot'' sample_done)"

definition sample_advanced :: runtime where
  "sample_advanced = snd (advance_session ''s'' 0 ''r1'' False sample_done)"

lemma sample_reachable: "reachable sample_start" "reachable sample_opened" "reachable sample_queued"
  "reachable sample_sent" "reachable sample_done" "reachable sample_claimed" "reachable sample_advanced"
proof -
  show start: "reachable sample_start" by (rule reachable_left_behind.fresh [OF sample_start])
  show opened: "reachable sample_opened" unfolding sample_opened_def
    by (rule reachable_left_behind.step [OF start rt_step.open_session])
  show queued: "reachable sample_queued" unfolding sample_queued_def
    by (rule reachable_left_behind.step [OF opened rt_step.submit])
  show sent: "reachable sample_sent" unfolding sample_sent_def
    by (rule reachable_left_behind.step [OF reachable_left_behind.step [OF queued rt_step.tick] rt_step.begun])
  show finished: "reachable sample_done" unfolding sample_done_def
    by (rule reachable_left_behind.step [OF sent rt_step.completed])
  show "reachable sample_claimed" unfolding sample_claimed_def
    by (rule reachable_left_behind.step [OF finished rt_step.consume])
  show "reachable sample_advanced" unfolding sample_advanced_def
    by (rule reachable_left_behind.step [OF finished rt_step.advance])
qed

lemma sample_runs: "rt_step sample_start sample_opened" "rt_step sample_opened sample_queued"
  "rt_step sample_sent sample_done" "rt_step sample_done sample_claimed" "rt_step sample_done sample_advanced"
  unfolding sample_opened_def sample_queued_def sample_done_def sample_claimed_def sample_advanced_def
  by (rule rt_step.intros)+

text \<open>What the instances look at, evaluated once per state.\<close>

definition sample_view :: "runtime \<Rightarrow> string \<times> (job_state \<times> string option \<times> string option) option \<times>
    int option \<times> string list \<times> int option \<times> (int option \<times> disposition) option" where
  "sample_view rt = (tenant_of rt,
     map_option (\<lambda>row. (row_state row, rc_consumed_by (row_receipt row), rc_prediction_json (row_receipt row)))
       (find_job ''t'' ''j1'' (rt_store rt)),
     slots_of (cfg_pools (rt_config rt)) ''p'', map fst (rt_running rt),
     (case get_session ''t'' ''s'' (rt_store rt) of Inl _ \<Rightarrow> None | Inr s \<Rightarrow> Some (session_epoch s)),
     map_option (\<lambda>a. (at_actual a, at_disposition a)) (find_attempt ''t'' ''j1'' (rt_store rt)))"

lemma sample_view_queued: "sample_view sample_queued =
    (''t'', Some (QUEUED, None, None), Some 1, [], Some 0, None)"
  by code_simp

lemma sample_view_sent: "sample_view sample_sent =
    (''t'', Some (RUNNING, None, None), Some 1, [''j1''], Some 0, Some (None, RESERVED))"
  by code_simp

lemma sample_view_done: "sample_view sample_done =
    (''t'', Some (SUCCEEDED, None, Some ''{}''), Some 1, [], Some 0, Some (Some 40, SETTLED))"
  by code_simp

lemma sample_view_claimed: "sample_view sample_claimed =
    (''t'', Some (CONSUMED, Some ''bot'', Some ''{}''), Some 1, [], Some 0, Some (Some 40, SETTLED))"
  by code_simp

lemma sample_view_advanced: "sample_view sample_advanced =
    (''t'', Some (SUCCEEDED, None, Some ''{}''), Some 1, [], Some 1, Some (Some 40, SETTLED))"
  by code_simp

lemmas sample_views = sample_view_queued sample_view_sent sample_view_done sample_view_claimed sample_view_advanced

lemma sample_submitted: "is_ok (fst (submit sample_job sample_opened))"
  by code_simp

lemma sample_consumed: "is_ok (fst (consume ''j1'' ''bot'' sample_done))"
  by code_simp

lemma sample_advanced_job: "map_option row_body (find_job ''t'' ''j1'' (rt_store sample_advanced)) = Some sample_job"
  by code_simp

end
