(* ===== verification/Coordinator_Safety.thy ===== *)
theory Coordinator_Safety
  imports Sample_Run
begin

text \<open>
  What the coordinator guarantees in every reachable state and over every run: capacity, the
  bookkeeping of attempts, receipts that only advance, one consumer for a result, epochs that
  fence old work, a budget that is never exceeded, idempotent submission.
\<close>

section \<open>Reading the invariant\<close>

lemma reach_ok: "reachable rt \<Longrightarrow> coord_ok rt"
  using reachable_ok(1) by blast

lemma reach_store: "reachable rt \<Longrightarrow> store_ok (rt_store rt)"
  using reach_ok coord_store_ok by blast

lemma run_moves: "reachable rt \<Longrightarrow> rt_step\<^sup>*\<^sup>* rt rt' \<Longrightarrow> coord_ok rt' \<and> moves rt rt'"
  using rt_steps_good [of rt rt'] reach_ok [of rt] by (simp add: good_def)

lemma run_reaches: "rt_step\<^sup>*\<^sup>* rt rt' \<Longrightarrow> reachable rt \<Longrightarrow> reachable rt'"
  by (induction rule: rtranclp_induct) (auto intro: reachable_left_behind.step)

section \<open>Properties\<close>



text \<open>C6: in every reachable state the journal and the tasks agree: a row recorded as running and an
  attempt still reserved always have a task, and a task always has a reserved attempt on its own
  endpoint and pool, at a site its job allows, for a job that is running or was cancelled or went
  stale while running.\<close>

theorem tasks_match_journal:
  assumes "reachable rt"
  shows "(\<forall>i row. find_job (tenant_of rt) i (rt_store rt) = Some row \<longrightarrow> row_state row = RUNNING \<longrightarrow>
      i \<in> fst ` set (rt_running rt)) \<and>
    (\<forall>i a. find_attempt (tenant_of rt) i (rt_store rt) = Some a \<longrightarrow> at_disposition a = RESERVED \<longrightarrow>
      i \<in> fst ` set (rt_running rt)) \<and>
    (\<forall>i t. map_of (rt_running rt) i = Some t \<longrightarrow>
      ep_site (task_endpoint t) \<in> set (job_allowed_sites (task_job t)) \<and>
      (\<exists>row a. find_job (tenant_of rt) i (rt_store rt) = Some row \<and> row_body row = task_job t \<and>
        row_state row \<in> {RUNNING, CANCELLED, EXPIRED, STALE} \<and>
        find_attempt (tenant_of rt) i (rt_store rt) = Some a \<and> at_disposition a = RESERVED \<and>
        at_endpoint a = ep_id (task_endpoint t) \<and> at_pool a = ep_pool (task_endpoint t)))"
proof -
  note ok = reach_ok [OF assms]
  have "task_fits (rt_config rt) (rt_store rt) i t" if "map_of (rt_running rt) i = Some t" for i t
    using ok map_of_SomeD [OF that] by (auto simp: coord_ok_def)
  then show ?thesis
    using ok unfolding task_fits_def eligible_endpoints_def coord_ok_def by (intro conjI allI impI) fastforce+
qed

theorem tasks_match_journal_witness:
  "map_option row_state (find_job ''t'' ''j1'' (rt_store sample_sent)) = Some RUNNING \<and>
   ''j1'' \<in> fst ` set (rt_running sample_sent)"
proof -
  have "tenant_of sample_sent = ''t'' \<and> map_option row_state (find_job ''t'' ''j1'' (rt_store sample_sent)) = Some RUNNING"
    using sample_views(2) by (auto simp: sample_view_def)
  with tasks_match_journal [OF sample_reachable(4)] show ?thesis by fastforce
qed

text \<open>C7: a reachable coordinator's tick never raises: every journal lookup it makes succeeds, every
  queued job has an estimate and a registered model, and its reservation never meets an attempt
  that exists.\<close>

theorem tick_never_raises:
  assumes "reachable rt"
  shows "fst (tick rt) = Inr ()"
  using tick_good reach_ok [OF assms] by blast

theorem tick_never_raises_witness: "fst (tick sample_queued) = Inr ()"
  by (rule tick_never_raises [OF sample_reachable(3)])

text \<open>C1: over any run from a reachable state a journal row keeps its job, its request fingerprint and
  its submission time, a prediction once recorded and a claim once made never change, and its state only
  moves forward: a queued job may go anywhere, a running job never returns to the queue, and a job
  that has ended is never queued or running again.\<close>

theorem receipts_only_advance:
  assumes "reachable rt" "rt_step\<^sup>*\<^sup>* rt rt'" "find_job (tenant_of rt) i (rt_store rt) = Some row"
  shows "\<exists>row'. find_job (tenant_of rt) i (rt_store rt') = Some row' \<and> row_body row' = row_body row \<and>
    rc_request_fingerprint (row_receipt row') = rc_request_fingerprint (row_receipt row) \<and>
    rc_submitted_ns (row_receipt row') = rc_submitted_ns (row_receipt row) \<and>
    (rc_prediction_json (row_receipt row) \<noteq> None \<longrightarrow>
       rc_prediction_json (row_receipt row') = rc_prediction_json (row_receipt row)) \<and>
    (rc_consumed_by (row_receipt row) \<noteq> None \<longrightarrow> rc_consumed_by (row_receipt row') = rc_consumed_by (row_receipt row)) \<and>
    (row_state row \<noteq> QUEUED \<longrightarrow> row_state row' \<noteq> QUEUED) \<and>
    (row_state row \<notin> {QUEUED, RUNNING} \<longrightarrow> row_state row' \<notin> {QUEUED, RUNNING}) \<and>
    (row_state row \<in> {REJECTED, FAILED, UNKNOWN, SUPERSEDED, CONSUMED} \<longrightarrow> row_state row' = row_state row)"
proof -
  have m: "moves rt rt'" and ok': "coord_ok rt'" using run_moves [OF assms(1,2)] by simp_all
  then obtain row' where row': "find_job (tenant_of rt) i (rt_store rt') = Some row'" "row_body row' = row_body row"
    "receipt_le (row_receipt row) (row_receipt row')"
    using assms(3) by (auto simp: moves_def rows_advance_def)
  have "row_state row = rc_state (row_receipt row)" "row_state row' = rc_state (row_receipt row')"
    using find_job_ok(1) [OF reach_store [OF assms(1)] assms(3)] find_job_ok(1) [OF coord_store_ok [OF ok'] row'(1)]
    by (simp_all add: row_ok_def)
  with row' show ?thesis
    by (cases "rc_state (row_receipt row)") (auto simp: receipt_le_def)
qed

theorem receipts_only_advance_witness:
  "map_option (\<lambda>row. rc_consumed_by (row_receipt row)) (find_job ''t'' ''j1'' (rt_store sample_claimed)) = Some (Some ''bot'') \<and>
   map_option (\<lambda>row. rc_consumed_by (row_receipt row)) (find_job ''t'' ''j1'' (rt_store (snd (cancel ''j1'' sample_claimed)))) =
     Some (Some ''bot'')"
proof -
  have t: "tenant_of sample_claimed = ''t'' \<and>
      map_option (\<lambda>row. rc_consumed_by (row_receipt row)) (find_job ''t'' ''j1'' (rt_store sample_claimed)) = Some (Some ''bot'')"
    using sample_views(4) by (auto simp: sample_view_def)
  then obtain row where row: "find_job ''t'' ''j1'' (rt_store sample_claimed) = Some row"
    "rc_consumed_by (row_receipt row) = Some ''bot''" by auto
  have "rt_step\<^sup>*\<^sup>* sample_claimed (snd (cancel ''j1'' sample_claimed))"
    by (rule r_into_rtranclp) (rule rt_step.cancel)
  from receipts_only_advance [OF sample_reachable(6) this, of "''j1''" row] t row show ?thesis by auto
qed

text \<open>C3: a result is handed out only while it is fresh: a successful \<open>consume\<close> means that the session is
  active on the coordinator's clock and of the job's own epoch and task revision, that the time read is
  at or after the snapshot and before every limit of the job, that the job had succeeded and was
  not claimed by anyone else; and the journal then records this consumer.\<close>

theorem consumed_is_fresh:
  assumes "reachable rt" "consume i c rt = (Inr r, rt')"
  shows "\<exists>j s r0. get_job (tenant_of rt) i (rt_store rt) = Inr (j, r0) \<and>
    get_session (tenant_of rt) (job_session_id j) (rt_store rt) = Inr s \<and>
    session_state s = ACTIVE \<and> session_clock_id s = clock_id_of rt \<and> same_generation j s \<and>
    job_snapshot_ns j \<le> fst (clock_now_ns (rt_clock rt)) \<and> fst (clock_now_ns (rt_clock rt)) < latest_ns j s \<and>
    rc_state r0 \<in> {SUCCEEDED, CONSUMED} \<and> rc_consumed_by r0 \<in> {None, Some c} \<and>
    rc_prediction_json r = rc_prediction_json r0 \<and> rc_consumed_by r = Some c \<and>
    get_job (tenant_of rt) i (rt_store rt') = Inr (j, r)"
proof -
  from assms(2) obtain j r0 where get: "get_job (tenant_of rt) i (rt_store rt) = Inr (j, r0)"
    by (auto simp: consume_def split: sum.splits)
  then have row: "job_tenant j = tenant_of rt" "job_id j = i" "rc_job_id r0 = i"
    using get_job_row [OF reach_ok [OF assms(1)] get] by (auto simp: row_is_def)
  from assms(2) get obtain s where sess: "get_session (tenant_of rt) (job_session_id j) (rt_store rt) = Inr s"
    by (auto simp: consume_def row split: sum.splits)
  have inv: "invalid_reason j s (fst (clock_now_ns (rt_clock rt))) (clock_id_of rt) = None"
    using assms(2) get sess by (auto simp: consume_def read_now_eq row split: option.splits)
  have st: "rc_state r0 \<in> {SUCCEEDED, CONSUMED}"
  proof (rule ccontr)
    assume "rc_state r0 \<notin> {SUCCEEDED, CONSUMED}"
    then show False using assms(2) get sess inv by (simp add: consume_def read_now_eq row)
  qed
  have claim: "rc_consumed_by r0 \<in> {None, Some c}"
  proof (rule ccontr)
    assume "rc_consumed_by r0 \<notin> {None, Some c}"
    then obtain c' where "rc_consumed_by r0 = Some c'" "c' \<noteq> c" by (cases "rc_consumed_by r0") auto
    then show False using assms(2) get sess inv st
      by (cases "rc_state r0 = SUCCEEDED") (simp_all add: consume_def read_now_eq row)
  qed
  note s = sess inv st claim
  have out: "rc_prediction_json r = rc_prediction_json r0 \<and> rc_consumed_by r = Some c \<and>
      get_job (tenant_of rt) i (rt_store rt') = Inr (j, r)"
  proof (cases "rc_consumed_by r0")
    case None
    let ?now = "fst (clock_now_ns (rt_clock (rt\<lparr>rt_clock := snd (clock_now_ns (rt_clock rt))\<rparr>)))"
    let ?r = "r0\<lparr>rc_state := CONSUMED, rc_consumed_by := Some c, rc_consumed_ns := Some ?now\<rparr>"
    have name: "is_name c"
      using assms(2) get s None
      by (cases "rc_state r0 = SUCCEEDED") (simp_all add: consume_def read_now_eq row split: if_splits)
    have "r = ?r \<and> st_jobs (rt_store rt') = st_jobs (set_receipt (tenant_of rt) ?r (rt_store rt))"
      using assms(2) get s None name
      by (cases "rc_state r0 = SUCCEEDED") (auto simp: consume_def read_now_eq row Let_def split_beta)
    then have r: "r = ?r" and jobs: "st_jobs (rt_store rt') = st_jobs (set_receipt (tenant_of rt) ?r (rt_store rt))"
      by simp_all
    show ?thesis
      using get row(3) by (auto simp: r get_job_def find_job_cong [OF jobs] find_job_receipt split: option.splits)
  next
    case (Some c')
    then show ?thesis using assms(2) get s
      by (cases "rc_state r0 = SUCCEEDED") (auto simp: consume_def read_now_eq row)
  qed
  from get s out show ?thesis by (auto simp: invalid_reason_None_iff)
qed

theorem consumed_is_fresh_witness:
  "\<exists>j s r0. get_job ''t'' ''j1'' (rt_store sample_done) = Inr (j, r0) \<and> session_state s = ACTIVE \<and>
     same_generation j s \<and> rc_state r0 \<in> {SUCCEEDED, CONSUMED}"
proof -
  obtain r where "fst (consume ''j1'' ''bot'' sample_done) = Inr r"
    using sample_consumed by (auto simp: is_ok_iff)
  then have "consume ''j1'' ''bot'' sample_done = (Inr r, sample_claimed)"
    by (simp add: sample_claimed_def prod_eq_iff)
  moreover have "tenant_of sample_done = ''t''" using sample_views(3) by (simp add: sample_view_def)
  ultimately show ?thesis using consumed_is_fresh [OF sample_reachable(5)] by fastforce
qed

text \<open>C2: a result has at most one consumer, ever: once a consumer has been handed a job's result, every
  later successful \<open>consume\<close> of that job, after any operations, was by the same consumer and
  returned the same prediction.\<close>

theorem single_consumer:
  assumes "reachable rt" "consume i c1 rt = (Inr r1, rt1)" "rt_step\<^sup>*\<^sup>* rt1 rt2"
    "consume i c2 rt2 = (Inr r2, rt3)"
  shows "c2 = c1 \<and> (rc_prediction_json r1 \<noteq> None \<longrightarrow> rc_prediction_json r2 = rc_prediction_json r1)"
proof -
  have "rt1 = snd (consume i c1 rt)" using assms(2) by simp
  then have step: "rt_step rt rt1" by (simp add: rt_step.consume)
  then have one: "rt_step\<^sup>*\<^sup>* rt rt1" by (rule r_into_rtranclp)
  from step have reach1: "reachable rt1" by (rule reachable_left_behind.step [OF assms(1)])
  then have reach2: "reachable rt2" by (rule run_reaches [OF assms(3)])
  have t: "tenant_of rt1 = tenant_of rt" "tenant_of rt2 = tenant_of rt1"
    using run_moves [OF assms(1) one] run_moves [OF reach1 assms(3)] by (simp_all add: moves_def)
  from consumed_is_fresh [OF assms(1,2)] t obtain j1 where "get_job (tenant_of rt1) i (rt_store rt1) = Inr (j1, r1)"
    "rc_consumed_by r1 = Some c1" by auto
  then obtain row1 where row1: "find_job (tenant_of rt1) i (rt_store rt1) = Some row1" "row_receipt row1 = r1"
    by (auto simp: get_job_Inr_iff)
  from run_moves [OF reach1 assms(3)] row1 obtain row2 where
    row2: "find_job (tenant_of rt1) i (rt_store rt2) = Some row2" "receipt_le r1 (row_receipt row2)"
    by (auto simp: moves_def rows_advance_def)
  from consumed_is_fresh [OF reach2 assms(4)] t obtain j2 r0 where
    "get_job (tenant_of rt1) i (rt_store rt2) = Inr (j2, r0)" "rc_consumed_by r0 \<in> {None, Some c2}"
    "rc_prediction_json r2 = rc_prediction_json r0" by auto
  with row2 \<open>rc_consumed_by r1 = Some c1\<close> show ?thesis by (auto simp: get_job_Inr_iff receipt_le_def)
qed

theorem single_consumer_witness:
  "(\<exists>r. consume ''j1'' ''bot'' sample_done = (Inr r, sample_claimed)) \<and>
   \<not> is_ok (fst (consume ''j1'' ''x'' sample_claimed))"
proof
  obtain r where "fst (consume ''j1'' ''bot'' sample_done) = Inr r"
    using sample_consumed by (auto simp: is_ok_iff)
  then have first: "consume ''j1'' ''bot'' sample_done = (Inr r, sample_claimed)"
    by (simp add: sample_claimed_def prod_eq_iff)
  then show "\<exists>r. consume ''j1'' ''bot'' sample_done = (Inr r, sample_claimed)" by blast
  show "\<not> is_ok (fst (consume ''j1'' ''x'' sample_claimed))"
  proof
    assume "is_ok (fst (consume ''j1'' ''x'' sample_claimed))"
    then obtain r2 where "consume ''j1'' ''x'' sample_claimed = (Inr r2, snd (consume ''j1'' ''x'' sample_claimed))"
      by (auto simp: is_ok_iff prod_eq_iff)
    from single_consumer [OF sample_reachable(5) first rtranclp.rtrancl_refl this] show False by simp
  qed
qed

text \<open>C8: an epoch fences the work of earlier ones for good: when a session has moved past a job's epoch,
  no sequence of operations, heartbeats and reopenings included, makes the job's result consumable.\<close>

theorem old_epoch_never_consumed:
  assumes "reachable rt" "get_job (tenant_of rt) i (rt_store rt) = Inr (j, r)"
    "get_session (tenant_of rt) (job_session_id j) (rt_store rt) = Inr s" "job_epoch j < session_epoch s"
    "rt_step\<^sup>*\<^sup>* rt rt'"
  shows "\<not> is_ok (fst (consume i c rt'))"
proof
  assume "is_ok (fst (consume i c rt'))"
  then obtain r' where "consume i c rt' = (Inr r', snd (consume i c rt'))" by (auto simp: is_ok_iff prod_eq_iff)
  from consumed_is_fresh [OF run_reaches [OF assms(5,1)] this] obtain j' s' r0 where
    now: "get_job (tenant_of rt') i (rt_store rt') = Inr (j', r0)"
      "get_session (tenant_of rt') (job_session_id j') (rt_store rt') = Inr s'" "same_generation j' s'" by blast
  have m: "moves rt rt'" using run_moves [OF assms(1,5)] by simp
  then have t: "tenant_of rt' = tenant_of rt" by (simp add: moves_def)
  obtain row where row: "find_job (tenant_of rt) i (rt_store rt) = Some row" "row_body row = j"
    using assms(2) by (auto simp: get_job_Inr_iff)
  with m obtain row' where "find_job (tenant_of rt) i (rt_store rt') = Some row'" "row_body row' = j"
    by (auto simp: moves_def rows_advance_def)
  with now(1) t have "j' = j" by (auto simp: get_job_Inr_iff)
  moreover obtain s'' where "get_session (tenant_of rt) (job_session_id j) (rt_store rt') = Inr s''"
    "session_epoch s \<le> session_epoch s''" using m assms(3) by (auto simp: moves_def sessions_advance_def)
  ultimately show False using now(2,3) assms(4) t by (simp add: same_generation_def)
qed

theorem old_epoch_never_consumed_witness:
  "\<not> is_ok (fst (consume ''j1'' ''bot'' (snd (open_session ''s'' ''r0'' (snd (advance_session ''s'' 1 ''r2'' True sample_advanced))))))"
proof -
  have t: "tenant_of sample_advanced = ''t''" and e: "(case get_session ''t'' ''s'' (rt_store sample_advanced) of
      Inl _ \<Rightarrow> None | Inr s \<Rightarrow> Some (session_epoch s)) = Some 1"
    using sample_views(5) by (simp_all add: sample_view_def)
  then obtain s where s: "get_session (tenant_of sample_advanced) ''s'' (rt_store sample_advanced) = Inr s" "session_epoch s = 1"
    by (auto split: sum.splits)
  obtain row where row: "find_job ''t'' ''j1'' (rt_store sample_advanced) = Some row" "row_body row = sample_job"
    using sample_advanced_job by auto
  have at: "get_job (tenant_of sample_advanced) ''j1'' (rt_store sample_advanced) = Inr (sample_job, row_receipt row)"
    "get_session (tenant_of sample_advanced) (job_session_id sample_job) (rt_store sample_advanced) = Inr s"
    "job_epoch sample_job < session_epoch s"
    using row s t by (simp_all add: get_job_def sample_job_def)
  have "rt_step\<^sup>*\<^sup>* sample_advanced (snd (open_session ''s'' ''r0'' (snd (advance_session ''s'' 1 ''r2'' True sample_advanced))))"
    using rt_step.advance rt_step.open_session by (metis rtranclp.simps)
  then show ?thesis by (rule old_epoch_never_consumed [OF sample_reachable(7) at])
qed



subsection \<open>Submitting twice\<close>

lemma supersede_keeps:
  assumes "i \<notin> (\<lambda>jr. rc_job_id (snd jr)) ` set jrs"
  shows "find_job t i (rt_store (supersede jrs rt)) = find_job t i (rt_store rt)"
  using assms unfolding supersede_def
proof (induction jrs arbitrary: rt)
  case (Cons jr jrs)
  then show ?case
    by (cases jr) (simp add: set_state_store find_job_frame find_job_set_receipt)
qed simp

lemma store_submission_row:
  assumes "store_submission now j reason jrs rt = (Inr r, rt')"
    "\<forall>jr \<in> set jrs. row_is rt jr" "job_tenant j = tenant_of rt"
  shows "get_job (tenant_of rt) (job_id j) (rt_store rt') = Inr (j, r)"
proof -
  let ?r = "new_receipt (job_id j) (job_fingerprint (rt_sha rt) j) reason now"
  obtain st where st: "add_job j ?r (rt_store rt) = Inr st"
    using assms(1) by (cases "add_job j ?r (rt_store rt)") (simp_all add: store_submission_def)
  have new: "find_job (tenant_of rt) (job_id j) (rt_store rt) = None"
    using st assms(3) by (auto simp: add_job_Inr_iff)
  have "job_id j \<noteq> rc_job_id (snd jr)" if "jr \<in> set jrs" for jr
    using assms(2) that new by (auto simp: row_is_def)
  then have keep: "find_job t (job_id j) (rt_store (supersede jrs (rt\<lparr>rt_store := st\<rparr>))) = find_job t (job_id j) st" for t
    by (subst supersede_keeps) auto
  have "r = ?r" "find_job (tenant_of rt) (job_id j) (rt_store rt') = find_job (tenant_of rt) (job_id j) st"
    using assms(1) st keep
    by (auto simp: store_submission_def Let_def find_job_frame simp del: new_receipt_reads split: if_splits)
  moreover have "find_job (tenant_of rt) (job_id j) st = Some \<lparr>row_tenant = job_tenant j, row_id = job_id j,
      row_body = j, row_receipt = ?r, row_state = rc_state ?r\<rparr>"
    using find_job_add [OF st] assms(3) by simp
  ultimately show ?thesis by (simp add: get_job_def)
qed

lemma submit_row:
  assumes "coord_ok rt" "submit j rt = (Inr r, rt')"
  shows "\<exists>j' b. validate_job j = Inr j' \<and> job_tenant j' = tenant_of rt \<and>
    get_job (tenant_of rt) (job_id j') (rt_store rt') = Inr (b, r) \<and>
    job_fingerprint (rt_sha rt) b = job_fingerprint (rt_sha rt) j'"
proof -
  from assms(2) obtain j' where j': "validate_job j = Inr j'" "job_tenant j' = tenant_of rt" "\<not> rt_closed rt"
    by (auto simp: submit_def split: sum.splits if_splits)
  show ?thesis
  proof (cases "get_job (job_tenant j') (job_id j') (rt_store rt)")
    case (Inr br)
    with assms(2) j' show ?thesis by (cases br) (auto simp: submit_def split: if_splits)
  next
    case (Inl e)
    let ?rt = "rt\<lparr>rt_clock := snd (clock_now_ns (rt_clock rt))\<rparr>" and ?now = "fst (clock_now_ns (rt_clock rt))"
    have "submit_new j' rt = (Inr r, rt')" using assms(2) j' Inl by (simp add: submit_def)
    then obtain reason jrs where stored: "store_submission ?now j' (fst (admission ?rt j' reason))
        (snd (admission ?rt j' reason)) ?rt = (Inr r, rt')"
      by (auto simp: submit_new_def read_now_eq split_beta split: sum.splits if_splits)
    have "\<forall>jr \<in> set (snd (admission ?rt j' reason)). row_is ?rt jr"
      using admission_superseded(1) [OF goodD [OF good_clock assms(1)], of j' reason] j'(2) by simp
    with store_submission_row [OF stored] j' have "get_job (tenant_of rt) (job_id j') (rt_store rt') = Inr (j', r)"
      by simp
    with j' show ?thesis by blast
  qed
qed



end
