(* ===== verification/Coordinator_Outcomes.thy ===== *)
theory Coordinator_Outcomes
  imports Coordinator_Safety
begin

text \<open>
  How the pieces of the coordinator behave one by one: what the end of a task, successful or not,
  writes to the journal, where a job is placed, what closing does, and a receipt that the check
  before dispatch rewrites.
\<close>

section \<open>How a task ends\<close>

lemma find_job_settled: "find_job t i (rt_store (on_store (settle j u) rt)) = find_job t i (rt_store rt)"
  by (simp add: find_job_frame)

lemma quarantined_receipt [simp]: "quarantined (set_receipt t r st) = quarantined st"
  "quarantined (settle j u st) = quarantined st" "quarantined (add_event n k m st) = quarantined st"
  by (simp_all add: quarantined_def)


lemma sample_task: "reachable sample_sent" "\<exists>t. map_of (rt_running sample_sent) ''j1'' = Some t \<and> task_begun t \<and> job_session_id (task_job t) = ''s''"
  "\<exists>row. find_job (tenant_of sample_sent) ''j1'' (rt_store sample_sent) = Some row \<and> row_state row = RUNNING"
proof -
  show "reachable sample_sent" by (rule sample_reachable)
  show "\<exists>row. find_job (tenant_of sample_sent) ''j1'' (rt_store sample_sent) = Some row \<and> row_state row = RUNNING"
    using sample_views(2) by (auto simp: sample_view_def)
  have "map_option (\<lambda>t. (task_begun t, job_session_id (task_job t))) (map_of (rt_running sample_sent) ''j1'') = Some (True, ''s'')"
    by code_simp
  then show "\<exists>t. map_of (rt_running sample_sent) ''j1'' = Some t \<and> task_begun t \<and> job_session_id (task_job t) = ''s''" by auto
qed


text \<open>C14: when the backend returns a prediction, the attempt takes the charge it reports, or stays unsettled
  when it reports none; the job succeeds only if it was still running and is still fresh for its session
  at that instant, and otherwise keeps its ended state or lapses; the prediction is recorded either way,
  only a success enters the cache, and the task is released.\<close>

theorem completion_is_settled:
  assumes "reachable rt" "map_of (rt_running rt) i = Some t" "task_begun t"
    "find_job (tenant_of rt) i (rt_store rt) = Some row"
    "get_session (tenant_of rt) (job_session_id (task_job t)) (rt_store rt) = Inr s"
    "\<not> first_content_bad (row_receipt row) p (fst (clock_now_ns (rt_clock rt)))"
  shows "map_option (\<lambda>a. (at_actual a, at_disposition a)) (find_attempt (tenant_of rt) i (rt_store (task_complete i p rt))) =
      Some (cost_microusd (pred_usage p), if cost_microusd (pred_usage p) = None then UNSETTLED else SETTLED) \<and>
    map_option (\<lambda>row'. (row_state row', rc_prediction_json (row_receipt row')))
        (find_job (tenant_of rt) i (rt_store (task_complete i p rt))) =
      Some (if row_state row \<noteq> RUNNING then row_state row
            else case invalid_reason (task_job t) s (fst (clock_now_ns (rt_clock rt))) (clock_id_of rt) of
                   None \<Rightarrow> SUCCEEDED | Some x \<Rightarrow> lapse_state x, Some (pred_payload_json p)) \<and>
    (rt_cache (task_complete i p rt) \<noteq> rt_cache rt \<longrightarrow>
       row_state row = RUNNING \<and>
       invalid_reason (task_job t) s (fst (clock_now_ns (rt_clock rt))) (clock_id_of rt) = None) \<and>
    rt_running (task_complete i p rt) = AList.delete i (rt_running rt)"
proof -
  from task_of [OF reach_ok [OF assms(1)] assms(2)] obtain a where id: "row_body row = task_job t"
    "job_tenant (task_job t) = tenant_of rt" "job_id (task_job t) = i" "rc_job_id (row_receipt row) = i"
    "row_state row \<noteq> SUCCEEDED"
    and a: "find_attempt (tenant_of rt) i (rt_store rt) = Some a"
    using assms(4) find_job_ok(1) [OF coord_store_ok [OF reach_ok [OF assms(1)]] assms(4)]
    by (metis (mono_tags, lifting) job_state.distinct(1) option.inject row_ok_def insertE job_state.simps empty_iff)
  have st: "rc_state (row_receipt row) = row_state row"
    using find_job_ok(1) [OF coord_store_ok [OF reach_ok [OF assms(1)]] assms(4)] by (simp add: row_ok_def)
  have get: "get_job (tenant_of rt) i (rt_store rt) = Inr (task_job t, row_receipt row)"
    using assms(4) id by (simp add: get_job_def)
  let ?v = "invalid_reason (task_job t) s (fst (clock_now_ns (rt_clock rt))) (clock_id_of rt)"
  show ?thesis
    using assms(2-6) id(5)
    by (cases "row_state row = RUNNING"; cases ?v)
      (simp_all add: task_complete_def Let_def read_now_eq id(1-4) get get_session_frame find_job_frame
        find_attempt_frame find_job_receipt find_attempt_settle a settled_as_def charge_of_def
        finish_outcome_def finished_receipt_def st lapse_state_def split_beta)
qed

theorem completion_is_settled_witness:
  "map_option (\<lambda>a. (at_actual a, at_disposition a))
     (find_attempt ''t'' ''j1'' (rt_store (task_complete ''j1'' sample_prediction sample_sent))) = Some (Some 40, SETTLED) \<and>
   ''j1'' \<notin> fst ` set (rt_running (task_complete ''j1'' sample_prediction sample_sent))"
proof -
  obtain t row where t: "map_of (rt_running sample_sent) ''j1'' = Some t" "task_begun t" "job_session_id (task_job t) = ''s''"
    and row: "find_job (tenant_of sample_sent) ''j1'' (rt_store sample_sent) = Some row"
    using sample_task by blast
  have tenant: "tenant_of sample_sent = ''t''" using sample_views(2) by (simp add: sample_view_def)
  obtain s where s: "get_session (tenant_of sample_sent) (job_session_id (task_job t)) (rt_store sample_sent) = Inr s"
    using sample_views(2) t(3) by (auto simp: sample_view_def split: sum.splits)
  have "\<not> first_content_bad (row_receipt row) sample_prediction (fst (clock_now_ns (rt_clock sample_sent)))"
    by (simp add: first_content_bad_def sample_prediction_def)
  from completion_is_settled [OF sample_task(1) t(1,2) row s this] tenant show ?thesis
    by (auto simp: AList.delete_eq sample_prediction_def sample_usage_def no_usage_def)
qed

section \<open>Placement\<close>



section \<open>Shutdown, and two receipts that are rewritten\<close>

text \<open>Closing takes effect at once: whatever the state, after the first part of \<open>close\<close> nothing is queued any
  more, a tick changes nothing, and every submission is refused.\<close>

theorem close_stops_intake:
  assumes "reachable rt"
  shows "rt_closed (close_begin rt) \<and> tick (close_begin rt) = (Inr (), close_begin rt) \<and>
    (\<forall>i row. find_job (tenant_of (close_begin rt)) i (rt_store (close_begin rt)) = Some row \<longrightarrow> row_state row \<noteq> QUEUED) \<and>
    (\<forall>j. \<not> is_ok (fst (submit j (close_begin rt))))"
proof -
  have closed: "rt_closed (close_begin rt)"
    by (simp add: close_begin_def close_queue_def fold_closed)
  have "coord_ok (close_begin rt)" using reach_ok [OF assms] close_begin_good by (simp add: good_def)
  with closed show ?thesis by (auto simp: coord_ok_def tick_def submit_def split: sum.split)
qed

theorem close_stops_intake_witness: "\<not> is_ok (fst (submit sample_job (close_begin sample_queued)))"
  using close_stops_intake [OF sample_reachable(3)] by blast

text \<open>C19: the check immediately before dispatch does not look at the receipt's state: a job that was cancelled after
  it was placed is written back as expired or stale, with the reason of the check, when its session or its
  time has gone; the consumer's cancellation is no longer recorded.\<close>

theorem cancelled_rewritten_before_dispatch:
  assumes "reachable rt" "map_of (rt_running rt) i = Some t" "\<not> task_begun t"
    "find_job (tenant_of rt) i (rt_store rt) = Some row" "row_state row = CANCELLED"
    "get_session (tenant_of rt) (job_session_id (task_job t)) (rt_store rt) = Inr s"
    "invalid_reason (task_job t) s (fst (clock_now_ns (rt_clock rt))) (clock_id_of rt) = Some x"
  shows "map_option (\<lambda>row'. (row_state row', rc_reason (row_receipt row')))
      (find_job (tenant_of rt) i (rt_store (task_begin i rt))) = Some (lapse_state x, Some x) \<and>
    lapse_state x \<noteq> CANCELLED"
proof -
  from task_of [OF reach_ok [OF assms(1)] assms(2)] have id: "row_body row = task_job t"
    "job_tenant (task_job t) = tenant_of rt" "job_id (task_job t) = i" "rc_job_id (row_receipt row) = i"
    using assms(4) by (metis option.inject)+
  have get: "get_job (tenant_of rt) i (settle (task_job t) u (rt_store rt)) = Inr (task_job t, row_receipt row)" for u
    using assms(4) id by (simp add: get_job_def find_job_frame)
  show ?thesis
    using assms(2-7)
    by (simp add: task_begin_def Let_def read_now_eq id get set_state_store find_job_frame find_job_receipt)
      (simp add: lapse_state_def)
qed

definition sample_withdrawn :: runtime where
  "sample_withdrawn = snd (advance_session ''s'' 0 ''r1'' False (snd (cancel ''j1'' (snd (tick sample_queued)))))"

definition withdrawn_view :: "runtime \<Rightarrow> string \<times> (bool \<times> job) option \<times> job_state option \<times> string option" where
  "withdrawn_view rt = (tenant_of rt, map_option (\<lambda>t. (task_begun t, task_job t)) (map_of (rt_running rt) ''j1''),
     map_option row_state (find_job ''t'' ''j1'' (rt_store rt)),
     (case get_session ''t'' ''s'' (rt_store rt) of Inl _ \<Rightarrow> None
      | Inr s \<Rightarrow> invalid_reason sample_job s (fst (clock_now_ns (rt_clock rt))) (clock_id_of rt)))"

theorem cancelled_rewritten_before_dispatch_witness:
  "map_option row_state (find_job ''t'' ''j1'' (rt_store sample_withdrawn)) = Some CANCELLED \<and>
   map_option row_state (find_job ''t'' ''j1'' (rt_store (task_begin ''j1'' sample_withdrawn))) = Some STALE"
proof -
  have "reachable (snd (tick sample_queued))" by (rule reachable_left_behind.step [OF sample_reachable(3) rt_step.tick])
  then have "reachable (snd (cancel ''j1'' (snd (tick sample_queued))))"
    by (rule reachable_left_behind.step [OF _ rt_step.cancel])
  then have reach: "reachable sample_withdrawn" unfolding sample_withdrawn_def
    by (rule reachable_left_behind.step [OF _ rt_step.advance])
  have view: "withdrawn_view sample_withdrawn =
      (''t'', Some (False, sample_job), Some CANCELLED, Some ''session_epoch_mismatch'')" by code_simp
  then obtain t where t: "map_of (rt_running sample_withdrawn) ''j1'' = Some t" "\<not> task_begun t" "task_job t = sample_job"
    by (auto simp: withdrawn_view_def)
  from view obtain row where row: "find_job ''t'' ''j1'' (rt_store sample_withdrawn) = Some row" "row_state row = CANCELLED"
    by (auto simp: withdrawn_view_def)
  from view obtain s where s: "get_session ''t'' ''s'' (rt_store sample_withdrawn) = Inr s"
    "invalid_reason sample_job s (fst (clock_now_ns (rt_clock sample_withdrawn))) (clock_id_of sample_withdrawn) =
      Some ''session_epoch_mismatch''"
    by (auto simp: withdrawn_view_def split: sum.splits)
  have tenant: "tenant_of sample_withdrawn = ''t''" using view by (simp add: withdrawn_view_def)
  have lapse: "lapse_state ''session_epoch_mismatch'' = STALE" by code_simp
  have sid: "job_session_id sample_job = ''s''" by (simp add: sample_job_def)
  have "map_option (\<lambda>row'. (row_state row', rc_reason (row_receipt row')))
      (find_job ''t'' ''j1'' (rt_store (task_begin ''j1'' sample_withdrawn))) =
      Some (STALE, Some ''session_epoch_mismatch'')"
    using cancelled_rewritten_before_dispatch [OF reach t(1,2), of row s "''session_epoch_mismatch''"] row s
    by (simp add: tenant t(3) sid lapse)
  then show ?thesis using row by auto
qed

end
