(* ===== verification/Core_Properties.thy ===== *)
theory Core_Properties
  imports Json_Roundtrip Result_Cache Scheduling Clocks Samples
begin

text \<open>
  The properties of the coordinator's pure parts: the freshness window, the canonical JSON text and
  the fingerprints taken of it, the dispatch order, the result cache and the clock maps.
\<close>

section \<open>Freshness\<close>



section \<open>Canonical text and identity\<close>

lemma json_depths_le: "json_depths vs \<le> n \<longleftrightarrow> (\<forall>v \<in> set vs. Suc (json_depth v) \<le> n)"
  by (induction vs) auto

lemma json_depth_sort_keys [simp]: "json_depth (sort_keys v) = json_depth v"
proof -
  have "json_depth (sort_keys v) \<le> n \<longleftrightarrow> json_depth v \<le> n" for n
  proof (induction v arbitrary: n)
    case (JList vs)
    have "Suc (json_depth (sort_keys v)) \<le> n \<longleftrightarrow> Suc (json_depth v) \<le> n" if "v \<in> set vs" for v
      using JList [OF that, of "n - 1"] by (cases n) auto
    then show ?case by (simp add: json_depths_le)
  next
    case (JObj kvs)
    have "Suc (json_depth (sort_keys (snd kv))) \<le> n \<longleftrightarrow> Suc (json_depth (snd kv)) \<le> n" if "kv \<in> set kvs" for kv
      using JObj [OF that, of "snd kv" "n - 1"] by (cases n) (auto simp: snds.simps)
    then show ?case by (simp add: json_depths_le)
  qed simp_all
  then show ?thesis by (meson antisym order_refl)
qed

text \<open>C23: what is stored as canonical text is read back as it was: an object without floats whose integers the
  reader accepts, with unique keys and at most 32 levels deep, has a canonical text; the strict reader
  returns from it the same members, in key order, as long as the text is within its bound; and another
  such object has the same text only if it differs in the order of members at most.\<close>

theorem canonical_round_trip:
  assumes "json_plain (JObj kvs)" "json_depth (JObj kvs) \<le> 32"
  shows "\<exists>txt kvs'. canonical (JObj kvs) = Inr txt \<and> sort_keys (JObj kvs) = JObj kvs' \<and>
    strict_json max_bytes txt =
      (if int (utf8_len txt) \<le> max_bytes then Inr kvs' else Inl (ValueError ''JSON object exceeds byte bound'')) \<and>
    (\<forall>w. json_plain w \<and> canonical w = Inr txt \<longrightarrow> sort_keys w = JObj kvs')"
proof -
  obtain kvs' where kvs': "sort_keys (JObj kvs) = JObj kvs'" by simp
  then have plain: "json_plain (JObj kvs')" and depth: "json_depth (JObj kvs') \<le> 32"
    using json_plain_sort_keys [OF assms(1)] assms(2) json_depth_sort_keys [of "JObj kvs"] by metis+
  let ?txt = "json_dumps (JObj kvs)"
  have loads: "json_loads True ?txt = Inr (JObj kvs')" using json_loads_dumps [OF assms(1), of True] kvs' by metis
  have "strict_json max_bytes ?txt =
      (if int (utf8_len ?txt) \<le> max_bytes then Inr kvs' else Inl (ValueError ''JSON object exceeds byte bound''))"
    using loads json_plain_finite [OF plain] depth strict_json_Inr_iff [of max_bytes ?txt kvs']
    by (cases "int (utf8_len ?txt) \<le> max_bytes") (simp_all add: strict_json_def [of max_bytes])
  moreover have "sort_keys w = JObj kvs'" if "json_plain w" "canonical w = Inr ?txt" for w
    using json_dumps_inj [OF that(1) assms(1)] that(2) kvs' by (simp add: canonical_def split: if_splits)
  ultimately show ?thesis using json_plain_finite [OF assms(1)] kvs' by (auto simp: canonical_def)
qed

theorem canonical_round_trip_witness:
  "\<exists>txt. canonical (JObj [(''b'', JList [JInt 1, JNull]), (''a'', JStr ''x'')]) = Inr txt \<and>
     strict_json 100 txt = Inr [(''a'', JStr ''x''), (''b'', JList [JInt 1, JNull])]"
proof -
  let ?kvs = "[(''b'', JList [JInt 1, JNull]), (''a'', JStr ''x'')]"
  have "json_plain (JObj ?kvs)" using small_printable [of 1] by simp
  moreover have "json_depth (JObj ?kvs) \<le> 32" by simp
  ultimately obtain t kvs' where t: "canonical (JObj ?kvs) = Inr t" "sort_keys (JObj ?kvs) = JObj kvs'"
    "strict_json 100 t = (if int (utf8_len t) \<le> 100 then Inr kvs' else Inl (ValueError ''JSON object exceeds byte bound''))"
    using canonical_round_trip [of ?kvs 100] by blast
  have "sort_keys (JObj ?kvs) = JObj [(''a'', JStr ''x''), (''b'', JList [JInt 1, JNull])] \<and>
      (case canonical (JObj ?kvs) of Inl _ \<Rightarrow> False | Inr t \<Rightarrow> int (utf8_len t) \<le> 100)" by code_simp
  with t show ?thesis by simp
qed

text \<open>The strict reader accepts a text exactly when it is within the byte bound and is the text of an object
  with unique keys, at most 32 levels deep and with finite numbers only; anything else is an
  error value.\<close>

theorem strict_reader_bounds:
  "strict_json max_bytes value = Inr kvs \<longleftrightarrow>
     int (utf8_len value) \<le> max_bytes \<and> json_loads True value = Inr (JObj kvs) \<and>
     json_depth (JObj kvs) \<le> 32 \<and> json_finite (JObj kvs)"
  by (rule strict_json_Inr_iff)

text \<open>The request fingerprint identifies the work: two valid jobs with the same fingerprint are the same job,
  field by field, or the hash has been given two texts with one digest.\<close>

theorem fingerprint_identifies_job:
  assumes "validate_job a = Inr a'" "validate_job b = Inr b'" "job_fingerprint sha a' = job_fingerprint sha b'"
  shows "a' = b' \<or> collision sha (json_dumps (JObj (job_fields a'))) (json_dumps (JObj (job_fields b')))"
proof -
  have "job_fields_ok x'" if "validate_job x = Inr x'" for x x'
    using that by (auto simp: validate_job_def rbind_Inr_iff Let_def job_fields_ok_def)
  then have "json_plain (JObj (job_fields a'))" "json_plain (JObj (job_fields b'))"
    using assms(1,2) job_fields_plain by blast+
  from fingerprint_eq_sort_keys [OF this assms(3) [unfolded job_fingerprint_def]] show ?thesis
    using job_fields_inj by blast
qed

theorem fingerprint_identifies_job_witness:
  "job_fingerprint id sample_job = job_fingerprint id sample_job \<and> job_fingerprint id sample_job \<noteq> job_fingerprint id sample_current_job"
proof -
  have "sample_job \<noteq> sample_current_job" by (simp add: sample_current_job_def sample_job_def)
  then show ?thesis
    using fingerprint_identifies_job [OF sample_job_valid sample_current_job_valid, of id] by (auto simp: collision_def)
qed

section \<open>The result cache\<close>

text \<open>The members of a job that the cache key covers.\<close>

definition keyed_job :: "job \<Rightarrow> job" where
  "keyed_job j = j\<lparr>job_id := '''', job_deadline_ns := 0, job_priority := 0, job_allowed_sites := [],
     job_dependencies := [], job_replace_key := None, job_discardable := False\<rparr>"

lemma keyed_lookup:
  "map_of (keyed_fields j) ''tenant'' = Some (JStr (job_tenant j))"
  "map_of (keyed_fields j) ''session_id'' = Some (JStr (job_session_id j))"
  "map_of (keyed_fields j) ''epoch'' = Some (JInt (job_epoch j))"
  "map_of (keyed_fields j) ''task_revision'' = Some (JStr (job_task_revision j))"
  "map_of (keyed_fields j) ''clock_id'' = Some (JStr (job_clock_id j))"
  "map_of (keyed_fields j) ''model'' = Some (JStr (job_model j))"
  "map_of (keyed_fields j) ''operation'' = Some (JStr (job_operation j))"
  "map_of (keyed_fields j) ''workload'' = Some (JStr (workload_value (job_workload j)))"
  "map_of (keyed_fields j) ''result_kind'' = Some (JStr (kind_value (job_result_kind j)))"
  "map_of (keyed_fields j) ''observations'' = Some (JList (map observation_json (job_observations j)))"
  "map_of (keyed_fields j) ''snapshot_ns'' = Some (JInt (job_snapshot_ns j))"
  "map_of (keyed_fields j) ''max_age_ns'' = Some (opt_json JInt (job_max_age_ns j))"
  "map_of (keyed_fields j) ''max_uncertainty_ns'' = Some (JInt (job_max_uncertainty_ns j))"
  "map_of (keyed_fields j) ''payload_json'' = Some (JStr (job_payload_json j))"
  "map_of (keyed_fields j) ''cacheable'' = Some (JBool (job_cacheable j))"
  "distinct (map fst (keyed_fields j))"
  by (simp_all add: keyed_fields_def job_fields_def unkeyed_fields_def)

lemma keyed_fields_inj:
  assumes "sort_keys (JObj (keyed_fields a)) = sort_keys (JObj (keyed_fields b))"
  shows "keyed_job a = keyed_job b"
proof -
  note m = sort_keys_obj_member [OF keyed_lookup(16) keyed_lookup(16) assms]
  have o: "job_observations a = job_observations b"
  proof (rule map_sort_keys_inj [of observation_json])
    show "map (sort_keys \<circ> observation_json) (job_observations a) = map (sort_keys \<circ> observation_json) (job_observations b)"
      using m [of "''observations''"] by (simp add: keyed_lookup)
  qed (rule observation_json_inj)
  have "job_tenant a = job_tenant b" using m [of "''tenant''"] by (simp add: keyed_lookup)
  moreover have "job_session_id a = job_session_id b" using m [of "''session_id''"] by (simp add: keyed_lookup)
  moreover have "job_epoch a = job_epoch b" using m [of "''epoch''"] by (simp add: keyed_lookup)
  moreover have "job_task_revision a = job_task_revision b" using m [of "''task_revision''"] by (simp add: keyed_lookup)
  moreover have "job_clock_id a = job_clock_id b" using m [of "''clock_id''"] by (simp add: keyed_lookup)
  moreover have "job_model a = job_model b" using m [of "''model''"] by (simp add: keyed_lookup)
  moreover have "job_operation a = job_operation b" using m [of "''operation''"] by (simp add: keyed_lookup)
  moreover have "job_workload a = job_workload b" using m [of "''workload''"] by (simp add: keyed_lookup)
  moreover have "job_result_kind a = job_result_kind b" using m [of "''result_kind''"] by (simp add: keyed_lookup)
  moreover have "job_snapshot_ns a = job_snapshot_ns b" using m [of "''snapshot_ns''"] by (simp add: keyed_lookup)
  moreover have "job_max_age_ns a = job_max_age_ns b" using m [of "''max_age_ns''"] by (simp add: keyed_lookup)
  moreover have "job_max_uncertainty_ns a = job_max_uncertainty_ns b" using m [of "''max_uncertainty_ns''"] by (simp add: keyed_lookup)
  moreover have "job_payload_json a = job_payload_json b" using m [of "''payload_json''"] by (simp add: keyed_lookup)
  moreover have "job_cacheable a = job_cacheable b" using m [of "''cacheable''"] by (simp add: keyed_lookup)
  ultimately show ?thesis by (intro job.equality) (simp_all add: keyed_job_def o)
qed

lemma keyed_fields_plain: "job_fields_ok j \<Longrightarrow> json_plain (JObj (keyed_fields j))"
  using job_fields_plain [of j] keyed_lookup(16) [of j]
  by (simp add: keyed_fields_def list_all_iff)

text \<open>What the cache treats as the same query is the same query: two valid cacheable jobs with the same cache key
  were asked of the same model contract and agree on everything but their identity, deadline, priority,
  placement, dependencies and replacement, or the hash has collided; and a job that is not a
  cacheable historical query has no key.\<close>

theorem cache_key_identifies_query:
  assumes "validate_job a = Inr a'" "validate_job b = Inr b'" "cache_key sha a' c = Some k" "cache_key sha b' d = Some k"
  shows "(c = d \<and> keyed_job a' = keyed_job b' \<or>
      collision sha (json_dumps (JList [JStr c, JObj (keyed_fields a')])) (json_dumps (JList [JStr d, JObj (keyed_fields b')]))) \<and>
    job_cacheable a' \<and> job_result_kind a' = HISTORICAL"
proof -
  have "job_fields_ok x'" if "validate_job x = Inr x'" for x x'
    using that by (auto simp: validate_job_def rbind_Inr_iff Let_def job_fields_ok_def)
  then have plain: "json_plain (JList [JStr c, JObj (keyed_fields a')])" "json_plain (JList [JStr d, JObj (keyed_fields b')])"
    using assms(1,2) keyed_fields_plain by simp_all
  have key: "fingerprint sha (JList [JStr c, JObj (keyed_fields a')]) = fingerprint sha (JList [JStr d, JObj (keyed_fields b')])"
    and kind: "job_cacheable a'" "job_result_kind a' = HISTORICAL"
    using assms(3,4) by (auto simp: cache_key_def split: if_splits)
  have "sort_keys (JList [JStr c, JObj (keyed_fields a')]) = sort_keys (JList [JStr d, JObj (keyed_fields b')]) \<longrightarrow>
      c = d \<and> keyed_job a' = keyed_job b'"
    using keyed_fields_inj [of a' b'] by simp
  with fingerprint_eq_sort_keys [OF plain key] kind show ?thesis by blast
qed

definition sample_cacheable :: job where
  "sample_cacheable = sample_job\<lparr>job_cacheable := True\<rparr>"

lemma sample_cacheable_valid: "validate_job sample_cacheable = Inr sample_cacheable"
  by code_simp

theorem cache_key_identifies_query_witness:
  "cache_key id sample_cacheable ''m1'' \<noteq> None \<and> cache_key id sample_cacheable ''m1'' \<noteq> cache_key id sample_cacheable ''m2''"
proof -
  obtain k where k: "cache_key id sample_cacheable ''m1'' = Some k"
    by (simp add: cache_key_def sample_cacheable_def sample_job_def)
  have "cache_key id sample_cacheable ''m2'' \<noteq> Some k"
    using cache_key_identifies_query [OF sample_cacheable_valid sample_cacheable_valid k, of "''m2''"]
    by (auto simp: collision_def)
  with k show ?thesis by auto
qed

text \<open>One use of the cache: a lookup, or a store of a fresh result.\<close>

datatype cache_op = CGet "string option" int | CPut "string option" string int

fun cache_apply :: "cache_op \<Rightarrow> hcache \<Rightarrow> hcache" where
  "cache_apply (CGet k now) c = snd (cache_get c k now)"
| "cache_apply (CPut k p t) c = cache_put c k p t"

lemma cache_run_sound:
  "cache_inv c \<Longrightarrow> cache_inv (fold cache_apply ops c) \<and> hc_ttl_ns (fold cache_apply ops c) = hc_ttl_ns c \<and>
   (cache_entry_of (fold cache_apply ops c) k = Some (p, t) \<longrightarrow>
      cache_entry_of c k = Some (p, t) \<or> CPut (Some k) p t \<in> set ops)"
proof (induction ops arbitrary: c)
  case (Cons x ops)
  have inv: "cache_inv (cache_apply x c)" and ttl: "hc_ttl_ns (cache_apply x c) = hc_ttl_ns c"
    using Cons.prems historical.get_inv historical.put_inv historical.get_ttl historical.put_ttl by (cases x; simp)+
  have "cache_entry_of c k = Some (p, t) \<or> x = CPut (Some k) p t" if "cache_entry_of (cache_apply x c) k = Some (p, t)"
    using that by (cases x) (auto dest: historical.get_entry [OF Cons.prems] historical.put_entry [OF Cons.prems])
  with Cons.IH [OF inv] ttl show ?case by auto
qed simp

text \<open>C21: over any sequence of lookups and stores, the result cache never holds more entries or bytes than configured,
  and a hit returns a payload that was stored under that very key, with the time it was
  computed, less than the time to live before the lookup.\<close>

theorem cache_hits_are_stored_results:
  assumes "0 \<le> entries" "0 \<le> max_bytes" "c = fold cache_apply ops (new_cache entries max_bytes ttl)"
  shows "int (length (hc_data c)) \<le> entries \<and> hc_bytes c \<le> max_bytes \<and> hc_bytes c = sizes (hc_data c) \<and>
    (\<forall>k now p t. fst (cache_get c k now) = Some (p, t) \<longrightarrow>
       (\<exists>k'. k = Some k' \<and> CPut (Some k') p t \<in> set ops) \<and> now - t < ttl)"
proof -
  have new: "cache_inv (new_cache entries max_bytes ttl)" using assms(1,2) by (rule new_cache_inv)
  have limits: "hc_entries (fold cache_apply ops c0) = hc_entries c0 \<and> hc_max_bytes (fold cache_apply ops c0) = hc_max_bytes c0" for c0
  proof (induction ops arbitrary: c0)
    case (Cons x ops)
    show ?case using Cons [of "cache_apply x c0"]
      by (cases x) (auto simp: cache_get_def cache_put_def Let_def split: option.splits prod.splits if_splits)
  qed simp
  have run: "cache_inv c" "hc_ttl_ns c = ttl" "\<And>k p t. cache_entry_of c k = Some (p, t) \<Longrightarrow> CPut (Some k) p t \<in> set ops"
    using cache_run_sound [OF new, of ops] assms(3) by (auto simp: new_cache_def cache_entry_of_def)
  have "(\<exists>k'. k = Some k' \<and> CPut (Some k') p t \<in> set ops) \<and> now - t < ttl" if "fst (cache_get c k now) = Some (p, t)" for k now p t
    using historical.get_hit [OF run(1) that] run(2,3) by blast
  then show ?thesis
    using run(1) limits [of "new_cache entries max_bytes ttl"] assms(3) by (auto simp: cache_inv_def new_cache_def)
qed

theorem cache_hits_are_stored_results_witness:
  "fst (cache_get (cache_put (new_cache 4 1000 50) (Some ''k'') ''{}'' 20) (Some ''k'') 30) = Some (''{}'', 20) \<and>
   CPut (Some ''k'') ''{}'' 20 \<in> set [CPut (Some ''k'') ''{}'' 20]"
proof -
  let ?c = "fold cache_apply [CPut (Some ''k'') ''{}'' 20] (new_cache 4 1000 50)"
  have hit: "fst (cache_get ?c (Some ''k'') 30) = Some (''{}'', 20)" by code_simp
  have "CPut (Some ''k'') ''{}'' 20 \<in> set [CPut (Some ''k'') ''{}'' 20]"
    using cache_hits_are_stored_results [of 4 1000 ?c "[CPut (Some ''k'') ''{}'' 20]" 50] hit by fastforce
  with hit show ?thesis by simp
qed

section \<open>Dispatch order\<close>

text \<open>Under each scheduling mode the order in which candidates are dispatched depends on the set of candidates and
  the time only, not on the order of the queue, and puts first a candidate whose rank nothing precedes.\<close>

theorem dispatch_order_canonical:
  assumes "mode \<in> {''fifo'', ''edf'', ''slack''}" "mset xs = mset ys" "distinct (map cand_id xs)"
  shows "\<exists>key. (\<forall>c. rank c now mode = Inr (key c)) \<and> sort_key key xs = sort_key key ys \<and>
    (\<forall>z zs. sort_key key xs = z # zs \<longrightarrow> (\<forall>x \<in> set xs. key z \<le> key x))"
proof -
  consider "mode = ''fifo''" | "mode = ''edf''" | "mode = ''slack''" using assms(1) by blast
  then show ?thesis
  proof cases
    case 1
    then show ?thesis using fifo.order_independent [OF assms(2,3), of now] fifo.head_least [of now xs]
      by (intro exI [of _ "fifo_key now"]) (auto simp: rank_def)
  next
    case 2
    then show ?thesis using edf.order_independent [OF assms(2,3), of now] edf.head_least [of now xs]
      by (intro exI [of _ "edf_key now"]) (auto simp: rank_def)
  next
    case 3
    then show ?thesis using slack.order_independent [OF assms(2,3), of now] slack.head_least [of now xs]
      by (intro exI [of _ "slack_key now"]) (auto simp: rank_def)
  qed
qed

definition sample_candidate :: "string \<Rightarrow> int \<Rightarrow> candidate" where
  "sample_candidate i latest = \<lparr>cand_id = i, cand_submitted_ns = 1, cand_latest_ns = latest, cand_estimate_ns = 5,
     cand_priority = 0\<rparr>"

theorem dispatch_order_canonical_witness:
  "\<exists>key. sort_key key [sample_candidate ''b'' 50, sample_candidate ''a'' 40] =
     sort_key key [sample_candidate ''a'' 40, sample_candidate ''b'' 50] \<and>
     rank (sample_candidate ''a'' 40) 10 ''edf'' = Inr (key (sample_candidate ''a'' 40))"
proof -
  have "\<exists>key. (\<forall>c. rank c 10 ''edf'' = Inr (key c)) \<and>
      sort_key key [sample_candidate ''b'' 50, sample_candidate ''a'' 40] =
      sort_key key [sample_candidate ''a'' 40, sample_candidate ''b'' 50] \<and>
      (\<forall>z zs. sort_key key [sample_candidate ''b'' 50, sample_candidate ''a'' 40] = z # zs \<longrightarrow>
         (\<forall>x \<in> set [sample_candidate ''b'' 50, sample_candidate ''a'' 40]. key z \<le> key x))"
    by (rule dispatch_order_canonical) (simp_all add: sample_candidate_def)
  then show ?thesis by blast
qed

section \<open>Clock maps\<close>

text \<open>Mapping a host timestamp is conservative: if the map is as accurate as it claims, the coordinator's clock
  read between the mapped value less the error and the mapped value plus the error; an expired map, a
  map for another coordinator or a negative time maps nothing.\<close>

theorem clock_map_conservative:
  assumes "map_clock m t target now = Inr (mapped, err)" "map_accurate m true_local"
  shows "mapped - err \<le> true_local t \<and> true_local t \<le> mapped + err \<and> target = cm_target m \<and>
    now \<le> cm_valid_until_ns m \<and> 0 \<le> mapped"
  using map_clock_conservative [OF assms] assms(1) by (simp add: map_clock_Inr_iff)

definition sample_map :: clock_map where
  "sample_map = \<lparr>cm_source = ''cam'', cm_target = ''clk'', cm_offset_ns = 100, cm_error_ns = 3, cm_valid_until_ns = 500\<rparr>"

theorem clock_map_conservative_witness:
  "map_clock sample_map 20 ''clk'' 200 = Inr (120, 3) \<and> 120 - 3 \<le> (\<lambda>t. t + 102) (20 :: int)"
proof -
  have m: "map_clock sample_map 20 ''clk'' 200 = Inr (120, 3)" by (simp add: map_clock_def sample_map_def)
  have "map_accurate sample_map (\<lambda>t. t + 102)" by (simp add: map_accurate_def sample_map_def)
  from clock_map_conservative [OF m this] m show ?thesis by simp
qed

end
