(* ===== verification/Wire.thy ===== *)
theory Wire
  imports Json_Roundtrip Contracts Samples
begin

text \<open>
  The contracts on the wire: what \<^verbatim>\<open>model_dump(mode="json")\<close> writes of a record and what
  \<^verbatim>\<open>model_validate_json\<close> makes of a JSON value. Decoding is strict, as \<^verbatim>\<open>Contract\<close> configures it: the
  exact JSON type, no unknown field, declared defaults only; the declared constraints and the
  validators of \<open>Contracts\<close> then apply. A validation error is \<open>ValueError\<close>, its base class.
\<close>

section \<open>Decoding fields\<close>

definition bad_field :: "'a result" where
  "bad_field = Inl (ValueError field_error)"

definition dec_str :: "json \<Rightarrow> string result" where
  "dec_str v = (case v of JStr s \<Rightarrow> Inr s | _ \<Rightarrow> bad_field)"

definition dec_int :: "json \<Rightarrow> int result" where
  "dec_int v = (case v of JInt i \<Rightarrow> Inr i | _ \<Rightarrow> bad_field)"

definition dec_bool :: "json \<Rightarrow> bool result" where
  "dec_bool v = (case v of JBool b \<Rightarrow> Inr b | _ \<Rightarrow> bad_field)"

definition dec_opt :: "(json \<Rightarrow> 'a result) \<Rightarrow> json \<Rightarrow> 'a option result" where
  "dec_opt f v = (if v = JNull then Inr None else rbind (f v) (\<lambda>x. Inr (Some x)))"

definition dec_list :: "(json \<Rightarrow> 'a result) \<Rightarrow> json \<Rightarrow> 'a list result" where
  "dec_list f v = (case v of JList vs \<Rightarrow> traverse f vs | _ \<Rightarrow> bad_field)"

definition dec_enum :: "('a \<Rightarrow> string) \<Rightarrow> 'a list \<Rightarrow> json \<Rightarrow> 'a result" where
  "dec_enum text_of xs v =
     (case v of JStr s \<Rightarrow> (case find (\<lambda>x. text_of x = s) xs of None \<Rightarrow> bad_field | Some x \<Rightarrow> Inr x) | _ \<Rightarrow> bad_field)"

text \<open>A required field, and a field with a default.\<close>

definition field :: "(string \<times> json) list \<Rightarrow> string \<Rightarrow> (json \<Rightarrow> 'a result) \<Rightarrow> 'a result" where
  "field kvs k f = (case map_of kvs k of None \<Rightarrow> bad_field | Some v \<Rightarrow> f v)"

definition field_or :: "'a \<Rightarrow> (string \<times> json) list \<Rightarrow> string \<Rightarrow> (json \<Rightarrow> 'a result) \<Rightarrow> 'a result" where
  "field_or d kvs k f = (case map_of kvs k of None \<Rightarrow> Inr d | Some v \<Rightarrow> f v)"

definition object_of :: "string list \<Rightarrow> json \<Rightarrow> (string \<times> json) list result" where
  "object_of names v =
     (case v of JObj kvs \<Rightarrow> if set (map fst kvs) \<subseteq> set names then Inr kvs else bad_field | _ \<Rightarrow> bad_field)"

lemmas wire_defs = dec_str_def dec_int_def dec_bool_def dec_opt_def dec_list_def dec_enum_def field_def field_or_def
  object_of_def

section \<open>Sessions, observations, jobs\<close>

definition session_state_value :: "session_state \<Rightarrow> string" where
  "session_state_value s = (case s of ACTIVE \<Rightarrow> ''active'' | CLOSED \<Rightarrow> ''closed'')"

definition session_fields :: "session \<Rightarrow> (string \<times> json) list" where
  "session_fields s =
     [(''tenant'', JStr (session_tenant s)), (''id'', JStr (session_id s)), (''epoch'', JInt (session_epoch s)),
      (''task_revision'', JStr (session_task_revision s)), (''clock_id'', JStr (session_clock_id s)),
      (''state'', JStr (session_state_value (session_state s))), (''updated_ns'', JInt (session_updated_ns s)),
      (''buffer_until_ns'', opt_json JInt (session_buffer_until_ns s))]"

definition session_of_json :: "json \<Rightarrow> session result" where
  "session_of_json v =
     rbind (object_of [''tenant'', ''id'', ''epoch'', ''task_revision'', ''clock_id'', ''state'', ''updated_ns'',
                       ''buffer_until_ns''] v) (\<lambda>kvs.
     rbind (field kvs ''tenant'' dec_str) (\<lambda>tenant. rbind (field kvs ''id'' dec_str) (\<lambda>sid.
     rbind (field kvs ''epoch'' dec_int) (\<lambda>epoch. rbind (field kvs ''task_revision'' dec_str) (\<lambda>revision.
     rbind (field kvs ''clock_id'' dec_str) (\<lambda>clk.
     rbind (field_or ACTIVE kvs ''state'' (dec_enum session_state_value [ACTIVE, CLOSED])) (\<lambda>state.
     rbind (field kvs ''updated_ns'' dec_int) (\<lambda>updated.
     rbind (field_or None kvs ''buffer_until_ns'' (dec_opt dec_int)) (\<lambda>buffer.
       validate_session \<lparr>session_tenant = tenant, session_id = sid, session_epoch = epoch,
         session_task_revision = revision, session_clock_id = clk, session_state = state,
         session_updated_ns = updated, session_buffer_until_ns = buffer\<rparr>)))))))))"

definition observation_of_json :: "json \<Rightarrow> observation result" where
  "observation_of_json v =
     rbind (object_of [''id'', ''source'', ''sequence'', ''sha256'', ''capture_ns'', ''available_ns'', ''uncertainty_ns'',
                       ''role'', ''source_time''] v) (\<lambda>kvs.
     rbind (field kvs ''id'' dec_str) (\<lambda>oid. rbind (field kvs ''source'' dec_str) (\<lambda>source.
     rbind (field kvs ''sequence'' dec_int) (\<lambda>seq_no. rbind (field kvs ''sha256'' dec_str) (\<lambda>sha256.
     rbind (field kvs ''capture_ns'' dec_int) (\<lambda>capture. rbind (field kvs ''available_ns'' dec_int) (\<lambda>available.
     rbind (field_or 0 kvs ''uncertainty_ns'' dec_int) (\<lambda>uncertainty.
     rbind (field_or ROLE_CURRENT kvs ''role'' (dec_enum role_value [ROLE_CURRENT, ROLE_CONTEXT])) (\<lambda>role.
     rbind (field_or None kvs ''source_time'' (dec_opt dec_str)) (\<lambda>source_time.
       validate_observation \<lparr>obs_id = oid, obs_source = source, obs_sequence = seq_no, obs_sha256 = sha256,
         obs_capture_ns = capture, obs_available_ns = available, obs_uncertainty_ns = uncertainty, obs_role = role,
         obs_source_time = source_time\<rparr>))))))))))"

definition job_names :: "string list" where
  "job_names = [''id'', ''tenant'', ''session_id'', ''epoch'', ''task_revision'', ''clock_id'', ''model'', ''operation'',
     ''workload'', ''result_kind'', ''observations'', ''snapshot_ns'', ''deadline_ns'', ''max_age_ns'',
     ''max_uncertainty_ns'', ''priority'', ''allowed_sites'', ''dependencies'', ''payload_json'', ''replace_key'',
     ''discardable'', ''cacheable'']"

definition job_of_json :: "json \<Rightarrow> job result" where
  "job_of_json v =
     rbind (object_of job_names v) (\<lambda>kvs.
     rbind (field kvs ''id'' dec_str) (\<lambda>jid. rbind (field kvs ''tenant'' dec_str) (\<lambda>tenant.
     rbind (field kvs ''session_id'' dec_str) (\<lambda>sid. rbind (field kvs ''epoch'' dec_int) (\<lambda>epoch.
     rbind (field kvs ''task_revision'' dec_str) (\<lambda>revision. rbind (field kvs ''clock_id'' dec_str) (\<lambda>clk.
     rbind (field kvs ''model'' dec_str) (\<lambda>model. rbind (field kvs ''operation'' dec_str) (\<lambda>operation.
     rbind (field kvs ''workload'' (dec_enum workload_value [POLICY, SEGMENTATION, SEMANTIC, MAPPING, QUERY])) (\<lambda>work.
     rbind (field kvs ''result_kind'' (dec_enum kind_value [CURRENT, HISTORICAL, ACTION_PROPOSAL])) (\<lambda>kind.
     rbind (field kvs ''observations'' (dec_list observation_of_json)) (\<lambda>observations.
     rbind (field kvs ''snapshot_ns'' dec_int) (\<lambda>snapshot. rbind (field kvs ''deadline_ns'' dec_int) (\<lambda>deadline.
     rbind (field_or None kvs ''max_age_ns'' (dec_opt dec_int)) (\<lambda>max_age.
     rbind (field_or 0 kvs ''max_uncertainty_ns'' dec_int) (\<lambda>max_uncertainty.
     rbind (field_or 1 kvs ''priority'' dec_int) (\<lambda>priority.
     rbind (field_or [''local'', ''site'', ''cloud''] kvs ''allowed_sites'' (dec_list dec_str)) (\<lambda>sites.
     rbind (field_or [] kvs ''dependencies'' (dec_list dec_str)) (\<lambda>deps.
     rbind (field kvs ''payload_json'' dec_str) (\<lambda>payload_text.
     rbind (field_or None kvs ''replace_key'' (dec_opt dec_str)) (\<lambda>replace_key.
     rbind (field_or False kvs ''discardable'' dec_bool) (\<lambda>discardable.
     rbind (field_or False kvs ''cacheable'' dec_bool) (\<lambda>cacheable.
       validate_job \<lparr>job_id = jid, job_tenant = tenant, job_session_id = sid, job_epoch = epoch,
         job_task_revision = revision, job_clock_id = clk, job_model = model, job_operation = operation,
         job_workload = work, job_result_kind = kind, job_observations = observations, job_snapshot_ns = snapshot,
         job_deadline_ns = deadline, job_max_age_ns = max_age, job_max_uncertainty_ns = max_uncertainty,
         job_priority = priority, job_allowed_sites = sites, job_dependencies = deps, job_payload_json = payload_text,
         job_replace_key = replace_key, job_discardable = discardable, job_cacheable = cacheable\<rparr>)))))))))))))))))))))))"

section \<open>Usage and receipts\<close>

definition usage_fields :: "usage \<Rightarrow> (string \<times> json) list" where
  "usage_fields u =
     [(''input_tokens'', opt_json JInt (input_tokens u)), (''output_tokens'', opt_json JInt (output_tokens u)),
      (''cached_input_tokens'', opt_json JInt (cached_input_tokens u)),
      (''reasoning_output_tokens'', opt_json JInt (reasoning_output_tokens u)),
      (''cost_microusd'', opt_json JInt (cost_microusd u))]"

definition usage_of_json :: "json \<Rightarrow> usage result" where
  "usage_of_json v =
     rbind (object_of [''input_tokens'', ''output_tokens'', ''cached_input_tokens'', ''reasoning_output_tokens'',
                       ''cost_microusd''] v) (\<lambda>kvs.
     rbind (field_or None kvs ''input_tokens'' (dec_opt dec_int)) (\<lambda>i.
     rbind (field_or None kvs ''output_tokens'' (dec_opt dec_int)) (\<lambda>out.
     rbind (field_or None kvs ''cached_input_tokens'' (dec_opt dec_int)) (\<lambda>c.
     rbind (field_or None kvs ''reasoning_output_tokens'' (dec_opt dec_int)) (\<lambda>r.
     rbind (field_or None kvs ''cost_microusd'' (dec_opt dec_int)) (\<lambda>cost.
       validate_usage \<lparr>input_tokens = i, output_tokens = out, cached_input_tokens = c, reasoning_output_tokens = r,
         cost_microusd = cost\<rparr>))))))"

definition job_states :: "job_state list" where
  "job_states = [QUEUED, RUNNING, SUCCEEDED, CONSUMED, REJECTED, EXPIRED, STALE, CANCELLED, SUPERSEDED, FAILED, UNKNOWN]"

definition receipt_fields :: "receipt \<Rightarrow> (string \<times> json) list" where
  "receipt_fields r =
     [(''job_id'', JStr (rc_job_id r)), (''request_fingerprint'', JStr (rc_request_fingerprint r)),
      (''state'', JStr (state_value (rc_state r))), (''endpoint'', opt_json JStr (rc_endpoint r)),
      (''reason'', opt_json JStr (rc_reason r)), (''submitted_ns'', JInt (rc_submitted_ns r)),
      (''started_ns'', opt_json JInt (rc_started_ns r)), (''completed_ns'', opt_json JInt (rc_completed_ns r)),
      (''computed_ns'', opt_json JInt (rc_computed_ns r)), (''first_content_ns'', opt_json JInt (rc_first_content_ns r)),
      (''prediction_json'', opt_json JStr (rc_prediction_json r)),
      (''usage'', opt_json (\<lambda>u. JObj (usage_fields u)) (rc_usage r)),
      (''provider_request_id'', opt_json JStr (rc_provider_request_id r)), (''cache_hit'', JBool (rc_cache_hit r)),
      (''consumed_by'', opt_json JStr (rc_consumed_by r)), (''consumed_ns'', opt_json JInt (rc_consumed_ns r))]"

definition receipt_of_json :: "json \<Rightarrow> receipt result" where
  "receipt_of_json v =
     rbind (object_of [''job_id'', ''request_fingerprint'', ''state'', ''endpoint'', ''reason'', ''submitted_ns'',
        ''started_ns'', ''completed_ns'', ''computed_ns'', ''first_content_ns'', ''prediction_json'', ''usage'',
        ''provider_request_id'', ''cache_hit'', ''consumed_by'', ''consumed_ns''] v) (\<lambda>kvs.
     rbind (field kvs ''job_id'' dec_str) (\<lambda>jid. rbind (field kvs ''request_fingerprint'' dec_str) (\<lambda>fp.
     rbind (field kvs ''state'' (dec_enum state_value job_states)) (\<lambda>state.
     rbind (field_or None kvs ''endpoint'' (dec_opt dec_str)) (\<lambda>ep.
     rbind (field_or None kvs ''reason'' (dec_opt dec_str)) (\<lambda>reason.
     rbind (field kvs ''submitted_ns'' dec_int) (\<lambda>submitted.
     rbind (field_or None kvs ''started_ns'' (dec_opt dec_int)) (\<lambda>started.
     rbind (field_or None kvs ''completed_ns'' (dec_opt dec_int)) (\<lambda>completed.
     rbind (field_or None kvs ''computed_ns'' (dec_opt dec_int)) (\<lambda>computed.
     rbind (field_or None kvs ''first_content_ns'' (dec_opt dec_int)) (\<lambda>first.
     rbind (field_or None kvs ''prediction_json'' (dec_opt dec_str)) (\<lambda>pred.
     rbind (field_or None kvs ''usage'' (dec_opt usage_of_json)) (\<lambda>u.
     rbind (field_or None kvs ''provider_request_id'' (dec_opt dec_str)) (\<lambda>rid.
     rbind (field_or False kvs ''cache_hit'' dec_bool) (\<lambda>cached.
     rbind (field_or None kvs ''consumed_by'' (dec_opt dec_str)) (\<lambda>consumer.
     rbind (field_or None kvs ''consumed_ns'' (dec_opt dec_int)) (\<lambda>consumed.
       validate_receipt \<lparr>rc_job_id = jid, rc_request_fingerprint = fp, rc_state = state, rc_endpoint = ep,
         rc_reason = reason, rc_submitted_ns = submitted, rc_started_ns = started, rc_completed_ns = completed,
         rc_computed_ns = computed, rc_first_content_ns = first, rc_prediction_json = pred, rc_usage = u,
         rc_provider_request_id = rid, rc_cache_hit = cached, rc_consumed_by = consumer,
         rc_consumed_ns = consumed\<rparr>)))))))))))))))))"

text \<open>\<^verbatim>\<open>model_validate_json(text)\<close>: a text that is not JSON is a validation error too.\<close>

definition validate_json :: "(json \<Rightarrow> 'a result) \<Rightarrow> string \<Rightarrow> 'a result" where
  "validate_json decode s = (case json_loads False s of Inl _ \<Rightarrow> bad_field | Inr v \<Rightarrow> decode v)"

section \<open>Round trips\<close>

lemma dec_opt_str [simp]: "dec_opt dec_str (opt_json JStr x) = Inr x"
  by (cases x) (simp_all add: dec_opt_def dec_str_def opt_json_def)

lemma dec_opt_int [simp]: "dec_opt dec_int (opt_json JInt x) = Inr x"
  by (cases x) (simp_all add: dec_opt_def dec_int_def opt_json_def)

lemma dec_simps [simp]: "dec_str (JStr s) = Inr s" "dec_int (JInt i) = Inr i" "dec_bool (JBool b) = Inr b"
  by (simp_all add: dec_str_def dec_int_def dec_bool_def)

lemma dec_strs [simp]: "dec_list dec_str (JList (map JStr ss)) = Inr ss"
proof -
  have "traverse dec_str (map JStr ss) = Inr ss" by (induction ss) simp_all
  then show ?thesis by (simp add: dec_list_def)
qed

lemma dec_workload [simp]: "dec_enum workload_value [POLICY, SEGMENTATION, SEMANTIC, MAPPING, QUERY] (JStr (workload_value w)) = Inr w"
  by (cases w) (simp_all add: dec_enum_def)

lemma dec_kind [simp]: "dec_enum kind_value [CURRENT, HISTORICAL, ACTION_PROPOSAL] (JStr (kind_value k)) = Inr k"
  by (cases k) (simp_all add: dec_enum_def)

lemma dec_role [simp]: "dec_enum role_value [ROLE_CURRENT, ROLE_CONTEXT] (JStr (role_value x)) = Inr x"
  by (cases x) (simp_all add: dec_enum_def)

lemma dec_state [simp]: "dec_enum state_value job_states (JStr (state_value x)) = Inr x"
  by (cases x) (simp_all add: dec_enum_def job_states_def)

lemma dec_session_state [simp]: "dec_enum session_state_value [ACTIVE, CLOSED] (JStr (session_state_value x)) = Inr x"
  by (cases x) (simp_all add: dec_enum_def session_state_value_def)

lemma session_wire: "validate_session s = Inr s \<Longrightarrow> session_of_json (JObj (session_fields s)) = Inr s"
  by (cases s) (simp add: session_of_json_def session_fields_def object_of_def field_def field_or_def)

lemma usage_wire: "validate_usage u = Inr u \<Longrightarrow> usage_of_json (JObj (usage_fields u)) = Inr u"
  by (cases u) (simp add: usage_of_json_def usage_fields_def object_of_def field_or_def)

lemma observation_wire: "is_ok (validate_observation x) \<Longrightarrow> observation_of_json (observation_json x) = Inr x"
proof -
  assume "is_ok (validate_observation x)"
  then have "validate_observation x = Inr x" by (auto simp: is_ok_iff validate_observation_def)
  then show ?thesis
    by (cases x) (simp add: observation_of_json_def observation_json_def source_fields_def object_of_def field_def field_or_def)
qed

lemma observations_wire:
  "list_all (\<lambda>x. is_ok (validate_observation x)) xs \<Longrightarrow> dec_list observation_of_json (JList (map observation_json xs)) = Inr xs"
proof -
  assume "list_all (\<lambda>x. is_ok (validate_observation x)) xs"
  then have "traverse observation_of_json (map observation_json xs) = Inr xs"
    by (induction xs) (simp_all add: observation_wire)
  then show ?thesis by (simp add: dec_list_def)
qed

lemma job_wire:
  assumes "validate_job j = Inr j"
  shows "job_of_json (JObj (job_fields j)) = Inr j"
proof -
  have "list_all (\<lambda>x. is_ok (validate_observation x)) (job_observations j)"
    using assms by (auto simp: validate_job_def rbind_Inr_iff job_fields_ok_def)
  with assms show ?thesis
    by (cases j) (simp add: job_of_json_def job_fields_def job_names_def object_of_def field_def field_or_def observations_wire)
qed

lemma dec_opt_usage [simp]:
  "opt_all (\<lambda>u. is_ok (validate_usage u)) x \<Longrightarrow> dec_opt usage_of_json (opt_json (\<lambda>u. JObj (usage_fields u)) x) = Inr x"
proof (cases x)
  case (Some u)
  assume "opt_all (\<lambda>u. is_ok (validate_usage u)) x"
  with Some have "validate_usage u = Inr u" by (auto simp: is_ok_iff validate_usage_def)
  with Some show ?thesis by (simp add: dec_opt_def opt_json_def usage_wire)
qed (simp add: dec_opt_def opt_json_def)

lemma receipt_wire:
  assumes "validate_receipt r = Inr r"
  shows "receipt_of_json (JObj (receipt_fields r)) = Inr r"
proof -
  have "opt_all (\<lambda>u. is_ok (validate_usage u)) (rc_usage r)" using assms by (simp add: validate_receipt_def)
  with assms show ?thesis
    by (cases r) (simp add: receipt_of_json_def receipt_fields_def object_of_def field_def field_or_def)
qed

end
