(* ===== verification/Delivery.thy ===== *)
theory Delivery
  imports Wire Clocks Py_Url Core_Properties
begin

text \<open>
  \<^verbatim>\<open>src/src/agmina_runtime/client.py\<close>: the sidecar client and the delivery fence, the check of a
  claimed result against the consumer's own clock and epoch after the network.
\<close>

section \<open>The delivery fence\<close>

record delivery_check =
  dc_job_id :: string
  dc_valid_until_local_ns :: int
  dc_checked_at_local_ns :: int
  dc_action_authorized :: bool

record local_state =
  lo_tenant :: string
  lo_session_id :: string
  lo_epoch :: int
  lo_task_revision :: string
  lo_consumer_id :: string
  lo_now_ns :: int
  lo_clock_id :: string

text \<open>
  The loop over the observations; a job that is not historical has an age bound (its validator
  says so), and an observation of an unvalidated job without one sets no limit here.
\<close>

fun age_out :: "clock_map \<Rightarrow> job \<Rightarrow> local_state \<Rightarrow> observation list \<Rightarrow> int \<Rightarrow> int result" where
  "age_out m j loc [] latest = Inr latest"
| "age_out m j loc (x # xs) latest =
     (if obs_role x = ROLE_CURRENT then
        rbind (map_clock m (obs_capture_ns x) (lo_clock_id loc) (lo_now_ns loc)) (\<lambda>(capture, error).
          age_out m j loc xs
            (case job_max_age_ns j of None \<Rightarrow> latest
             | Some a \<Rightarrow> min latest (capture + a - obs_uncertainty_ns x - error)))
      else age_out m j loc xs latest)"

definition age_limit :: "clock_map \<Rightarrow> job \<Rightarrow> local_state \<Rightarrow> int \<Rightarrow> int result" where
  "age_limit m j loc latest =
     (if job_result_kind j \<noteq> HISTORICAL then age_out m j loc (job_observations j) latest else Inr latest)"

definition useful_limit :: "job \<Rightarrow> int option \<Rightarrow> int \<Rightarrow> int result" where
  "useful_limit j useful_until latest =
     (if job_workload j = POLICY then
        (case useful_until of
           None \<Rightarrow> Inl (PermissionError ''Policy consumer must supply its current local useful-completion deadline'')
         | Some u \<Rightarrow> Inr (min latest u))
      else Inr latest)"

definition validate_delivery :: "(string \<Rightarrow> string) \<Rightarrow> job \<Rightarrow> receipt \<Rightarrow> local_state \<Rightarrow> clock_map \<Rightarrow> int \<Rightarrow> int option \<Rightarrow>
    delivery_check result" where
  "validate_delivery sha j r loc m max_error useful_until =
     (if max_error < 0 \<or> (case useful_until of None \<Rightarrow> False | Some u \<Rightarrow> u < 0)
      then Inl (ValueError ''Explicit integer clock bounds required'')
      else if rc_request_fingerprint r \<noteq> job_fingerprint sha j \<or> rc_job_id r \<noteq> job_id j
      then Inl (PermissionError ''Reply does not belong to the submitted job'')
      else if rc_state r \<noteq> CONSUMED \<or> rc_consumed_by r \<noteq> Some (lo_consumer_id loc) \<or> rc_prediction_json r = None
      then Inl (PermissionError ''Result has not been claimed by this consumer'')
      else if (job_tenant j, job_session_id j, job_epoch j, job_task_revision j) \<noteq>
              (lo_tenant loc, lo_session_id loc, lo_epoch loc, lo_task_revision loc)
      then Inl (PermissionError ''Local execution/task epoch changed while inference or network was in flight'')
      else if cm_source m \<noteq> job_clock_id j \<or> max_error < cm_error_ns m
      then Inl (PermissionError ''Missing or too-uncertain delivery clock mapping'')
      else
        rbind (map_clock m (job_deadline_ns j) (lo_clock_id loc) (lo_now_ns loc)) (\<lambda>(deadline, error).
        rbind (age_limit m j loc (deadline - error)) (\<lambda>latest.
        rbind (useful_limit j useful_until latest) (\<lambda>latest.
          if latest \<le> lo_now_ns loc then Inl (PermissionError ''Result aged out during return transport'')
          else Inr \<lparr>dc_job_id = job_id j, dc_valid_until_local_ns = latest, dc_checked_at_local_ns = lo_now_ns loc,
                    dc_action_authorized = False\<rparr>))))"

lemma raise_iff: "(if c then Inl e else r) = Inr x \<longleftrightarrow> \<not> c \<and> r = Inr x"
  by simp

lemma age_out_le: "age_out m j loc xs latest = Inr l \<Longrightarrow> l \<le> latest"
proof (induction m j loc xs latest rule: age_out.induct)
  case (2 m j loc x xs latest)
  then show ?case by (fastforce simp: rbind_Inr_iff split: if_splits option.splits)
qed simp

lemma age_out_bound:
  assumes "age_out m j loc xs latest = Inr l" "x \<in> set xs" "obs_role x = ROLE_CURRENT" "job_max_age_ns j = Some a"
  shows "\<exists>capture error. map_clock m (obs_capture_ns x) (lo_clock_id loc) (lo_now_ns loc) = Inr (capture, error) \<and>
    l \<le> capture + a - obs_uncertainty_ns x - error"
  using assms
proof (induction xs arbitrary: latest)
  case (Cons y ys)
  show ?case
  proof (cases "x = y")
    case True
    with Cons.prems obtain capture error where
      "map_clock m (obs_capture_ns x) (lo_clock_id loc) (lo_now_ns loc) = Inr (capture, error)"
      "age_out m j loc ys (min latest (capture + a - obs_uncertainty_ns x - error)) = Inr l"
      by (auto simp: rbind_Inr_iff)
    then show ?thesis using age_out_le by fastforce
  next
    case False
    with Cons show ?thesis by (auto simp: rbind_Inr_iff split: if_splits)
  qed
qed simp

lemma validated_guards: "validate_job j = Inr j' \<Longrightarrow> \<forall>g \<in> set (job_guards j'). \<not> fst g"
  unfolding validate_job_def rbind_Inr_iff Let_def by (elim exE conjE) (metis guards_Inr_iff)

text \<open>C24: a result that passes the delivery fence is still useful where it is consumed: it answers the submitted job,
  was claimed by this consumer, belongs to the consumer's current epoch and task, and, if the clock map
  is as accurate as it claims, the consumer's clock now reads before the true local instant of the
  deadline and, for a job about the current state, every current observation is younger than the job's
  age bound by more than its capture uncertainty; a policy result is also before the consumer's own
  useful-completion time. The check authorises no action.\<close>

theorem delivered_is_fresh:
  assumes "validate_delivery sha j r loc m max_error useful_until = Inr chk" "map_accurate m true_local"
    "validate_job j = Inr j"
  shows "rc_job_id r = job_id j \<and> rc_request_fingerprint r = job_fingerprint sha j \<and>
    rc_consumed_by r = Some (lo_consumer_id loc) \<and> job_epoch j = lo_epoch loc \<and>
    job_task_revision j = lo_task_revision loc \<and> cm_error_ns m \<le> max_error \<and>
    lo_now_ns loc < true_local (job_deadline_ns j) \<and>
    (job_result_kind j \<noteq> HISTORICAL \<longrightarrow> (\<exists>a. job_max_age_ns j = Some a \<and>
       (\<forall>x \<in> set (job_observations j). obs_role x = ROLE_CURRENT \<longrightarrow>
          lo_now_ns loc - true_local (obs_capture_ns x) + obs_uncertainty_ns x < a))) \<and>
    (job_workload j = POLICY \<longrightarrow> (\<exists>u. useful_until = Some u \<and> lo_now_ns loc < u)) \<and>
    \<not> dc_action_authorized chk"
proof -
  let ?map = "\<lambda>t. map_clock m t (lo_clock_id loc) (lo_now_ns loc)"
  have step: "rc_job_id r = job_id j \<and> rc_request_fingerprint r = job_fingerprint sha j \<and>
      rc_consumed_by r = Some (lo_consumer_id loc) \<and> job_epoch j = lo_epoch loc \<and>
      job_task_revision j = lo_task_revision loc \<and> cm_error_ns m \<le> max_error \<and>
      rbind (?map (job_deadline_ns j)) (\<lambda>(deadline, error). rbind (age_limit m j loc (deadline - error)) (\<lambda>l1.
      rbind (useful_limit j useful_until l1) (\<lambda>l2.
        if l2 \<le> lo_now_ns loc then Inl (PermissionError ''Result aged out during return transport'')
        else Inr \<lparr>dc_job_id = job_id j, dc_valid_until_local_ns = l2, dc_checked_at_local_ns = lo_now_ns loc,
                  dc_action_authorized = False\<rparr>))) = Inr chk"
    using assms(1) unfolding validate_delivery_def raise_iff de_Morgan_disj not_not prod.inject not_less
    by (elim conjE) (intro conjI; assumption)
  note bind = step [THEN conjunct1] step [THEN conjunct2, THEN conjunct1]
    step [THEN conjunct2, THEN conjunct2, THEN conjunct1]
    step [THEN conjunct2, THEN conjunct2, THEN conjunct2, THEN conjunct1]
    step [THEN conjunct2, THEN conjunct2, THEN conjunct2, THEN conjunct2, THEN conjunct1]
    step [THEN conjunct2, THEN conjunct2, THEN conjunct2, THEN conjunct2, THEN conjunct2, THEN conjunct1]
  note rest = step [THEN conjunct2, THEN conjunct2, THEN conjunct2, THEN conjunct2, THEN conjunct2, THEN conjunct2]
  obtain deadline error where d: "?map (job_deadline_ns j) = Inr (deadline, error)"
    using rest by (auto simp: rbind_Inr_iff)
  obtain l1 where l1: "age_limit m j loc (deadline - error) = Inr l1"
    using rest by (auto simp: d rbind_Inr_iff)
  obtain l2 where l2: "useful_limit j useful_until l1 = Inr l2"
    using rest by (auto simp: d l1 rbind_Inr_iff)
  have now: "lo_now_ns loc < l2" and chk: "\<not> dc_action_authorized chk"
    using rest by (auto simp: d l1 l2 split: if_splits)
  have le1: "l2 \<le> l1"
    using l2 unfolding useful_limit_def by (cases useful_until; cases "job_workload j = POLICY") simp_all
  have "l1 \<le> deadline - error"
  proof (cases "job_result_kind j = HISTORICAL")
    case True
    with l1 show ?thesis by (simp add: age_limit_def)
  next
    case False
    with l1 have "age_out m j loc (job_observations j) (deadline - error) = Inr l1" by (simp add: age_limit_def)
    then show ?thesis by (rule age_out_le)
  qed
  with le1 have le: "l2 \<le> l1" "l1 \<le> deadline - error" by simp_all
  have "deadline - error \<le> true_local (job_deadline_ns j)" by (rule map_clock_conservative [OF d assms(2)])
  with le now have dead: "lo_now_ns loc < true_local (job_deadline_ns j)" by simp
  have age: "\<exists>a. job_max_age_ns j = Some a \<and> (\<forall>x \<in> set (job_observations j). obs_role x = ROLE_CURRENT \<longrightarrow>
      lo_now_ns loc - true_local (obs_capture_ns x) + obs_uncertainty_ns x < a)" if kind: "job_result_kind j \<noteq> HISTORICAL"
  proof -
    obtain a where a: "job_max_age_ns j = Some a" using validated_guards [OF assms(3)] kind by (auto simp: job_guards_def)
    have "lo_now_ns loc - true_local (obs_capture_ns x) + obs_uncertainty_ns x < a"
      if x: "x \<in> set (job_observations j)" "obs_role x = ROLE_CURRENT" for x
    proof -
      have "age_out m j loc (job_observations j) (deadline - error) = Inr l1" using l1 kind by (simp add: age_limit_def)
      from age_out_bound [OF this x a] obtain capture err where
        c: "?map (obs_capture_ns x) = Inr (capture, err)" "l1 \<le> capture + a - obs_uncertainty_ns x - err" by blast
      with map_clock_conservative(1) [OF c(1) assms(2)] le now show ?thesis by simp
    qed
    with a show ?thesis by blast
  qed
  have "\<exists>u. useful_until = Some u \<and> lo_now_ns loc < u" if "job_workload j = POLICY"
    using l2 now that by (auto simp: useful_limit_def split: option.splits)
  with bind dead age chk show ?thesis by blast
qed

definition sample_local :: local_state where
  "sample_local = \<lparr>lo_tenant = ''t'', lo_session_id = ''s'', lo_epoch = 0, lo_task_revision = ''r0'',
     lo_consumer_id = ''bot'', lo_now_ns = 200, lo_clock_id = ''robot''\<rparr>"

definition sample_delivery_map :: clock_map where
  "sample_delivery_map = \<lparr>cm_source = ''clk'', cm_target = ''robot'', cm_offset_ns = 100, cm_error_ns = 3,
     cm_valid_until_ns = 500\<rparr>"

definition sample_claim :: receipt where
  "sample_claim = \<lparr>rc_job_id = ''j2'', rc_request_fingerprint = ''fp'', rc_state = CONSUMED, rc_endpoint = Some ''e1'',
     rc_reason = None, rc_submitted_ns = 20, rc_started_ns = Some 20, rc_completed_ns = Some 30, rc_computed_ns = Some 30,
     rc_first_content_ns = None, rc_prediction_json = Some ''{}'', rc_usage = Some no_usage, rc_provider_request_id = None,
     rc_cache_hit = False, rc_consumed_by = Some ''bot'', rc_consumed_ns = Some 40\<rparr>"

theorem delivered_is_fresh_witness:
  "is_ok (validate_delivery (\<lambda>_. ''fp'') sample_current_job sample_claim sample_local sample_delivery_map 5 None) \<and>
   lo_now_ns sample_local < job_deadline_ns sample_current_job + 102"
proof -
  have ok: "is_ok (validate_delivery (\<lambda>_. ''fp'') sample_current_job sample_claim sample_local sample_delivery_map 5 None)"
    by code_simp
  then obtain chk where chk: "validate_delivery (\<lambda>_. ''fp'') sample_current_job sample_claim sample_local
      sample_delivery_map 5 None = Inr chk" by (auto simp: is_ok_iff)
  have "map_accurate sample_delivery_map (\<lambda>t. t + 102)" by (simp add: map_accurate_def sample_delivery_map_def)
  from delivered_is_fresh [OF chk this sample_current_job_valid] ok show ?thesis by simp
qed

section \<open>The client\<close>

definition new_client :: "string \<Rightarrow> string \<Rightarrow> string result" where
  "new_client base_url token =
     (let p = urlparse base_url in
      if url_scheme p \<notin> {''http'', ''https''} \<or> \<not> truthy (url_hostname p) \<or> truthy (url_username p) \<or> truthy (url_password p)
      then Inl (ValueError ''Fixed HTTP(S) sidecar URL required'')
      else if url_scheme p = ''http'' \<and> \<not> is_loopback (url_hostname p)
      then Inl (ValueError ''Use TLS or a local authenticated tunnel outside loopback'')
      else if length token < 24 then Inl (ValueError ''High-entropy bearer token required'')
      else Inr (''Bearer '' @ token))"

text \<open>
  A request is its method, path, query, the value of its authorization header and its body in the
  chunks it is sent in; a response is its status and the JSON value of its body. The HTTP exchange
  itself is the network's.
\<close>

record http_request =
  rq_method :: string
  rq_path :: string
  rq_query :: "(string \<times> string) list"
  rq_auth :: string
  rq_chunks :: "string list"

record http_response =
  rs_status :: int
  rs_body :: json

definition get_request :: "string \<Rightarrow> string \<Rightarrow> (string \<times> string) list \<Rightarrow> http_request" where
  "get_request auth path query =
     \<lparr>rq_method = ''GET'', rq_path = path, rq_query = query, rq_auth = auth, rq_chunks = ['''']\<rparr>"

text \<open>
  \<open>enc\<close> is the text that \<^verbatim>\<open>httpx\<close> and \<^verbatim>\<open>pydantic\<close> write of a JSON value, as bytes: a parameter, since neither
  library is part of the repository.
\<close>

definition post_request :: "string \<Rightarrow> string \<Rightarrow> string \<Rightarrow> http_request" where
  "post_request auth path body =
     \<lparr>rq_method = ''POST'', rq_path = path, rq_query = [], rq_auth = auth, rq_chunks = [body]\<rparr>"

definition client_clock :: "string \<Rightarrow> http_request" where
  "client_clock auth = get_request auth ''/v1/clock'' []"

definition client_open_session :: "(json \<Rightarrow> string) \<Rightarrow> string \<Rightarrow> string \<Rightarrow> string \<Rightarrow> http_request" where
  "client_open_session enc auth sid revision =
     post_request auth ''/v1/sessions'' (enc (JObj [(''id'', JStr sid), (''task_revision'', JStr revision)]))"

definition client_submit :: "(json \<Rightarrow> string) \<Rightarrow> string \<Rightarrow> job \<Rightarrow> http_request" where
  "client_submit enc auth j = post_request auth ''/v1/jobs'' (enc (JObj (job_fields j)))"

definition client_result :: "string \<Rightarrow> string \<Rightarrow> http_request" where
  "client_result auth jid = get_request auth ''/v1/result'' [(''id'', jid)]"

definition client_consume :: "(json \<Rightarrow> string) \<Rightarrow> string \<Rightarrow> string \<Rightarrow> string \<Rightarrow> http_request" where
  "client_consume enc auth jid consumer =
     post_request auth ''/v1/consume'' (enc (JObj [(''job_id'', JStr jid), (''consumer_id'', JStr consumer)]))"

definition client_cancel :: "(json \<Rightarrow> string) \<Rightarrow> string \<Rightarrow> string \<Rightarrow> http_request" where
  "client_cancel enc auth jid = post_request auth ''/v1/cancel'' (enc (JObj [(''job_id'', JStr jid)]))"

text \<open>\<^verbatim>\<open>raise_for_status\<close>, then the contract's validation of the body.\<close>

definition client_receive :: "(json \<Rightarrow> 'a result) \<Rightarrow> http_response \<Rightarrow> 'a result" where
  "client_receive decode r =
     (if 200 \<le> rs_status r \<and> rs_status r < 300 then decode (rs_body r) else Inl (HTTPError (int_repr (rs_status r))))"

end
