(* ===== verification/Py_Text.thy ===== *)
theory Py_Text
  imports Py_Json
begin

text \<open>
  What the source uses of Python's string methods: \<^verbatim>\<open>strip\<close>, \<^verbatim>\<open>splitlines\<close>, \<^verbatim>\<open>startswith\<close>, the text of
  an integer in a message, and the nearest-rank index of a percentile. Text is over the code points
  U+0000 to U+00FF, as in \<open>Py_Json\<close>.
\<close>

definition is_space :: "char \<Rightarrow> bool" where
  "is_space c \<longleftrightarrow> (let n = (of_char c :: nat) in
     9 \<le> n \<and> n \<le> 13 \<or> 28 \<le> n \<and> n \<le> 32 \<or> n = 133 \<or> n = 160)"

definition strip :: "string \<Rightarrow> string" where
  "strip s = rev (dropWhile is_space (rev (dropWhile is_space s)))"

definition is_line_break :: "char \<Rightarrow> bool" where
  "is_line_break c \<longleftrightarrow> (let n = (of_char c :: nat) in 10 \<le> n \<and> n \<le> 13 \<or> 28 \<le> n \<and> n \<le> 30 \<or> n = 133)"

text \<open>\<^verbatim>\<open>splitlines\<close>: a break ends a line, CR LF is one break, a last line without a break counts if it is not empty.\<close>

fun split_lines_from :: "string \<Rightarrow> string \<Rightarrow> string list" where
  "split_lines_from line [] = (if line = [] then [] else [line])"
| "split_lines_from line (c # cs) =
     (if is_line_break c
      then line # split_lines_from [] (if c = CHR 0x0D \<and> take 1 cs = [CHR 0x0A] then drop 1 cs else cs)
      else split_lines_from (line @ [c]) cs)"

definition splitlines :: "string \<Rightarrow> string list" where
  "splitlines s = split_lines_from [] s"

lemma splitlines_no_break: "line \<in> set (splitlines s) \<Longrightarrow> \<not> list_ex is_line_break line"
proof -
  have "\<not> list_ex is_line_break line" if "line \<in> set (split_lines_from acc s)" "\<not> list_ex is_line_break acc" for acc
    using that
  proof (induction acc s rule: split_lines_from.induct)
    case (2 acc c cs)
    show ?case
    proof (cases "is_line_break c")
      case True
      with 2 show ?thesis by (auto split: if_splits)
    qed (use 2 in auto)
  qed (auto split: if_splits)
  then show "line \<in> set (splitlines s) \<Longrightarrow> \<not> list_ex is_line_break line" by (simp add: splitlines_def)
qed

section \<open>Percentiles\<close>

text \<open>
  \<^verbatim>\<open>math.ceil(p * len(values))\<close> for a percentile given in hundredths. The source computes the product
  in floating point; for the shares it uses (0.5, 0.95, 0.99) and any list that fits in memory the
  product rounds to the exact value when that is an integer, and is farther than its rounding
  error from every integer otherwise, so the exact ceiling is the computed one.
\<close>

definition ceil_share :: "nat \<Rightarrow> nat \<Rightarrow> nat" where
  "ceil_share hundredths n = (hundredths * n + 99) div 100"

lemma ceil_share_bounds:
  assumes "0 < n" "0 < p" "p \<le> 100"
  shows "1 \<le> ceil_share p n" "ceil_share p n \<le> n" "p * n \<le> 100 * ceil_share p n"
    "100 * ceil_share p n < p * n + 100"
proof -
  have pos: "1 \<le> p * n" using assms by simp
  have le: "p * n \<le> 100 * n" using assms(3) by simp
  show "1 \<le> ceil_share p n" "ceil_share p n \<le> n" "p * n \<le> 100 * ceil_share p n" "100 * ceil_share p n < p * n + 100"
    using pos le unfolding ceil_share_def by linarith+
qed

definition percentile :: "'a::linorder list \<Rightarrow> nat \<Rightarrow> 'a option" where
  "percentile values hundredths =
     (if values = [] then None
      else Some (sort values ! (max 1 (ceil_share hundredths (length values)) - 1)))"

lemma sorted_nth_count:
  assumes "sorted xs" "k < length xs"
  shows "k < length (filter (\<lambda>x. x \<le> xs ! k) xs)" "length (filter (\<lambda>x. x < xs ! k) xs) \<le> k"
proof -
  have "set (take (Suc k) xs) \<subseteq> {x. x \<le> xs ! k}"
    using assms by (auto simp: set_conv_nth sorted_nth_mono)
  then have "filter (\<lambda>x. x \<le> xs ! k) (take (Suc k) xs) = take (Suc k) xs" by (intro filter_True) auto
  then have "length (filter (\<lambda>x. x \<le> xs ! k) (take (Suc k) xs @ drop (Suc k) xs)) \<ge> Suc k"
    using assms(2) by (simp only: filter_append length_append) simp
  then show "k < length (filter (\<lambda>x. x \<le> xs ! k) xs)" by simp
  have "\<not> x < xs ! k" if "x \<in> set (drop k xs)" for x
    using that assms by (auto simp: in_set_conv_nth not_less intro: sorted_nth_mono)
  then have "filter (\<lambda>x. x < xs ! k) (drop k xs) = []" by (auto simp: filter_empty_conv)
  then have "length (filter (\<lambda>x. x < xs ! k) (take k xs @ drop k xs)) \<le> k"
    by (simp only: filter_append length_append) (simp add: le_trans [OF length_filter_le])
  then show "length (filter (\<lambda>x. x < xs ! k) xs) \<le> k" by simp
qed

text \<open>The nearest rank: the least value with at least the given share of the list at or below it.\<close>

lemma percentile_nearest_rank:
  assumes "percentile values p = Some v" "0 < p" "p \<le> 100"
  shows "v \<in> set values" "p * length values \<le> 100 * length (filter (\<lambda>x. x \<le> v) values)"
    "100 * length (filter (\<lambda>x. x < v) values) < p * length values"
proof -
  let ?n = "length values" and ?k = "max 1 (ceil_share p (length values)) - 1"
  have ne: "values \<noteq> []" and v: "v = sort values ! ?k" using assms(1) by (auto simp: percentile_def split: if_splits)
  note b = ceil_share_bounds [OF _ assms(2,3), of ?n]
  have k: "?k < ?n" "Suc ?k = ceil_share p ?n" using ne b(1,2) by auto
  then show "v \<in> set values" using v by (metis length_sort nth_mem set_sort)
  have same: "length (filter P (sort values)) = length (filter P values)" for P :: "'a \<Rightarrow> bool"
    by (metis mset_filter mset_sort size_mset)
  have
    "?k < length (filter (\<lambda>x. x \<le> v) values)" "length (filter (\<lambda>x. x < v) values) \<le> ?k"
    using sorted_nth_count [OF sorted_sort, of ?k "values"] k(1) v by (simp_all add: same)
  with k(2) b(3,4) ne show "p * ?n \<le> 100 * length (filter (\<lambda>x. x \<le> v) values)"
    "100 * length (filter (\<lambda>x. x < v) values) < p * ?n"
    by simp_all
qed

end
