(* ===== verification/Reconciliation.thy ===== *)
theory Reconciliation
  imports Py_Text Ledger_Facts Json_Roundtrip
begin

text \<open>
  \<^verbatim>\<open>src/src/agmina_runtime/reconciliation.py\<close> and \<^verbatim>\<open>src/tools/reconcile_charges.py\<close>: the import of provider
  charges. The file's content is its decoded text; the tool's ledger is the database left on disk.
\<close>

definition max_import_bytes :: int where
  "max_import_bytes = 8000000"

definition max_records :: nat where
  "max_records = 10000"

definition record_keys :: "string set" where
  "record_keys = {''job_id'', ''actual_microusd'', ''evidence_ref''}"

section \<open>Loading\<close>

definition charge_record :: "json \<Rightarrow> string \<Rightarrow> entry result" where
  "charge_record v source =
     (case v of
        JObj kvs \<Rightarrow>
          if set (map fst kvs) \<noteq> record_keys
          then Inl (ValueError (source @ '': record must contain exactly job_id, actual_microusd, evidence_ref''))
          else case jget kvs ''job_id'' of
            JStr jid \<Rightarrow>
              if jid = [] \<or> 256 < int (length jid) then Inl (ValueError (source @ '': invalid job_id''))
              else (case jget kvs ''actual_microusd'' of
                JInt actual \<Rightarrow>
                  if actual < 0 then Inl (ValueError (source @ '': actual_microusd must be a nonnegative integer''))
                  else (case jget kvs ''evidence_ref'' of
                    JStr evidence \<Rightarrow>
                      if evidence = [] \<or> 1024 < int (length evidence) \<or> CHR 0x0A \<in> set evidence
                      then Inl (ValueError (source @ '': invalid evidence_ref'')) else Inr (jid, actual, evidence)
                  | _ \<Rightarrow> Inl (ValueError (source @ '': invalid evidence_ref'')))
              | _ \<Rightarrow> Inl (ValueError (source @ '': actual_microusd must be a nonnegative integer'')))
          | _ \<Rightarrow> Inl (ValueError (source @ '': invalid job_id''))
      | _ \<Rightarrow> Inl (ValueError (source @ '': record must contain exactly job_id, actual_microusd, evidence_ref'')))"

text \<open>A whole document: an array of records, or an object that holds one under \<open>records\<close>.\<close>

definition document_records :: "json \<Rightarrow> json list result" where
  "document_records parsed =
     (case parsed of
        JObj kvs \<Rightarrow>
          (case kvs of
             [(k, JList vs)] \<Rightarrow>
               if k = ''records'' then Inr vs
               else Inl (ValueError ''JSON import must be an array or an object with a records array'')
           | _ \<Rightarrow> Inl (ValueError ''JSON import must be an array or an object with a records array''))
      | JList vs \<Rightarrow> Inr vs
      | _ \<Rightarrow> Inl (ValueError ''JSON import must be an array''))"

fun array_records :: "int \<Rightarrow> json list \<Rightarrow> entry list result" where
  "array_records n [] = Inr []"
| "array_records n (v # vs) =
     rbind (charge_record v (''record '' @ int_repr n)) (\<lambda>r. rbind (array_records (n + 1) vs) (\<lambda>rs. Inr (r # rs)))"

fun line_records :: "int \<Rightarrow> string list \<Rightarrow> entry list result" where
  "line_records n [] = Inr []"
| "line_records n (line # ls) =
     (if strip line = [] then line_records (n + 1) ls
      else case json_loads False line of
        Inl (JSONDecodeError m) \<Rightarrow> Inl (ValueError (''line '' @ int_repr n @ '': malformed JSON''))
      | Inl e \<Rightarrow> Inl e
      | Inr v \<Rightarrow> rbind (charge_record v (''line '' @ int_repr n)) (\<lambda>r.
                 rbind (line_records (n + 1) ls) (\<lambda>rs. Inr (r # rs))))"

text \<open>
  \<^verbatim>\<open>load_records\<close>: a text that starts with a bracket is one document, unless it is several
  objects in a row (\<open>Extra data\<close> after the first), which are lines like any other text.
\<close>

definition load_records :: "string \<Rightarrow> entry list result" where
  "load_records content =
     (if max_import_bytes < int (utf8_len content) then Inl (ValueError ''Reconciliation import exceeds byte bound'')
      else
        let stripped = strip content in
        if stripped = [] then Inl (ValueError ''Reconciliation import is empty'')
        else rbind
          (if starts ''['' stripped \<or> starts ''{'' stripped then
             (case json_loads False stripped of
                Inl (JSONDecodeError m) \<Rightarrow>
                  if starts ''{'' stripped \<and> m = ''Extra data'' then line_records 1 (splitlines content)
                  else Inl (ValueError ''Malformed reconciliation JSON'')
              | Inl e \<Rightarrow> Inl e
              | Inr parsed \<Rightarrow> rbind (document_records parsed) (array_records 1))
           else line_records 1 (splitlines content))
          (\<lambda>records.
            if records = [] then Inl (ValueError ''Reconciliation import has no records'')
            else if int max_records < int (length records) then Inl (ValueError ''Reconciliation import exceeds record bound'')
            else if \<not> distinct (map fst records)
            then Inl (ValueError ''Reconciliation import contains duplicate job IDs'')
            else Inr records))"

section \<open>Preflight and application\<close>

record preview =
  pv_records :: int
  pv_charge_microusd :: int
  pv_job_ids :: "string list"

fun preflight_rows :: "string \<Rightarrow> store \<Rightarrow> entry list \<Rightarrow> unit result" where
  "preflight_rows tenant st [] = Inr ()"
| "preflight_rows tenant st ((jid, _, _) # es) =
     (case find_attempt tenant jid st of
        None \<Rightarrow> Inl (ValueError (''Unknown reconciliation job: '' @ jid))
      | Some row \<Rightarrow>
          if at_actual row \<noteq> None then Inl (ValueError (''Attempt is already settled: '' @ jid))
          else preflight_rows tenant st es)"

definition preflight :: "store \<Rightarrow> string \<Rightarrow> entry list \<Rightarrow> preview result" where
  "preflight st tenant records =
     (if tenant = [] then Inl (ValueError ''A tenant is required'')
      else if \<not> distinct (map fst records) then Inl (ValueError ''Reconciliation import contains duplicate job IDs'')
      else rbind (preflight_rows tenant st records) (\<lambda>_.
        Inr \<lparr>pv_records = int (length records), pv_charge_microusd = sum_list (map (fst \<circ> snd) records),
             pv_job_ids = map fst records\<rparr>))"

record reconcile_report =
  rr_mode :: string
  rr_preview :: preview
  rr_before :: budget_report
  rr_after :: budget_report

definition reconcile_file :: "store \<Rightarrow> string \<Rightarrow> string \<Rightarrow> bool \<Rightarrow> int \<Rightarrow> (reconcile_report \<times> store) result" where
  "reconcile_file st tenant content do_apply now =
     rbind (load_records content) (\<lambda>records.
     rbind (preflight st tenant records) (\<lambda>p.
     rbind (if do_apply then reconcile_many tenant records now st else Inr st) (\<lambda>st'.
       Inr (\<lparr>rr_mode = (if do_apply then ''apply'' else ''dry-run''), rr_preview = p, rr_before = budget st,
             rr_after = budget st'\<rparr>, st'))))"

section \<open>The tool\<close>

text \<open>\<^verbatim>\<open>open_existing\<close>: the ledger is opened under the caps it already has; \<open>file_left\<close> is the file at the path.\<close>

definition open_existing :: "bool \<Rightarrow> string \<Rightarrow> store option \<Rightarrow> store result" where
  "open_existing locked path file_left =
     (case file_left of
        None \<Rightarrow> Inl (ValueError (''Ledger does not exist: '' @ path))
      | Some st \<Rightarrow> open_store locked (Some st) (st_budget st))"

definition reconcile_tool :: "bool \<Rightarrow> string \<Rightarrow> store option \<Rightarrow> string \<Rightarrow> string \<Rightarrow> bool \<Rightarrow> int \<Rightarrow>
    (reconcile_report \<times> store) result" where
  "reconcile_tool locked path file_left tenant content do_apply at_ns =
     (if at_ns < 0 then Inl (ValueError ''--at-ns must be nonnegative'')
      else rbind (open_existing locked path file_left) (\<lambda>st. reconcile_file st tenant content do_apply at_ns))"

section \<open>Facts\<close>

lemma charge_record_ok:
  assumes "charge_record v source = Inr e"
  shows "entry_ok e"
  using assms
  by (auto simp: charge_record_def entry_ok_def split: json.splits if_splits)

lemma array_records_ok: "array_records n vs = Inr es \<Longrightarrow> list_all entry_ok es"
  by (induction vs arbitrary: n es) (auto simp: rbind_Inr_iff charge_record_ok)

lemma line_records_ok: "line_records n ls = Inr es \<Longrightarrow> list_all entry_ok es"
  by (induction ls arbitrary: n es)
    (auto simp: rbind_Inr_iff charge_record_ok split: if_splits sum.splits py_error.splits)

lemma load_records_ok:
  assumes "load_records content = Inr es"
  shows "list_all entry_ok es" "distinct (map fst es)" "es \<noteq> []" "length es \<le> max_records"
proof -
  show "distinct (map fst es)" "es \<noteq> []" "length es \<le> max_records"
    using assms by (auto simp: load_records_def Let_def rbind_Inr_iff split: if_splits)
  show "list_all entry_ok es"
    using assms array_records_ok line_records_ok
    by (auto simp: load_records_def Let_def rbind_Inr_iff split: if_splits sum.splits py_error.splits)
qed

lemma preflight_rows_iff: "preflight_rows t st es = Inr () \<longleftrightarrow> (\<forall>i \<in> set (map fst es). unresolved t st i)"
  by (induction t st es rule: preflight_rows.induct) (auto simp: unresolved_def split: option.splits)

lemma preflight_ok:
  assumes "preflight st t es = Inr p"
  shows "\<forall>i \<in> set (map fst es). unresolved t st i" "distinct (map fst es)"
    "p = \<lparr>pv_records = int (length es), pv_charge_microusd = sum_list (map (fst \<circ> snd) es), pv_job_ids = map fst es\<rparr>"
  using assms preflight_rows_iff [of t st es] by (auto simp: preflight_def rbind_Inr_iff split: if_splits)

lemma known_apply:
  assumes "store_ok st" "find_attempt t (fst e) st = Some a" "at_actual a = None"
  shows "known (st_attempts (apply_entry t now e st)) = known (st_attempts st) + fst (snd e)"
proof -
  let ?h = "\<lambda>a. case at_actual a of None \<Rightarrow> 0 | Some n \<Rightarrow> n"
  have sum: "known rows = sum_list (map ?h rows)" for rows
    by (induction rows) (auto simp: known_def split: option.splits)
  have "at_actual (settled_as (Some (fst (snd e))) a) = Some (fst (snd e))" by (simp add: settled_as_def)
  then show ?thesis
    using amount_update [OF assms(1,2), of ?h "settled_as (Some (fst (snd e)))"] assms(3)
    by (cases e) (simp add: sum apply_entry_def)
qed

lemma fold_apply_known:
  assumes "store_ok st" "distinct (map fst es)" "\<forall>i \<in> set (map fst es). unresolved t st i"
  shows "known (st_attempts (fold (apply_entry t now) es st)) = known (st_attempts st) + sum_list (map (fst \<circ> snd) es)"
  using assms
proof (induction es arbitrary: st)
  case (Cons e es)
  from Cons.prems obtain a where a: "find_attempt t (fst e) st = Some a" "at_actual a = None"
    by (auto simp: unresolved_def)
  have "unresolved t (apply_entry t now e st) i" if "i \<in> set (map fst es)" for i
    using that Cons.prems(2,3) by (metis distinct.simps(2) list.set_intros(2) list.simps(9) unresolved_apply)
  with Cons show ?case by (simp add: store_keep known_apply [OF _ a])
qed simp


definition sample_import :: string where
  "sample_import = (let q = [quote_char] in
     ''[{'' @ q @ ''job_id'' @ q @ '':'' @ q @ ''j1'' @ q @ '','' @ q @ ''actual_microusd'' @ q @ '':45,'' @ q @ ''evidence_ref'' @ q
       @ '':'' @ q @ ''inv-7'' @ q @ ''}]'')"


end
