(* ===== verification/Replay.thy ===== *)
theory Replay
  imports Scheduling Py_Text
begin

text \<open>
  \<^verbatim>\<open>src/src/agmina_runtime/replay.py\<close>: the discrete-event replay of a request trace under one of the
  scheduling policies. The simulator's state is a record; the dictionary of rows is a list in
  insertion order, the heap of running requests is its contents in order (\<^verbatim>\<open>heappop\<close> takes the
  least pair of finishing time and ID).
\<close>

section \<open>Traces\<close>

record trace_request =
  tr_id :: string
  tr_session :: string
  tr_workload :: string
  tr_release_ns :: int
  tr_capture_ns :: int
  tr_deadline_ns :: int
  tr_profile_ns :: int
  tr_service_ns :: int
  tr_priority :: int
  tr_max_age_ns :: int

definition validate_request :: "trace_request \<Rightarrow> trace_request result" where
  "validate_request r = guards
     [(\<not> (is_name (tr_id r) \<and> is_name (tr_session r) \<and> is_name (tr_workload r) \<and> is_ns (tr_release_ns r) \<and>
          is_ns (tr_capture_ns r) \<and> is_ns (tr_deadline_ns r) \<and> is_ns (tr_profile_ns r) \<and>
          is_ns (tr_service_ns r) \<and> 0 \<le> tr_priority r \<and> tr_priority r \<le> 3 \<and> is_ns (tr_max_age_ns r)), field_error),
      (tr_release_ns r < tr_capture_ns r \<or> tr_deadline_ns r \<le> tr_release_ns r \<or> tr_service_ns r = 0,
         ''Invalid trace ordering/service time'')] r"

definition request_latest :: "trace_request \<Rightarrow> int" where
  "request_latest r = min (tr_deadline_ns r) (tr_capture_ns r + tr_max_age_ns r)"

record trace =
  tc_provenance :: string
  tc_synthetic :: bool
  tc_duration_ns :: int
  tc_slots :: int
  tc_requests :: "trace_request list"

definition validate_trace :: "trace \<Rightarrow> trace result" where
  "validate_trace t = guards
     [(\<not> (tc_provenance t \<noteq> [] \<and> is_ns (tc_duration_ns t) \<and> 1 \<le> tc_slots t \<and> tc_slots t \<le> 64 \<and>
          length (tc_requests t) \<le> 100000 \<and> list_all (\<lambda>r. is_ok (validate_request r)) (tc_requests t)), field_error),
      (\<not> distinct (map tr_id (tc_requests t)), ''Duplicate trace request IDs''),
      (list_ex (\<lambda>r. tc_duration_ns t < tr_release_ns r) (tc_requests t), ''Release outside declared trace duration'')] t"

definition request_json :: "trace_request \<Rightarrow> json" where
  "request_json r = JObj
     [(''id'', JStr (tr_id r)), (''session'', JStr (tr_session r)), (''workload'', JStr (tr_workload r)),
      (''release_ns'', JInt (tr_release_ns r)), (''capture_ns'', JInt (tr_capture_ns r)),
      (''deadline_ns'', JInt (tr_deadline_ns r)), (''profile_ns'', JInt (tr_profile_ns r)),
      (''service_ns'', JInt (tr_service_ns r)), (''priority'', JInt (tr_priority r)),
      (''max_age_ns'', JInt (tr_max_age_ns r))]"

definition trace_json :: "trace \<Rightarrow> json" where
  "trace_json t = JObj
     [(''provenance'', JStr (tc_provenance t)), (''synthetic'', JBool (tc_synthetic t)),
      (''duration_ns'', JInt (tc_duration_ns t)), (''slots'', JInt (tc_slots t)),
      (''requests'', JList (map request_json (tc_requests t)))]"

section \<open>The simulation\<close>

datatype row_state = ROW_QUEUED | ROW_RUNNING | IN_TIME | LATE | EXPIRED_EARLY

fun row_state_value :: "row_state \<Rightarrow> string" where
  "row_state_value ROW_QUEUED = ''queued''"
| "row_state_value ROW_RUNNING = ''running''"
| "row_state_value IN_TIME = ''completed_in_time''"
| "row_state_value LATE = ''completed_late''"
| "row_state_value EXPIRED_EARLY = ''expired_before_dispatch''"

record replay_row =
  rr_id :: string
  rr_session :: string
  rr_workload :: string
  rr_release_ns :: int
  rr_capture_ns :: int
  rr_latest_ns :: int
  rr_started_ns :: "int option"
  rr_completed_ns :: "int option"
  rr_state :: row_state

record sim =
  sim_now :: int
  sim_pending :: "trace_request list"
  sim_queue :: "trace_request list"
  sim_active :: "(int \<times> string) list"
  sim_rows :: "replay_row list"

definition set_row :: "string \<Rightarrow> (replay_row \<Rightarrow> replay_row) \<Rightarrow> replay_row list \<Rightarrow> replay_row list" where
  "set_row jid f rows = map (\<lambda>row. if rr_id row = jid then f row else row) rows"

definition finish_row :: "int \<Rightarrow> replay_row \<Rightarrow> replay_row" where
  "finish_row finish row =
     row\<lparr>rr_completed_ns := Some finish, rr_state := (if finish < rr_latest_ns row then IN_TIME else LATE)\<rparr>"

fun complete_due :: "int \<Rightarrow> (int \<times> string) list \<Rightarrow> replay_row list \<Rightarrow> (int \<times> string) list \<times> replay_row list" where
  "complete_due now [] rows = ([], rows)"
| "complete_due now ((finish, jid) # active) rows =
     (if finish \<le> now then complete_due now active (set_row jid (finish_row finish) rows)
      else ((finish, jid) # active, rows))"

definition new_row :: "trace_request \<Rightarrow> replay_row" where
  "new_row r = \<lparr>rr_id = tr_id r, rr_session = tr_session r, rr_workload = tr_workload r,
     rr_release_ns = tr_release_ns r, rr_capture_ns = tr_capture_ns r, rr_latest_ns = request_latest r,
     rr_started_ns = None, rr_completed_ns = None, rr_state = ROW_QUEUED\<rparr>"

fun admit_due :: "int \<Rightarrow> trace_request list \<Rightarrow> trace_request list \<Rightarrow> replay_row list \<Rightarrow>
    trace_request list \<times> trace_request list \<times> replay_row list" where
  "admit_due now [] queue rows = ([], queue, rows)"
| "admit_due now (r # pending) queue rows =
     (if tr_release_ns r \<le> now then admit_due now pending (queue @ [r]) (rows @ [new_row r])
      else (r # pending, queue, rows))"

fun expire_due :: "int \<Rightarrow> trace_request list \<Rightarrow> replay_row list \<Rightarrow> trace_request list \<times> replay_row list" where
  "expire_due now [] rows = ([], rows)"
| "expire_due now (r # queue) rows =
     (if request_latest r \<le> now
      then expire_due now queue (set_row (tr_id r) (\<lambda>row. row\<lparr>rr_state := EXPIRED_EARLY\<rparr>) rows)
      else (let (queue, rows) = expire_due now queue rows in (r # queue, rows)))"

definition start_row :: "int \<Rightarrow> replay_row \<Rightarrow> replay_row" where
  "start_row now row = row\<lparr>rr_started_ns := Some now, rr_state := ROW_RUNNING\<rparr>"

fun start_due :: "int \<Rightarrow> int \<Rightarrow> trace_request list \<Rightarrow> trace_request list \<Rightarrow> (int \<times> string) list \<Rightarrow> replay_row list \<Rightarrow>
    trace_request list \<times> (int \<times> string) list \<times> replay_row list" where
  "start_due now slots [] queue active rows = (queue, active, rows)"
| "start_due now slots (r # eligible) queue active rows =
     (if int (length active) < slots
      then start_due now slots eligible (remove1 r queue) (insort (now + tr_service_ns r, tr_id r) active)
             (set_row (tr_id r) (start_row now) rows)
      else (queue, active, rows))"

text \<open>Profile feasibility; then the queue in rank order.\<close>

definition request_candidate :: "trace_request \<Rightarrow> candidate" where
  "request_candidate r = \<lparr>cand_id = tr_id r, cand_submitted_ns = tr_release_ns r, cand_latest_ns = request_latest r,
     cand_estimate_ns = tr_profile_ns r, cand_priority = tr_priority r\<rparr>"

definition eligible_order :: "string \<Rightarrow> int \<Rightarrow> trace_request list \<Rightarrow> trace_request list result" where
  "eligible_order mode now queue =
     rbind (traverse (\<lambda>r. rbind (rank (request_candidate r) now mode) (\<lambda>k. Inr (k, r)))
              (filter (\<lambda>r. now + tr_profile_ns r < request_latest r) queue)) (\<lambda>krs.
       Inr (map snd (sort_key fst krs)))"

definition next_times :: "int \<Rightarrow> trace_request list \<Rightarrow> trace_request list \<Rightarrow> (int \<times> string) list \<Rightarrow> int list" where
  "next_times now pending queue active =
     filter (\<lambda>t. now < t)
       ((case pending of [] \<Rightarrow> [] | r # _ \<Rightarrow> [tr_release_ns r]) @
        (case active of [] \<Rightarrow> [] | (finish, _) # _ \<Rightarrow> [finish]) @
        (case map request_latest queue of [] \<Rightarrow> [] | t # ts \<Rightarrow> [fold min ts t]))"

text \<open>One turn of the loop: the new state and the next instant (\<open>None\<close>: \<^verbatim>\<open>break\<close>).\<close>

definition replay_turn :: "string \<Rightarrow> int \<Rightarrow> sim \<Rightarrow> (sim \<times> int option) result" where
  "replay_turn mode slots s =
     (let now = sim_now s;
          (active, rows) = complete_due now (sim_active s) (sim_rows s);
          (pending, queue, rows) = admit_due now (sim_pending s) (sim_queue s) rows;
          (queue, rows) = expire_due now queue rows
      in rbind (eligible_order mode now queue) (\<lambda>eligible.
        let (queue, active, rows) = start_due now slots eligible queue active rows;
            s' = \<lparr>sim_now = now, sim_pending = pending, sim_queue = queue, sim_active = active, sim_rows = rows\<rparr>
        in Inr (s', case next_times now pending queue active of [] \<Rightarrow> None | t # ts \<Rightarrow> Some (fold min ts t))))"

definition sim_idle :: "sim \<Rightarrow> bool" where
  "sim_idle s \<longleftrightarrow> sim_pending s = [] \<and> sim_queue s = [] \<and> sim_active s = []"

subsection \<open>Why the loop ends\<close>

text \<open>
  Every request still has to be admitted, dispatched and completed; a turn at an instant at which
  one of these is due does it, and the next instant is one at which something is due.
\<close>

definition work_left :: "sim \<Rightarrow> nat" where
  "work_left s = 3 * length (sim_pending s) + 2 * length (sim_queue s) + length (sim_active s)"

definition due_now :: "sim \<Rightarrow> bool" where
  "due_now s \<longleftrightarrow> list_ex (\<lambda>r. tr_release_ns r \<le> sim_now s) (take 1 (sim_pending s)) \<or>
     list_ex (\<lambda>e. fst e \<le> sim_now s) (take 1 (sim_active s)) \<or>
     list_ex (\<lambda>r. request_latest r \<le> sim_now s) (sim_queue s)"

lemma complete_due_length:
  "complete_due now active rows = (active', rows') \<Longrightarrow> length active' \<le> length active \<and>
   (list_ex (\<lambda>e. fst e \<le> now) (take 1 active) \<longrightarrow> length active' < length active)"
proof (induction now active rows rule: complete_due.induct)
  case (2 now finish jid active rows)
  show ?case
  proof (cases "finish \<le> now")
    case True
    with 2(2) have "complete_due now active (set_row jid (finish_row finish) rows) = (active', rows')" by simp
    with 2(1) [OF True] show ?thesis by auto
  next
    case False
    with 2(2) show ?thesis by auto
  qed
qed auto

lemma admit_due_parts:
  "admit_due now pending queue rows = (pending', queue', rows') \<Longrightarrow>
   \<exists>adm. pending = adm @ pending' \<and> queue' = queue @ adm \<and> rows' = rows @ map new_row adm \<and>
     (\<forall>r \<in> set adm. tr_release_ns r \<le> now) \<and> list_all (\<lambda>r. now < tr_release_ns r) (take 1 pending')"
proof (induction now pending queue rows rule: admit_due.induct)
  case (2 now r pending queue rows)
  show ?case
  proof (cases "tr_release_ns r \<le> now")
    case True
    with 2(2) have "admit_due now pending (queue @ [r]) (rows @ [new_row r]) = (pending', queue', rows')" by simp
    from 2(1) [OF True this] obtain adm where "pending = adm @ pending'" "queue' = (queue @ [r]) @ adm"
      "rows' = (rows @ [new_row r]) @ map new_row adm" "\<forall>r \<in> set adm. tr_release_ns r \<le> now"
      "list_all (\<lambda>r. now < tr_release_ns r) (take 1 pending')" by blast
    with True show ?thesis by (intro exI [of _ "r # adm"]) simp
  next
    case False
    with 2(2) show ?thesis by auto
  qed
qed auto

lemma expire_due_queue: "fst (expire_due now queue rows) = filter (\<lambda>r. now < request_latest r) queue"
  by (induction now queue rows rule: expire_due.induct) (auto simp: split_beta)

lemma eligible_order_mset:
  "eligible_order mode now queue = Inr es \<Longrightarrow>
   mset es = mset (filter (\<lambda>r. now + tr_profile_ns r < request_latest r) queue)"
proof -
  assume "eligible_order mode now queue = Inr es"
  then obtain krs where krs: "list_all2 (\<lambda>r kr. rbind (rank (request_candidate r) now mode) (\<lambda>k. Inr (k, r)) = Inr kr)
      (filter (\<lambda>r. now + tr_profile_ns r < request_latest r) queue) krs"
    and es: "es = map snd (sort_key fst krs)"
    by (auto simp: eligible_order_def rbind_Inr_iff traverse_Inr_iff)
  have "map snd krs = xs" if "list_all2 (\<lambda>r kr. rbind (rank (request_candidate r) now mode) (\<lambda>k. Inr (k, r)) = Inr kr) xs krs"
    for xs using that by (induction rule: list_all2_induct) (auto simp: rbind_Inr_iff)
  from this [OF krs] es show ?thesis by (metis mset_map mset_sort)
qed

lemma start_due_length:
  "start_due now slots es queue active rows = (queue', active', rows') \<Longrightarrow> mset es \<subseteq># mset queue \<Longrightarrow>
   2 * length queue' + length active' \<le> 2 * length queue + length active"
proof (induction now slots es queue active rows rule: start_due.induct)
  case (2 now slots r eligible queue active rows)
  show ?case
  proof (cases "int (length active) < slots")
    case True
    have r: "r \<in> set queue" using 2(3) by (metis insert_subset_eq_iff mset.simps(2) set_mset_mset)
    have "mset eligible \<subseteq># mset (remove1 r queue)" using 2(3) by (simp add: insert_subset_eq_iff)
    with 2(1) [OF True] 2(2) True
    have "2 * length queue' + length active' \<le>
        2 * length (remove1 r queue) + length (insort (now + tr_service_ns r, tr_id r) active)" by auto
    moreover have "Suc (length (remove1 r queue)) = length queue"
      using r length_pos_if_in_set [OF r] by (simp add: length_remove1)
    ultimately show ?thesis by simp
  next
    case False
    with 2(2) show ?thesis by auto
  qed
qed auto

lemma next_times_due:
  assumes "next_times now pending queue active = t # ts"
  shows "due_now \<lparr>sim_now = fold min ts t, sim_pending = pending, sim_queue = queue, sim_active = active, sim_rows = rows\<rparr>"
proof -
  let ?m = "fold min ts t"
  have "?m \<in> set (next_times now pending queue active)" using assms fold_min_mem [of ts t] by simp
  then consider r where "?m = tr_release_ns r" "r \<in> set (take 1 pending)"
    | e where "?m = fst e" "e \<in> set (take 1 active)"
    | u us where "map request_latest queue = u # us" "?m = fold min us u"
    by (auto simp: next_times_def split: list.splits)
  then show ?thesis
  proof cases
    case 3
    then have "?m \<in> set (map request_latest queue)" using fold_min_mem [of us u] by (simp only: list.set)
    then show ?thesis by (auto simp: due_now_def list_ex_iff)
  qed (auto simp: due_now_def list_ex_iff)
qed

lemma replay_turn_parts:
  assumes "replay_turn mode slots s = Inr (s', n)"
  obtains active rows1 adm es where
    "complete_due (sim_now s) (sim_active s) (sim_rows s) = (active, rows1)"
    "sim_pending s = adm @ sim_pending s'" "\<forall>r \<in> set adm. tr_release_ns r \<le> sim_now s"
    "list_all (\<lambda>r. sim_now s < tr_release_ns r) (take 1 (sim_pending s'))"
    "eligible_order mode (sim_now s) (filter (\<lambda>r. sim_now s < request_latest r) (sim_queue s @ adm)) = Inr es"
    "start_due (sim_now s) slots es (filter (\<lambda>r. sim_now s < request_latest r) (sim_queue s @ adm)) active
       (snd (expire_due (sim_now s) (sim_queue s @ adm) (rows1 @ map new_row adm))) =
     (sim_queue s', sim_active s', sim_rows s')"
    "sim_now s' = sim_now s"
    "n = (case next_times (sim_now s) (sim_pending s') (sim_queue s') (sim_active s') of
            [] \<Rightarrow> None | t # ts \<Rightarrow> Some (fold min ts t))"
proof -
  obtain active rows1 where 1: "complete_due (sim_now s) (sim_active s) (sim_rows s) = (active, rows1)" by fastforce
  obtain pending queue rows2 where 2: "admit_due (sim_now s) (sim_pending s) (sim_queue s) rows1 = (pending, queue, rows2)"
    by (metis surj_pair)
  obtain queue3 rows3 where 3: "expire_due (sim_now s) queue rows2 = (queue3, rows3)" by fastforce
  from assms obtain es where 4: "eligible_order mode (sim_now s) queue3 = Inr es"
    and rest: "(let (queue, active, rows) = start_due (sim_now s) slots es queue3 active rows3;
            s' = \<lparr>sim_now = sim_now s, sim_pending = pending, sim_queue = queue, sim_active = active, sim_rows = rows\<rparr>
        in Inr (s', case next_times (sim_now s) pending queue active of [] \<Rightarrow> None | t # ts \<Rightarrow> Some (fold min ts t))) =
        (Inr (s', n) :: (sim \<times> int option) result)"
    by (auto simp: replay_turn_def 1 2 3 Let_def rbind_Inr_iff)
  obtain q a w where 5: "start_due (sim_now s) slots es queue3 active rows3 = (q, a, w)" by (metis surj_pair)
  from admit_due_parts [OF 2] obtain adm where adm: "sim_pending s = adm @ pending" "queue = sim_queue s @ adm"
    "rows2 = rows1 @ map new_row adm" "\<forall>r \<in> set adm. tr_release_ns r \<le> sim_now s"
    "list_all (\<lambda>r. sim_now s < tr_release_ns r) (take 1 pending)" by blast
  from rest 5 have s': "s' = \<lparr>sim_now = sim_now s, sim_pending = pending, sim_queue = q, sim_active = a, sim_rows = w\<rparr>"
    and n: "n = (case next_times (sim_now s) pending q a of [] \<Rightarrow> None | t # ts \<Rightarrow> Some (fold min ts t))"
    by (simp_all add: Let_def)
  have q3: "queue3 = filter (\<lambda>r. sim_now s < request_latest r) (sim_queue s @ adm)"
    "rows3 = snd (expire_due (sim_now s) (sim_queue s @ adm) (rows1 @ map new_row adm))"
    using 3 expire_due_queue [of "sim_now s" queue rows2] adm(2,3) by simp_all
  show ?thesis
    by (rule that [of active rows1 adm es]) (use 1 4 5 adm n q3 s' in simp_all)
qed

lemma replay_turn_progress:
  assumes "replay_turn mode slots s = Inr (s', n)"
  shows "work_left s' \<le> work_left s" "due_now s \<Longrightarrow> work_left s' < work_left s"
    "n = Some t \<Longrightarrow> due_now (s'\<lparr>sim_now := t\<rparr>)"
proof -
  from assms obtain active rows1 adm es where p:
    "complete_due (sim_now s) (sim_active s) (sim_rows s) = (active, rows1)"
    "sim_pending s = adm @ sim_pending s'" "\<forall>r \<in> set adm. tr_release_ns r \<le> sim_now s"
    "list_all (\<lambda>r. sim_now s < tr_release_ns r) (take 1 (sim_pending s'))"
    "eligible_order mode (sim_now s) (filter (\<lambda>r. sim_now s < request_latest r) (sim_queue s @ adm)) = Inr es"
    "start_due (sim_now s) slots es (filter (\<lambda>r. sim_now s < request_latest r) (sim_queue s @ adm)) active
       (snd (expire_due (sim_now s) (sim_queue s @ adm) (rows1 @ map new_row adm))) =
     (sim_queue s', sim_active s', sim_rows s')"
    "n = (case next_times (sim_now s) (sim_pending s') (sim_queue s') (sim_active s') of
            [] \<Rightarrow> None | t # ts \<Rightarrow> Some (fold min ts t))"
    by (rule replay_turn_parts) blast
  let ?live = "\<lambda>q. filter (\<lambda>r. sim_now s < request_latest r) q"
  note c = complete_due_length [OF p(1)]
  have "mset es \<subseteq># mset (?live (sim_queue s @ adm))"
    using eligible_order_mset [OF p(5)] by (metis mset_filter multiset_filter_subset)
  note st = start_due_length [OF p(6) this]
  have f1: "length (?live adm) \<le> length adm" "length (?live (sim_queue s)) \<le> length (sim_queue s)"
    by (rule length_filter_le)+
  have key: "2 * length (sim_queue s') + length (sim_active s') \<le>
      2 * length (?live (sim_queue s)) + 2 * length (?live adm) + length active"
    using st by simp
  have left: "work_left s = 3 * length adm + 3 * length (sim_pending s') + 2 * length (sim_queue s) + length (sim_active s)"
    "work_left s' = 3 * length (sim_pending s') + 2 * length (sim_queue s') + length (sim_active s')"
    by (simp_all add: work_left_def p(2))
  show "work_left s' \<le> work_left s" unfolding left using c f1 key by linarith
  show "work_left s' < work_left s" if due: "due_now s"
  proof -
    consider "list_ex (\<lambda>r. tr_release_ns r \<le> sim_now s) (take 1 (sim_pending s))"
      | "list_ex (\<lambda>e. fst e \<le> sim_now s) (take 1 (sim_active s))"
      | "list_ex (\<lambda>r. request_latest r \<le> sim_now s) (sim_queue s)"
      using due by (auto simp: due_now_def)
    then show ?thesis
    proof cases
      case 1
      with p(2,4) have "adm \<noteq> []" by (cases adm) (auto simp: list_ex_iff list_all_iff)
      then have "0 < length adm" by simp
      then show ?thesis unfolding left using c f1 key by linarith
    next
      case 2
      then show ?thesis unfolding left using c f1 key by linarith
    next
      case 3
      then obtain r where "r \<in> set (sim_queue s)" "\<not> sim_now s < request_latest r" by (auto simp: list_ex_iff)
      then have "length (?live (sim_queue s)) < length (sim_queue s)" by (intro length_filter_less)
      then show ?thesis unfolding left using c f1(1) key by linarith
    qed
  qed
  show "due_now (s'\<lparr>sim_now := t\<rparr>)" if "n = Some t"
  proof (cases "next_times (sim_now s) (sim_pending s') (sim_queue s') (sim_active s')")
    case (Cons u us)
    with p(7) that have "t = fold min us u" by simp
    with next_times_due [OF Cons, of "sim_rows s'"] show ?thesis by (simp add: due_now_def)
  qed (use p(7) that in simp)
qed

function replay_loop :: "string \<Rightarrow> int \<Rightarrow> sim \<Rightarrow> sim result" where
  "replay_loop mode slots s =
     (if sim_idle s then Inr s
      else rbind (replay_turn mode slots s) (\<lambda>(s', n).
        case n of None \<Rightarrow> Inr s' | Some t \<Rightarrow> replay_loop mode slots (s'\<lparr>sim_now := t\<rparr>)))"
  by pat_completeness auto
termination
proof (relation "measure (\<lambda>(mode, slots, s). 2 * work_left s + (if due_now s then 0 else 1))")
  fix mode slots s p s' n t
  assume "replay_turn mode slots s = Inr p" "(s', n) = p" "n = Some t"
  then have "replay_turn mode slots s = Inr (s', n)" "n = Some t" by simp_all
  note replay_turn_progress [OF this(1)] this(2)
  moreover have "work_left (s'\<lparr>sim_now := t\<rparr>) = work_left s'" by (simp add: work_left_def)
  ultimately show "((mode, slots, s'\<lparr>sim_now := t\<rparr>), mode, slots, s) \<in>
      measure (\<lambda>(mode, slots, s). 2 * work_left s + (if due_now s then 0 else 1))"
    by (auto simp del: due_now_def)
qed simp

declare replay_loop.simps [simp del]

definition replay_start :: "trace \<Rightarrow> sim" where
  "replay_start t = \<lparr>sim_now = 0, sim_pending = sort_key (\<lambda>r. (tr_release_ns r, tr_id r)) (tc_requests t),
     sim_queue = [], sim_active = [], sim_rows = []\<rparr>"

definition replay_run :: "trace \<Rightarrow> string \<Rightarrow> sim result" where
  "replay_run t mode = replay_loop mode (tc_slots t) (replay_start t)"

section \<open>The report\<close>

type_synonym counts = "(string \<times> int) list"

definition bump :: "string \<Rightarrow> counts \<Rightarrow> counts" where
  "bump k g = AList.update k ((case map_of g k of None \<Rightarrow> 0 | Some n \<Rightarrow> n) + 1) g"

definition tally_row :: "(string \<times> counts) list \<Rightarrow> replay_row \<Rightarrow> (string \<times> counts) list" where
  "tally_row groups row =
     (let g = (case map_of groups (rr_workload row) of
                 None \<Rightarrow> [(''offered'', 0), (''completed_in_time'', 0), (''completed_late'', 0), (''expired_before_dispatch'', 0)]
               | Some g \<Rightarrow> g)
      in AList.update (rr_workload row) (bump (row_state_value (rr_state row)) (bump ''offered'' g)) groups)"

definition tally_rows :: "replay_row list \<Rightarrow> (string \<times> counts) list" where
  "tally_rows rows = foldl tally_row [] rows"

definition queue_times :: "replay_row list \<Rightarrow> int list" where
  "queue_times rows = concat (map (\<lambda>row. case rr_started_ns row of None \<Rightarrow> [] | Some st \<Rightarrow> [st - rr_release_ns row]) rows)"

definition completion_ages :: "replay_row list \<Rightarrow> int list" where
  "completion_ages rows =
     concat (map (\<lambda>row. case rr_completed_ns row of None \<Rightarrow> [] | Some c \<Rightarrow> [c - rr_capture_ns row]) rows)"

definition row_json :: "replay_row \<Rightarrow> json" where
  "row_json row = JObj
     [(''id'', JStr (rr_id row)), (''session'', JStr (rr_session row)), (''workload'', JStr (rr_workload row)),
      (''release_ns'', JInt (rr_release_ns row)), (''capture_ns'', JInt (rr_capture_ns row)),
      (''latest_ns'', JInt (rr_latest_ns row)), (''started_ns'', opt_json JInt (rr_started_ns row)),
      (''completed_ns'', opt_json JInt (rr_completed_ns row)), (''state'', JStr (row_state_value (rr_state row)))]"

definition replay_report :: "(string \<Rightarrow> string) \<Rightarrow> trace \<Rightarrow> string \<Rightarrow> sim \<Rightarrow> json" where
  "replay_report sha t mode s = JObj
     [(''kind'', JStr ''discrete_event_replay''), (''synthetic'', JBool (tc_synthetic t)),
      (''provenance'', JStr (tc_provenance t)), (''trace_fingerprint'', JStr (fingerprint sha (trace_json t))),
      (''scheduler'', JStr mode), (''offered'', JInt (int (length (sim_rows s)))),
      (''by_workload'', JObj (map (\<lambda>(w, g). (w, JObj (map (\<lambda>(k, n). (k, JInt n)) g))) (tally_rows (sim_rows s)))),
      (''queue_p95_ns'', opt_json JInt (percentile (queue_times (sim_rows s)) 95)),
      (''completion_age_p95_ns'', opt_json JInt (percentile (completion_ages (sim_rows s)) 95)),
      (''elapsed_virtual_ns'', JInt (sim_now s)), (''physical_task_success'', JNull), (''event_recall'', JNull),
      (''gpu_speedup'', JNull), (''records'', JList (map row_json (sim_rows s))),
      (''limits'', JList (map JStr
         [''No feedback-dependent future request generation.'',
          ''Service times are schedule-invariant; no dynamic batching/preemption model.'',
          ''A met deadline is not a correct perception result or safe robot action.'',
          ''All offered work retained, including expired requests.'']))]"

definition replay :: "(string \<Rightarrow> string) \<Rightarrow> trace \<Rightarrow> string \<Rightarrow> json result" where
  "replay sha t mode = rbind (replay_run t mode) (\<lambda>s. Inr (replay_report sha t mode s))"

section \<open>The synthetic fixture\<close>

text \<open>
  \<^verbatim>\<open>random.Random(seed)\<close> is a parameter: its draws in order, \<open>rng_range n k\<close> the integer \<^verbatim>\<open>randrange(n)\<close>
  gives as the \<open>k\<close>-th draw and \<open>rng_below_5 k\<close> whether \<^verbatim>\<open>random() < .05\<close> at the \<open>k\<close>-th. A stream's requests
  are generated until its start time leaves the trace; its period is positive in every stream.
\<close>

record rng =
  rng_range :: "int \<Rightarrow> nat \<Rightarrow> int"
  rng_below_5 :: "nat \<Rightarrow> bool"

record stream_spec =
  ss_workload :: string
  ss_period :: int
  ss_service :: int
  ss_deadline :: int
  ss_priority :: int

definition stream_name :: "stream_spec \<Rightarrow> nat \<Rightarrow> string" where
  "stream_name sp k = ss_workload sp @ ''-'' @ nat_digits k"

definition fixture_request :: "stream_spec \<Rightarrow> nat \<Rightarrow> nat \<Rightarrow> int \<Rightarrow> int \<Rightarrow> trace_request" where
  "fixture_request sp k i start actual =
     \<lparr>tr_id = stream_name sp k @ ''-'' @ nat_digits i, tr_session = stream_name sp k, tr_workload = ss_workload sp,
      tr_release_ns = start * 1000000, tr_capture_ns = max 0 (start - 5) * 1000000,
      tr_deadline_ns = (start + ss_deadline sp) * 1000000, tr_profile_ns = (ss_service sp + 10) * 1000000,
      tr_service_ns = actual * 1000000, tr_priority = ss_priority sp, tr_max_age_ns = ss_deadline sp * 1000000\<rparr>"

function stream_requests :: "rng \<Rightarrow> bool \<Rightarrow> int \<Rightarrow> stream_spec \<Rightarrow> nat \<Rightarrow> nat \<Rightarrow> int \<Rightarrow> nat \<Rightarrow> trace_request list \<times> nat" where
  "stream_requests g profile_error limit sp k i start d =
     (if start < limit \<and> 0 < ss_period sp then
        let jitter = rng_range g 15 d; d = Suc d;
            slow = profile_error \<and> rng_below_5 g d; d = (if profile_error then Suc d else d);
            actual = ss_service sp * (if slow then 3 else 1) + jitter;
            (rs, d) = stream_requests g profile_error limit sp k (Suc i) (start + ss_period sp) d
        in (fixture_request sp k i start actual # rs, d)
      else ([], d))"
  by pat_completeness auto
termination by (relation "measure (\<lambda>(g, pe, limit, sp, k, i, start, d). nat (limit - start))") auto

declare stream_requests.simps [simp del]

fun spec_requests :: "rng \<Rightarrow> bool \<Rightarrow> int \<Rightarrow> stream_spec \<Rightarrow> nat list \<Rightarrow> nat \<Rightarrow> trace_request list \<times> nat" where
  "spec_requests g profile_error limit sp [] d = ([], d)"
| "spec_requests g profile_error limit sp (k # ks) d =
     (let start = rng_range g (max 1 (ss_period sp div 2)) d;
          (rs, d) = stream_requests g profile_error limit sp k 0 start (Suc d);
          (rs', d) = spec_requests g profile_error limit sp ks d
      in (rs @ rs', d))"

definition fixture_specs :: "int \<Rightarrow> int \<Rightarrow> (int \<times> stream_spec) list" where
  "fixture_specs robots cameras =
     [(robots, \<lparr>ss_workload = ''policy'', ss_period = 120, ss_service = 32, ss_deadline = 100, ss_priority = 0\<rparr>),
      (cameras, \<lparr>ss_workload = ''semantic'', ss_period = 450, ss_service = 85, ss_deadline = 600, ss_priority = 1\<rparr>),
      (1, \<lparr>ss_workload = ''mapping'', ss_period = 380, ss_service = 145, ss_deadline = 1400, ss_priority = 3\<rparr>)]"

fun specs_requests :: "rng \<Rightarrow> bool \<Rightarrow> int \<Rightarrow> (int \<times> stream_spec) list \<Rightarrow> nat \<Rightarrow> trace_request list \<times> nat" where
  "specs_requests g profile_error limit [] d = ([], d)"
| "specs_requests g profile_error limit ((n, sp) # specs) d =
     (let (rs, d) = spec_requests g profile_error limit sp [0..<nat n] d;
          (rs', d) = specs_requests g profile_error limit specs d
      in (rs @ rs', d))"

definition synthetic_trace :: "rng \<Rightarrow> int \<Rightarrow> int \<Rightarrow> int \<Rightarrow> int \<Rightarrow> int \<Rightarrow> bool \<Rightarrow> trace result" where
  "synthetic_trace g seed seconds robots cameras slots profile_error =
     (if \<not> (1 \<le> seconds \<and> seconds \<le> 120) \<or> \<not> (0 \<le> robots \<and> robots \<le> 32) \<or> \<not> (0 \<le> cameras \<and> cameras \<le> 128)
      then Inl (ValueError ''Fixture scale outside bound'')
      else
        let rows = fst (specs_requests g profile_error (seconds * 1000) (fixture_specs robots cameras) 0)
        in rbind (traverse validate_request rows) (\<lambda>rows. validate_trace
          \<lparr>tc_provenance = ''Synthetic independent request arrivals; seed='' @ int_repr seed @ ''; not hardware measurements'',
           tc_synthetic = True, tc_duration_ns = seconds * 1000000000, tc_slots = slots, tc_requests = rows\<rparr>))"

end
