(* ===== verification/Replay_Facts.thy ===== *)
theory Replay_Facts
  imports Replay
begin

text \<open>
  What a replay reports: the invariant of the simulator's state, kept by each part of a turn, and from
  it that every request of a valid trace ends in exactly one final state and that the slots are never
  overcommitted.
\<close>

section \<open>The invariant\<close>

definition may_start :: "trace_request \<Rightarrow> int \<Rightarrow> bool" where
  "may_start r st \<longleftrightarrow> tr_release_ns r \<le> st \<and> st + tr_profile_ns r < request_latest r"

definition row_at :: "trace_request \<Rightarrow> int option \<Rightarrow> int option \<Rightarrow> row_state \<Rightarrow> replay_row" where
  "row_at r started completed state =
     (new_row r)\<lparr>rr_started_ns := started, rr_completed_ns := completed, rr_state := state\<rparr>"

definition finished_at :: "trace_request \<Rightarrow> int \<Rightarrow> replay_row" where
  "finished_at r st = row_at r (Some st) (Some (st + tr_service_ns r))
     (if st + tr_service_ns r < request_latest r then IN_TIME else LATE)"

definition row_ok :: "int \<Rightarrow> trace_request list \<Rightarrow> (int \<times> string) list \<Rightarrow> trace_request \<Rightarrow> replay_row \<Rightarrow> bool" where
  "row_ok now queue active r row \<longleftrightarrow> tr_release_ns r \<le> now \<and>
     (r \<in> set queue \<and> tr_id r \<notin> snd ` set active \<and> row = new_row r \<or>
      r \<notin> set queue \<and> tr_id r \<notin> snd ` set active \<and> row = row_at r None None EXPIRED_EARLY \<or>
      r \<notin> set queue \<and> (\<exists>st. may_start r st \<and> st \<le> now \<and> (st + tr_service_ns r, tr_id r) \<in> set active \<and>
         row = row_at r (Some st) None ROW_RUNNING) \<or>
      r \<notin> set queue \<and> tr_id r \<notin> snd ` set active \<and>
        (\<exists>st. may_start r st \<and> st + tr_service_ns r \<le> now \<and> row = finished_at r st))"

definition tables_ok :: "int \<Rightarrow> trace_request list \<Rightarrow> (int \<times> string) list \<Rightarrow> trace_request list \<Rightarrow>
    replay_row list \<Rightarrow> bool" where
  "tables_ok now queue active adm rows \<longleftrightarrow>
     list_all2 (row_ok now queue active) adm rows \<and> distinct queue \<and> set queue \<subseteq> set adm \<and>
     distinct (map snd active) \<and> snd ` set active \<subseteq> tr_id ` set adm \<and> distinct (map tr_id adm)"

lemma row_at_id [simp]: "rr_id (row_at r a b c) = tr_id r" "rr_id (finished_at r st) = tr_id r" "rr_id (new_row r) = tr_id r"
  by (simp_all add: row_at_def finished_at_def new_row_def)

lemma row_ok_id: "row_ok now queue active r row \<Longrightarrow> rr_id row = tr_id r"
  by (auto simp: row_ok_def)

lemma set_row_ok:
  assumes "list_all2 (row_ok now queue active) adm rows"
    "\<And>r row. r \<in> set adm \<Longrightarrow> row_ok now queue active r row \<Longrightarrow> Q r (if tr_id r = jid then f row else row)"
  shows "list_all2 Q adm (set_row jid f rows)"
  unfolding set_row_def list.rel_map
  by (rule list.rel_mono_strong [OF assms(1)]) (use assms(2) row_ok_id in metis)

lemma ids_inj: "distinct (map tr_id adm) \<Longrightarrow> r \<in> set adm \<Longrightarrow> q \<in> set adm \<Longrightarrow> tr_id r = tr_id q \<Longrightarrow> r = q"
  by (auto simp: distinct_map dest: inj_onD)

lemma snd_inj: "distinct (map snd active) \<Longrightarrow> (a, j) \<in> set active \<Longrightarrow> (b, j) \<in> set active \<Longrightarrow> a = b"
  by (metis eq_key_imp_eq_value distinct_map inj_onD prod.inject snd_conv)

lemma list_all2_mem1: "list_all2 P xs ys \<Longrightarrow> x \<in> set xs \<Longrightarrow> \<exists>y \<in> set ys. P x y"
  by (induction rule: list_all2_induct) auto

lemma list_all2_mem2: "list_all2 P xs ys \<Longrightarrow> y \<in> set ys \<Longrightarrow> \<exists>x \<in> set xs. P x y"
  by (induction rule: list_all2_induct) auto

lemma distinct_snd_insort: "distinct (map snd (insort x xs)) \<longleftrightarrow> snd x \<notin> snd ` set xs \<and> distinct (map snd xs)"
  by (induction xs) (auto simp: set_insort_key)

lemma finish_running: "finish_row (st + tr_service_ns r) (row_at r (Some st) None ROW_RUNNING) = finished_at r st"
  by (simp add: finish_row_def finished_at_def row_at_def new_row_def)

lemma complete_due_ok:
  "complete_due now active rows = (active', rows') \<Longrightarrow> tables_ok now queue active adm rows \<Longrightarrow>
   tables_ok now queue active' adm rows' \<and> list_all (\<lambda>e. now < fst e) (take 1 active') \<and>
   length active' \<le> length active"
proof (induction now active rows rule: complete_due.induct)
  case (2 now finish jid active rows)
  show ?case
  proof (cases "finish \<le> now")
    case True
    have run: "complete_due now active (set_row jid (finish_row finish) rows) = (active', rows')" using 2(2) True by simp
    have d: "distinct (map snd ((finish, jid) # active))" "distinct (map tr_id adm)" using 2(3) by (simp_all add: tables_ok_def)
    have "row_ok now queue active r (if tr_id r = jid then finish_row finish row else row)"
      if "r \<in> set adm" "row_ok now queue ((finish, jid) # active) r row" for r row
    proof (cases "tr_id r = jid")
      case jid: True
      with that(2) obtain st where st: "may_start r st" "(st + tr_service_ns r, jid) \<in> set ((finish, jid) # active)"
        "row = row_at r (Some st) None ROW_RUNNING" "r \<notin> set queue" "tr_release_ns r \<le> now" by (auto simp: row_ok_def)
      with snd_inj [OF d(1), of finish jid] have f: "finish = st + tr_service_ns r" by auto
      with jid st True d(1) show ?thesis by (auto simp: row_ok_def finish_running)
    next
      case False
      with that(2) show ?thesis by (auto simp: row_ok_def)
    qed
    with 2(3) have "list_all2 (row_ok now queue active) adm (set_row jid (finish_row finish) rows)"
      unfolding tables_ok_def by (blast intro: set_row_ok)
    with 2(3) have "tables_ok now queue active adm (set_row jid (finish_row finish) rows)" by (auto simp: tables_ok_def)
    with 2(1) [OF True run] show ?thesis by simp
  next
    case False
    with 2 show ?thesis by auto
  qed
qed auto

lemma admit_ok:
  assumes "tables_ok now queue active adm rows" "distinct (map tr_id (adm @ new))" "\<forall>r \<in> set new. tr_release_ns r \<le> now"
  shows "tables_ok now (queue @ new) active (adm @ new) (rows @ map new_row new)"
proof -
  have fresh: "tr_id r \<notin> tr_id ` set adm" if "r \<in> set new" for r using assms(2) that by auto
  have sub: "set queue \<subseteq> set adm" "snd ` set active \<subseteq> tr_id ` set adm" using assms(1) by (auto simp: tables_ok_def)
  have keep: "row_ok now (queue @ new) active r row" if "r \<in> set adm" "row_ok now queue active r row" for r row
  proof -
    have "r \<notin> set new" using fresh that(1) by blast
    with that(2) show ?thesis by (simp add: row_ok_def)
  qed
  have "list_all2 (row_ok now queue active) adm rows" using assms(1) by (simp add: tables_ok_def)
  then have "list_all2 (row_ok now (queue @ new) active) adm rows" by (rule list.rel_mono_strong) (rule keep)
  moreover have "list_all2 (row_ok now (queue @ new) active) new (map new_row new)"
  proof -
    have "row_ok now (queue @ new) active r (new_row r)" if "r \<in> set new" for r
      using fresh [OF that] sub(2) assms(3) that by (auto simp: row_ok_def)
    then show ?thesis unfolding list.rel_map by (rule list.rel_refl_strong)
  qed
  ultimately show ?thesis
    using assms(1,2) fresh sub unfolding tables_ok_def by (auto simp: distinct_map intro!: list_all2_appendI)
qed

lemma expire_due_ok:
  "tables_ok now (kept @ queue) active adm rows \<Longrightarrow>
   tables_ok now (kept @ filter (\<lambda>r. now < request_latest r) queue) active adm (snd (expire_due now queue rows))"
proof (induction queue arbitrary: kept rows)
  case (Cons q queue)
  show ?case
  proof (cases "request_latest q \<le> now")
    case True
    let ?rows = "set_row (tr_id q) (\<lambda>row. row\<lparr>rr_state := EXPIRED_EARLY\<rparr>) rows"
    have t: "list_all2 (row_ok now (kept @ q # queue) active) adm rows" "distinct (kept @ q # queue)"
      "set (kept @ q # queue) \<subseteq> set adm" "distinct (map tr_id adm)" using Cons.prems by (simp_all add: tables_ok_def)
    have "row_ok now (kept @ queue) active r (if tr_id r = tr_id q then row\<lparr>rr_state := EXPIRED_EARLY\<rparr> else row)"
      if "r \<in> set adm" "row_ok now (kept @ q # queue) active r row" for r row
    proof (cases "r = q")
      case same: True
      with that(2) have "row = new_row q" "tr_id q \<notin> snd ` set active" "tr_release_ns q \<le> now" by (auto simp: row_ok_def)
      with same t(2) show ?thesis by (auto simp: row_ok_def row_at_def new_row_def)
    next
      case False
      then have "tr_id r \<noteq> tr_id q" using ids_inj [OF t(4) that(1)] t(3) by auto
      with False that(2) show ?thesis by (auto simp: row_ok_def)
    qed
    then have "list_all2 (row_ok now (kept @ queue) active) adm ?rows" by (rule set_row_ok [OF t(1)])
    then have "tables_ok now (kept @ queue) active adm ?rows" using Cons.prems by (auto simp: tables_ok_def)
    from Cons.IH [OF this] True show ?thesis by simp
  next
    case False
    with Cons.IH [of "kept @ [q]" rows] Cons.prems show ?thesis by (simp add: split_beta)
  qed
qed simp

text \<open>The requests that hold a slot at an instant.\<close>

definition holds_slot :: "int \<Rightarrow> trace_request \<Rightarrow> int option \<Rightarrow> bool" where
  "holds_slot t r started = (case started of None \<Rightarrow> False | Some st \<Rightarrow> st \<le> t \<and> t < st + tr_service_ns r)"

definition busy :: "int \<Rightarrow> trace_request list \<Rightarrow> replay_row list \<Rightarrow> nat" where
  "busy t adm rows = length (filter (\<lambda>p. holds_slot t (fst p) (rr_started_ns (snd p))) (zip adm rows))"

lemma busy_simps [simp]:
  "busy t [] rows = 0"
  "busy t (r # adm) (row # rows) = (if holds_slot t r (rr_started_ns row) then 1 else 0) + busy t adm rows"
  by (simp_all add: busy_def)

lemma busy_same:
  "map rr_started_ns rows' = map rr_started_ns rows \<Longrightarrow> busy t adm rows' = busy t adm rows"
proof (induction adm arbitrary: rows rows')
  case (Cons r adm)
  show ?case
  proof (cases rows)
    case Nil
    with Cons.prems show ?thesis by simp
  next
    case rows: (Cons a as)
    with Cons.prems obtain b bs where rows': "rows' = b # bs" "rr_started_ns b = rr_started_ns a"
      "map rr_started_ns bs = map rr_started_ns as" by (cases rows') auto
    from Cons.IH [OF this(3)] rows rows'(1,2) show ?thesis by simp
  qed
qed simp

lemma set_row_started: "(\<And>row. rr_started_ns (f row) = rr_started_ns row) \<Longrightarrow>
    map rr_started_ns (set_row jid f rows) = map rr_started_ns rows"
  by (simp add: set_row_def)

lemma complete_due_started: "complete_due now active rows = (active', rows') \<Longrightarrow> map rr_started_ns rows' = map rr_started_ns rows"
  by (induction now active rows rule: complete_due.induct) (auto simp: set_row_started finish_row_def split: if_splits)

lemma expire_due_started: "map rr_started_ns (snd (expire_due now queue rows)) = map rr_started_ns rows"
  by (induction now queue rows rule: expire_due.induct) (auto simp: set_row_started split_beta)

lemma busy_admit: "length adm = length rows \<Longrightarrow> busy t (adm @ new) (rows @ map new_row new) = busy t adm rows"
  by (simp add: busy_def zip_map2 filter_map split_beta o_def new_row_def holds_slot_def)

lemma busy_le_active:
  assumes "tables_ok now queue active adm rows" "now \<le> t"
  shows "busy t adm rows \<le> length active"
proof -
  let ?p = "\<lambda>p. holds_slot t (fst p) (rr_started_ns (snd p))"
  let ?ids = "map (tr_id \<circ> fst) (filter ?p (zip adm rows))"
  have len: "length adm = length rows" using assms(1) by (auto simp: tables_ok_def dest: list_all2_lengthD)
  have "map (tr_id \<circ> fst) (zip adm rows) = map tr_id adm" using len by (simp flip: map_map)
  then have "distinct (map (tr_id \<circ> fst) (zip adm rows))" using assms(1) by (simp only: tables_ok_def)
  then have "distinct ?ids" by (rule distinct_map_filter)
  moreover have "set ?ids \<subseteq> snd ` set active"
  proof
    fix j
    assume "j \<in> set ?ids"
    then obtain r row where m: "(r, row) \<in> set (zip adm rows)" "holds_slot t r (rr_started_ns row)" "j = tr_id r" by auto
    have "row_ok now queue active r row" using assms(1) m(1) by (auto simp: tables_ok_def list_all2_iff)
    then have "tr_id r \<in> snd ` set active \<or> rr_started_ns row = None \<or>
        (\<exists>st. rr_started_ns row = Some st \<and> st + tr_service_ns r \<le> now)"
      unfolding row_ok_def finished_at_def row_at_def new_row_def by (elim conjE disjE exE) (simp_all, force)
    with m(2,3) assms(2) show "j \<in> snd ` set active" by (auto simp: holds_slot_def)
  qed
  ultimately have "length ?ids \<le> card (snd ` set active)" by (simp only: distinct_card [symmetric] card_mono finite_imageI finite_set)
  also have "\<dots> \<le> length active" using card_length [of "map snd active"] by simp
  finally show ?thesis by (simp add: busy_def)
qed

lemma busy_start:
  assumes "list_all2 (row_ok now queue active) adm rows" "distinct (map tr_id adm)"
  shows "busy t adm (set_row (tr_id q) (start_row now) rows) \<le> busy t adm rows + (if now \<le> t then 1 else 0)"
  using assms
proof (induction adm arbitrary: rows)
  case (Cons r adm)
  from Cons.prems(1) obtain row rows' where rows: "rows = row # rows'" "row_ok now queue active r row"
    "list_all2 (row_ok now queue active) adm rows'" by (cases rows) auto
  show ?case
  proof (cases "tr_id r = tr_id q")
    case True
    have "rr_id row' \<noteq> tr_id q" if "row' \<in> set rows'" for row'
    proof -
      from list_all2_mem2 [OF rows(3) that] obtain r' where "r' \<in> set adm" "row_ok now queue active r' row'" by blast
      moreover from \<open>r' \<in> set adm\<close> have "tr_id r' \<in> tr_id ` set adm" by (rule imageI)
      then have "tr_id r' \<noteq> tr_id q" using True Cons.prems(2) by auto
      ultimately show ?thesis using row_ok_id by simp
    qed
    then have "set_row (tr_id q) (start_row now) rows' = rows'" by (auto simp: set_row_def intro: map_idI)
    then have "set_row (tr_id q) (start_row now) rows = start_row now row # rows'"
      using True rows(1) row_ok_id [OF rows(2)] by (simp add: set_row_def)
    then show ?thesis
      by (simp only: rows(1) busy_simps) (simp add: start_row_def holds_slot_def)
  next
    case False
    then have "set_row (tr_id q) (start_row now) rows = row # set_row (tr_id q) (start_row now) rows'"
      using rows(1) row_ok_id [OF rows(2)] by (simp add: set_row_def)
    with Cons.IH [OF rows(3)] Cons.prems(2) show ?thesis by (simp add: rows(1))
  qed
qed simp

lemma start_due_ok:
  "start_due now slots es queue active rows = (queue', active', rows') \<Longrightarrow> tables_ok now queue active adm rows \<Longrightarrow>
   distinct es \<Longrightarrow> set es \<subseteq> set queue \<Longrightarrow> \<forall>r \<in> set es. now + tr_profile_ns r < request_latest r \<and> 0 < tr_service_ns r \<Longrightarrow>
   list_all (\<lambda>e. now < fst e) (take 1 active) \<Longrightarrow> \<forall>t. int (busy t adm rows) \<le> slots \<Longrightarrow>
   tables_ok now queue' active' adm rows' \<and> list_all (\<lambda>e. now < fst e) (take 1 active') \<and>
   (\<forall>t. int (busy t adm rows') \<le> slots) \<and> set queue' \<subseteq> set queue"
proof (induction now slots es queue active rows rule: start_due.induct)
  case (2 now slots q es queue active rows)
  show ?case
  proof (cases "int (length active) < slots")
    case True
    let ?active = "insort (now + tr_service_ns q, tr_id q) active"
    let ?rows = "set_row (tr_id q) (start_row now) rows"
    have run: "start_due now slots es (remove1 q queue) ?active ?rows = (queue', active', rows')" using 2(2) True by simp
    have t: "list_all2 (row_ok now queue active) adm rows" "distinct queue" "set queue \<subseteq> set adm"
      "distinct (map snd active)" "snd ` set active \<subseteq> tr_id ` set adm" "distinct (map tr_id adm)"
      using 2(3) by (simp_all add: tables_ok_def)
    have q: "q \<in> set queue" "q \<in> set adm" "q \<notin> set es" "set es \<subseteq> set queue" using 2(4,5) t(3) by auto
    obtain row0 where "row_ok now queue active q row0" using list_all2_mem1 [OF t(1) q(2)] by blast
    with q(1) have q0: "tr_id q \<notin> snd ` set active" "tr_release_ns q \<le> now" by (auto simp: row_ok_def)
    have "row_ok now (remove1 q queue) ?active r (if tr_id r = tr_id q then start_row now row else row)"
      if "r \<in> set adm" "row_ok now queue active r row" for r row
    proof (cases "r = q")
      case same: True
      with that(2) q(1) have "row = new_row q" by (auto simp: row_ok_def)
      with same t(2) 2(6) q0(2) show ?thesis
        by (auto simp: row_ok_def row_at_def new_row_def start_row_def may_start_def set_insort_key)
    next
      case False
      then have "tr_id r \<noteq> tr_id q" using ids_inj [OF t(6) that(1)] q(2) by auto
      with False that(2) t(2) show ?thesis by (auto simp: row_ok_def set_insort_key)
    qed
    then have "list_all2 (row_ok now (remove1 q queue) ?active) adm ?rows" by (rule set_row_ok [OF t(1)])
    moreover have "distinct (map snd ?active)"
      using t(4) q0(1) by (simp add: distinct_snd_insort)
    ultimately have ok: "tables_ok now (remove1 q queue) ?active adm ?rows"
      using t q unfolding tables_ok_def by (auto simp: set_insort_key dest: notin_set_remove1)
    have "int (busy u adm ?rows) \<le> slots" for u
      using busy_start [OF t(1,6), of u q] busy_le_active [OF 2(3), of u] 2(8) [rule_format, of u] True
      by (cases "now \<le> u") auto
    moreover have "list_all (\<lambda>e. now < fst e) (take 1 ?active)"
      using 2(6,7) by (cases active) auto
    moreover have "set es \<subseteq> set (remove1 q queue)" "distinct es" using 2(4) q t(2) by auto
    ultimately show ?thesis
      using 2(1) [OF True run ok] 2(6) set_remove1_subset [of q queue] by auto
  next
    case False
    with 2 show ?thesis by auto
  qed
qed auto

section \<open>A turn and the loop\<close>

definition sim_ok :: "int \<Rightarrow> trace_request list \<Rightarrow> sim \<Rightarrow> bool" where
  "sim_ok slots reqs s \<longleftrightarrow> distinct (map tr_id reqs) \<and>
     (\<exists>adm. adm @ sim_pending s = reqs \<and>
        tables_ok (sim_now s) (sim_queue s) (sim_active s) adm (sim_rows s) \<and>
        (\<forall>t. int (busy t adm (sim_rows s)) \<le> slots))"

definition known_mode :: "string \<Rightarrow> bool" where
  "known_mode mode \<longleftrightarrow> mode = ''fifo'' \<or> mode = ''edf'' \<or> mode = ''slack''"

lemma eligible_order_ok: "known_mode mode \<Longrightarrow> \<exists>es. eligible_order mode now queue = Inr es"
proof -
  assume "known_mode mode"
  then have "\<exists>k. rank (request_candidate r) now mode = Inr k" for r
    by (auto simp: known_mode_def rank_def)
  then have "\<exists>krs. traverse (\<lambda>r. rbind (rank (request_candidate r) now mode) (\<lambda>k. Inr (k, r))) rs = Inr krs"
    for rs :: "trace_request list"
  proof (induction rs)
    case (Cons r rs)
    from Cons.prems obtain k where "rank (request_candidate r) now mode = Inr k" by blast
    with Cons show ?case by auto
  qed simp
  then show ?thesis unfolding eligible_order_def rbind_def by (metis (no_types, lifting) sum.simps(6))
qed

lemma tables_ok_later:
  assumes "tables_ok now queue active adm rows" "now \<le> t"
  shows "tables_ok t queue active adm rows"
proof -
  have "row_ok t queue active r row" if "row_ok now queue active r row" for r row
  proof -
    have "tr_release_ns r \<le> t" "\<And>x. x \<le> now \<Longrightarrow> x \<le> t" using that assms(2) by (auto simp: row_ok_def)
    with that show ?thesis unfolding row_ok_def by (elim conjE disjE exE) metis+
  qed
  then show ?thesis using assms(1) unfolding tables_ok_def by (metis (no_types, lifting) list_all2_mono)
qed

lemma next_times_later: "next_times now pending queue active = t # ts \<Longrightarrow> now \<le> fold min ts t"
proof -
  assume n: "next_times now pending queue active = t # ts"
  have "fold min ts t \<in> set (next_times now pending queue active)" unfolding n using fold_min_mem [of ts t] by (simp only: list.set)
  then show ?thesis by (auto simp: next_times_def)
qed

lemma next_times_none:
  assumes "next_times now pending queue active = []" "list_all (\<lambda>r. now < tr_release_ns r) (take 1 pending)"
    "list_all (\<lambda>e. now < fst e) (take 1 active)" "\<forall>r \<in> set queue. now < request_latest r"
  shows "pending = []" "queue = []" "active = []"
proof -
  show "pending = []" using assms(1,2) by (cases pending) (auto simp: next_times_def)
  show "active = []" using assms(1,3) by (cases active) (auto simp: next_times_def)
  show "queue = []"
  proof (cases queue)
    case (Cons q qs)
    have "fold min (map request_latest qs) (request_latest q) \<in> set (map request_latest queue)"
      using fold_min_mem [of "map request_latest qs" "request_latest q"] Cons by simp
    then have "now < fold min (map request_latest qs) (request_latest q)" using assms(4) by auto
    with assms(1) Cons show ?thesis by (simp add: next_times_def)
  qed simp
qed

lemma replay_turn_runs: "known_mode mode \<Longrightarrow> \<exists>s' n. replay_turn mode slots s = Inr (s', n)"
proof -
  assume mode: "known_mode mode"
  obtain active rows1 where 1: "complete_due (sim_now s) (sim_active s) (sim_rows s) = (active, rows1)" by fastforce
  obtain pending queue rows2 where 2: "admit_due (sim_now s) (sim_pending s) (sim_queue s) rows1 = (pending, queue, rows2)"
    by (metis surj_pair)
  obtain queue3 rows3 where 3: "expire_due (sim_now s) queue rows2 = (queue3, rows3)" by fastforce
  obtain es where 4: "eligible_order mode (sim_now s) queue3 = Inr es" using eligible_order_ok [OF mode] by blast
  obtain q a w where 5: "start_due (sim_now s) slots es queue3 active rows3 = (q, a, w)" by (metis surj_pair)
  show ?thesis unfolding replay_turn_def Let_def 1 2 3 4 5 prod.case rbind_simps by simp
qed

lemma replay_turn_ok:
  assumes "replay_turn mode slots s = Inr (s', n)" "sim_ok slots reqs s" "\<forall>r \<in> set reqs. 0 < tr_service_ns r"
  shows "sim_ok slots reqs s'" "n = None \<Longrightarrow> sim_idle s'" "n = Some t \<Longrightarrow> sim_ok slots reqs (s'\<lparr>sim_now := t\<rparr>)"
proof -
  let ?now = "sim_now s"
  from assms(1) obtain active rows1 new es where p:
    "complete_due ?now (sim_active s) (sim_rows s) = (active, rows1)"
    "sim_pending s = new @ sim_pending s'" "\<forall>r \<in> set new. tr_release_ns r \<le> ?now"
    "list_all (\<lambda>r. ?now < tr_release_ns r) (take 1 (sim_pending s'))"
    "eligible_order mode ?now (filter (\<lambda>r. ?now < request_latest r) (sim_queue s @ new)) = Inr es"
    "start_due ?now slots es (filter (\<lambda>r. ?now < request_latest r) (sim_queue s @ new)) active
       (snd (expire_due ?now (sim_queue s @ new) (rows1 @ map new_row new))) = (sim_queue s', sim_active s', sim_rows s')"
    "sim_now s' = ?now"
    "n = (case next_times ?now (sim_pending s') (sim_queue s') (sim_active s') of
            [] \<Rightarrow> None | t # ts \<Rightarrow> Some (fold min ts t))"
    by (rule replay_turn_parts) blast
  from assms(2) obtain adm where adm: "adm @ sim_pending s = reqs" "distinct (map tr_id reqs)"
    "tables_ok ?now (sim_queue s) (sim_active s) adm (sim_rows s)" "\<forall>t. int (busy t adm (sim_rows s)) \<le> slots"
    by (auto simp: sim_ok_def)
  let ?adm = "adm @ new" and ?queue = "filter (\<lambda>r. ?now < request_latest r) (sim_queue s @ new)"
    and ?rows = "snd (expire_due ?now (sim_queue s @ new) (rows1 @ map new_row new))"
  have reqs: "reqs = ?adm @ sim_pending s'" using adm(1) p(2) by simp
  have d: "distinct (map tr_id ?adm)" using adm(2) unfolding reqs map_append distinct_append by blast
  note c = complete_due_ok [OF p(1) adm(3)]
  have t1: "tables_ok ?now (sim_queue s @ new) active ?adm (rows1 @ map new_row new)"
    using c d p(3) by (intro admit_ok) simp_all
  have t2: "tables_ok ?now ?queue active ?adm ?rows" using expire_due_ok [of ?now "[]" "sim_queue s @ new"] t1 by (simp only: append_Nil)
  have len: "length adm = length rows1" using c by (auto simp: tables_ok_def dest: list_all2_lengthD)
  have b: "\<forall>t. int (busy t ?adm ?rows) \<le> slots"
    using adm(4) busy_same [OF expire_due_started] busy_admit [OF len] busy_same [OF complete_due_started [OF p(1)]]
    by (metis (no_types, lifting))
  have es: "mset es = mset (filter (\<lambda>r. ?now + tr_profile_ns r < request_latest r) ?queue)"
    by (rule eligible_order_mset [OF p(5)])
  then have set_es: "set es = {r \<in> set ?queue. ?now + tr_profile_ns r < request_latest r}"
    by (metis mset_eq_setD set_filter)
  have dist: "distinct es" using es t2 by (metis distinct_filter mset_eq_imp_distinct_iff tables_ok_def)
  have sub: "set ?queue \<subseteq> set reqs" using t2 reqs unfolding tables_ok_def by auto
  have "\<forall>r \<in> set es. ?now + tr_profile_ns r < request_latest r \<and> 0 < tr_service_ns r"
    using set_es sub assms(3) by blast
  note st = start_due_ok [OF p(6) t2 dist _ this _ b] 
  have fin: "tables_ok ?now (sim_queue s') (sim_active s') ?adm (sim_rows s')"
    "list_all (\<lambda>e. ?now < fst e) (take 1 (sim_active s'))" "\<forall>t. int (busy t ?adm (sim_rows s')) \<le> slots"
    "set (sim_queue s') \<subseteq> set ?queue"
    using st set_es c by auto
  show "sim_ok slots reqs s'" unfolding sim_ok_def using adm(2) fin reqs p(7) by metis
  show "sim_idle s'" if "n = None"
  proof -
    have "next_times ?now (sim_pending s') (sim_queue s') (sim_active s') = []"
      using that p(8) by (simp split: list.splits)
    moreover have "\<forall>r \<in> set (sim_queue s'). ?now < request_latest r" using fin(4) by auto
    ultimately show ?thesis using next_times_none p(4) fin(2) unfolding sim_idle_def by blast
  qed
  show "sim_ok slots reqs (s'\<lparr>sim_now := t\<rparr>)" if "n = Some t"
  proof -
    from that p(8) have "\<exists>u us. next_times ?now (sim_pending s') (sim_queue s') (sim_active s') = u # us \<and> t = fold min us u"
      by (cases "next_times ?now (sim_pending s') (sim_queue s') (sim_active s')") simp_all
    then obtain u us where u: "next_times ?now (sim_pending s') (sim_queue s') (sim_active s') = u # us" "t = fold min us u"
      by blast
    then have "?now \<le> t" using next_times_later by metis
    from tables_ok_later [OF fin(1) this] fin(3) reqs adm(2) show ?thesis unfolding sim_ok_def
      by (intro conjI exI [of _ ?adm]) simp_all
  qed
qed

lemma replay_loop_ok:
  assumes "known_mode mode" "\<forall>r \<in> set reqs. 0 < tr_service_ns r" "sim_ok slots reqs s"
  shows "\<exists>s'. replay_loop mode slots s = Inr s' \<and> sim_ok slots reqs s' \<and> sim_idle s'"
  using assms
proof (induction mode slots s rule: replay_loop.induct)
  case (1 mode slots s)
  show ?case
  proof (cases "sim_idle s")
    case True
    with 1 show ?thesis by (simp add: replay_loop.simps)
  next
    case False
    obtain s' n where t: "replay_turn mode slots s = Inr (s', n)" using replay_turn_runs 1(2) by blast
    note ok = replay_turn_ok [OF t 1(4,3)]
    show ?thesis
    proof (cases n)
      case None
      with False t ok show ?thesis by (subst replay_loop.simps) simp
    next
      case (Some u)
      from 1(1) [OF False t refl Some 1(2,3) ok(3) [OF Some]] False t Some show ?thesis
        by (subst replay_loop.simps) simp
    qed
  qed
qed

lemma replay_start_ok:
  assumes "validate_trace t = Inr t'" "reqs = sort_key (\<lambda>r. (tr_release_ns r, tr_id r)) (tc_requests t)"
  shows "sim_ok (tc_slots t) reqs (replay_start t)" "\<forall>r \<in> set reqs. 0 < tr_service_ns r"
proof -
  have v: "distinct (map tr_id (tc_requests t))" "1 \<le> tc_slots t"
    "\<forall>r \<in> set (tc_requests t). is_ok (validate_request r)"
    using assms(1) by (auto simp: validate_trace_def list_all_iff)
  show "\<forall>r \<in> set reqs. 0 < tr_service_ns r"
    using v(3) unfolding assms(2) by (auto simp: validate_request_def is_ns_def)
  have "mset (map tr_id reqs) = mset (map tr_id (tc_requests t))" unfolding assms(2) by simp
  then have "distinct (map tr_id reqs)" using v(1) by (metis mset_eq_imp_distinct_iff)
  then show "sim_ok (tc_slots t) reqs (replay_start t)"
    using v(2) by (auto simp: sim_ok_def replay_start_def assms(2) tables_ok_def intro!: exI [of _ "[]"])
qed

section \<open>What a replay reports\<close>

definition row_settled :: "trace_request \<Rightarrow> replay_row \<Rightarrow> bool" where
  "row_settled r row \<longleftrightarrow> row = row_at r None None EXPIRED_EARLY \<or> (\<exists>st. may_start r st \<and> row = finished_at r st)"

definition running_at :: "int \<Rightarrow> replay_row \<Rightarrow> bool" where
  "running_at t row \<longleftrightarrow> (case (rr_started_ns row, rr_completed_ns row) of
     (Some st, Some c) \<Rightarrow> st \<le> t \<and> t < c | _ \<Rightarrow> False)"

lemma idle_settled:
  assumes "sim_ok slots reqs s" "sim_idle s"
  shows "list_all2 row_settled reqs (sim_rows s)" "int (length (filter (running_at t) (sim_rows s))) \<le> slots"
proof -
  from assms have t: "list_all2 (row_ok (sim_now s) [] []) reqs (sim_rows s)" "int (busy t reqs (sim_rows s)) \<le> slots"
    by (auto simp: sim_ok_def sim_idle_def tables_ok_def)
  have settled: "row_settled r row" if "row_ok (sim_now s) [] [] r row" for r row
    using that by (auto simp: row_ok_def row_settled_def)
  with t(1) show all: "list_all2 row_settled reqs (sim_rows s)" by (rule list_all2_mono)
  have "running_at t row = holds_slot t r (rr_started_ns row)" if "row_settled r row" for r row
    using that by (auto simp: row_settled_def running_at_def holds_slot_def row_at_def finished_at_def new_row_def)
  with all have "length (filter (running_at t) (sim_rows s)) = busy t reqs (sim_rows s)"
    by (induction rule: list_all2_induct) auto
  with t(2) show "int (length (filter (running_at t) (sim_rows s))) \<le> slots" by simp
qed

lemma replay_run_ok:
  assumes "validate_trace t = Inr t'" "known_mode mode"
  shows "\<exists>s. replay_run t mode = Inr s \<and> sim_idle s \<and>
    sim_ok (tc_slots t) (sort_key (\<lambda>r. (tr_release_ns r, tr_id r)) (tc_requests t)) s"
  using replay_loop_ok [OF assms(2) replay_start_ok(2,1) [OF assms(1) refl]] by (auto simp: replay_run_def)

text \<open>C25: a replay of a valid trace under a known policy always ends, and it loses nothing: there is one row per
  request of the trace, and every row is final. A request either expired before it was dispatched,
  or was started once, not before its release and early enough for its profiled duration, completed
  after exactly its service time, and is reported in time exactly when it completed before its latest
  useful instant.\<close>

theorem replay_settles_every_request:
  assumes "validate_trace t = Inr t'" "known_mode mode"
  shows "\<exists>s. replay_run t mode = Inr s \<and>
    list_all2 row_settled (sort_key (\<lambda>r. (tr_release_ns r, tr_id r)) (tc_requests t)) (sim_rows s)"
  using replay_run_ok [OF assms] idle_settled(1) by blast

text \<open>C26: a replay never overcommits the slots of its trace: at every instant at most \<open>tc_slots\<close> of its requests are
  between their start and their completion.\<close>

theorem replay_within_slots:
  assumes "validate_trace t = Inr t'" "known_mode mode" "replay_run t mode = Inr s"
  shows "int (length (filter (running_at instant) (sim_rows s))) \<le> tc_slots t"
  using replay_run_ok [OF assms(1,2)] assms(3) idle_settled(2) by auto

definition sample_trace :: trace where
  "sample_trace = \<lparr>tc_provenance = ''p'', tc_synthetic = True, tc_duration_ns = 100, tc_slots = 1, tc_requests =
     [\<lparr>tr_id = ''a'', tr_session = ''s'', tr_workload = ''policy'', tr_release_ns = 5, tr_capture_ns = 4,
       tr_deadline_ns = 40, tr_profile_ns = 10, tr_service_ns = 20, tr_priority = 1, tr_max_age_ns = 50\<rparr>,
      \<lparr>tr_id = ''b'', tr_session = ''s'', tr_workload = ''policy'', tr_release_ns = 5, tr_capture_ns = 5,
       tr_deadline_ns = 30, tr_profile_ns = 10, tr_service_ns = 12, tr_priority = 1, tr_max_age_ns = 50\<rparr>]\<rparr>"

lemma sample_trace_valid: "validate_trace sample_trace = Inr sample_trace"
  by (simp add: validate_trace_def validate_request_def sample_trace_def is_name_def is_alnum_def is_name_char_def is_ns_def)

theorem replay_settles_every_request_witness:
  "\<exists>s. replay_run sample_trace ''edf'' = Inr s \<and>
     list_all2 row_settled (sort_key (\<lambda>r. (tr_release_ns r, tr_id r)) (tc_requests sample_trace)) (sim_rows s)"
  using replay_settles_every_request [OF sample_trace_valid, of "''edf''"] by (simp add: known_mode_def)

theorem replay_within_slots_witness:
  "\<exists>s. replay_run sample_trace ''edf'' = Inr s \<and> int (length (filter (running_at 10) (sim_rows s))) \<le> 1"
proof -
  have mode: "known_mode ''edf''" by (simp add: known_mode_def)
  from replay_run_ok [OF sample_trace_valid mode] obtain s where s: "replay_run sample_trace ''edf'' = Inr s" by blast
  from replay_within_slots [OF sample_trace_valid mode s, of 10] s show ?thesis by (simp add: sample_trace_def)
qed

section \<open>The report's counts\<close>

definition count_in :: "(string \<times> counts) list \<Rightarrow> string \<Rightarrow> string \<Rightarrow> int" where
  "count_in groups w k = (case map_of groups w of None \<Rightarrow> 0 | Some g \<Rightarrow> (case map_of g k of None \<Rightarrow> 0 | Some n \<Rightarrow> n))"

lemma row_state_value_inj: "row_state_value a = row_state_value b \<longleftrightarrow> a = b"
  by (cases a; cases b) simp_all

lemma row_state_value_offered: "row_state_value a \<noteq> ''offered''"
  by (cases a) simp_all

lemma bump_count: "(case map_of (bump k g) k' of None \<Rightarrow> 0 | Some n \<Rightarrow> n) =
    (case map_of g k' of None \<Rightarrow> 0 | Some n \<Rightarrow> n) + (if k' = k then 1 else (0 :: int))"
  by (simp add: bump_def update_conv)

lemma tally_row_count:
  "count_in (tally_row groups row) w k = count_in groups w k +
     (if rr_workload row = w then (if k = ''offered'' then 1 else 0) + (if k = row_state_value (rr_state row) then 1 else 0)
      else 0)"
  by (auto simp: count_in_def tally_row_def Let_def update_conv bump_count split: option.splits if_splits)

lemma tally_rows_count:
  "count_in (tally_rows rows) w ''offered'' = int (length (filter (\<lambda>row. rr_workload row = w) rows))"
  "count_in (tally_rows rows) w (row_state_value x) =
     int (length (filter (\<lambda>row. rr_workload row = w \<and> rr_state row = x) rows))"
  unfolding tally_rows_def
  by (induction rows rule: rev_induct)
    (simp_all add: tally_row_count row_state_value_inj row_state_value_offered [symmetric] row_state_value_offered,
     simp_all add: count_in_def)

lemma settled_state: "row_settled r row \<Longrightarrow> rr_state row \<in> {IN_TIME, LATE, EXPIRED_EARLY}"
  by (auto simp: row_settled_def row_at_def finished_at_def)

lemma states_split:
  "\<forall>row \<in> set rows. rr_state row \<in> {IN_TIME, LATE, EXPIRED_EARLY} \<Longrightarrow>
   int (length (filter (\<lambda>row. rr_workload row = w) rows)) =
     int (length (filter (\<lambda>row. rr_workload row = w \<and> rr_state row = IN_TIME) rows)) +
     int (length (filter (\<lambda>row. rr_workload row = w \<and> rr_state row = LATE) rows)) +
     int (length (filter (\<lambda>row. rr_workload row = w \<and> rr_state row = EXPIRED_EARLY) rows))"
  by (induction rows) auto

text \<open>The report's counts add up: for every workload of a replayed trace the requests offered are all the
  trace's requests of that workload, and they are the sum of the completed in time, completed late and
  expired before dispatch.\<close>

theorem replay_counts_add_up:
  assumes "validate_trace t = Inr t'" "known_mode mode" "replay_run t mode = Inr s"
  shows "count_in (tally_rows (sim_rows s)) w ''offered'' =
      int (length (filter (\<lambda>r. tr_workload r = w) (tc_requests t))) \<and>
    count_in (tally_rows (sim_rows s)) w ''offered'' =
      count_in (tally_rows (sim_rows s)) w ''completed_in_time'' + count_in (tally_rows (sim_rows s)) w ''completed_late'' +
      count_in (tally_rows (sim_rows s)) w ''expired_before_dispatch''"
proof -
  let ?reqs = "sort_key (\<lambda>r. (tr_release_ns r, tr_id r)) (tc_requests t)"
  let ?n = "\<lambda>P. int (length (filter P (sim_rows s)))"
  have all: "list_all2 row_settled ?reqs (sim_rows s)"
    using replay_run_ok [OF assms(1,2)] assms(3) idle_settled(1) by auto
  then have st: "\<forall>row \<in> set (sim_rows s). rr_state row \<in> {IN_TIME, LATE, EXPIRED_EARLY}"
    using list_all2_mem2 settled_state by metis
  have "length (filter (\<lambda>row. rr_workload row = w) (sim_rows s)) = length (filter (\<lambda>r. tr_workload r = w) ?reqs)"
    using all by (induction rule: list_all2_induct)
      (auto simp: row_settled_def row_at_def finished_at_def new_row_def)
  also have "\<dots> = length (filter (\<lambda>r. tr_workload r = w) (tc_requests t))"
    by (metis mset_filter mset_sort size_mset)
  finally have offered: "?n (\<lambda>row. rr_workload row = w) = int (length (filter (\<lambda>r. tr_workload r = w) (tc_requests t)))"
    by simp
  have "?n (\<lambda>row. rr_workload row = w) = ?n (\<lambda>row. rr_workload row = w \<and> rr_state row = IN_TIME) +
      ?n (\<lambda>row. rr_workload row = w \<and> rr_state row = LATE) + ?n (\<lambda>row. rr_workload row = w \<and> rr_state row = EXPIRED_EARLY)"
    by (rule states_split [OF st])
  with offered tally_rows_count(1) tally_rows_count(2) [of "sim_rows s" w IN_TIME]
    tally_rows_count(2) [of "sim_rows s" w LATE] tally_rows_count(2) [of "sim_rows s" w EXPIRED_EARLY]
  show ?thesis by simp
qed

theorem replay_counts_add_up_witness:
  "\<exists>s. replay_run sample_trace ''edf'' = Inr s \<and> count_in (tally_rows (sim_rows s)) ''policy'' ''offered'' = 2"
proof -
  have mode: "known_mode ''edf''" by (simp add: known_mode_def)
  from replay_run_ok [OF sample_trace_valid mode] obtain s where s: "replay_run sample_trace ''edf'' = Inr s" by blast
  from replay_counts_add_up [OF sample_trace_valid mode s, of "''policy''"] s show ?thesis by (simp add: sample_trace_def)
qed

end
