(* ===== verification/Py_Bytes.thy ===== *)
theory Py_Bytes
  imports Py_Text
begin

text \<open>
  What the source uses of Python's byte and number conversions: UTF-8, base64 (\<^verbatim>\<open>b64encode\<close>, and
  \<^verbatim>\<open>b64decode\<close> with \<^verbatim>\<open>validate=True\<close>), and binary64 arithmetic where a float becomes an integer. A byte
  string is a string of characters 0 to 255; text is over the code points U+0000 to U+00FF, and a byte
  string that decodes to a code point beyond them is refused, as in \<open>Py_Json\<close>.
\<close>

section \<open>UTF-8\<close>

definition utf8_encode :: "string \<Rightarrow> string" where
  "utf8_encode s = concat (map (\<lambda>c. let n = (of_char c :: nat) in
     if n < 128 then [c] else [char_of (192 + n div 64), char_of (128 + n mod 64)]) s)"

definition is_continuation :: "char \<Rightarrow> bool" where
  "is_continuation c \<longleftrightarrow> 128 \<le> (of_char c :: nat) \<and> (of_char c :: nat) < 192"

definition undecodable :: "'a result" where
  "undecodable = Inl (UnicodeError ''invalid or unmodelled UTF-8 sequence'')"

fun utf8_decode :: "string \<Rightarrow> string result" where
  "utf8_decode [] = Inr []"
| "utf8_decode (c # cs) =
     (if (of_char c :: nat) < 128 then rbind (utf8_decode cs) (\<lambda>s. Inr (c # s))
      else (case cs of
        d # ds \<Rightarrow>
          if ((of_char c :: nat) = 194 \<or> (of_char c :: nat) = 195) \<and> is_continuation d
          then rbind (utf8_decode ds) (\<lambda>s. Inr (char_of ((of_char c - 192) * 64 + (of_char d - 128) :: nat) # s))
          else undecodable
      | [] \<Rightarrow> undecodable))"

lemma utf8_decode_ascii: "list_all (\<lambda>c. (of_char c :: nat) < 128) s \<Longrightarrow> utf8_decode s = Inr s"
  by (induction s) auto

lemma utf8_round_trip: "utf8_decode (utf8_encode s) = Inr s"
proof (induction s)
  case (Cons c s)
  define n where "n = (of_char c :: nat)"
  have n: "n < 256" "char_of n = c" by (auto simp: n_def)
  show ?case
  proof (cases "n < 128")
    case True
    with Cons show ?thesis by (simp add: utf8_encode_def Let_def n_def)
  next
    case False
    define h l where "h = n div 64" and "l = n mod 64"
    have nhl: "n = h * 64 + l" unfolding h_def l_def by (rule div_mult_mod_eq [symmetric])
    have h: "h = 2 \<or> h = 3" and l: "l < 64" using False n(1) by (auto simp: h_def l_def)
    have e: "utf8_encode (c # s) = char_of (192 + h) # char_of (128 + l) # utf8_encode s"
      using False by (simp add: utf8_encode_def Let_def n_def h_def l_def)
    have o1: "(of_char (char_of (192 + h) :: char) :: nat) = 192 + h" "(of_char (char_of (128 + l) :: char) :: nat) = 128 + l"
      using h l by auto
    have i: "(192 + h - 192) * 64 + (128 + l - 128) = n" by (simp add: nhl)
    have g: "\<not> 192 + h < 128" "192 + h = 194 \<or> 192 + h = 195" using h by auto
    have k: "is_continuation (char_of (128 + l))" unfolding is_continuation_def o1 using l by simp
    show ?thesis unfolding e utf8_decode.simps list.case o1 i using g k Cons n(2) by (simp only: if_False if_True rbind_simps simp_thms)
  qed
qed (simp add: utf8_encode_def)

section \<open>Base64\<close>

definition b64_char :: "nat \<Rightarrow> char" where
  "b64_char n = (if n < 26 then char_of (65 + n) else if n < 52 then char_of (71 + n)
     else if n < 62 then char_of (n - 4) else if n = 62 then CHR ''+'' else CHR ''/'')"

definition b64_val :: "char \<Rightarrow> nat option" where
  "b64_val c = (let n = (of_char c :: nat) in
     if 65 \<le> n \<and> n \<le> 90 then Some (n - 65)
     else if 97 \<le> n \<and> n \<le> 122 then Some (n - 71)
     else if 48 \<le> n \<and> n \<le> 57 then Some (n + 4)
     else if c = CHR ''+'' then Some 62 else if c = CHR ''/'' then Some 63 else None)"

fun b64encode :: "string \<Rightarrow> string" where
  "b64encode [] = []"
| "b64encode [a] = (let x = (of_char a :: nat) in [b64_char (x div 4), b64_char (x mod 4 * 16), CHR ''='', CHR ''=''])"
| "b64encode [a, b] = (let x = (of_char a :: nat); y = (of_char b :: nat) in
     [b64_char (x div 4), b64_char (x mod 4 * 16 + y div 16), b64_char (y mod 16 * 4), CHR ''=''])"
| "b64encode (a # b # c # r) = (let x = (of_char a :: nat); y = (of_char b :: nat); z = (of_char c :: nat) in
     b64_char (x div 4) # b64_char (x mod 4 * 16 + y div 16) # b64_char (y mod 16 * 4 + z div 64) # b64_char (z mod 64) #
     b64encode r)"

text \<open>
  Strict decoding: groups of four letters, the last of which may end in one or two \<^verbatim>\<open>=\<close>. Like
  \<^verbatim>\<open>binascii\<close>, it does not look at the bits a padded group leaves over.
\<close>

fun b64decode :: "string \<Rightarrow> string option" where
  "b64decode [] = Some []"
| "b64decode (a # b # c # d # r) =
     (case (b64_val a, b64_val b) of
        (Some w, Some x) \<Rightarrow>
          (if c = CHR ''='' then (if d = CHR ''='' \<and> r = [] then Some [char_of (w * 4 + x div 16)] else None)
           else (case b64_val c of
             None \<Rightarrow> None
           | Some y \<Rightarrow>
               if d = CHR ''='' then
                 (if r = [] then Some [char_of (w * 4 + x div 16), char_of (x mod 16 * 16 + y div 4)] else None)
               else (case (b64_val d, b64decode r) of
                 (Some z, Some s) \<Rightarrow>
                   Some (char_of (w * 4 + x div 16) # char_of (x mod 16 * 16 + y div 4) # char_of (y mod 4 * 64 + z) # s)
               | _ \<Rightarrow> None)))
      | _ \<Rightarrow> None)"
| "b64decode _ = None"

lemma b64_val_char: "n < 64 \<Longrightarrow> b64_val (b64_char n) = Some n \<and> b64_char n \<noteq> CHR ''=''"
proof -
  assume n: "n < 64"
  have eq: "(of_char (CHR ''='') :: nat) = 61" by simp
  consider "n < 26" | "26 \<le> n" "n < 52" | "52 \<le> n" "n < 62" | "n = 62" | "n = 63" using n by linarith
  then show ?thesis
  proof cases
    case 1
    then have "(of_char (b64_char n) :: nat) = 65 + n" by (simp add: b64_char_def)
    with 1 eq show ?thesis by (auto simp: b64_val_def Let_def)
  next
    case 2
    then have "(of_char (b64_char n) :: nat) = 71 + n" by (simp add: b64_char_def)
    with 2 eq show ?thesis by (auto simp: b64_val_def Let_def)
  next
    case 3
    then have "(of_char (b64_char n) :: nat) = n - 4" by (simp add: b64_char_def)
    with 3 eq show ?thesis by (auto simp: b64_val_def Let_def)
  qed (simp_all add: b64_char_def b64_val_def)
qed

lemma b64_parts:
  fixes x y z :: nat
  assumes "x < 256" "y < 256" "z < 256"
  shows "x div 4 < 64" "x mod 4 * 16 + y div 16 < 64" "y mod 16 * 4 + z div 64 < 64" "z mod 64 < 64"
    "x mod 4 * 16 < 64" "y mod 16 * 4 < 64"
    "x div 4 * 4 + (x mod 4 * 16 + y div 16) div 16 = x" "x div 4 * 4 + (x mod 4 * 16) div 16 = x"
    "(x mod 4 * 16 + y div 16) mod 16 * 16 + (y mod 16 * 4 + z div 64) div 4 = y"
    "(x mod 4 * 16 + y div 16) mod 16 * 16 + (y mod 16 * 4) div 4 = y"
    "(y mod 16 * 4 + z div 64) mod 4 * 64 + z mod 64 = z"
proof -
  have x: "x mod 4 < 4" and y: "y div 16 < 16" "y mod 16 < 16" and z: "z div 64 < 4" "z mod 64 < 64" using assms by simp_all
  show "x div 4 < 64" "z mod 64 < 64" "x mod 4 * 16 < 64" "y mod 16 * 4 < 64" "x mod 4 * 16 + y div 16 < 64"
    "y mod 16 * 4 + z div 64 < 64"
    using assms x y z by linarith+
  have dx: "(x mod 4 * 16 + y div 16) div 16 = x mod 4" "(x mod 4 * 16 + y div 16) mod 16 = y div 16" using y(1) by simp_all
  have dy: "(y mod 16 * 4 + z div 64) div 4 = y mod 16" "(y mod 16 * 4 + z div 64) mod 4 = z div 64" using z(1) by simp_all
  show "x div 4 * 4 + (x mod 4 * 16 + y div 16) div 16 = x" "x div 4 * 4 + (x mod 4 * 16) div 16 = x"
    "(x mod 4 * 16 + y div 16) mod 16 * 16 + (y mod 16 * 4 + z div 64) div 4 = y"
    "(x mod 4 * 16 + y div 16) mod 16 * 16 + (y mod 16 * 4) div 4 = y"
    "(y mod 16 * 4 + z div 64) mod 4 * 64 + z mod 64 = z"
    unfolding dx dy by (simp_all only: div_mult_mod_eq nonzero_mult_div_cancel_right zero_neq_numeral not_False_eq_True)
qed

lemma of_char_less: "(of_char c :: nat) < 256"
  by simp

lemma b64_round_trip: "b64decode (b64encode s) = Some s"
proof (induction s rule: b64encode.induct)
  case (2 a)
  note p = b64_parts [of "of_char a" "of_char a" "of_char a", OF of_char_less of_char_less of_char_less]
  show ?case using p b64_val_char by (simp add: Let_def)
next
  case (3 a b)
  note p = b64_parts [of "of_char a" "of_char b" "of_char a", OF of_char_less of_char_less of_char_less]
  show ?case using p b64_val_char by (simp add: Let_def)
next
  case (4 a b c r)
  note p = b64_parts [of "of_char a" "of_char b" "of_char c", OF of_char_less of_char_less of_char_less]
  show ?case using p b64_val_char 4 by (simp add: Let_def)
qed simp

section \<open>Binary64\<close>

text \<open>\<open>a / b\<close> rounded to the nearest integer, ties to even.\<close>

definition round_div :: "int \<Rightarrow> int \<Rightarrow> int" where
  "round_div a b = (let q = a div b; r = a mod b in if 2 * r < b \<or> 2 * r = b \<and> even q then q else q + 1)"

function bit_len :: "int \<Rightarrow> nat" where
  "bit_len n = (if n \<le> 0 then 0 else Suc (bit_len (n div 2)))"
  by pat_completeness auto
termination by (relation "measure nat") auto

declare bit_len.simps [simp del]

text \<open>
  The binary64 number nearest to \<open>a / b\<close> (\<open>0 \<le> a\<close>, \<open>0 < b\<close>), as \<open>m * 2 ^ e\<close> with \<open>m\<close> of at most 53 bits;
  \<open>None\<close> is the overflow to infinity.
\<close>

definition round_double :: "int \<Rightarrow> int \<Rightarrow> (int \<times> int) option" where
  "round_double a b =
     (if a = 0 then Some (0, 0)
      else let e0 = int (bit_len a) - int (bit_len b) - 53;
               e1 = (if a * 2 ^ nat (- e0) < b * 2 ^ nat e0 * 2 ^ 53 then e0 else e0 + 1);
               e = max e1 (- 1074);
               m = round_div (a * 2 ^ nat (- e)) (b * 2 ^ nat e)
           in if 2 ^ 1024 \<le> m * 2 ^ nat e then None else Some (m, e))"

text \<open>An integer that no float can hold: its conversion raises \<^verbatim>\<open>OverflowError\<close>.\<close>

definition int_too_large :: "int \<Rightarrow> bool" where
  "int_too_large i \<longleftrightarrow> 2 ^ 1024 - 2 ^ 970 \<le> \<bar>i\<bar>"

text \<open>\<^verbatim>\<open>int(round(x * n))\<close> for a finite nonnegative float \<open>x\<close> and a small integer: two roundings, then the integer.\<close>

definition round_scaled :: "pyfloat \<Rightarrow> int \<Rightarrow> int result" where
  "round_scaled x n =
     (case x of
        Dec m e \<Rightarrow>
          (case round_double (m * 10 ^ nat e) (10 ^ nat (- e)) of
             None \<Rightarrow> Inl (OverflowError ''cannot convert float infinity to integer'')
           | Some (m1, e1) \<Rightarrow>
             (case round_double (m1 * n * 2 ^ nat e1) (2 ^ nat (- e1)) of
                None \<Rightarrow> Inl (OverflowError ''cannot convert float infinity to integer'')
              | Some (m2, e2) \<Rightarrow> Inr (round_div (m2 * 2 ^ nat e2) (2 ^ nat (- e2)))))
      | _ \<Rightarrow> Inl (OverflowError ''cannot convert float infinity to integer''))"

lemma round_div_bounds:
  assumes "0 < b"
  shows "2 * \<bar>round_div a b * b - a\<bar> \<le> b"
proof -
  define q r where "q = a div b" and "r = a mod b"
  have a: "a = q * b + r" unfolding q_def r_def by simp
  have r: "0 \<le> r" "r < b" unfolding r_def using assms by simp_all
  have d: "q * b - a = - r" "(q + 1) * b - a = b - r" by (simp_all add: a algebra_simps)
  have "round_div a b = q \<and> 2 * r \<le> b \<or> round_div a b = q + 1 \<and> b \<le> 2 * r"
    by (auto simp: round_div_def Let_def q_def r_def)
  then show ?thesis using d r by auto
qed

lemma round_div_nonneg: "0 \<le> a \<Longrightarrow> 0 < b \<Longrightarrow> 0 \<le> round_div a b"
  by (auto simp: round_div_def Let_def pos_imp_zdiv_nonneg_iff add_nonneg_nonneg)

end
