(* ===== verification/Backends.thy ===== *)
theory Backends
  imports Coordinator Wire Py_Bytes
begin

text \<open>
  \<^verbatim>\<open>src/src/agmina_runtime/backends.py\<close>: the mock backend and the HTTP adapter with its three protocols.
  The network is a parameter: a function from the outbound body to the reply it gets. A backend's
  outcome is the prediction or the \<open>failure\<close> the coordinator acts on (\<open>Coordinator.fail_task\<close>), which
  tells apart what was certainly not sent, what certainly ended, and what is unconfirmed. The digest
  \<open>sha\<close> (SHA-256 of a byte string, in hex) and the environment are parameters.
\<close>

section \<open>Outcomes\<close>

type_synonym 'a outcome = "failure + 'a"

definition backend_raise :: "string \<Rightarrow> bool \<Rightarrow> bool \<Rightarrow> 'a outcome" where
  "backend_raise code termination_known not_sent = Inl (backend_failure code termination_known not_sent)"

text \<open>Any other exception that leaves the adapter; a validation error of a contract has its own class.\<close>

definition lift :: "'a result \<Rightarrow> 'a outcome" where
  "lift r = (case r of Inl e \<Rightarrow> Inl (other_exception (exception_name e)) | Inr x \<Rightarrow> Inr x)"

definition lift_contract :: "'a result \<Rightarrow> 'a outcome" where
  "lift_contract r = (case r of Inl e \<Rightarrow> Inl (other_exception ''ValidationError'') | Inr x \<Rightarrow> Inr x)"

definition raised :: "py_error \<Rightarrow> 'a outcome" where
  "raised e = Inl (other_exception (exception_name e))"

lemma lift_simps [simp]: "lift (Inr x) = Inr x" "lift_contract (Inr x) = Inr x"
  "lift (Inl e) = Inl (other_exception (exception_name e))" "lift_contract (Inl e) = Inl (other_exception ''ValidationError'')"
  by (simp_all add: lift_def lift_contract_def)

lemma lift_Inr_iff [simp]: "lift r = Inr x \<longleftrightarrow> r = Inr x" "lift_contract r = Inr x \<longleftrightarrow> r = Inr x"
  by (cases r; simp)+

text \<open>\<^verbatim>\<open>Prediction(...)\<close> around a usage that is already a contract value, which pydantic does not validate again.\<close>

definition new_prediction :: "string \<Rightarrow> usage \<Rightarrow> int option \<Rightarrow> string option \<Rightarrow> prediction outcome" where
  "new_prediction body u first rid =
     lift_contract (rbind (guards [(\<not> (opt_all is_ns first \<and> opt_all (\<lambda>s. length s \<le> 256) rid), field_error)] ()) (\<lambda>_.
       rbind (payload_object body) (\<lambda>v.
         Inr \<lparr>pred_payload_json = v, pred_usage = u, pred_first_content_ns = first, pred_provider_request_id = rid\<rparr>)))"

section \<open>Python values\<close>

definition keys_are :: "string list \<Rightarrow> (string \<times> json) list \<Rightarrow> bool" where
  "keys_are names kvs \<longleftrightarrow> set (map fst kvs) = set names"

definition is_str :: "json \<Rightarrow> bool" where
  "is_str v = (case v of JStr _ \<Rightarrow> True | _ \<Rightarrow> False)"

text \<open>Truth of a value, and \<^verbatim>\<open>a or b\<close>.\<close>

definition py_true :: "json \<Rightarrow> bool" where
  "py_true v = (case v of JNull \<Rightarrow> False | JBool b \<Rightarrow> b | JInt i \<Rightarrow> i \<noteq> 0
     | JFloat x \<Rightarrow> (case x of Dec m _ \<Rightarrow> m \<noteq> 0 | _ \<Rightarrow> True) | JStr s \<Rightarrow> s \<noteq> [] | JList vs \<Rightarrow> vs \<noteq> [] | JObj kvs \<Rightarrow> kvs \<noteq> [])"

definition py_or :: "json \<Rightarrow> json \<Rightarrow> json" where
  "py_or a b = (if py_true a then a else b)"

text \<open>\<^verbatim>\<open>==\<close>: numbers compare by value across \<^verbatim>\<open>bool\<close>, \<^verbatim>\<open>int\<close> and \<^verbatim>\<open>float\<close>, dictionaries regardless of order.\<close>

definition py_number :: "json \<Rightarrow> pyfloat option" where
  "py_number v = (case v of JBool b \<Rightarrow> Some (Dec (if b then 1 else 0) 0) | JInt i \<Rightarrow> Some (Dec i 0) | JFloat x \<Rightarrow> Some x | _ \<Rightarrow> None)"

definition number_eq :: "json \<Rightarrow> json \<Rightarrow> bool" where
  "number_eq a b = (case (py_number a, py_number b) of (Some x, Some y) \<Rightarrow> float_le x y \<and> float_le y x | _ \<Rightarrow> False)"

fun py_eq :: "json \<Rightarrow> json \<Rightarrow> bool"
  and py_eq_list :: "json list \<Rightarrow> json list \<Rightarrow> bool"
  and py_eq_obj :: "(string \<times> json) list \<Rightarrow> (string \<times> json) list \<Rightarrow> bool" where
  "py_eq JNull v = (v = JNull)"
| "py_eq (JStr s) v = (v = JStr s)"
| "py_eq (JList xs) v = (case v of JList ys \<Rightarrow> py_eq_list xs ys | _ \<Rightarrow> False)"
| "py_eq (JObj kvs) v = (case v of JObj kvs' \<Rightarrow> length kvs = length kvs' \<and> py_eq_obj kvs kvs' | _ \<Rightarrow> False)"
| "py_eq (JBool b) v = number_eq (JBool b) v"
| "py_eq (JInt i) v = number_eq (JInt i) v"
| "py_eq (JFloat x) v = number_eq (JFloat x) v"
| "py_eq_list [] ys = (ys = [])"
| "py_eq_list (x # xs) ys = (case ys of [] \<Rightarrow> False | y # ys \<Rightarrow> py_eq x y \<and> py_eq_list xs ys)"
| "py_eq_obj [] kvs' = True"
| "py_eq_obj ((k, v) # kvs) kvs' = (case map_of kvs' k of None \<Rightarrow> False | Some v' \<Rightarrow> py_eq v v' \<and> py_eq_obj kvs kvs')"

text \<open>\<^verbatim>\<open>type(v) in (int, float) and math.isfinite(v)\<close>: an integer beyond the floats raises.\<close>

definition finite_number :: "json \<Rightarrow> bool result" where
  "finite_number v = (case v of
     JInt i \<Rightarrow> if int_too_large i then Inl (OverflowError ''int too large to convert to float'') else Inr True
   | JFloat x \<Rightarrow> Inr (float_finite x) | _ \<Rightarrow> Inr False)"

text \<open>A loop that stops at the first item that raises or is refused.\<close>

fun check_all :: "('a \<Rightarrow> bool result) \<Rightarrow> string \<Rightarrow> 'a list \<Rightarrow> unit result" where
  "check_all f msg [] = Inr ()"
| "check_all f msg (x # xs) = rbind (f x) (\<lambda>ok. if ok then check_all f msg xs else Inl (ValueError msg))"

lemma check_all_Inr: "check_all f msg xs = Inr () \<longleftrightarrow> (\<forall>x \<in> set xs. f x = Inr True)"
  by (induction xs) (auto simp: rbind_Inr_iff)

section \<open>The mock backend\<close>

definition fixture_delay_ok :: "json \<Rightarrow> bool" where
  "fixture_delay_ok v = (case v of
     JInt i \<Rightarrow> 0 \<le> i \<and> i \<le> 10 | JFloat x \<Rightarrow> float_le (Dec 0 0) x \<and> float_le x (Dec 10 0) | _ \<Rightarrow> False)"

definition zero_charge :: usage where
  "zero_charge = no_usage\<lparr>cost_microusd := Some 0\<rparr>"

text \<open>The outcome after the delay; \<open>now\<close> is the clock's reading then. \<^verbatim>\<open>calls\<close> gets the job's ID first.\<close>

definition mock_infer :: "job \<Rightarrow> int \<Rightarrow> string list \<Rightarrow> string list \<times> prediction outcome" where
  "mock_infer j now calls =
     (calls @ [job_id j],
      rbind (lift (payload j)) (\<lambda>p.
        let delay = (case map_of p ''fixture_delay_s'' of None \<Rightarrow> JFloat (Dec 1 (- 3)) | Some v \<Rightarrow> v) in
        if \<not> fixture_delay_ok delay then backend_raise ''invalid_fixture_delay'' True False
        else if py_true (jget p ''fixture_unknown'') then backend_raise ''injected_transport_loss'' False False
        else if py_true (jget p ''fixture_error'') then backend_raise ''injected_failure'' True False
        else rbind (lift (canonical (case map_of p ''fixture_output'' of
               None \<Rightarrow> JObj [(''fixture'', JBool True), (''job'', JStr (job_id j))] | Some v \<Rightarrow> v))) (\<lambda>body.
             new_prediction body zero_charge (Some now) None)))"

section \<open>Outbound chat\<close>

definition image_prefixes :: "string list" where
  "image_prefixes = [''data:image/jpeg;base64,'', ''data:image/png;base64,'']"

text \<open>The bytes of an inline image.\<close>

definition image_blob :: "string \<Rightarrow> string option" where
  "image_blob url = b64decode (drop 1 (dropWhile (\<lambda>c. c \<noteq> CHR '','') url))"

text \<open>One content item: \<open>None\<close> for a text, the digest of the bytes for an image.\<close>

definition chat_item :: "(string \<Rightarrow> string) \<Rightarrow> json \<Rightarrow> string option result" where
  "chat_item sha item = (case item of
     JObj kvs \<Rightarrow>
       if jget kvs ''type'' = JStr ''text'' \<and> keys_are [''type'', ''text''] kvs \<and> is_str (jget kvs ''text'') then Inr None
       else if jget kvs ''type'' \<noteq> JStr ''image_url'' \<or> \<not> keys_are [''type'', ''image_url''] kvs
       then Inl (ValueError ''Only text and inline image inputs supported'')
       else (case jget kvs ''image_url'' of
         JObj obj \<Rightarrow>
           if \<not> set (map fst obj) \<subseteq> {''url'', ''detail''} then Inl (ValueError ''Invalid image field'')
           else (case (case map_of obj ''url'' of None \<Rightarrow> JStr '''' | Some v \<Rightarrow> v) of
             JStr url \<Rightarrow>
               if list_ex (\<lambda>p. starts p url) image_prefixes then
                 (case image_blob url of
                    None \<Rightarrow> Inl (ValueError ''Invalid image base64'')
                  | Some blob \<Rightarrow> if blob = [] \<or> 4000000 < int (length blob) then Inl (ValueError ''Image byte bound'')
                                 else Inr (Some (sha blob)))
               else Inl (ValueError ''Remote media URLs are forbidden; provide source-bound inline images'')
           | _ \<Rightarrow> Inl (ValueError ''Remote media URLs are forbidden; provide source-bound inline images''))
       | _ \<Rightarrow> Inl (ValueError ''Invalid image field''))
   | _ \<Rightarrow> Inl (ValueError ''Invalid content item''))"

text \<open>\<^verbatim>\<open>role not in {...}\<close>: a list or a dictionary is not hashable.\<close>

definition chat_message :: "(string \<Rightarrow> string) \<Rightarrow> json \<Rightarrow> string list result" where
  "chat_message sha msg = (case msg of
     JObj kvs \<Rightarrow>
       if \<not> keys_are [''role'', ''content''] kvs then Inl (ValueError ''Invalid chat message'')
       else (case jget kvs ''role'' of
         JStr r \<Rightarrow>
           if r \<notin> {''system'', ''user'', ''assistant''} then Inl (ValueError ''Invalid chat message'')
           else (case jget kvs ''content'' of
             JStr _ \<Rightarrow> Inr []
           | JList items \<Rightarrow> rbind (traverse (chat_item sha) items) (\<lambda>hs. Inr (concat (map (\<lambda>h. case h of None \<Rightarrow> [] | Some x \<Rightarrow> [x]) hs)))
           | _ \<Rightarrow> Inl (ValueError ''Invalid message content''))
       | JList _ \<Rightarrow> Inl (TypeError ''unhashable type: list'')
       | JObj _ \<Rightarrow> Inl (TypeError ''unhashable type: dict'')
       | _ \<Rightarrow> Inl (ValueError ''Invalid chat message''))
   | _ \<Rightarrow> Inl (ValueError ''Invalid chat message''))"

text \<open>\<^verbatim>\<open>dict.update\<close>.\<close>

definition dict_update :: "(string \<times> json) list \<Rightarrow> (string \<times> json) list \<Rightarrow> (string \<times> json) list" where
  "dict_update d items = fold (\<lambda>(k, v) d. AList.update k v d) items d"

definition server_fields :: "endpoint \<Rightarrow> (string \<times> json) list" where
  "server_fields ep =
     [(''model'', JStr (ep_model_name ep)), (''max_tokens'', JInt (ep_max_output_tokens ep)), (''stream'', JBool (ep_stream ep))] @
     (if ep_stream ep then [(''stream_options'', JObj [(''include_usage'', JBool True)])] else [])"

definition validate_chat :: "(string \<Rightarrow> string) \<Rightarrow> job \<Rightarrow> endpoint \<Rightarrow> (string \<times> json) list result" where
  "validate_chat sha j ep =
     rbind (payload j) (\<lambda>body.
       case jget body ''messages'' of
         JList messages \<Rightarrow>
           if \<not> set (map fst body) \<subseteq> {''messages'', ''response_format''}
           then Inl (ValueError ''Chat payload supports messages and response_format only; sampling is server configured'')
           else if \<not> (1 \<le> length messages \<and> length messages \<le> 128)
           then Inl (ValueError ''Bounded nonempty messages required'')
           else rbind (traverse (chat_message sha) messages) (\<lambda>hashes.
             if \<not> set (concat hashes) \<subseteq> set (map obs_sha256 (job_observations j))
             then Inl (ValueError ''Inline image not bound to declared evidence'')
             else rbind (strict_json 8192 (ep_extra_body_json ep)) (\<lambda>extra.
               Inr (dict_update (dict_update body extra) (server_fields ep))))
       | _ \<Rightarrow> Inl (ValueError ''Chat payload supports messages and response_format only; sampling is server configured''))"

section \<open>Tensors\<close>

definition float32_max :: int where
  "float32_max = 2 ^ 128 - 2 ^ 104"

text \<open>\<^verbatim>\<open>abs(value) > 3.4028234663852886e38\<close>; a float is compared as the binary64 number its literal denotes.\<close>

definition exceeds_float32 :: "json \<Rightarrow> bool" where
  "exceeds_float32 v = (case v of
     JInt i \<Rightarrow> float32_max < \<bar>i\<bar>
   | JFloat (Dec m e) \<Rightarrow> (case round_double (\<bar>m\<bar> * 10 ^ nat e) (10 ^ nat (- e)) of
        None \<Rightarrow> True | Some (m, e) \<Rightarrow> float32_max * 2 ^ nat (- e) < m * 2 ^ nat e)
   | _ \<Rightarrow> True)"

definition int_range :: "string \<Rightarrow> int \<times> int" where
  "int_range dtype = (if dtype = ''UINT8'' then (0, 255)
     else if dtype = ''INT32'' then (- (2 ^ 31), 2 ^ 31 - 1) else (- (2 ^ 63), 2 ^ 63 - 1))"

definition tensor_value :: "string \<Rightarrow> json \<Rightarrow> unit result" where
  "tensor_value dtype v =
     (if dtype = ''BOOL'' then (case v of JBool _ \<Rightarrow> Inr () | _ \<Rightarrow> Inl (ValueError ''Boolean tensor required''))
      else if starts ''FP'' dtype then
        rbind (finite_number v) (\<lambda>ok.
          if \<not> ok \<or> (dtype = ''FP32'' \<and> exceeds_float32 v) then Inl (ValueError ''Finite numeric tensor required'') else Inr ())
      else (case v of
        JInt i \<Rightarrow> if fst (int_range dtype) \<le> i \<and> i \<le> snd (int_range dtype) then Inr ()
                  else Inl (ValueError ''Integer dtype/range mismatch'')
      | _ \<Rightarrow> Inl (ValueError ''Integer dtype/range mismatch'')))"

definition tensor_dtypes :: "string list" where
  "tensor_dtypes = [''FP32'', ''FP64'', ''INT32'', ''INT64'', ''UINT8'', ''BOOL'']"

fun dims_of :: "json list \<Rightarrow> int list option" where
  "dims_of [] = Some []"
| "dims_of (v # vs) = (case (v, dims_of vs) of
     (JInt n, Some ns) \<Rightarrow> if n < 1 then None else Some (n # ns) | _ \<Rightarrow> None)"

definition tensor_shape :: "json \<Rightarrow> int list option" where
  "tensor_shape v = (case v of
     JList dims \<Rightarrow> if 1 \<le> length dims \<and> length dims \<le> 8 then dims_of dims else None | _ \<Rightarrow> None)"

definition tensor_check :: "json \<Rightarrow> unit result" where
  "tensor_check tensor = (case tensor of
     JObj kvs \<Rightarrow>
       if \<not> keys_are [''name'', ''shape'', ''datatype'', ''data''] kvs
       then Inl (ValueError ''Tensor requires name/shape/datatype/flat data'')
       else if \<not> (is_str (jget kvs ''name'') \<and> jget kvs ''name'' \<noteq> JStr '''') then Inl (ValueError ''Tensor name required'')
       else (case tensor_shape (jget kvs ''shape'') of
         None \<Rightarrow> Inl (ValueError ''Invalid tensor dimensions'')
       | Some dims \<Rightarrow>
           (case jget kvs ''data'' of
              JList data \<Rightarrow>
                if 1000000 < prod_list dims \<or> int (length data) \<noteq> prod_list dims
                then Inl (ValueError ''Tensor size mismatch/bound'')
                else (case jget kvs ''datatype'' of
                  JStr dtype \<Rightarrow>
                    if dtype \<notin> set tensor_dtypes then Inl (ValueError ''Unsupported JSON tensor dtype'')
                    else rbind (traverse (tensor_value dtype) data) (\<lambda>_. Inr ())
                | JList _ \<Rightarrow> Inl (TypeError ''unhashable type: list'')
                | JObj _ \<Rightarrow> Inl (TypeError ''unhashable type: dict'')
                | _ \<Rightarrow> Inl (ValueError ''Unsupported JSON tensor dtype''))
            | _ \<Rightarrow> Inl (ValueError ''Tensor size mismatch/bound'')))
   | _ \<Rightarrow> Inl (ValueError ''Tensor requires name/shape/datatype/flat data''))"

definition tensor_name :: "json \<Rightarrow> json" where
  "tensor_name t = (case t of JObj kvs \<Rightarrow> jget kvs ''name'' | _ \<Rightarrow> JNull)"

text \<open>The list of tensors of a request or a reply.\<close>

definition check_tensors :: "string \<Rightarrow> json list \<Rightarrow> unit result" where
  "check_tensors duplicate ts =
     rbind (traverse tensor_check ts) (\<lambda>_. if distinct (map tensor_name ts) then Inr () else Inl (ValueError duplicate))"

section \<open>Usage\<close>

definition priced :: "endpoint \<Rightarrow> int \<Rightarrow> int \<Rightarrow> int option \<Rightarrow> int option" where
  "priced ep prompt completion cached =
     (case (ep_input_per_million_microusd ep, ep_output_per_million_microusd ep) of
        (Some input_rate, Some output_rate) \<Rightarrow>
          let cache_n = (case cached of None \<Rightarrow> 0 | Some n \<Rightarrow> n);
              cache_rate = (case ep_cached_per_million_microusd ep of None \<Rightarrow> input_rate | Some r \<Rightarrow> r)
          in Some (((prompt - cache_n) * input_rate + cache_n * cache_rate + completion * output_rate + 999999) div 1000000)
      | _ \<Rightarrow> None)"

text \<open>\<^verbatim>\<open>type(cost) in (int, float) and isfinite(cost) and cost >= 0\<close>.\<close>

definition reported_cost :: "json \<Rightarrow> bool result" where
  "reported_cost v = rbind (finite_number v) (\<lambda>ok. Inr (ok \<and>
     (case v of JInt i \<Rightarrow> 0 \<le> i | JFloat x \<Rightarrow> float_le (Dec 0 0) x | _ \<Rightarrow> False)))"

definition reported_microusd :: "json \<Rightarrow> int result" where
  "reported_microusd v = (case v of JInt i \<Rightarrow> Inr (i * 1000000) | JFloat x \<Rightarrow> round_scaled x 1000000 | _ \<Rightarrow> Inr 0)"

text \<open>\<^verbatim>\<open>(d or {}).get(k)\<close>: an attribute error if \<open>d\<close> is true and not a dictionary.\<close>

definition detail :: "json \<Rightarrow> string \<Rightarrow> json outcome" where
  "detail d k = (case py_or d (JObj []) of JObj kvs \<Rightarrow> Inr (jget kvs k) | _ \<Rightarrow> raised (AttributeError ''get''))"

definition usage_from_chat :: "json \<Rightarrow> endpoint \<Rightarrow> usage outcome" where
  "usage_from_chat v ep = (case v of
     JNull \<Rightarrow> Inr (no_usage\<lparr>cost_microusd := (if ep_externally_billed ep then None else Some 0)\<rparr>)
   | JObj kvs \<Rightarrow>
       rbind (detail (jget kvs ''prompt_tokens_details'') ''cached_tokens'') (\<lambda>cached.
       rbind (detail (jget kvs ''completion_tokens_details'') ''reasoning_tokens'') (\<lambda>reasoning.
       rbind (lift_contract (rbind (dec_opt dec_int (jget kvs ''prompt_tokens'')) (\<lambda>i.
              rbind (dec_opt dec_int (jget kvs ''completion_tokens'')) (\<lambda>out.
              rbind (dec_opt dec_int cached) (\<lambda>c. rbind (dec_opt dec_int reasoning) (\<lambda>r.
                validate_usage \<lparr>input_tokens = i, output_tokens = out, cached_input_tokens = c,
                  reasoning_output_tokens = r, cost_microusd = None\<rparr>)))))) (\<lambda>u.
         if \<not> ep_externally_billed ep then Inr (u\<lparr>cost_microusd := Some 0\<rparr>)
         else rbind (lift (reported_cost (jget kvs ''cost''))) (\<lambda>reported.
           if reported then rbind (lift (reported_microusd (jget kvs ''cost''))) (\<lambda>c. Inr (u\<lparr>cost_microusd := Some c\<rparr>))
           else Inr (u\<lparr>cost_microusd := (case (input_tokens u, output_tokens u) of
                  (Some p, Some c) \<Rightarrow> priced ep p c (cached_input_tokens u) | _ \<Rightarrow> None)\<rparr>)))))
   | _ \<Rightarrow> raised (ValueError ''Usage must be an object''))"

definition provider_request_id :: "json \<Rightarrow> string option" where
  "provider_request_id v = (case v of
     JObj kvs \<Rightarrow> (case jget kvs ''id'' of JStr s \<Rightarrow> if 0 < length s \<and> length s \<le> 256 then Some s else None | _ \<Rightarrow> None)
   | _ \<Rightarrow> None)"

end
