(* ===== verification/Http_Backend.thy ===== *)
theory Http_Backend
  imports Backends
begin

text \<open>
  The HTTP adapter of \<^verbatim>\<open>src/src/agmina_runtime/backends.py\<close>: \<^verbatim>\<open>HttpBackend.infer\<close>, its three reply formats and
  the streamed chat reply. The reply of the network is its status and its body in the chunks it arrives
  in, or the transport error that ends the exchange.
\<close>

section \<open>The network\<close>

datatype reply = No_Reply | Reply (reply_status: int) (reply_chunks: "string list") (reply_broken: bool)

text \<open>\<open>No_Reply\<close>: the exchange raised before a status; \<open>reply_broken\<close>: it raised after these chunks.\<close>

abbreviation transport_failure :: "'a outcome" where
  "transport_failure \<equiv> backend_raise ''transport_failure'' False False"

text \<open>The adapter's \<^verbatim>\<open>except (httpx.HTTPError, UnicodeError)\<close> around what handles the reply.\<close>

definition decoded :: "string result \<Rightarrow> string outcome" where
  "decoded r = (case r of Inl _ \<Rightarrow> transport_failure | Inr s \<Rightarrow> Inr s)"

section \<open>The outbound body\<close>

definition worker_body :: "job \<Rightarrow> (string \<times> json) list \<Rightarrow> (string \<times> json) list" where
  "worker_body j body =
     [(''job_id'', JStr (job_id j)), (''session_id'', JStr (job_session_id j)), (''epoch'', JInt (job_epoch j)),
      (''task_revision'', JStr (job_task_revision j)), (''operation'', JStr (job_operation j)),
      (''evidence'', JList (map observation_json (job_observations j))), (''payload'', JObj body)]"

definition outbound_body :: "(string \<Rightarrow> string) \<Rightarrow> job \<Rightarrow> endpoint \<Rightarrow> (string \<times> json) list result" where
  "outbound_body sha j ep =
     rbind (payload j) (\<lambda>body.
       case ep_kind ep of
         CHAT \<Rightarrow> validate_chat sha j ep
       | TRITON \<Rightarrow>
           (case jget body ''inputs'' of
              JList inputs \<Rightarrow>
                if \<not> keys_are [''inputs''] body \<or> inputs = []
                then Inl (ValueError ''Triton payload must contain nonempty inputs'')
                else rbind (check_tensors ''Duplicate input tensor names'' inputs) (\<lambda>_. Inr body)
            | _ \<Rightarrow> Inl (ValueError ''Triton payload must contain nonempty inputs''))
       | WORKER \<Rightarrow> Inr (worker_body j body)
       | MOCK \<Rightarrow> Inl (ValueError ''Unsupported HTTP adapter''))"

section \<open>Reading the body\<close>

fun read_blocks :: "int \<Rightarrow> string \<Rightarrow> string list \<Rightarrow> bool \<Rightarrow> string outcome" where
  "read_blocks limit raw [] broken = (if broken then transport_failure else Inr raw)"
| "read_blocks limit raw (block # blocks) broken =
     (if limit < int (length (raw @ block)) then backend_raise ''response_byte_bound'' False False
      else read_blocks limit (raw @ block) blocks broken)"

section \<open>Chat replies\<close>

definition error_code :: "(string \<times> json) list \<Rightarrow> string" where
  "error_code err = (case py_or (py_or (jget err ''code'') (jget err ''type'')) (JStr ''unknown'') of
     JStr s \<Rightarrow> take 128 s | _ \<Rightarrow> ''invalid'')"

definition observed_model :: "json \<Rightarrow> string" where
  "observed_model v = (case v of JStr s \<Rightarrow> s | _ \<Rightarrow> ''<missing>'')"

text \<open>\<^verbatim>\<open>len(choices)\<close> and \<^verbatim>\<open>choices[0]\<close> of whatever value the provider sent.\<close>

definition first_choice :: "json \<Rightarrow> (string \<times> json) list option outcome" where
  "first_choice choices = (case choices of
     JList [JObj kvs] \<Rightarrow> Inr (Some kvs)
   | JList [_] \<Rightarrow> raised (AttributeError ''get'')
   | JList _ \<Rightarrow> Inr None
   | JStr [_] \<Rightarrow> raised (AttributeError ''get'')
   | JStr _ \<Rightarrow> Inr None
   | JObj [_] \<Rightarrow> raised (KeyError ''0'')
   | JObj _ \<Rightarrow> Inr None
   | _ \<Rightarrow> raised (TypeError ''object has no len()''))"

definition or_default :: "(string \<times> json) list \<Rightarrow> string \<Rightarrow> json \<Rightarrow> json" where
  "or_default kvs k d = (case map_of kvs k of None \<Rightarrow> d | Some v \<Rightarrow> v)"

definition chat_reply :: "endpoint \<Rightarrow> (string \<times> json) list \<Rightarrow> prediction outcome" where
  "chat_reply ep obj =
     (case jget obj ''error'' of
        JObj err \<Rightarrow> backend_raise (''provider_error:'' @ error_code err) True False
      | _ \<Rightarrow>
        let model = jget obj ''model'' in
        if model = JNull \<and> ep_response_model_required ep \<or> model \<noteq> JNull \<and> model \<noteq> JStr (ep_model_name ep)
        then backend_raise (''response_model_mismatch:'' @ observed_model model) True False
        else rbind (first_choice (or_default obj ''choices'' (JList []))) (\<lambda>c.
          case c of None \<Rightarrow> backend_raise ''incomplete_chat_answer'' True False
          | Some choice \<Rightarrow>
            if jget choice ''finish_reason'' \<noteq> JStr ''stop'' then backend_raise ''incomplete_chat_answer'' True False
            else (case or_default choice ''message'' (JObj []) of
              JObj msg \<Rightarrow>
                (case jget msg ''content'' of
                   JStr txt \<Rightarrow>
                     if txt = [] then backend_raise ''missing_chat_content'' True False
                     else rbind (lift (canonical (JObj [(''text'', JStr txt)]))) (\<lambda>body.
                       rbind (usage_from_chat (jget obj ''usage'') ep) (\<lambda>u.
                         new_prediction body u None (provider_request_id (JObj obj))))
                 | _ \<Rightarrow> backend_raise ''missing_chat_content'' True False)
            | _ \<Rightarrow> raised (AttributeError ''get''))))"

section \<open>Tensor and worker replies\<close>

definition triton_reply :: "endpoint \<Rightarrow> (string \<times> json) list \<Rightarrow> prediction outcome" where
  "triton_reply ep obj =
     (if jget obj ''model_name'' \<noteq> JStr (ep_model_name ep) \<or>
         (case ep_model_version ep of None \<Rightarrow> False | Some v \<Rightarrow> jget obj ''model_version'' \<noteq> JStr v)
      then backend_raise ''tensor_model_version_mismatch'' True False
      else (case jget obj ''outputs'' of
        JList outputs \<Rightarrow>
          if outputs = [] then raised (ValueError ''No tensor output'')
          else rbind (lift (check_tensors ''Duplicate output tensor names'' outputs)) (\<lambda>_.
            rbind (lift (canonical (JObj [(''outputs'', JList outputs)]))) (\<lambda>body.
              new_prediction body (no_usage\<lparr>cost_microusd := (if ep_externally_billed ep then None else Some 0)\<rparr>) None None))
      | _ \<Rightarrow> raised (ValueError ''No tensor output'')))"

definition worker_reply :: "job \<Rightarrow> (string \<times> json) list \<Rightarrow> prediction outcome" where
  "worker_reply j obj =
     (if \<not> keys_are [''job_id'', ''epoch'', ''payload'', ''usage''] obj \<or>
         \<not> py_eq (jget obj ''job_id'') (JStr (job_id j)) \<or> \<not> py_eq (jget obj ''epoch'') (JInt (job_epoch j))
      then backend_raise ''worker_result_binding'' True False
      else rbind (lift (canonical (jget obj ''payload''))) (\<lambda>body.
        rbind (lift (canonical (jget obj ''usage''))) (\<lambda>utext.
          rbind (lift_contract (validate_json usage_of_json utext)) (\<lambda>u. new_prediction body u None None))))"

section \<open>The streamed chat reply\<close>

record chat_stream =
  cs_text :: "string list"
  cs_usage :: json
  cs_first :: "int option"
  cs_finished :: bool
  cs_done :: bool
  cs_request_id :: "string option"

definition stream_start :: chat_stream where
  "stream_start = \<lparr>cs_text = [], cs_usage = JNull, cs_first = None, cs_finished = False, cs_done = False,
     cs_request_id = None\<rparr>"

text \<open>One choice of an event; \<open>now\<close> is the reading taken if this is the first content.\<close>

definition stream_choice :: "int \<Rightarrow> json \<Rightarrow> chat_stream \<Rightarrow> chat_stream outcome" where
  "stream_choice now choice s = (case choice of
     JObj kvs \<Rightarrow>
       (case or_default kvs ''delta'' (JObj []) of
          JObj delta \<Rightarrow>
            let content = jget delta ''content'' in
            rbind (if \<not> py_true content then Inr s
                   else (case content of
                     JStr txt \<Rightarrow>
                       if cs_finished s then raised (ValueError ''Invalid streaming content'')
                       else Inr (s\<lparr>cs_first := (case cs_first s of None \<Rightarrow> Some now | Some f \<Rightarrow> Some f),
                                  cs_text := cs_text s @ [txt]\<rparr>)
                   | _ \<Rightarrow> raised (ValueError ''Invalid streaming content''))) (\<lambda>s.
              let reason = jget kvs ''finish_reason'' in
              if reason = JNull then Inr s
              else if reason \<noteq> JStr ''stop'' then backend_raise ''incomplete_chat_answer'' False False
              else Inr (s\<lparr>cs_finished := True\<rparr>))
        | _ \<Rightarrow> raised (AttributeError ''get''))
   | _ \<Rightarrow> raised (AttributeError ''get''))"

text \<open>The loop over \<^verbatim>\<open>choices\<close>: at most one is allowed; a string iterates over its characters, a dictionary over its keys.\<close>

definition stream_choices :: "int \<Rightarrow> json \<Rightarrow> chat_stream \<Rightarrow> chat_stream outcome" where
  "stream_choices now choices s = (case choices of
     JList [] \<Rightarrow> Inr s
   | JList [c] \<Rightarrow> stream_choice now c s
   | JList _ \<Rightarrow> raised (ValueError ''Multiple completions not supported'')
   | JStr [] \<Rightarrow> Inr s
   | JStr [_] \<Rightarrow> raised (AttributeError ''get'')
   | JStr _ \<Rightarrow> raised (ValueError ''Multiple completions not supported'')
   | JObj [] \<Rightarrow> Inr s
   | JObj [_] \<Rightarrow> raised (AttributeError ''get'')
   | JObj _ \<Rightarrow> raised (ValueError ''Multiple completions not supported'')
   | _ \<Rightarrow> raised (TypeError ''object has no len()''))"

definition parse_line :: "endpoint \<Rightarrow> int \<Rightarrow> string \<Rightarrow> chat_stream \<Rightarrow> chat_stream outcome" where
  "parse_line ep now line s =
     (if \<not> starts ''data:'' line then Inr s
      else let v = strip (drop 5 line) in
        if v = ''[DONE]'' then Inr (s\<lparr>cs_done := True\<rparr>)
        else if cs_done s then raised (ValueError ''Content after DONE'')
        else rbind (lift (strict_json (ep_max_response_bytes ep) v)) (\<lambda>obj.
          let s = (if cs_request_id s = None then s\<lparr>cs_request_id := provider_request_id (JObj obj)\<rparr> else s) in
          (case jget obj ''error'' of
             JObj err \<Rightarrow> backend_raise (''provider_error:'' @ error_code err) True False
           | _ \<Rightarrow>
             if (case map_of obj ''model'' of None \<Rightarrow> ep_response_model_required ep | Some m \<Rightarrow> m \<noteq> JStr (ep_model_name ep))
             then backend_raise (''stream_model_mismatch:'' @ observed_model (jget obj ''model'')) True False
             else let s = (if jget obj ''usage'' \<noteq> JNull then s\<lparr>cs_usage := jget obj ''usage''\<rparr> else s)
                  in stream_choices now (or_default obj ''choices'' (JList [])) s)))"

text \<open>\<^verbatim>\<open>line.rstrip("\r")\<close>.\<close>

definition rstrip_cr :: "string \<Rightarrow> string" where
  "rstrip_cr s = rev (dropWhile (\<lambda>c. c = CHR 0x0D) (rev s))"

text \<open>\<^verbatim>\<open>while "\n" in buffer\<close>: the complete lines of the buffer, then what is left of it.\<close>

function take_lines :: "endpoint \<Rightarrow> int \<Rightarrow> string \<Rightarrow> chat_stream \<Rightarrow> (string \<times> chat_stream) outcome" where
  "take_lines ep now buffer s =
     (if CHR 0x0A \<in> set buffer then
        rbind (parse_line ep now (rstrip_cr (takeWhile (\<lambda>c. c \<noteq> CHR 0x0A) buffer)) s) (\<lambda>s.
          take_lines ep now (drop 1 (dropWhile (\<lambda>c. c \<noteq> CHR 0x0A) buffer)) s)
      else Inr (buffer, s))"
  by pat_completeness auto
termination
proof (relation "measure (\<lambda>(ep, now, buffer, s). length buffer)")
  fix buffer :: string
  assume "CHR 0x0A \<in> set buffer"
  then obtain c cs where "dropWhile (\<lambda>c. c \<noteq> CHR 0x0A) buffer = c # cs"
    by (cases "dropWhile (\<lambda>c. c \<noteq> CHR 0x0A) buffer") auto
  moreover have "length (dropWhile (\<lambda>c. c \<noteq> CHR 0x0A) buffer) \<le> length buffer" by (rule length_dropWhile_le)
  ultimately have "length (drop 1 (dropWhile (\<lambda>c. c \<noteq> CHR 0x0A) buffer)) < length buffer" by simp
  then show "((ep, now, drop 1 (dropWhile (\<lambda>c. c \<noteq> CHR 0x0A) buffer), x), ep, now, buffer, s) \<in>
      measure (\<lambda>(ep, now, buffer, s). length buffer)" for ep now x s by simp
qed simp

declare take_lines.simps [simp del]

text \<open>
  The incremental UTF-8 decoder: a lead byte at the end of a chunk waits for its continuation
  (two-byte sequences are the modelled range).
\<close>

definition decode_chunk :: "string \<Rightarrow> string \<Rightarrow> (string \<times> string) result" where
  "decode_chunk pend chunk =
     (let bytes = pend @ chunk in
      if bytes \<noteq> [] \<and> (of_char (last bytes) :: nat) \<in> {194, 195}
      then rbind (utf8_decode (butlast bytes)) (\<lambda>s. Inr (s, [last bytes]))
      else rbind (utf8_decode bytes) (\<lambda>s. Inr (s, [])))"

fun read_stream :: "endpoint \<Rightarrow> int \<Rightarrow> int \<Rightarrow> string \<Rightarrow> string \<Rightarrow> string list \<Rightarrow> bool \<Rightarrow> chat_stream \<Rightarrow>
    (string \<times> string \<times> chat_stream) outcome" where
  "read_stream ep now seen pend buffer [] broken s = (if broken then transport_failure else Inr (pend, buffer, s))"
| "read_stream ep now seen pend buffer (chunk # chunks) broken s =
     (if ep_max_response_bytes ep < seen + int (length chunk) then backend_raise ''response_byte_bound'' False False
      else (case decode_chunk pend chunk of
        Inl _ \<Rightarrow> transport_failure
      | Inr (txt, pend) \<Rightarrow>
          rbind (take_lines ep now (buffer @ txt) s) (\<lambda>(buffer, s).
            read_stream ep now (seen + int (length chunk)) pend buffer chunks broken s)))"

definition stream_chat :: "endpoint \<Rightarrow> int \<Rightarrow> string list \<Rightarrow> bool \<Rightarrow> prediction outcome" where
  "stream_chat ep now chunks broken =
     rbind (read_stream ep now 0 [] [] chunks broken stream_start) (\<lambda>(pend, buffer, s).
       if pend \<noteq> [] then transport_failure
       else rbind (if strip buffer \<noteq> [] then parse_line ep now (rstrip_cr buffer) s else Inr s) (\<lambda>s.
         if \<not> cs_done s \<or> \<not> cs_finished s \<or> cs_text s = [] then backend_raise ''incomplete_stream'' False False
         else rbind (lift (canonical (JObj [(''text'', JStr (concat (cs_text s)))]))) (\<lambda>body.
           rbind (usage_from_chat (cs_usage s) ep) (\<lambda>u. new_prediction body u (cs_first s) (cs_request_id s)))))"

section \<open>\<^verbatim>\<open>HttpBackend.infer\<close>\<close>

definition handle_reply :: "job \<Rightarrow> endpoint \<Rightarrow> int \<Rightarrow> reply \<Rightarrow> prediction outcome" where
  "handle_reply j ep now r = (case r of
     No_Reply \<Rightarrow> transport_failure
   | Reply status chunks broken \<Rightarrow>
       if status \<noteq> 200 then backend_raise (''http_status_'' @ int_repr status) False False
       else if ep_kind ep = CHAT \<and> ep_stream ep then stream_chat ep now chunks broken
       else rbind (read_blocks (ep_max_response_bytes ep) [] chunks broken) (\<lambda>raw.
         rbind (decoded (utf8_decode raw)) (\<lambda>txt.
           rbind (lift (strict_json (ep_max_response_bytes ep) txt)) (\<lambda>obj.
             case ep_kind ep of CHAT \<Rightarrow> chat_reply ep obj | TRITON \<Rightarrow> triton_reply ep obj | _ \<Rightarrow> worker_reply j obj))))"

text \<open>\<open>permitted\<close>: \<^verbatim>\<open>allow_network\<close>, or a transport was given; \<open>env\<close> is the process environment.\<close>

definition http_infer :: "(string \<Rightarrow> string) \<Rightarrow> (string \<Rightarrow> string option) \<Rightarrow> bool \<Rightarrow> (json \<Rightarrow> reply) \<Rightarrow> int \<Rightarrow> job \<Rightarrow> endpoint \<Rightarrow>
    prediction outcome" where
  "http_infer sha env permitted net now j ep =
     (if \<not> permitted then backend_raise ''network_not_authorized'' False True
      else if truthy (ep_credential_env ep) \<and> \<not> truthy (env (the (ep_credential_env ep)))
      then backend_raise ''missing_endpoint_credential'' False True
      else (case outbound_body sha j ep of
        Inl _ \<Rightarrow> backend_raise ''invalid_outbound_payload'' False True
      | Inr body \<Rightarrow> handle_reply j ep now (net (JObj body))))"

end
