(* ===== verification/Native_Policy.thy ===== *)
theory Native_Policy
  imports Http_Backend
begin

text \<open>
  The read-only bridge to a native policy server, \<^verbatim>\<open>src/src/agmina_runtime/adapters/native_policy.py\<close>:
  stamps, image envelopes, the packet and the result it validates, the loopback transport and the backend
  built on it. What the server answers is a parameter, as in \<open>Http_Backend\<close>.
\<close>

section \<open>Stamps\<close>

definition policy_proprio_dim :: nat where "policy_proprio_dim = 61"
definition policy_action_dim :: nat where "policy_action_dim = 23"
definition max_image_bytes :: int where "max_image_bytes = 20000000"

definition policy_cameras :: "string list" where
  "policy_cameras = [''head'', ''left_wrist'', ''right_wrist'']"

definition is_nat_json :: "json \<Rightarrow> bool" where
  "is_nat_json v = (case v of JInt i \<Rightarrow> 0 \<le> i | _ \<Rightarrow> False)"

definition stamp :: "json \<Rightarrow> json result" where
  "stamp v = (case v of
     JObj kvs \<Rightarrow>
       if \<not> keys_are [''session'', ''epoch'', ''sequence''] kvs
       then Inl (ValueError ''Native policy stamp must contain session/epoch/sequence'')
       else guards [(\<not> is_str (jget kvs ''session'') \<or> jget kvs ''session'' = JStr '''', ''Native policy session is required''),
                    (\<not> is_nat_json (jget kvs ''epoch''), ''Native policy epoch must be a nonnegative integer''),
                    (\<not> is_nat_json (jget kvs ''sequence''), ''Native policy sequence must be a nonnegative integer'')] v
   | _ \<Rightarrow> Inl (ValueError ''Native policy stamp must contain session/epoch/sequence''))"

section \<open>Images\<close>

definition uint8_of :: "json \<Rightarrow> char option" where
  "uint8_of v = (case v of JInt i \<Rightarrow> if 0 \<le> i \<and> i \<le> 255 then Some (char_of (nat i)) else None | _ \<Rightarrow> None)"

fun uint8s_of :: "json list \<Rightarrow> string option" where
  "uint8s_of [] = Some []"
| "uint8s_of (v # vs) = (case (uint8_of v, uint8s_of vs) of (Some c, Some cs) \<Rightarrow> Some (c # cs) | _ \<Rightarrow> None)"

text \<open>The shape and the bytes, in row-major order, of a nested list.\<close>

definition is_list :: "json \<Rightarrow> bool" where
  "is_list v = (case v of JList _ \<Rightarrow> True | _ \<Rightarrow> False)"

fun nested_uint8 :: "json \<Rightarrow> (int list \<times> string) result"
  and nested_rows :: "json list \<Rightarrow> (int list \<times> string) list result" where
  "nested_uint8 (JList vs) =
     (if vs = [] then Inl (ValueError ''Native policy image must be a nonempty nested list'')
      else if is_list (hd vs) then
        rbind (nested_rows vs) (\<lambda>child.
          if list_all (\<lambda>d. fst d = fst (hd child)) (tl child)
          then Inr (int (length vs) # fst (hd child), concat (map snd child))
          else Inl (ValueError ''Native policy image must be rectangular''))
      else (case uint8s_of vs of
        None \<Rightarrow> Inl (ValueError ''Native policy image values must be uint8'')
      | Some raw \<Rightarrow> Inr ([int (length vs)], raw)))"
| "nested_uint8 _ = Inl (ValueError ''Native policy image must be a nonempty nested list'')"
| "nested_rows [] = Inr []"
| "nested_rows (v # vs) = rbind (nested_uint8 v) (\<lambda>c. rbind (nested_rows vs) (\<lambda>cs. Inr (c # cs)))"

definition ndarray :: "json \<Rightarrow> json \<Rightarrow> json" where
  "ndarray data shape = JObj [(''__ndarray__'', data), (''dtype'', JStr ''uint8''), (''shape'', shape)]"

definition image_shape :: "json \<Rightarrow> int list option" where
  "image_shape v = (case v of
     JList dims \<Rightarrow> (case dims_of dims of Some [h, w, c] \<Rightarrow> if c = 3 then Some [h, w, c] else None | _ \<Rightarrow> None) | _ \<Rightarrow> None)"

definition image_envelope :: "json \<Rightarrow> json result" where
  "image_envelope v = (case v of
     JList _ \<Rightarrow>
       rbind (nested_uint8 v) (\<lambda>(shape, raw).
         if length shape \<noteq> 3 \<or> last shape \<noteq> 3 \<or> max_image_bytes < int (length raw)
         then Inl (ValueError ''Native policy image must be bounded HxWx3 uint8'')
         else Inr (ndarray (JStr (b64encode raw)) (JList (map JInt shape))))
   | JObj kvs \<Rightarrow>
       if \<not> keys_are [''__ndarray__'', ''dtype'', ''shape''] kvs
       then Inl (ValueError ''Native policy image must be a nested list or ndarray envelope'')
       else (case jget kvs ''__ndarray__'' of
         JStr data \<Rightarrow>
           if jget kvs ''dtype'' \<noteq> JStr ''uint8'' then Inl (ValueError ''Native policy image envelope must declare uint8 data'')
           else (case image_shape (jget kvs ''shape'') of
             None \<Rightarrow> Inl (ValueError ''Native policy image envelope must declare HxWx3 shape'')
           | Some dims \<Rightarrow>
               (case b64decode data of
                  None \<Rightarrow> Inl (ValueError ''Native policy image envelope has invalid base64'')
                | Some raw \<Rightarrow>
                    if int (length raw) \<noteq> prod_list dims \<or> max_image_bytes < int (length raw)
                    then Inl (ValueError ''Native policy image envelope byte bound mismatch'')
                    else Inr (ndarray (JStr data) (jget kvs ''shape''))))
       | _ \<Rightarrow> Inl (ValueError ''Native policy image envelope must declare uint8 data''))
   | _ \<Rightarrow> Inl (ValueError ''Native policy image must be a nested list or ndarray envelope''))"

section \<open>Packets and results\<close>

text \<open>The images of the three cameras, in their order; the first error ends the loop.\<close>

fun camera_images :: "(string \<times> json) list \<Rightarrow> string list \<Rightarrow> (string \<times> json) list result" where
  "camera_images rgb [] = Inr []"
| "camera_images rgb (camera # cameras) =
     rbind (image_envelope (jget rgb camera)) (\<lambda>e. rbind (camera_images rgb cameras) (\<lambda>es. Inr ((camera, e) # es)))"

text \<open>\<^verbatim>\<open>json.loads(json.dumps(normalized))\<close> ends the validation.\<close>

definition validate_native_packet :: "json \<Rightarrow> json result" where
  "validate_native_packet v = (case v of
     JObj kvs \<Rightarrow>
       if \<not> keys_are [''stamp'', ''instruction'', ''proprio'', ''rgb''] kvs
       then Inl (ValueError ''Native policy packet has an unexpected shape'')
       else rbind (stamp (jget kvs ''stamp'')) (\<lambda>_.
         if \<not> (case jget kvs ''instruction'' of JStr s \<Rightarrow> strip s \<noteq> [] | _ \<Rightarrow> False)
         then Inl (ValueError ''Native policy instruction is required'')
         else (case jget kvs ''proprio'' of
           JList proprio \<Rightarrow>
             if length proprio \<noteq> policy_proprio_dim
             then Inl (ValueError ''Native policy requires the full 61-element proprio vector'')
             else rbind (check_all finite_number ''Native policy proprioception must be finite'' proprio) (\<lambda>_.
               case jget kvs ''rgb'' of
                 JObj rgb \<Rightarrow>
                   if \<not> keys_are policy_cameras rgb
                   then Inl (ValueError ''Native policy camera set/order is not the audited R1Pro set'')
                   else rbind (camera_images rgb policy_cameras) (\<lambda>es.
                     json_loads False (plain_dumps (JObj (AList.update ''rgb'' (JObj es) kvs))))
               | _ \<Rightarrow> Inl (ValueError ''Native policy camera set/order is not the audited R1Pro set''))
         | _ \<Rightarrow> Inl (ValueError ''Native policy requires the full 61-element proprio vector'')))
   | _ \<Rightarrow> Inl (ValueError ''Native policy packet has an unexpected shape''))"

definition action_row :: "json \<Rightarrow> bool result" where
  "action_row row = (case row of
     JList items \<Rightarrow>
       if length items \<noteq> policy_action_dim then Inr False
       else (case check_all finite_number '''' items of Inl (ValueError _) \<Rightarrow> Inr False | Inl e \<Rightarrow> Inl e | Inr _ \<Rightarrow> Inr True)
   | _ \<Rightarrow> Inr False)"

definition validate_native_result :: "json \<Rightarrow> json \<Rightarrow> json result" where
  "validate_native_result v expected = (case v of
     JObj kvs \<Rightarrow>
       if \<not> keys_are [''stamp'', ''actions''] kvs then Inl (ValueError ''Native policy result has an unexpected shape'')
       else rbind (stamp (jget kvs ''stamp'')) (\<lambda>s.
         if \<not> py_eq s expected then Inl (ValueError ''Native policy returned a stale or mismatched stamp'')
         else (case jget kvs ''actions'' of
           JList actions \<Rightarrow>
             if \<not> (1 \<le> length actions \<and> length actions \<le> 256)
             then Inl (ValueError ''Native policy action horizon is outside the bounded contract'')
             else rbind (check_all action_row ''Native policy action codec must be finite 23-channel rows'' actions) (\<lambda>_. Inr v)
         | _ \<Rightarrow> Inl (ValueError ''Native policy action horizon is outside the bounded contract'')))
   | _ \<Rightarrow> Inl (ValueError ''Native policy result has an unexpected shape''))"

section \<open>The loopback transport\<close>

text \<open>The base URL of the client, \<^verbatim>\<open>url.rstrip("/")\<close>.\<close>

definition native_transport :: "string \<Rightarrow> pyfloat \<Rightarrow> string result" where
  "native_transport url timeout =
     (let parsed = urlparse url in
      guards [(url_scheme parsed \<noteq> ''http'' \<or> \<not> is_loopback (url_hostname parsed) \<or> truthy (url_username parsed) \<or>
                 truthy (url_password parsed) \<or> url_query parsed \<noteq> [] \<or> url_fragment parsed \<noteq> [],
               ''Native policy transport must remain loopback-only''),
              (\<not> (\<not> float_le timeout (Dec 0 0) \<and> float_le (Dec 0 0) timeout \<and> float_le timeout (Dec 3 2)),
               ''Native policy timeout is outside the bounded range'')]
        (rev (dropWhile (\<lambda>c. c = CHR ''/'') (rev url))))"

definition call_body :: "string \<Rightarrow> json \<Rightarrow> json" where
  "call_body method argument =
     JObj [(''method'', JStr method), (''args'', JList [argument]), (''kwargs'', JObj []), (''session_id'', JStr '''')]"

text \<open>The body is read before the status is looked at; a reply that cannot be read is invalid.\<close>

definition native_envelope :: "string \<Rightarrow> (string \<times> json) list outcome" where
  "native_envelope raw = (case rbind (utf8_decode raw) (strict_json 8000000) of
     Inr kvs \<Rightarrow> Inr kvs
   | Inl RecursionError \<Rightarrow> raised RecursionError
   | Inl e \<Rightarrow> backend_raise ''native_policy_invalid_response'' True False)"

definition native_call :: "(json \<Rightarrow> reply) \<Rightarrow> string \<Rightarrow> json \<Rightarrow> json outcome" where
  "native_call net method argument = (case net (call_body method argument) of
     No_Reply \<Rightarrow> backend_raise ''native_policy_transport_failure'' False False
   | Reply status chunks broken \<Rightarrow>
       if broken then backend_raise ''native_policy_transport_failure'' False False
       else if status \<noteq> 200 then backend_raise (''native_policy_http_status_'' @ int_repr status) True False
       else rbind (native_envelope (concat chunks)) (\<lambda>kvs.
         if jget kvs ''ok'' \<noteq> JBool True then backend_raise ''native_policy_rpc_error'' True False
         else Inr (jget kvs ''result'')))"

definition native_reset :: "(json \<Rightarrow> reply) \<Rightarrow> json \<Rightarrow> json outcome" where
  "native_reset net v =
     rbind (lift (stamp v)) (\<lambda>s.
       rbind (native_call net ''policy.reset'' s) (\<lambda>result.
         if (case result of JObj kvs \<Rightarrow> py_eq (jget kvs ''stamp'') s | _ \<Rightarrow> False) then Inr result
         else backend_raise ''native_policy_reset_mismatch'' True False))"

definition native_infer :: "(json \<Rightarrow> reply) \<Rightarrow> json \<Rightarrow> json outcome" where
  "native_infer net packet = rbind (lift (validate_native_packet packet)) (native_call net ''policy.infer'')"

section \<open>The backend\<close>

definition packet_stamp :: "json \<Rightarrow> json" where
  "packet_stamp packet = (case packet of JObj kvs \<Rightarrow> jget kvs ''stamp'' | _ \<Rightarrow> JNull)"

text \<open>\<open>infer\<close> is the transport's, \<open>now\<close> the clock's reading once the result is validated.\<close>

definition native_policy_infer :: "(json \<Rightarrow> json outcome) \<Rightarrow> int \<Rightarrow> job \<Rightarrow> prediction outcome" where
  "native_policy_infer infer now j =
     rbind (lift (payload j)) (\<lambda>body.
       rbind (lift (validate_native_packet (JObj body))) (\<lambda>packet.
         rbind (infer packet) (\<lambda>reply.
           rbind (lift (validate_native_result reply (packet_stamp packet))) (\<lambda>result.
             rbind (lift (canonical result)) (\<lambda>text. new_prediction text zero_charge (Some now) None)))))"

end
