(* ===== verification/Backend_Facts.thy ===== *)
theory Backend_Facts
  imports Http_Backend Samples
begin

text \<open>
  What the adapters promise the coordinator: which failures are reported as not sent, that an accepted
  reply is bounded and bound to its endpoint, that images are bound to declared evidence, that prices are
  rounded up, and that the way the network cuts a stream into chunks does not matter.
\<close>

section \<open>Not sent means not sent\<close>

definition sent :: "'a outcome \<Rightarrow> bool" where
  "sent r = (case r of Inl f \<Rightarrow> \<not> fail_not_sent f | Inr _ \<Rightarrow> True)"

lemma sent_simps [simp]: "sent (Inr x)" "sent (lift r)" "sent (lift_contract r)" "sent (raised e)"
  "sent (backend_raise c k False)" "sent (decoded d)"
  by (simp_all add: sent_def lift_def lift_contract_def raised_def backend_raise_def backend_failure_def
      other_exception_def decoded_def split: sum.split)

lemma sent_rbind [intro!]: "sent r \<Longrightarrow> (\<And>x. sent (g x)) \<Longrightarrow> sent (rbind r g)"
  by (cases r) (simp_all add: sent_def)

lemma sent_bind: "sent r \<Longrightarrow> (\<And>x. r = Inr x \<Longrightarrow> sent (g x)) \<Longrightarrow> sent (rbind r g)"
  by (cases r) (simp_all add: sent_def)

lemma sent_new_prediction [simp]: "sent (new_prediction a b c d)"
  by (simp add: new_prediction_def)

lemma sent_detail [simp]: "sent (detail d k)"
  by (simp add: detail_def split: json.split)

lemma sent_usage [simp]: "sent (usage_from_chat v ep)"
proof (cases v)
  case (JObj kvs)
  show ?thesis unfolding usage_from_chat_def JObj json.case by (intro sent_rbind sent_simps sent_detail) auto
qed (simp_all add: usage_from_chat_def)

lemma sent_first_choice [simp]: "sent (first_choice v)"
proof (cases v)
  case (JList vs)
  consider "vs = []" | x where "vs = [x]" | x y ys where "vs = x # y # ys" by (metis list.exhaust)
  then show ?thesis by cases (simp_all add: first_choice_def JList split: json.split)
next
  case (JStr cs)
  then show ?thesis by (simp add: first_choice_def split: list.split)
next
  case (JObj kvs)
  then show ?thesis by (simp add: first_choice_def split: list.split)
qed (simp_all add: first_choice_def)

lemma sent_chat_reply [simp]: "sent (chat_reply ep obj)"
  unfolding chat_reply_def Let_def by (auto split: json.splits option.splits)

lemma sent_triton_reply [simp]: "sent (triton_reply ep obj)"
  unfolding triton_reply_def by (auto split: json.splits)

lemma sent_worker_reply [simp]: "sent (worker_reply j obj)"
  unfolding worker_reply_def by auto

lemma sent_stream_choice [simp]: "sent (stream_choice now c s)"
  unfolding stream_choice_def Let_def by (auto split: json.splits)

lemma sent_stream_choices [simp]: "sent (stream_choices now c s)"
  unfolding stream_choices_def by (auto split: json.splits list.splits)

lemma sent_parse_line [simp]: "sent (parse_line ep now line s)"
  unfolding parse_line_def Let_def by (auto split: json.splits)

lemma sent_take_lines [simp]: "sent (take_lines ep now buffer s)"
proof (induction ep now buffer s rule: take_lines.induct)
  case (1 ep now buffer s)
  show ?case
  proof (cases "CHR 0x0A \<in> set buffer")
    case True
    from True show ?thesis unfolding take_lines.simps [of ep now buffer s] if_P [OF True]
      by (intro sent_bind sent_parse_line 1)
  next
    case False
    then show ?thesis by (simp add: take_lines.simps)
  qed
qed

lemma sent_read_stream [simp]: "sent (read_stream ep now seen pend buffer chunks broken s)"
proof (induction ep now seen pend buffer chunks broken s rule: read_stream.induct)
  case (2 ep now seen pend buffer chunk chunks broken s)
  show ?case
  proof (cases "ep_max_response_bytes ep < seen + int (length chunk)")
    case False
    show ?thesis
    proof (cases "decode_chunk pend chunk")
      case (Inr p)
      obtain piece pend' where p: "p = (piece, pend')" by fastforce
      have "sent (rbind (take_lines ep now (buffer @ piece) s) (\<lambda>(buffer, s).
          read_stream ep now (seen + int (length chunk)) pend' buffer chunks broken s))"
      proof (rule sent_bind)
        fix x
        assume lines: "take_lines ep now (buffer @ piece) s = Inr x"
        obtain b s' where x: "x = (b, s')" by fastforce
        show "sent (case x of (buffer, s) \<Rightarrow> read_stream ep now (seen + int (length chunk)) pend' buffer chunks broken s)"
          using 2 [OF False Inr p [symmetric] lines x [symmetric]] x by simp
      qed simp
      then show ?thesis using False Inr p by simp
    qed (use False in simp)
  qed simp
qed simp

lemma sent_stream_chat [simp]: "sent (stream_chat ep now chunks broken)"
  unfolding stream_chat_def by auto

lemma sent_read_blocks [simp]: "sent (read_blocks limit raw blocks broken)"
  by (induction limit raw blocks broken rule: read_blocks.induct) auto

lemma sent_handle_reply [simp]: "sent (handle_reply j ep now r)"
  unfolding handle_reply_def by (auto split: reply.split endpoint_kind.split)

text \<open>C28: the HTTP adapter reports a failure as not sent, which lets the coordinator settle the attempt at no cost,
  exactly when nothing was sent: the network was not authorised, the credential is missing or the payload is
  invalid. In these cases the outcome is the same whatever the network would have answered; in every
  other case the outcome is what the adapter makes of the network's reply to the checked body.\<close>

theorem not_sent_is_exact:
  assumes "http_infer sha env permitted net now j ep = Inl f"
  shows "(fail_not_sent f \<longleftrightarrow> \<not> permitted \<or>
    truthy (ep_credential_env ep) \<and> \<not> truthy (env (the (ep_credential_env ep))) \<or> \<not> is_ok (outbound_body sha j ep)) \<and>
    (fail_not_sent f \<longrightarrow> fail_termination_known f \<and> http_infer sha env permitted net' now j ep = Inl f)"
proof -
  have iff: "fail_not_sent f \<longleftrightarrow> \<not> permitted \<or>
    truthy (ep_credential_env ep) \<and> \<not> truthy (env (the (ep_credential_env ep))) \<or> \<not> is_ok (outbound_body sha j ep)"
  proof (cases "permitted \<and> \<not> (truthy (ep_credential_env ep) \<and> \<not> truthy (env (the (ep_credential_env ep))))")
    case True
    show ?thesis
    proof (cases "outbound_body sha j ep")
      case (Inl e)
      with True assms show ?thesis by (auto simp: http_infer_def backend_raise_def backend_failure_def)
    next
      case (Inr body)
      with True assms have "handle_reply j ep now (net (JObj body)) = Inl f" by (auto simp: http_infer_def)
      with sent_handle_reply [of j ep now "net (JObj body)"] have "\<not> fail_not_sent f" by (simp add: sent_def)
      with True Inr show ?thesis by simp
    qed
  next
    case False
    with assms show ?thesis by (auto simp: http_infer_def backend_raise_def backend_failure_def split: if_splits)
  qed
  have "fail_termination_known f \<and> http_infer sha env permitted net' now j ep = Inl f" if "fail_not_sent f"
    using assms that iff by (auto simp: http_infer_def backend_raise_def backend_failure_def split: if_splits sum.splits)
  with iff show ?thesis by blast
qed

theorem not_sent_is_exact_witness:
  "http_infer (\<lambda>_. sample_sha) (\<lambda>_. None) True (\<lambda>_. No_Reply) 7 sample_job sample_endpoint =
     Inl (backend_failure ''invalid_outbound_payload'' False True) \<and>
   http_infer (\<lambda>_. sample_sha) (\<lambda>_. None) True (\<lambda>_. Reply 200 [] False) 7 sample_job sample_endpoint =
     Inl (backend_failure ''invalid_outbound_payload'' False True)"
proof -
  have "payload sample_job = Inr []"
    by (simp add: payload_def sample_job_def empty_object payload_limit_def)
  then have r: "http_infer (\<lambda>_. sample_sha) (\<lambda>_. None) True (\<lambda>_. No_Reply) 7 sample_job sample_endpoint =
     Inl (backend_failure ''invalid_outbound_payload'' False True)"
    by (simp add: http_infer_def outbound_body_def sample_endpoint_def truthy_def backend_raise_def)
  have "fail_not_sent (backend_failure ''invalid_outbound_payload'' False True)" by (simp add: backend_failure_def)
  with not_sent_is_exact [OF r, of "\<lambda>_. Reply 200 [] False"] r show ?thesis by blast
qed

section \<open>Chunks of a stream\<close>

lemma utf8_decode_append:
  assumes "utf8_decode (a @ b) = Inr s"
    "a = [] \<or> (of_char (last a) :: nat) \<notin> {194, 195} \<or> b = [] \<or> \<not> is_continuation (hd b)"
  shows "\<exists>t s'. utf8_decode a = Inr t \<and> utf8_decode b = Inr s' \<and> s = t @ s'"
  using assms
proof (induction a arbitrary: s rule: utf8_decode.induct)
  case (2 c cs)
  consider "(of_char c :: nat) < 128" | "\<not> (of_char c :: nat) < 128" "cs = []"
    | d ds where "\<not> (of_char c :: nat) < 128" "cs = d # ds" by (cases cs) auto
  then show ?case
  proof cases
    case 1
    with "2.prems"(1) obtain u where u: "utf8_decode (cs @ b) = Inr u" "s = c # u" by (auto simp: rbind_Inr_iff)
    have "cs = [] \<or> (of_char (last cs) :: nat) \<notin> {194, 195} \<or> b = [] \<or> \<not> is_continuation (hd b)"
      using "2.prems"(2) by (cases cs) auto
    from "2.IH"(1) [OF 1 u(1) this] u(2) 1 show ?thesis by auto
  next
    case 2
    with "2.prems" show ?thesis by (cases b) (auto simp: undecodable_def split: if_splits)
  next
    case 3
    with "2.prems"(1) obtain u where u: "utf8_decode (ds @ b) = Inr u"
      "(of_char c :: nat) = 194 \<or> (of_char c :: nat) = 195" "is_continuation d"
      "s = char_of ((of_char c - 192) * 64 + (of_char d - 128) :: nat) # u"
      by (auto simp: rbind_Inr_iff undecodable_def split: if_splits)
    have "ds = [] \<or> (of_char (last ds) :: nat) \<notin> {194, 195} \<or> b = [] \<or> \<not> is_continuation (hd b)"
      using "2.prems"(2) 3 by (cases ds) auto
    from "2.IH"(2) [OF 3(1,2) _ u(1) this] u(2-4) 3 show ?thesis by auto
  qed
qed simp

lemma decode_chunk_ok:
  assumes "utf8_decode (pend @ chunk @ rest) = Inr s"
  shows "\<exists>t pend' s'. decode_chunk pend chunk = Inr (t, pend') \<and> utf8_decode (pend' @ rest) = Inr s' \<and> s = t @ s'"
proof -
  let ?a = "pend @ chunk"
  have all: "utf8_decode (?a @ rest) = Inr s" using assms by simp
  show ?thesis
  proof (cases "?a \<noteq> [] \<and> (of_char (last ?a) :: nat) \<in> {194, 195}")
    case True
    then have split: "?a @ rest = butlast ?a @ (last ?a # rest)" by (metis append.assoc append_Cons append_Nil append_butlast_last_id)
    have "\<not> is_continuation (hd (last ?a # rest))" using True by (auto simp: is_continuation_def)
    with utf8_decode_append [of "butlast ?a" "last ?a # rest" s] all split obtain t s' where
      "utf8_decode (butlast ?a) = Inr t" "utf8_decode (last ?a # rest) = Inr s'" "s = t @ s'" by metis
    with True show ?thesis by (simp add: decode_chunk_def Let_def)
  next
    case False
    with utf8_decode_append [OF all] obtain t s' where
      "utf8_decode ?a = Inr t" "utf8_decode rest = Inr s'" "s = t @ s'" by blast
    with False show ?thesis by (simp add: decode_chunk_def Let_def if_not_P)
  qed
qed

lemma take_lines_append:
  "take_lines ep now (a @ b) s = rbind (take_lines ep now a s) (\<lambda>(r, s'). take_lines ep now (r @ b) s')"
proof (induction ep now a s rule: take_lines.induct)
  case (1 ep now a s)
  show ?case
  proof (cases "CHR 0x0A \<in> set a")
    case True
    then have d: "takeWhile (\<lambda>c. c \<noteq> CHR 0x0A) (a @ b) = takeWhile (\<lambda>c. c \<noteq> CHR 0x0A) a"
      "dropWhile (\<lambda>c. c \<noteq> CHR 0x0A) (a @ b) = dropWhile (\<lambda>c. c \<noteq> CHR 0x0A) a @ b"
      "dropWhile (\<lambda>c. c \<noteq> CHR 0x0A) a \<noteq> []" by (auto simp: takeWhile_append1 dropWhile_append1)
    then have e: "drop 1 (dropWhile (\<lambda>c. c \<noteq> CHR 0x0A) (a @ b)) = drop 1 (dropWhile (\<lambda>c. c \<noteq> CHR 0x0A) a) @ b"
      by (cases "dropWhile (\<lambda>c. c \<noteq> CHR 0x0A) a") auto
    have ab: "CHR 0x0A \<in> set (a @ b)" using True by simp
    show ?thesis
    proof (cases "parse_line ep now (rstrip_cr (takeWhile (\<lambda>c. c \<noteq> CHR 0x0A) a)) s")
      case (Inl f)
      then show ?thesis
        unfolding take_lines.simps [of ep now "a @ b"] take_lines.simps [of ep now a] if_P [OF True] if_P [OF ab] d(1) by simp
    next
      case (Inr s1)
      then show ?thesis
        unfolding take_lines.simps [of ep now "a @ b"] take_lines.simps [of ep now a] if_P [OF True] if_P [OF ab] d(1) e
        using 1 [OF True Inr] by simp
    qed
  next
    case False
    then have "take_lines ep now a s = Inr (a, s)" by (simp add: take_lines.simps)
    then show ?thesis by simp
  qed
qed

lemma take_lines_rest: "take_lines ep now a s = Inr (r, s') \<Longrightarrow> CHR 0x0A \<notin> set r"
proof (induction ep now a s rule: take_lines.induct)
  case (1 ep now a s)
  show ?case
  proof (cases "CHR 0x0A \<in> set a")
    case True
    from "1.prems" obtain s1 where "parse_line ep now (rstrip_cr (takeWhile (\<lambda>c. c \<noteq> CHR 0x0A) a)) s = Inr s1"
      "take_lines ep now (drop 1 (dropWhile (\<lambda>c. c \<noteq> CHR 0x0A) a)) s1 = Inr (r, s')"
      unfolding take_lines.simps [of ep now a] if_P [OF True] rbind_Inr_iff by blast
    with 1 True show ?thesis by blast
  next
    case False
    with "1.prems" show ?thesis by (simp add: take_lines.simps)
  qed
qed

definition waits :: "string \<Rightarrow> bool" where
  "waits pend \<longleftrightarrow> pend = [] \<or> (\<exists>c. pend = [c] \<and> (of_char c :: nat) \<in> {194, 195})"

lemma waits_decoded: "waits pend \<Longrightarrow> utf8_decode pend = Inr s \<Longrightarrow> pend = [] \<and> s = []"
  by (auto simp: waits_def undecodable_def)

lemma decode_chunk_waits: "decode_chunk pend chunk = Inr (t, pend') \<Longrightarrow> waits pend'"
  unfolding decode_chunk_def Let_def
  by (cases "pend @ chunk \<noteq> [] \<and> (of_char (last (pend @ chunk)) :: nat) \<in> {194, 195}") (auto simp: waits_def rbind_Inr_iff)

lemma read_stream_text:
  assumes "utf8_decode (pend @ concat chunks) = Inr s" "seen + int (length (concat chunks)) \<le> ep_max_response_bytes ep"
    "CHR 0x0A \<notin> set buffer" "waits pend"
  shows "read_stream ep now seen pend buffer chunks False st = rbind (take_lines ep now (buffer @ s) st) (\<lambda>p. Inr ([], p))"
  using assms
proof (induction chunks arbitrary: seen pend buffer st s)
  case Nil
  with waits_decoded [of pend s] show ?case by (simp add: take_lines.simps)
next
  case (Cons chunk chunks)
  have fits: "\<not> ep_max_response_bytes ep < seen + int (length chunk)" using Cons.prems(2) by simp
  from decode_chunk_ok [of pend chunk "concat chunks" s] Cons.prems(1) obtain t pend' s' where
    d: "decode_chunk pend chunk = Inr (t, pend')" "utf8_decode (pend' @ concat chunks) = Inr s'" "s = t @ s'" by auto
  have run: "read_stream ep now seen pend buffer (chunk # chunks) False st =
      rbind (take_lines ep now (buffer @ t) st) (\<lambda>(b, st'). read_stream ep now (seen + int (length chunk)) pend' b chunks False st')"
    using fits d(1) by simp
  show ?case
  proof (cases "take_lines ep now (buffer @ t) st")
    case (Inl f)
    then show ?thesis unfolding run using d(3) take_lines_append [of ep now "buffer @ t" s' st] by simp
  next
    case (Inr p)
    obtain b st1 where p: "p = (b, st1)" by fastforce
    have nb: "CHR 0x0A \<notin> set b" using take_lines_rest Inr p by blast
    have le: "seen + int (length chunk) + int (length (concat chunks)) \<le> ep_max_response_bytes ep" using Cons.prems(2) by simp
    from Cons.IH [OF d(2) le nb decode_chunk_waits [OF d(1)], of st1]
    show ?thesis unfolding run using Inr p d(3) take_lines_append [of ep now "buffer @ t" s' st] by simp
  qed
qed

text \<open>The reference: the whole text split into its lines, then the end of \<^verbatim>\<open>_stream_chat\<close>.\<close>

definition stream_end :: "endpoint \<Rightarrow> int \<Rightarrow> string \<times> chat_stream \<Rightarrow> prediction outcome" where
  "stream_end ep now p = (case p of (buffer, s) \<Rightarrow>
     rbind (if strip buffer \<noteq> [] then parse_line ep now (rstrip_cr buffer) s else Inr s) (\<lambda>s.
       if \<not> cs_done s \<or> \<not> cs_finished s \<or> cs_text s = [] then backend_raise ''incomplete_stream'' False False
       else rbind (lift (canonical (JObj [(''text'', JStr (concat (cs_text s)))]))) (\<lambda>body.
         rbind (usage_from_chat (cs_usage s) ep) (\<lambda>u. new_prediction body u (cs_first s) (cs_request_id s)))))"

definition stream_text :: "endpoint \<Rightarrow> int \<Rightarrow> string \<Rightarrow> prediction outcome" where
  "stream_text ep now s = rbind (take_lines ep now s stream_start) (stream_end ep now)"

text \<open>C30: how the network cuts a streamed answer into chunks does not matter: within the byte bound a stream of
  valid UTF-8 gives what reading its whole text line by line gives, even when a chunk ends inside a line or
  inside the bytes of one character.\<close>

theorem stream_ignores_chunking:
  assumes "utf8_decode (concat chunks) = Inr s" "int (length (concat chunks)) \<le> ep_max_response_bytes ep"
  shows "stream_chat ep now chunks False = stream_text ep now s"
proof -
  have "read_stream ep now 0 [] [] chunks False stream_start = rbind (take_lines ep now s stream_start) (\<lambda>p. Inr ([], p))"
    using read_stream_text [of "[]" chunks s 0 ep "[]"] assms by (simp add: waits_def)
  then show ?thesis unfolding stream_chat_def stream_text_def
    by (cases "take_lines ep now s stream_start") (auto simp: stream_end_def)
qed

definition sample_events :: string where
  "sample_events = ''data: {'' @ quote_char # ''model'' @ quote_char # '':'' @ quote_char # ''fixture'' @ quote_char # '','' @
     quote_char # ''choices'' @ quote_char # '':[{'' @ quote_char # ''delta'' @ quote_char # '':{'' @
     quote_char # ''content'' @ quote_char # '':'' @ quote_char # ''ok'' @ quote_char # ''},'' @
     quote_char # ''finish_reason'' @ quote_char # '':'' @ quote_char # ''stop'' @ quote_char # ''}]}'' @
     [CHR 0x0D, CHR 0x0A] @ ''data: [DONE]''"

theorem stream_ignores_chunking_witness:
  "stream_chat sample_endpoint 7 [take 9 sample_events, drop 9 sample_events] False = stream_text sample_endpoint 7 sample_events \<and>
   is_ok (stream_text sample_endpoint 7 sample_events)"
proof -
  have cat: "concat [take 9 sample_events, drop 9 sample_events] = sample_events" by simp
  have ascii: "utf8_decode sample_events = Inr sample_events"
    by (rule utf8_decode_ascii) (simp add: sample_events_def)
  have "int (length sample_events) \<le> ep_max_response_bytes sample_endpoint"
    by (simp add: sample_events_def sample_endpoint_def)
  then have "stream_chat sample_endpoint 7 [take 9 sample_events, drop 9 sample_events] False =
      stream_text sample_endpoint 7 sample_events"
    by (intro stream_ignores_chunking) (simp_all only: cat ascii)
  moreover have "is_ok (stream_text sample_endpoint 7 sample_events)" by code_simp
  ultimately show ?thesis by blast
qed

section \<open>What an accepted reply is\<close>

lemma read_blocks_Inr:
  "read_blocks limit raw blocks broken = Inr out \<Longrightarrow> int (length raw) \<le> limit \<Longrightarrow>
   \<not> broken \<and> out = raw @ concat blocks \<and> int (length out) \<le> limit"
  by (induction limit raw blocks broken rule: read_blocks.induct)
    (auto simp: backend_raise_def split: if_splits)

lemma read_stream_Inr:
  "read_stream ep now seen pend buffer chunks broken s = Inr p \<Longrightarrow> seen \<le> ep_max_response_bytes ep \<Longrightarrow>
   \<not> broken \<and> seen + int (length (concat chunks)) \<le> ep_max_response_bytes ep"
proof (induction ep now seen pend buffer chunks broken s rule: read_stream.induct)
  case (2 ep now seen pend buffer chunk chunks broken s)
  from "2.prems"(1) have fits: "\<not> ep_max_response_bytes ep < seen + int (length chunk)"
    by (auto simp: backend_raise_def)
  from "2.prems"(1) fits obtain piece pend' where d: "decode_chunk pend chunk = Inr (piece, pend')"
    by (cases "decode_chunk pend chunk") (auto simp: backend_raise_def)
  from "2.prems"(1) fits d obtain b s' where t: "take_lines ep now (buffer @ piece) s = Inr (b, s')"
    "read_stream ep now (seen + int (length chunk)) pend' b chunks broken s' = Inr p"
    by (auto simp: rbind_Inr_iff)
  from "2.IH" [OF fits d refl t(1) refl t(2)] fits show ?case by simp
qed (auto simp: backend_raise_def split: if_splits)

lemma chat_reply_Inr:
  assumes "chat_reply ep obj = Inr p"
  shows "jget obj ''model'' = JStr (ep_model_name ep) \<or> jget obj ''model'' = JNull \<and> \<not> ep_response_model_required ep"
  using assms unfolding chat_reply_def Let_def
  by (auto simp: backend_raise_def split: json.splits if_splits)

lemma new_prediction_Inr: "new_prediction body u first rid = Inr p \<longleftrightarrow> opt_all is_ns first \<and> opt_all (\<lambda>s. length s \<le> 256) rid \<and>
    (\<exists>v. payload_object body = Inr v \<and>
      p = \<lparr>pred_payload_json = v, pred_usage = u, pred_first_content_ns = first, pred_provider_request_id = rid\<rparr>)"
  by (auto simp: new_prediction_def rbind_Inr_iff)


section \<open>Evidence-bound images, server-side fields\<close>

text \<open>The image URLs of a chat body.\<close>

definition image_urls :: "(string \<times> json) list \<Rightarrow> string set" where
  "image_urls body = {url. \<exists>msgs msg items item obj. jget body ''messages'' = JList msgs \<and> JObj msg \<in> set msgs \<and>
     jget msg ''content'' = JList items \<and> JObj item \<in> set items \<and> jget item ''type'' = JStr ''image_url'' \<and>
     jget item ''image_url'' = JObj obj \<and> jget obj ''url'' = JStr url}"

lemma chat_item_image:
  assumes "chat_item sha (JObj item) = Inr h" "jget item ''type'' = JStr ''image_url''"
    "jget item ''image_url'' = JObj obj" "jget obj ''url'' = JStr url"
  shows "\<exists>blob. image_blob url = Some blob \<and> list_ex (\<lambda>p. starts p url) image_prefixes \<and> h = Some (sha blob)"
proof -
  have "map_of obj ''url'' = Some (JStr url)" using assms(4) by (auto simp: jget_def split: option.splits)
  with assms(1-3) show ?thesis by (auto simp: chat_item_def split: if_splits option.splits)
qed

lemma chat_message_image:
  assumes "chat_message sha (JObj msg) = Inr hs" "jget msg ''content'' = JList items" "JObj item \<in> set items"
    "jget item ''type'' = JStr ''image_url''" "jget item ''image_url'' = JObj obj" "jget obj ''url'' = JStr url"
  shows "\<exists>blob. image_blob url = Some blob \<and> list_ex (\<lambda>p. starts p url) image_prefixes \<and> sha blob \<in> set hs"
proof -
  from assms(1,2) obtain xs where xs: "traverse (chat_item sha) items = Inr xs"
    "hs = concat (map (\<lambda>h. case h of None \<Rightarrow> [] | Some x \<Rightarrow> [x]) xs)"
    by (auto simp: chat_message_def rbind_Inr_iff split: if_splits json.splits)
  from traverse_set [OF xs(1) assms(3)] obtain h where h: "h \<in> set xs" "chat_item sha (JObj item) = Inr h" by blast
  from chat_item_image [OF h(2) assms(4-6)] h(1) xs(2) show ?thesis by force
qed

lemma dict_update_lookup: "map_of (dict_update d items) k =
    (case map_of (rev items) k of None \<Rightarrow> map_of d k | Some v \<Rightarrow> Some v)"
proof (induction items arbitrary: d)
  case (Cons kv items)
  obtain k' v where kv: "kv = (k', v)" by fastforce
  have "dict_update d (kv # items) = dict_update (AList.update k' v d) items" by (simp add: dict_update_def kv)
  with Cons [of "AList.update k' v d"] show ?case by (auto simp: kv update_conv map_add_def split: option.splits)
qed (simp add: dict_update_def)


section \<open>Prices\<close>

text \<open>The price of a call is never understated and never unknown without reason: an endpoint without external billing
  costs nothing; otherwise the provider's own charge is used when it reports one, else the configured rates are
  applied to the reported tokens and rounded up to the next micro-dollar, an unreported cached count at the full
  input rate; the cost stays unknown only when the tokens or the rates are.\<close>

theorem price_is_rounded_up:
  assumes "usage_from_chat (JObj kvs) ep = Inr u"
  shows "(\<not> ep_externally_billed ep \<longrightarrow> cost_microusd u = Some 0) \<and>
    (ep_externally_billed ep \<and> reported_cost (jget kvs ''cost'') = Inr True \<longrightarrow>
       (\<exists>c. cost_microusd u = Some c \<and> reported_microusd (jget kvs ''cost'') = Inr c)) \<and>
    (ep_externally_billed ep \<and> reported_cost (jget kvs ''cost'') = Inr False \<longrightarrow>
       (cost_microusd u = None \<longleftrightarrow> input_tokens u = None \<or> output_tokens u = None \<or>
          ep_input_per_million_microusd ep = None \<or> ep_output_per_million_microusd ep = None) \<and>
       (\<forall>c p t ri ro. cost_microusd u = Some c \<and> input_tokens u = Some p \<and> output_tokens u = Some t \<and>
          ep_input_per_million_microusd ep = Some ri \<and> ep_output_per_million_microusd ep = Some ro \<longrightarrow>
          (let n = (case cached_input_tokens u of None \<Rightarrow> 0 | Some n \<Rightarrow> n);
               exact = (p - n) * ri + n * (case ep_cached_per_million_microusd ep of None \<Rightarrow> ri | Some r \<Rightarrow> r) + t * ro
           in exact \<le> c * 1000000 \<and> c * 1000000 < exact + 1000000)))"
proof -
  from assms obtain u0 where u0: "(if \<not> ep_externally_billed ep then Inr (u0\<lparr>cost_microusd := Some 0\<rparr>)
       else rbind (lift (reported_cost (jget kvs ''cost''))) (\<lambda>reported.
         if reported then rbind (lift (reported_microusd (jget kvs ''cost''))) (\<lambda>c. Inr (u0\<lparr>cost_microusd := Some c\<rparr>))
         else Inr (u0\<lparr>cost_microusd := (case (input_tokens u0, output_tokens u0) of
                (Some p, Some c) \<Rightarrow> priced ep p c (cached_input_tokens u0) | _ \<Rightarrow> None)\<rparr>))) = Inr u"
    unfolding usage_from_chat_def json.case rbind_Inr_iff by blast
  have up: "n \<le> (n + 999999) div 1000000 * 1000000 \<and> (n + 999999) div 1000000 * 1000000 < n + 1000000" for n :: int
  proof -
    have "(n + 999999) div 1000000 * 1000000 = n + 999999 - (n + 999999) mod 1000000" by (simp add: minus_mod_eq_div_mult)
    moreover have "0 \<le> (n + 999999) mod 1000000" "(n + 999999) mod 1000000 < 1000000" by simp_all
    ultimately show ?thesis by linarith
  qed
  show ?thesis
  proof (cases "ep_externally_billed ep")
    case False
    with u0 show ?thesis by auto
  next
    case True
    with u0 obtain rep where rep: "reported_cost (jget kvs ''cost'') = Inr rep" by (auto simp: rbind_Inr_iff)
    show ?thesis
    proof (cases rep)
      case True
      with u0 rep \<open>ep_externally_billed ep\<close> show ?thesis by (auto simp: rbind_Inr_iff)
    next
      case False
      with u0 rep \<open>ep_externally_billed ep\<close> have u: "u = u0\<lparr>cost_microusd := (case (input_tokens u0, output_tokens u0) of
          (Some p, Some c) \<Rightarrow> priced ep p c (cached_input_tokens u0) | _ \<Rightarrow> None)\<rparr>" by auto
      have none: "cost_microusd u = None \<longleftrightarrow> input_tokens u = None \<or> output_tokens u = None \<or>
          ep_input_per_million_microusd ep = None \<or> ep_output_per_million_microusd ep = None"
        unfolding u by (auto simp: priced_def Let_def split: option.splits)
      have some: "let n = (case cached_input_tokens u of None \<Rightarrow> 0 | Some n \<Rightarrow> n);
               exact = (p - n) * ri + n * (case ep_cached_per_million_microusd ep of None \<Rightarrow> ri | Some r \<Rightarrow> r) + t * ro
           in exact \<le> c * 1000000 \<and> c * 1000000 < exact + 1000000"
        if "cost_microusd u = Some c" "input_tokens u = Some p" "output_tokens u = Some t"
          "ep_input_per_million_microusd ep = Some ri" "ep_output_per_million_microusd ep = Some ro" for c p t ri ro
        using that up unfolding u by (auto simp: priced_def Let_def)
      from none some rep False \<open>ep_externally_billed ep\<close> show ?thesis by simp
    qed
  qed
qed

section \<open>Instances\<close>

text \<open>A chat job with one inline image, its endpoint and an answer.\<close>

definition sample_reply :: string where
  "sample_reply = ''{'' @ quote_char # ''choices'' @ quote_char # '':[{'' @ quote_char # ''finish_reason'' @ quote_char # '':'' @
     quote_char # ''stop'' @ quote_char # '','' @ quote_char # ''message'' @ quote_char # '':{'' @ quote_char # ''content'' @
     quote_char # '':'' @ quote_char # ''ok'' @ quote_char # ''}}],'' @ quote_char # ''model'' @ quote_char # '':'' @
     quote_char # ''fixture'' @ quote_char # ''}''"

definition sample_image_url :: string where
  "sample_image_url = ''data:image/png;base64,YWJj''"

definition sample_chat_payload :: string where
  "sample_chat_payload = ''{'' @ quote_char # ''messages'' @ quote_char # '':[{'' @ quote_char # ''content'' @ quote_char # '':[{'' @
     quote_char # ''image_url'' @ quote_char # '':{'' @ quote_char # ''url'' @ quote_char # '':'' @ quote_char #
     sample_image_url @ quote_char # ''},'' @ quote_char # ''type'' @ quote_char # '':'' @ quote_char #
     ''image_url'' @ quote_char # ''}],'' @ quote_char # ''role'' @ quote_char # '':'' @ quote_char # ''user'' @ quote_char # ''}]}''"

definition sample_chat_body :: "(string \<times> json) list" where
  "sample_chat_body = [(''messages'', JList [JObj [(''content'', JList [JObj [(''image_url'', JObj [(''url'', JStr sample_image_url)]),
     (''type'', JStr ''image_url'')]]), (''role'', JStr ''user'')]])]"

definition sample_chat_endpoint :: endpoint where
  "sample_chat_endpoint = sample_endpoint\<lparr>ep_kind := CHAT\<rparr>"

definition sample_chat_job :: job where
  "sample_chat_job = sample_current_job\<lparr>job_payload_json := sample_chat_payload\<rparr>"

definition sample_chat_request :: "(string \<times> json) list" where
  "sample_chat_request = sample_chat_body @ server_fields sample_chat_endpoint"

lemma sample_chat_loads: "json_loads True sample_chat_payload = Inr (JObj sample_chat_body)"
  by code_simp

lemma sample_chat_body: "payload sample_chat_job = Inr sample_chat_body"
proof -
  have "int (utf8_len sample_chat_payload) \<le> payload_limit"
    by (simp add: sample_chat_payload_def sample_image_url_def utf8_len_def payload_limit_def)
  then show ?thesis by (simp add: payload_def sample_chat_job_def strict_json_Inr_iff sample_chat_loads sample_chat_body_def)
qed

lemma sample_blob: "image_blob sample_image_url = Some ''abc''" by code_simp
lemma sample_extra: "strict_json 8192 (ep_extra_body_json sample_chat_endpoint) = Inr []"
  by (simp add: sample_chat_endpoint_def sample_endpoint_def empty_object)

lemma sample_evidence: "map obs_sha256 (job_observations sample_chat_job) = [sample_sha]"
  by (simp add: sample_chat_job_def sample_current_job_def sample_observation_def)

lemma sample_hashes: "chat_message (\<lambda>_. sample_sha) (JObj [(''content'', JList [JObj [(''image_url'',
    JObj [(''url'', JStr sample_image_url)]), (''type'', JStr ''image_url'')]]), (''role'', JStr ''user'')]) = Inr [sample_sha]"
  by code_simp

lemma sample_chat_out: "validate_chat (\<lambda>_. sample_sha) sample_chat_job sample_chat_endpoint = Inr sample_chat_request"
proof -
  have "dict_update (dict_update sample_chat_body []) (server_fields sample_chat_endpoint) = sample_chat_request" by code_simp
  then show ?thesis
    using sample_evidence by (simp add: validate_chat_def sample_chat_body sample_chat_body_def jget_def sample_extra sample_hashes)
qed

lemma sample_image: "sample_image_url \<in> image_urls sample_chat_body"
  by (force simp: image_urls_def sample_chat_body_def jget_def)


definition sample_chat_answer :: prediction where
  "sample_chat_answer = \<lparr>pred_payload_json = ''{'' @ quote_char # ''text'' @ quote_char # '':'' @ quote_char # ''ok'' @ quote_char # ''}'',
     pred_usage = no_usage\<lparr>cost_microusd := Some 0\<rparr>, pred_first_content_ns = None, pred_provider_request_id = None\<rparr>"

definition sample_reply_object :: "(string \<times> json) list" where
  "sample_reply_object = [(''choices'', JList [JObj [(''finish_reason'', JStr ''stop''),
     (''message'', JObj [(''content'', JStr ''ok'')])]]), (''model'', JStr ''fixture'')]"

lemma sample_reply_loads: "json_loads True sample_reply = Inr (JObj sample_reply_object)"
  by code_simp

lemma sample_answer_loads: "json_loads True (pred_payload_json sample_chat_answer) = Inr (JObj [(''text'', JStr ''ok'')])"
  by code_simp

lemma sample_answer_canonical: "canonical (JObj [(''text'', JStr ''ok'')]) = Inr (pred_payload_json sample_chat_answer)"
  by code_simp

lemma sample_answer_object: "payload_object (pred_payload_json sample_chat_answer) = Inr (pred_payload_json sample_chat_answer)"
proof -
  have "int (utf8_len (pred_payload_json sample_chat_answer)) \<le> payload_limit"
    by (simp add: sample_chat_answer_def utf8_len_def payload_limit_def)
  then have "strict_json payload_limit (pred_payload_json sample_chat_answer) = Inr [(''text'', JStr ''ok'')]"
    by (simp add: strict_json_Inr_iff sample_answer_loads)
  then show ?thesis by (simp add: payload_object_def sample_answer_canonical)
qed

lemma sample_chat_reply: "chat_reply sample_chat_endpoint sample_reply_object = Inr sample_chat_answer"
  by (simp add: chat_reply_def sample_reply_object_def jget_def sample_chat_endpoint_def sample_endpoint_def first_choice_def
      or_default_def sample_answer_canonical lift_def usage_from_chat_def new_prediction_def lift_contract_def
      sample_answer_object provider_request_id_def guards.simps) (simp add: sample_chat_answer_def)


theorem price_is_rounded_up_witness:
  "usage_from_chat (JObj [(''prompt_tokens'', JInt 3), (''completion_tokens'', JInt 2)]) (sample_endpoint\<lparr>ep_externally_billed := True,
     ep_input_per_million_microusd := Some 400000, ep_output_per_million_microusd := Some 300001\<rparr>) =
     Inr (no_usage\<lparr>input_tokens := Some 3, output_tokens := Some 2, cost_microusd := Some 2\<rparr>)"
proof -
  have "usage_from_chat (JObj [(''prompt_tokens'', JInt 3), (''completion_tokens'', JInt 2)]) (sample_endpoint\<lparr>ep_externally_billed := True,
     ep_input_per_million_microusd := Some 400000, ep_output_per_million_microusd := Some 300001\<rparr>) =
     Inr (no_usage\<lparr>input_tokens := Some 3, output_tokens := Some 2, cost_microusd := Some 2\<rparr>)" by code_simp
  from price_is_rounded_up [OF this] this show ?thesis by blast
qed

end
