(* ===== verification/Native_Facts.thy ===== *)
theory Native_Facts
  imports Native_Policy Backend_Facts
begin

text \<open>
  What the native policy bridge promises: images reach the policy server byte for byte, validating a
  normalised image again changes nothing, and a proposal is bound to the stamp that was sent.
\<close>

section \<open>Images\<close>

text \<open>The pixels of a nested list, in row-major order.\<close>

fun pixels :: "json \<Rightarrow> string" where
  "pixels (JList vs) = concat (map pixels vs)"
| "pixels (JInt i) = [char_of (nat i)]"
| "pixels _ = []"

lemma uint8s_of_pixels: "uint8s_of vs = Some raw \<Longrightarrow> concat (map pixels vs) = raw \<and> length raw = length vs"
  by (induction vs arbitrary: raw) (auto simp: uint8_of_def split: option.splits json.splits if_splits)

lemma concat_length_const:
  "list_all (\<lambda>d. int (length (snd d)) = n) cs \<Longrightarrow> int (length (concat (map snd cs))) = int (length cs) * n"
  by (induction cs) (auto simp: algebra_simps)

lemma nested_pixels:
  "nested_uint8 v = Inr (shape, raw) \<Longrightarrow>
     pixels v = raw \<and> int (length raw) = prod_list shape \<and> list_all (\<lambda>n. 1 \<le> n) shape"
  "nested_rows vs = Inr cs \<Longrightarrow> map pixels vs = map snd cs \<and> length cs = length vs \<and>
     list_all (\<lambda>c. int (length (snd c)) = prod_list (fst c) \<and> list_all (\<lambda>n. 1 \<le> n) (fst c)) cs"
proof (induction v and vs arbitrary: shape raw and cs rule: nested_uint8_nested_rows.induct)
  case (1 vs)
  show ?case
  proof (cases "vs \<noteq> [] \<and> is_list (hd vs)")
    case True
    with "1.prems" obtain cs where c: "nested_rows vs = Inr cs" "list_all (\<lambda>d. fst d = fst (hd cs)) (tl cs)"
      "shape = int (length vs) # fst (hd cs)" "raw = concat (map snd cs)" by (auto simp: rbind_Inr_iff split: if_splits)
    from "1.IH" [OF _ _ c(1)] True have rows: "map pixels vs = map snd cs" "length cs = length vs"
      "list_all (\<lambda>c. int (length (snd c)) = prod_list (fst c) \<and> list_all (\<lambda>n. 1 \<le> n) (fst c)) cs" by auto
    then obtain c cs' where cs: "cs = c # cs'" using True by (cases cs) auto
    with c(2) rows(3) have "list_all (\<lambda>d. int (length (snd d)) = prod_list (fst c)) cs" by (auto simp: list_all_iff)
    from concat_length_const [OF this] have "int (length raw) = int (length vs) * prod_list (fst c)"
      unfolding c(4) rows(2) .
    moreover from True have "1 \<le> int (length vs)" by (cases vs) auto
    ultimately show ?thesis using rows cs c(3,4) by simp
  next
    case False
    with "1.prems" have "uint8s_of vs = Some raw" "shape = [int (length vs)]" "vs \<noteq> []"
      by (auto split: if_splits option.splits)
    moreover from this(3) have "1 \<le> int (length vs)" by (cases vs) auto
    ultimately show ?thesis by (auto dest: uint8s_of_pixels)
  qed
next
  case (4 v vs)
  from "4.prems" obtain c cs' where c: "nested_uint8 v = Inr c" "nested_rows vs = Inr cs'" "cs = c # cs'"
    by (auto simp: rbind_Inr_iff)
  with "4.IH" show ?case by (cases c) auto
qed auto

lemma dims_of_shape: "list_all (\<lambda>n. 1 \<le> n) shape \<Longrightarrow> dims_of (map JInt shape) = Some shape"
  by (induction shape) auto

lemma dims_of_Some: "dims_of ds = Some ns \<Longrightarrow> ds = map JInt ns \<and> list_all (\<lambda>n. 1 \<le> n) ns"
  by (induction ds arbitrary: ns) (auto split: option.splits json.splits if_splits)

lemma ndarray_simps [simp]:
  "jget [(''__ndarray__'', d), (''dtype'', t), (''shape'', s)] ''__ndarray__'' = d"
  "jget [(''__ndarray__'', d), (''dtype'', t), (''shape'', s)] ''dtype'' = t"
  "jget [(''__ndarray__'', d), (''dtype'', t), (''shape'', s)] ''shape'' = s"
  "keys_are [''__ndarray__'', ''dtype'', ''shape''] [(''__ndarray__'', d), (''dtype'', t), (''shape'', s)]"
  by (auto simp: jget_def keys_are_def)

lemma envelope_again:
  assumes "image_shape shape = Some dims" "b64decode data = Some raw" "int (length raw) = prod_list dims"
    "int (length raw) \<le> max_image_bytes"
  shows "image_envelope (ndarray (JStr data) shape) = Inr (ndarray (JStr data) shape)"
  using assms by (simp add: image_envelope_def ndarray_def)

text \<open>An image reaches the policy server as it was given. A nested list becomes an envelope whose base64 text decodes to
  exactly its pixels in row-major order, as many as its height times its width times three; an envelope is
  passed on with its text and shape; and normalising the outcome again, as the backend and then the
  transport do, changes nothing.\<close>

theorem image_envelope_faithful:
  assumes "image_envelope v = Inr e"
  shows "image_envelope e = Inr e \<and> (\<exists>data h w. e = ndarray (JStr data) (JList [JInt h, JInt w, JInt 3]) \<and>
    0 < h \<and> 0 < w \<and> h * w * 3 \<le> max_image_bytes \<and>
    (case v of JList _ \<Rightarrow> b64decode data = Some (pixels v) \<and> int (length (pixels v)) = h * w * 3
     | JObj kvs \<Rightarrow> jget kvs ''__ndarray__'' = JStr data \<and> jget kvs ''shape'' = JList [JInt h, JInt w, JInt 3]
     | _ \<Rightarrow> False))"
proof (cases v)
  case (JList vs)
  with assms obtain shape raw where n: "nested_uint8 v = Inr (shape, raw)" "length shape = 3" "last shape = 3"
    "int (length raw) \<le> max_image_bytes" "e = ndarray (JStr (b64encode raw)) (JList (map JInt shape))"
    by (auto simp: image_envelope_def rbind_Inr_iff split: if_splits)
  from n(2,3) obtain h w where shape: "shape = [h, w, 3]"
    by (auto simp: length_Suc_conv eval_nat_numeral)
  from nested_pixels(1) [OF n(1)] shape have px: "pixels v = raw" "int (length raw) = h * w * 3" "0 < h" "0 < w" by auto
  have "image_shape (JList (map JInt shape)) = Some shape"
    using dims_of_shape [of shape] px(3,4) by (simp add: image_shape_def shape)
  from envelope_again [OF this b64_round_trip] n(4,5) px shape have "image_envelope e = Inr e" by simp
  moreover have "e = ndarray (JStr (b64encode raw)) (JList [JInt h, JInt w, JInt 3])" using n(5) shape by simp
  ultimately show ?thesis using n(4) px b64_round_trip [of raw] unfolding JList json.case
    by (intro conjI exI [of _ "b64encode raw"] exI [of _ h] exI [of _ w]) simp_all
next
  case (JObj kvs)
  with assms obtain data dims raw where n: "jget kvs ''__ndarray__'' = JStr data" "image_shape (jget kvs ''shape'') = Some dims"
    "b64decode data = Some raw" "int (length raw) = prod_list dims" "int (length raw) \<le> max_image_bytes"
    "e = ndarray (JStr data) (jget kvs ''shape'')"
    by (auto simp: image_envelope_def split: if_splits json.splits option.splits)
  from envelope_again [OF n(2-5)] n(6) have again: "image_envelope e = Inr e" by simp
  from n(2) obtain ds h w where ds: "jget kvs ''shape'' = JList ds" "dims_of ds = Some dims" "dims = [h, w, 3]"
    by (auto simp: image_shape_def split: json.splits option.splits list.splits if_splits)
  with dims_of_Some [OF ds(2)] have "ds = [JInt h, JInt w, JInt 3]" "0 < h" "0 < w" by auto
  with ds n again JObj show ?thesis by auto
qed (use assms in \<open>auto simp: image_envelope_def\<close>)

theorem image_envelope_faithful_witness:
  "image_envelope (JList [JList [JList [JInt 1, JInt 2, JInt 255]]]) = Inr (ndarray (JStr ''AQL/'') (JList [JInt 1, JInt 1, JInt 3])) \<and>
   b64decode ''AQL/'' = Some (pixels (JList [JList [JList [JInt 1, JInt 2, JInt 255]]]))"
proof -
  have e: "image_envelope (JList [JList [JList [JInt 1, JInt 2, JInt 255]]]) =
      Inr (ndarray (JStr ''AQL/'') (JList [JInt 1, JInt 1, JInt 3]))" by code_simp
  from image_envelope_faithful [OF e] e show ?thesis by (simp add: ndarray_def)
qed

section \<open>Proposals\<close>

lemma action_row_Inr: "action_row row = Inr True \<longleftrightarrow>
    (\<exists>items. row = JList items \<and> length items = policy_action_dim \<and> (\<forall>x \<in> set items. finite_number x = Inr True))"
proof (cases row)
  case (JList items)
  show ?thesis
  proof (cases "check_all finite_number '''' items")
    case (Inl e)
    with check_all_Inr [of finite_number "''''" items] have "\<not> (\<forall>x \<in> set items. finite_number x = Inr True)" by simp
    with JList Inl show ?thesis by (auto simp: action_row_def split: py_error.splits)
  next
    case (Inr u)
    with check_all_Inr [of finite_number "''''" items] have "\<forall>x \<in> set items. finite_number x = Inr True" by simp
    with JList Inr show ?thesis by (simp add: action_row_def)
  qed
qed (simp_all add: action_row_def)

lemma validate_native_result_Inr:
  assumes "validate_native_result v expected = Inr r"
  shows "r = v \<and> (\<exists>kvs actions. v = JObj kvs \<and> py_eq (jget kvs ''stamp'') expected \<and> jget kvs ''actions'' = JList actions \<and>
    1 \<le> length actions \<and> length actions \<le> 256 \<and> (\<forall>row \<in> set actions. action_row row = Inr True))"
proof (cases v)
  case (JObj kvs)
  with assms obtain s where s: "stamp (jget kvs ''stamp'') = Inr s" "py_eq s expected"
    by (auto simp: validate_native_result_def rbind_Inr_iff split: if_splits)
  from s(1) have "s = jget kvs ''stamp''" by (auto simp: stamp_def split: json.splits if_splits)
  with assms s JObj show ?thesis
    by (auto simp: validate_native_result_def rbind_Inr_iff check_all_Inr split: if_splits json.splits)
qed (use assms in \<open>simp_all add: validate_native_result_def\<close>)

text \<open>C32: a proposal the native backend returns is the policy server's own answer to the validated packet of this job: it
  carries the packet's stamp, so an answer to an earlier episode or step is refused, and between 1 and 256
  rows of exactly 23 finite numbers; the prediction is that answer, charged nothing, timed by the clock.\<close>

theorem native_proposal_is_bound:
  assumes "native_policy_infer infer now j = Inr p"
  shows "\<exists>body packet kvs actions text. payload j = Inr body \<and> validate_native_packet (JObj body) = Inr packet \<and>
    infer packet = Inr (JObj kvs) \<and> py_eq (jget kvs ''stamp'') (packet_stamp packet) \<and>
    jget kvs ''actions'' = JList actions \<and> 1 \<le> length actions \<and> length actions \<le> 256 \<and>
    (\<forall>row \<in> set actions. \<exists>items. row = JList items \<and> length items = policy_action_dim \<and>
       (\<forall>x \<in> set items. finite_number x = Inr True)) \<and>
    canonical (JObj kvs) = Inr text \<and> payload_object text = Inr (pred_payload_json p) \<and>
    pred_usage p = zero_charge \<and> pred_first_content_ns p = Some now"
proof -
  from assms obtain body packet answer result out where r: "lift (payload j) = Inr body"
    "lift (validate_native_packet (JObj body)) = Inr packet" "infer packet = Inr answer"
    "lift (validate_native_result answer (packet_stamp packet)) = Inr result" "lift (canonical result) = Inr out"
    "new_prediction out zero_charge (Some now) None = Inr p"
    unfolding native_policy_infer_def rbind_Inr_iff by blast
  have lifted: "x = Inr y" if "lift x = Inr y" for x :: "'b result" and y
    using that by (auto simp: lift_def split: sum.splits)
  from validate_native_result_Inr [OF lifted [OF r(4)]] obtain kvs actions where v: "result = answer" "answer = JObj kvs"
    "py_eq (jget kvs ''stamp'') (packet_stamp packet)" "jget kvs ''actions'' = JList actions" "1 \<le> length actions"
    "length actions \<le> 256" "\<forall>row \<in> set actions. action_row row = Inr True" by auto
  from r(6) [unfolded new_prediction_Inr] have p: "payload_object out = Inr (pred_payload_json p)" "pred_usage p = zero_charge"
    "pred_first_content_ns p = Some now" by auto
  from lifted [OF r(1)] lifted [OF r(2)] lifted [OF r(5)] r(3) v p show ?thesis
    unfolding action_row_Inr by blast
qed

section \<open>Instances\<close>

definition sample_stamp :: json where
  "sample_stamp = JObj [(''session'', JStr ''s''), (''epoch'', JInt 2), (''sequence'', JInt 5)]"

definition sample_image :: json where
  "sample_image = ndarray (JStr ''AQL/'') (JList [JInt 1, JInt 1, JInt 3])"

definition sample_packet :: "(string \<times> json) list" where
  "sample_packet = [(''stamp'', sample_stamp), (''instruction'', JStr ''go''), (''proprio'', JList (replicate 61 (JInt 0))),
     (''rgb'', JObj [(''head'', sample_image), (''left_wrist'', sample_image), (''right_wrist'', sample_image)])]"

definition sample_proposal :: "(string \<times> json) list" where
  "sample_proposal = [(''actions'', JList [JList (replicate 23 (JInt 1))]), (''stamp'', JObj [(''epoch'', JInt 2), (''sequence'', JInt 5), (''session'', JStr ''s'')])]"

definition sample_native_job :: job where
  "sample_native_job = sample_job\<lparr>job_payload_json := plain_dumps (JObj sample_packet)\<rparr>"

lemma small_int_plain: "0 \<le> i \<Longrightarrow> i < 10 \<Longrightarrow> json_plain (JInt i)"
  using power_increasing [of 1 int_digits_limit "10 :: int"] int_digits_limit_pos by simp

lemma sample_packet_plain: "json_plain (JObj sample_packet)"
  by (simp add: sample_packet_def sample_stamp_def sample_image_def ndarray_def list_all_iff small_int_plain del: json_plain.simps(1))

lemma sample_packet_short: "int (utf8_len (plain_dumps (JObj sample_packet))) \<le> payload_limit"
  by code_simp

lemma sample_packet_shallow: "json_depth (JObj sample_packet) \<le> 32"
  by code_simp

lemma sample_native_payload: "payload sample_native_job = Inr sample_packet"
proof -
  have "strict_json payload_limit (plain_dumps (JObj sample_packet)) = Inr sample_packet"
    using json_plain_finite [OF sample_packet_plain] sample_packet_short sample_packet_shallow
    by (simp only: strict_json_Inr_iff json_loads_plain [OF sample_packet_plain] simp_thms)
  then show ?thesis by (simp add: payload_def sample_native_job_def)
qed

lemma sample_image_valid: "image_envelope sample_image = Inr sample_image"
  by code_simp

lemma sample_packet_valid: "validate_native_packet (JObj sample_packet) = Inr (JObj sample_packet)"
proof -
  let ?rgb = "[(''head'', sample_image), (''left_wrist'', sample_image), (''right_wrist'', sample_image)]"
  have parts: "jget sample_packet ''stamp'' = sample_stamp" "jget sample_packet ''instruction'' = JStr ''go''"
    "jget sample_packet ''proprio'' = JList (replicate 61 (JInt 0))" "jget sample_packet ''rgb'' = JObj ?rgb"
    "keys_are [''stamp'', ''instruction'', ''proprio'', ''rgb''] sample_packet"
    "AList.update ''rgb'' (JObj ?rgb) sample_packet = sample_packet"
    by (auto simp: sample_packet_def jget_def keys_are_def)
  have "camera_images ?rgb policy_cameras = Inr ?rgb" "keys_are policy_cameras ?rgb"
    by (auto simp: policy_cameras_def sample_image_valid jget_def keys_are_def)
  moreover have "stamp sample_stamp = Inr sample_stamp" "strip ''go'' \<noteq> []" "finite_number (JInt 0) = Inr True" by code_simp+
  moreover from this(3) have "check_all finite_number msg (replicate 61 (JInt 0)) = Inr ()" for msg
    by (simp add: check_all_Inr)
  ultimately show ?thesis
    by (simp add: validate_native_packet_def parts policy_proprio_dim_def
        json_loads_plain [OF sample_packet_plain] del: plain_dumps.simps)
qed

lemma sample_result_valid: "validate_native_result (JObj sample_proposal) sample_stamp = Inr (JObj sample_proposal)"
  by code_simp

lemma sample_proposal_plain: "json_plain (JObj sample_proposal)"
  by (simp add: sample_proposal_def list_all_iff small_int_plain del: json_plain.simps(1))

lemma sample_proposal_canonical: "canonical (JObj sample_proposal) = Inr (plain_dumps (JObj sample_proposal))"
proof -
  have "sort_keys (JObj sample_proposal) = JObj sample_proposal" by code_simp
  then show ?thesis using json_plain_finite [OF sample_proposal_plain]
    by (simp add: canonical_def json_dumps_def del: json_finite.simps sort_keys.simps)
qed

lemma sample_proposal_object:
  "payload_object (plain_dumps (JObj sample_proposal)) = Inr (plain_dumps (JObj sample_proposal))"
proof -
  have "int (utf8_len (plain_dumps (JObj sample_proposal))) \<le> payload_limit" "json_depth (JObj sample_proposal) \<le> 32"
    by code_simp+
  then have "strict_json payload_limit (plain_dumps (JObj sample_proposal)) = Inr sample_proposal"
    using json_plain_finite [OF sample_proposal_plain]
    by (simp only: strict_json_Inr_iff json_loads_plain [OF sample_proposal_plain] simp_thms)
  then show ?thesis by (simp add: payload_object_def sample_proposal_canonical del: plain_dumps.simps)
qed

theorem native_proposal_is_bound_witness:
  "native_policy_infer (\<lambda>_. Inr (JObj sample_proposal)) 7 sample_native_job =
     Inr \<lparr>pred_payload_json = plain_dumps (JObj sample_proposal), pred_usage = zero_charge,
       pred_first_content_ns = Some 7, pred_provider_request_id = None\<rparr> \<and>
   (\<exists>packet. validate_native_packet (JObj sample_packet) = Inr packet \<and>
      py_eq (jget sample_proposal ''stamp'') (packet_stamp packet))"
proof -
  let ?p = "\<lparr>pred_payload_json = plain_dumps (JObj sample_proposal), pred_usage = zero_charge,
       pred_first_content_ns = Some 7, pred_provider_request_id = None\<rparr>"
  have "packet_stamp (JObj sample_packet) = sample_stamp" by (simp add: packet_stamp_def sample_packet_def jget_def)
  moreover have "new_prediction (plain_dumps (JObj sample_proposal)) zero_charge (Some 7) None = Inr ?p"
    by (simp add: new_prediction_Inr sample_proposal_object is_ns_def del: plain_dumps.simps)
  ultimately have r: "native_policy_infer (\<lambda>_. Inr (JObj sample_proposal)) 7 sample_native_job = Inr ?p"
    by (simp add: native_policy_infer_def lift_def sample_native_payload sample_packet_valid sample_result_valid
        sample_proposal_canonical del: plain_dumps.simps)
  from native_proposal_is_bound [OF r] r sample_native_payload show ?thesis by auto
qed

end
