(* ===== verification/Hosts.thy ===== *)
theory Hosts
  imports Http_Backend Clocks
begin

text \<open>
  The host adapters of \<^verbatim>\<open>src/src/agmina_runtime/adapters/hosts.py\<close>: jobs built from a StreamBudget request, an
  observation built from a camera frame, and the action chunk of a host-owned policy. The host's own
  objects are records with the fields the adapters read.
\<close>

section \<open>Source times\<close>

definition seconds_ns :: "json \<Rightarrow> int result" where
  "seconds_ns v =
     rbind (finite_number v) (\<lambda>ok.
       if \<not> ok \<or> (case v of JInt i \<Rightarrow> i < 0 | JFloat x \<Rightarrow> \<not> float_le (Dec 0 0) x | _ \<Rightarrow> True)
       then Inl (ValueError ''Finite nonnegative source time required'')
       else (case v of JFloat x \<Rightarrow> round_scaled x 1000000000 | JInt i \<Rightarrow> Inr (i * 1000000000) | _ \<Rightarrow> Inr 0))"

text \<open>\<^verbatim>\<open>str\<close> of a number, and \<^verbatim>\<open>f"{t:.6f}"\<close>: the float's exact value rounded to six decimals, ties to even.\<close>

definition str_number :: "json \<Rightarrow> string" where
  "str_number v = (case v of JInt i \<Rightarrow> int_repr i | JFloat x \<Rightarrow> float_repr x | _ \<Rightarrow> [])"

definition pad6 :: "string \<Rightarrow> string" where
  "pad6 s = replicate (6 - length s) (CHR ''0'') @ s"

definition fixed6 :: "json \<Rightarrow> string" where
  "fixed6 v =
     (case (case v of JInt i \<Rightarrow> round_double i 1 | JFloat (Dec m e) \<Rightarrow> round_double (m * 10 ^ nat e) (10 ^ nat (- e)) | _ \<Rightarrow> None) of
        None \<Rightarrow> ''inf''
      | Some (m, e) \<Rightarrow> (let q = round_div (m * 10 ^ 6 * 2 ^ nat e) (2 ^ nat (- e))
                     in int_repr (q div 10 ^ 6) @ ''.'' @ pad6 (int_repr (q mod 10 ^ 6))))"

section \<open>StreamBudget requests\<close>

text \<open>\<open>im_jpeg\<close> is \<open>None\<close> for anything but \<^verbatim>\<open>bytes\<close>.\<close>

record stream_image =
  im_evidence_id :: string
  im_timestamp :: json
  im_jpeg :: "string option"

record stream_request =
  sr_system :: string
  sr_text :: string
  sr_operation :: string
  sr_images :: "stream_image list"

definition jpeg_url :: "string \<Rightarrow> string" where
  "jpeg_url blob = ''data:image/jpeg;base64,'' @ b64encode blob"

definition text_item :: "string \<Rightarrow> json" where
  "text_item s = JObj [(''type'', JStr ''text''), (''text'', JStr s)]"

definition image_item :: "string \<Rightarrow> json" where
  "image_item blob =
     JObj [(''type'', JStr ''image_url''), (''image_url'', JObj [(''url'', JStr (jpeg_url blob)), (''detail'', JStr ''auto'')])]"

text \<open>One image: its observation and its two content items. The maps are the host's evidence store.\<close>

definition stream_evidence :: "(string \<Rightarrow> string) \<Rightarrow> session \<Rightarrow> clock_map \<Rightarrow> int \<Rightarrow> (string \<Rightarrow> int option) \<Rightarrow>
    (string \<Rightarrow> json option) \<Rightarrow> stream_image \<Rightarrow> (observation \<times> json list) result" where
  "stream_evidence sha s m now sequence_by_id available_by_id im =
     (case (available_by_id (im_evidence_id im), sequence_by_id (im_evidence_id im)) of
        (Some available_at, Some seq) \<Rightarrow>
          rbind (rbind (seconds_ns (im_timestamp im)) (\<lambda>t. map_clock m t (session_clock_id s) now)) (\<lambda>(capture, error).
          rbind (rbind (seconds_ns available_at) (\<lambda>t. map_clock m t (session_clock_id s) now)) (\<lambda>(available, _).
            case im_jpeg im of
              None \<Rightarrow> Inl (ValueError ''Original JPEG bytes required'')
            | Some blob \<Rightarrow>
                rbind (validate_observation \<lparr>obs_id = im_evidence_id im, obs_source = ''streambudget'', obs_sequence = seq,
                    obs_sha256 = sha blob, obs_capture_ns = capture, obs_available_ns = available,
                    obs_uncertainty_ns = error, obs_role = ROLE_CURRENT,
                    obs_source_time = Some (str_number (im_timestamp im))\<rparr>) (\<lambda>x.
                  Inr (x, [text_item (''Evidence '' @ im_evidence_id im @ ''; t='' @ fixed6 (im_timestamp im) @ ''s''),
                           image_item blob]))))
      | _ \<Rightarrow> Inl (ValueError ''Source availability/sequence must come from the host evidence store''))"

definition chat_body :: "string \<Rightarrow> json \<Rightarrow> json" where
  "chat_body sys content =
     JObj [(''messages'', JList [JObj [(''role'', JStr ''system''), (''content'', JStr sys)],
                                 JObj [(''role'', JStr ''user''), (''content'', content)]]),
           (''response_format'', JObj [(''type'', JStr ''json_object'')])]"

text \<open>What both converters pass to \<^verbatim>\<open>Job\<close>; the other fields take their defaults.\<close>

definition stream_job :: "session \<Rightarrow> string \<Rightarrow> workload \<Rightarrow> result_kind \<Rightarrow> observation list \<Rightarrow> int \<Rightarrow> int \<Rightarrow> int option \<Rightarrow> int \<Rightarrow>
    string \<Rightarrow> string \<Rightarrow> json \<Rightarrow> job result" where
  "stream_job s operation work kind observations snapshot deadline max_age max_uncertainty model jid body =
     rbind (canonical body) (\<lambda>text.
       validate_job \<lparr>job_id = jid, job_tenant = session_tenant s, job_session_id = session_id s, job_epoch = session_epoch s,
         job_task_revision = session_task_revision s, job_clock_id = session_clock_id s, job_model = model,
         job_operation = operation, job_workload = work, job_result_kind = kind, job_observations = observations,
         job_snapshot_ns = snapshot, job_deadline_ns = deadline, job_max_age_ns = max_age,
         job_max_uncertainty_ns = max_uncertainty, job_priority = 1, job_allowed_sites = [''local'', ''site'', ''cloud''],
         job_dependencies = [], job_payload_json = text, job_replace_key = None, job_discardable = False,
         job_cacheable = False\<rparr>)"

definition streambudget_job :: "(string \<Rightarrow> string) \<Rightarrow> stream_request \<Rightarrow> session \<Rightarrow> clock_map \<Rightarrow> int \<Rightarrow> int \<Rightarrow> int \<Rightarrow> string \<Rightarrow>
    string \<Rightarrow> (string \<Rightarrow> int option) \<Rightarrow> (string \<Rightarrow> json option) \<Rightarrow> result_kind \<Rightarrow> int option \<Rightarrow> job result" where
  "streambudget_job sha r s m now snapshot deadline model jid sequence_by_id available_by_id kind max_age =
     (if sr_images r = []
      then Inl (ValueError ''This evidence bridge requires images; use explicit text-evidence jobs otherwise'')
      else rbind (traverse (stream_evidence sha s m now sequence_by_id available_by_id) (sr_images r)) (\<lambda>ev.
        stream_job s (sr_operation r) SEMANTIC kind (map fst ev) snapshot deadline max_age (cm_error_ns m) model jid
          (chat_body (sr_system r) (JList (text_item (sr_text r) # concat (map snd ev))))))"

definition streambudget_text_job :: "stream_request \<Rightarrow> session \<Rightarrow> int \<Rightarrow> int \<Rightarrow> int \<Rightarrow> string \<Rightarrow> string \<Rightarrow> result_kind \<Rightarrow>
    job result" where
  "streambudget_text_job r s now snapshot deadline model jid kind =
     (if sr_images r \<noteq> [] then Inl (ValueError ''Text bridge does not accept image inputs; use streambudget_job'')
      else stream_job s (sr_operation r) QUERY kind [] snapshot deadline None 0 model jid
             (chat_body (sr_system r) (JStr (sr_text r))))"

section \<open>Camera frames\<close>

text \<open>\<open>fr_verify\<close> is the frame's own \<^verbatim>\<open>verify_bytes\<close>, \<open>fr_sim_time\<close> the printed form of its simulation time.\<close>

record frame_ref =
  fr_asset_id :: string
  fr_camera :: string
  fr_content_sha256 :: string
  fr_captured_wall :: json
  fr_available_wall :: json
  fr_sim_time :: string
  fr_verify :: "string \<Rightarrow> unit result"

definition physical_observation :: "frame_ref \<Rightarrow> string \<Rightarrow> int \<Rightarrow> clock_map \<Rightarrow> string \<Rightarrow> int \<Rightarrow> obs_role \<Rightarrow> observation result" where
  "physical_observation f blob seq m clock_id now role =
     rbind (fr_verify f blob) (\<lambda>_.
     rbind (rbind (seconds_ns (fr_captured_wall f)) (\<lambda>t. map_clock m t clock_id now)) (\<lambda>(capture, error).
     rbind (rbind (seconds_ns (fr_available_wall f)) (\<lambda>t. map_clock m t clock_id now)) (\<lambda>(available, _).
       validate_observation \<lparr>obs_id = fr_asset_id f, obs_source = fr_camera f, obs_sequence = seq,
         obs_sha256 = fr_content_sha256 f, obs_capture_ns = capture, obs_available_ns = available,
         obs_uncertainty_ns = error, obs_role = role, obs_source_time = Some (''sim:'' @ fr_sim_time f)\<rparr>)))"

section \<open>Action chunks\<close>

record action_chunk =
  ac_codec_revision :: string
  ac_action_names :: "string list"
  ac_units :: "string list"
  ac_period_ns :: int
  ac_normalized :: bool
  ac_actions :: "pyfloat list list"

definition chunk_fields_ok :: "action_chunk \<Rightarrow> bool" where
  "chunk_fields_ok c \<longleftrightarrow> is_name (ac_codec_revision c) \<and> list_all is_name (ac_action_names c) \<and>
     1 \<le> length (ac_action_names c) \<and> length (ac_action_names c) \<le> 128 \<and> 0 < ac_period_ns c \<and>
     1 \<le> length (ac_actions c) \<and> length (ac_actions c) \<le> 256"

definition validate_action_chunk :: "action_chunk \<Rightarrow> action_chunk result" where
  "validate_action_chunk c = guards
     [(\<not> chunk_fields_ok c, field_error),
      (\<not> distinct (ac_action_names c) \<or> length (ac_units c) \<noteq> length (ac_action_names c),
       ''Named axes and units must align uniquely''),
      (list_ex (\<lambda>u. u = [] \<or> 64 < length u) (ac_units c), ''Explicit units required''),
      (list_ex (\<lambda>row. length row \<noteq> length (ac_action_names c) \<or> list_ex (\<lambda>x. \<not> float_finite x) row) (ac_actions c),
       ''Finite rectangular action chunk required'')] c"

definition require_codec :: "action_chunk \<Rightarrow> string \<Rightarrow> string list \<Rightarrow> string list \<Rightarrow> int \<Rightarrow> bool \<Rightarrow> action_chunk result" where
  "require_codec c revision names units period normalized =
     (if (ac_codec_revision c, ac_action_names c, ac_units c, ac_period_ns c, ac_normalized c) \<noteq>
         (revision, names, units, period, normalized)
      then Inl (PermissionError ''Policy codec mismatch; do not coerce it into compatibility'') else Inr c)"

end
