(* ===== verification/Host_Facts.thy ===== *)
theory Host_Facts
  imports Hosts Json_Roundtrip Samples
begin

text \<open>
  The host adapters meet the chat adapter: what the bridge builds from a StreamBudget request passes
  the outbound checks of \<open>Backends\<close>, its images bound to the observations of the job.
\<close>

definition sorted_text :: "string \<Rightarrow> json" where
  "sorted_text s = JObj [(''text'', JStr s), (''type'', JStr ''text'')]"

definition sorted_image :: "string \<Rightarrow> json" where
  "sorted_image blob = JObj [(''image_url'', JObj [(''detail'', JStr ''auto''), (''url'', JStr (jpeg_url blob))]),
     (''type'', JStr ''image_url'')]"

definition sorted_body :: "string \<Rightarrow> json \<Rightarrow> (string \<times> json) list" where
  "sorted_body sys content =
     [(''messages'', JList [JObj [(''content'', JStr sys), (''role'', JStr ''system'')],
                            JObj [(''content'', content), (''role'', JStr ''user'')]]),
      (''response_format'', JObj [(''type'', JStr ''json_object'')])]"

lemma sort_text: "sort_keys (text_item s) = sorted_text s" "sort_keys (sorted_text s) = sorted_text s"
  by code_simp+

lemma sort_image: "sort_keys (image_item b) = sorted_image b" "sort_keys (sorted_image b) = sorted_image b"
  by code_simp+

lemma sort_body: "sort_keys (chat_body sys content) = JObj (sorted_body sys (sort_keys content))"
  "sort_keys (JObj (sorted_body sys content)) = JObj (sorted_body sys (sort_keys content))"
  by code_simp+

text \<open>The text of a plain value in key order is its own canonical form.\<close>

lemma payload_object_sorted:
  assumes "json_plain v" "sort_keys v = JObj kvs" "sort_keys (JObj kvs) = JObj kvs" "payload_object (json_dumps v) = Inr p"
  shows "strict_json payload_limit p = Inr kvs"
proof -
  have loads: "json_loads True (json_dumps v) = Inr (JObj kvs)" using json_loads_dumps [OF assms(1)] assms(2) by simp
  from assms(4) obtain kvs' where k: "strict_json payload_limit (json_dumps v) = Inr kvs'" "canonical (JObj kvs') = Inr p"
    by (auto simp: payload_object_def rbind_Inr_iff)
  from k(1) loads have "kvs' = kvs" by (simp add: strict_json_Inr_iff)
  with k(2) assms(2,3) have "p = json_dumps v" by (auto simp: canonical_def json_dumps_def split: if_splits)
  with k(1) \<open>kvs' = kvs\<close> show ?thesis by simp
qed

lemma evidence_parts:
  assumes "stream_evidence sha s m now seqs avail im = Inr (x, items)"
  shows "\<exists>blob label. im_jpeg im = Some blob \<and> obs_sha256 x = sha blob \<and> obs_id x = im_evidence_id im \<and>
    items = [text_item label, image_item blob]"
  using assms by (auto simp: stream_evidence_def rbind_Inr_iff validate_observation_def split: option.splits)

lemma image_blob_jpeg: "image_blob (jpeg_url blob) = Some blob"
  by (simp add: image_blob_def jpeg_url_def b64_round_trip)

lemma chat_item_text: "chat_item sha (sorted_text s) = Inr None"
  by (auto simp: chat_item_def sorted_text_def jget_def keys_are_def is_str_def)

lemma chat_item_jpeg:
  assumes "blob \<noteq> []" "int (length blob) \<le> 4000000"
  shows "chat_item sha (sorted_image blob) = Inr (Some (sha blob))"
proof -
  have "starts ''data:image/jpeg;base64,'' (jpeg_url blob)" by (simp add: jpeg_url_def starts_def)
  with assms show ?thesis
    by (auto simp: chat_item_def sorted_image_def jget_def keys_are_def image_prefixes_def image_blob_jpeg)
qed

lemma evidence_items:
  assumes "list_all2 (\<lambda>im (x, items). stream_evidence sha s m now seqs avail im = Inr (x, items)) ims ev"
    "\<forall>im \<in> set ims. \<forall>blob. im_jpeg im = Some blob \<longrightarrow> blob \<noteq> [] \<and> int (length blob) \<le> 4000000"
  shows "\<exists>hs. traverse (chat_item sha) (map sort_keys (concat (map snd ev))) = Inr hs \<and>
    concat (map (\<lambda>h. case h of None \<Rightarrow> [] | Some x \<Rightarrow> [x]) hs) = map (obs_sha256 \<circ> fst) ev \<and>
    list_all json_plain (concat (map snd ev)) \<and>
    map (sort_keys \<circ> sort_keys) (concat (map snd ev)) = map sort_keys (concat (map snd ev))"
  using assms
proof (induction ims ev rule: list_all2_induct)
  case (Cons im ims e ev)
  obtain x items where e: "e = (x, items)" by fastforce
  with Cons have "stream_evidence sha s m now seqs avail im = Inr (x, items)" by simp
  from evidence_parts [OF this] obtain blob label where b: "im_jpeg im = Some blob" "obs_sha256 x = sha blob"
    "items = [text_item label, image_item blob]" by blast
  with Cons.prems have "chat_item sha (sorted_image blob) = Inr (Some (sha blob))" by (intro chat_item_jpeg) auto
  moreover from Cons obtain hs where "traverse (chat_item sha) (map sort_keys (concat (map snd ev))) = Inr hs"
    "concat (map (\<lambda>h. case h of None \<Rightarrow> [] | Some x \<Rightarrow> [x]) hs) = map (obs_sha256 \<circ> fst) ev"
    "list_all json_plain (concat (map snd ev))"
    "map (sort_keys \<circ> sort_keys) (concat (map snd ev)) = map sort_keys (concat (map snd ev))" by auto
  moreover have "json_plain (text_item label)" "json_plain (image_item blob)" by (auto simp: text_item_def image_item_def)
  ultimately show ?case
    by (intro exI [of _ "None # Some (sha blob) # hs"]) (simp add: e b sort_text sort_image chat_item_text)
qed simp



text \<open>A request with one image.\<close>

definition sample_stream_image :: stream_image where
  "sample_stream_image = \<lparr>im_evidence_id = ''f1'', im_timestamp = JInt 2, im_jpeg = Some ''abc''\<rparr>"

definition sample_stream_request :: stream_request where
  "sample_stream_request = \<lparr>sr_system = ''sys'', sr_text = ''what'', sr_operation = ''vqa'', sr_images = [sample_stream_image]\<rparr>"

definition sample_stream_map :: clock_map where
  "sample_stream_map = \<lparr>cm_source = ''cam'', cm_target = ''clk'', cm_offset_ns = 10, cm_error_ns = 2, cm_valid_until_ns = 9000000000\<rparr>"

definition sample_stream_job :: "job result" where
  "sample_stream_job = streambudget_job (\<lambda>_. sample_sha) sample_stream_request sample_session sample_stream_map 20 4000000000 5000000000
     ''m'' ''j9'' (\<lambda>_. Some 1) (\<lambda>_. Some (JInt 3)) HISTORICAL None"
definition sample_stream_body :: json where
  "sample_stream_body = chat_body ''sys'' (JList [text_item ''what'', text_item ''Evidence f1; t=2.000000s'', image_item ''abc''])"

definition sample_stream_observation :: observation where
  "sample_stream_observation = \<lparr>obs_id = ''f1'', obs_source = ''streambudget'', obs_sequence = 1, obs_sha256 = sample_sha,
     obs_capture_ns = 2000000010, obs_available_ns = 3000000010, obs_uncertainty_ns = 2, obs_role = ROLE_CURRENT,
     obs_source_time = Some ''2''\<rparr>"

lemma sample_stream_observation_valid: "validate_observation sample_stream_observation = Inr sample_stream_observation"
  by (simp add: validate_observation_def sample_stream_observation_def sample_sha_def is_sha_def is_name_def is_alnum_def
      is_name_char_def is_ns_def is_hex_lower_def list_all_iff)

lemma sample_stream_text:
  "fixed6 (JInt 2) = ''2.000000''" "str_number (JInt 2) = ''2''" "seconds_ns (JInt 2) = Inr 2000000000"
  "seconds_ns (JInt 3) = Inr 3000000000"
proof -
  have zeros: "replicate 5 (CHR ''0'') = ''00000''" by (simp add: numeral_eq_Suc)
  have digits: "int_repr 2 = ''2''" "int_repr 0 = ''0''" by code_simp+
  have "round_double 2 1 = Some (4503599627370496, - 51)"
    by (simp add: round_double_def bit_len.simps round_div_def Let_def)
  then show "fixed6 (JInt 2) = ''2.000000''"
    by (simp add: fixed6_def round_div_def Let_def digits zeros pad6_def)
qed (code_simp, simp_all add: seconds_ns_def finite_number_def int_too_large_def)

lemma sample_stream_evidence:
  "stream_evidence (\<lambda>_. sample_sha) sample_session sample_stream_map 20 (\<lambda>_. Some 1) (\<lambda>_. Some (JInt 3)) sample_stream_image =
     Inr (sample_stream_observation, [text_item ''Evidence f1; t=2.000000s'', image_item ''abc''])"
  using sample_stream_observation_valid
  by (simp add: stream_evidence_def sample_stream_image_def sample_stream_text map_clock_def sample_session_def sample_stream_map_def
      Let_def sample_stream_observation_def)

lemma sample_stream_canonical: "canonical sample_stream_body = Inr (json_dumps sample_stream_body)"
  by code_simp

lemma sample_stream_payload: "\<exists>p. payload_object (json_dumps sample_stream_body) = Inr p"
proof -
  have plain: "json_plain sample_stream_body" by (simp add: sample_stream_body_def chat_body_def text_item_def image_item_def)
  obtain kvs where kvs: "sort_keys sample_stream_body = JObj kvs" by (simp add: sample_stream_body_def chat_body_def)
  have "json_depth (sort_keys sample_stream_body) \<le> 32" "int (utf8_len (json_dumps sample_stream_body)) \<le> payload_limit"
    by code_simp+
  moreover have "json_plain (JObj kvs)" using json_plain_sort_keys [OF plain] kvs by simp
  ultimately have "strict_json payload_limit (json_dumps sample_stream_body) = Inr kvs" "json_finite (JObj kvs)"
    using json_loads_dumps [OF plain, of True] json_plain_finite [of "JObj kvs"] kvs by (simp_all only: strict_json_Inr_iff simp_thms)
  then show ?thesis by (simp add: payload_object_def canonical_def del: json_finite.simps)
qed

lemma sample_stream_map_error: "cm_error_ns sample_stream_map = 2"
  by (simp add: sample_stream_map_def)

lemma sample_stream_ok: "is_ok sample_stream_job"
proof -
  from sample_stream_payload obtain p where "payload_object (json_dumps sample_stream_body) = Inr p" by blast
  then have "is_ok (stream_job sample_session ''vqa'' SEMANTIC HISTORICAL [sample_stream_observation] 4000000000 5000000000 None 2
      ''m'' ''j9'' sample_stream_body)"
    using sample_stream_observation_valid
    by (simp add: stream_job_def sample_stream_canonical validate_job_def job_fields_ok_def job_guards_def guards.simps Let_def
        sample_session_def is_name_def is_alnum_def is_name_char_def is_ns_def sample_stream_observation_def)
  then show ?thesis
    by (simp add: sample_stream_job_def streambudget_job_def sample_stream_request_def sample_stream_evidence
        sample_stream_body_def sample_stream_map_error)
qed


end
