(* ===== verification/Telemetry.thy ===== *)
theory Telemetry
  imports Coordinator Py_Text
begin

text \<open>
  The measurements of \<^verbatim>\<open>src/src/agmina_runtime/telemetry.py\<close>: \<^verbatim>\<open>summarize\<close>, one pass over the rows of the journal and
  one over its events, then the report of counts, totals and percentiles (\<open>Py_Text\<close>). A dictionary filled by
  \<^verbatim>\<open>setdefault\<close> or a \<^verbatim>\<open>Counter\<close> is an association list in the order of first insertion.
\<close>

record workload_tally =
  wt_offered :: int
  wt_usable :: int
  wt_consumed :: int

record group_times =
  gt_offered :: int
  gt_roundtrip :: "int list"
  gt_queue :: "int list"

record summary =
  sm_states :: "(string \<times> int) list"
  sm_workloads :: "(string \<times> workload_tally) list"
  sm_groups :: "(string \<times> group_times) list"
  sm_totals :: "(string \<times> int) list"
  sm_missing :: "(string \<times> int) list"
  sm_queue :: "int list"
  sm_roundtrip :: "int list"
  sm_first :: "int list"
  sm_completion :: "int list"

text \<open>Update the entry of a key, starting from a default that is inserted at the end.\<close>

definition alter :: "'a \<Rightarrow> ('a \<Rightarrow> 'a) \<Rightarrow> string \<Rightarrow> (string \<times> 'a) list \<Rightarrow> (string \<times> 'a) list" where
  "alter d f k xs = AList.update k (f (case map_of xs k of None \<Rightarrow> d | Some v \<Rightarrow> v)) xs"

definition usage_columns :: "(string \<times> (usage \<Rightarrow> int option)) list" where
  "usage_columns = [(''input_tokens'', input_tokens), (''output_tokens'', output_tokens),
     (''cached_input_tokens'', cached_input_tokens), (''reasoning_output_tokens'', reasoning_output_tokens)]"

definition zero_columns :: "(string \<times> int) list" where
  "zero_columns = map (\<lambda>(k, _). (k, 0)) usage_columns"

definition no_summary :: summary where
  "no_summary = \<lparr>sm_states = [], sm_workloads = [], sm_groups = [], sm_totals = zero_columns, sm_missing = zero_columns,
     sm_queue = [], sm_roundtrip = [], sm_first = [], sm_completion = []\<rparr>"

section \<open>One row\<close>

definition tally_workload :: "job_state \<Rightarrow> workload_tally \<Rightarrow> workload_tally" where
  "tally_workload st w =
     \<lparr>wt_offered = wt_offered w + 1, wt_usable = wt_usable w + (if st \<in> {SUCCEEDED, CONSUMED} then 1 else 0),
      wt_consumed = wt_consumed w + (if st = CONSUMED then 1 else 0)\<rparr>"

definition count_usage :: "receipt \<Rightarrow> summary \<Rightarrow> summary" where
  "count_usage r sm =
     fold (\<lambda>(k, column) sm.
       case (case rc_usage r of None \<Rightarrow> None | Some u \<Rightarrow> column u) of
         None \<Rightarrow> sm\<lparr>sm_missing := alter 0 (\<lambda>n. n + 1) k (sm_missing sm)\<rparr>
       | Some v \<Rightarrow> sm\<lparr>sm_totals := alter 0 (\<lambda>n. n + v) k (sm_totals sm)\<rparr>) usage_columns sm"

text \<open>The differences a receipt gives, \<open>[]\<close> where one of the instants is missing.\<close>

definition elapsed :: "int option \<Rightarrow> int option \<Rightarrow> int list" where
  "elapsed a b = (case (a, b) of (Some x, Some y) \<Rightarrow> [y - x] | _ \<Rightarrow> [])"

definition add_times :: "receipt \<Rightarrow> group_times \<Rightarrow> group_times" where
  "add_times r g =
     \<lparr>gt_offered = gt_offered g + 1, gt_roundtrip = gt_roundtrip g @ elapsed (rc_started_ns r) (rc_completed_ns r),
      gt_queue = gt_queue g @ elapsed (Some (rc_submitted_ns r)) (rc_started_ns r)\<rparr>"

definition group_names :: "job \<Rightarrow> receipt \<Rightarrow> string list" where
  "group_names j r =
     [''workload:'' @ workload_value (job_workload j),
      ''endpoint:'' @ (if truthy (rc_endpoint r) then the (rc_endpoint r) else ''not_dispatched'')]"

definition summarize_row :: "job \<times> receipt \<Rightarrow> summary \<Rightarrow> summary" where
  "summarize_row row sm =
     (let (j, r) = row;
          sm = sm\<lparr>sm_states := alter 0 (\<lambda>n. n + 1) (state_value (rc_state r)) (sm_states sm),
                  sm_workloads := alter \<lparr>wt_offered = 0, wt_usable = 0, wt_consumed = 0\<rparr> (tally_workload (rc_state r))
                    (workload_value (job_workload j)) (sm_workloads sm)\<rparr>;
          sm = (if rc_started_ns r \<noteq> None \<or> rc_cache_hit r then count_usage r sm else sm)
      in sm\<lparr>sm_groups := fold (alter \<lparr>gt_offered = 0, gt_roundtrip = [], gt_queue = []\<rparr> (add_times r)) (group_names j r) (sm_groups sm),
            sm_queue := sm_queue sm @ elapsed (Some (rc_submitted_ns r)) (rc_started_ns r),
            sm_completion := sm_completion sm @ elapsed (Some (rc_submitted_ns r)) (rc_completed_ns r),
            sm_roundtrip := sm_roundtrip sm @ elapsed (rc_started_ns r) (rc_completed_ns r),
            sm_first := sm_first sm @ elapsed (rc_started_ns r) (rc_first_content_ns r)\<rparr>)"

section \<open>The report\<close>

text \<open>The ages at consumption. An exported event is its columns overwritten by its metadata.\<close>

definition consumption_ages :: "event list \<Rightarrow> int list" where
  "consumption_ages evs =
     concat (map (\<lambda>e.
       if (case map_of (ev_metadata e) ''kind'' of None \<Rightarrow> JStr (ev_kind e) | Some k \<Rightarrow> k) = JStr ''consumed''
       then (case jget (ev_metadata e) ''max_current_age_ns'' of JInt i \<Rightarrow> [i] | _ \<Rightarrow> []) else []) evs)"

definition timing_json :: "int list \<Rightarrow> json" where
  "timing_json xs =
     JObj [(''n'', JInt (int (length xs))), (''p50_ns'', opt_json JInt (percentile xs 50)),
           (''p95_ns'', opt_json JInt (percentile xs 95)), (''p99_ns'', opt_json JInt (percentile xs 99)),
           (''max_ns'', opt_json JInt (max_opt xs))]"

definition group_json :: "int list \<Rightarrow> json" where
  "group_json xs =
     JObj [(''n'', JInt (int (length xs))), (''p50'', opt_json JInt (percentile xs 50)),
           (''p95'', opt_json JInt (percentile xs 95)), (''p99'', opt_json JInt (percentile xs 99))]"

definition counts_json :: "(string \<times> int) list \<Rightarrow> json" where
  "counts_json xs = JObj (map (\<lambda>(k, n). (k, JInt n)) xs)"

definition workload_json :: "workload_tally \<Rightarrow> json" where
  "workload_json w = JObj [(''offered'', JInt (wt_offered w)), (''usable_completion'', JInt (wt_usable w)),
     (''consumed'', JInt (wt_consumed w))]"

definition times_json :: "group_times \<Rightarrow> json" where
  "times_json g = JObj [(''offered'', JInt (gt_offered g)), (''roundtrip_ns'', group_json (gt_roundtrip g)),
     (''queue_ns'', group_json (gt_queue g))]"

definition budget_json :: "budget_report \<Rightarrow> json" where
  "budget_json b =
     JObj [(''campaign'', JStr (bc_campaign (b_cfg b))), (''max_attempts'', JInt (bc_max_attempts (b_cfg b))),
           (''max_microusd'', JInt (bc_max_microusd (b_cfg b))), (''attempts'', JInt (b_attempts b)),
           (''known_microusd'', JInt (b_known_microusd b)), (''held_microusd'', JInt (b_held_microusd b)),
           (''admission_total_microusd'', JInt (b_admission_total_microusd b)),
           (''unknown_attempts'', JInt (b_unknown_attempts b)), (''over_ceiling'', JBool (b_over_ceiling b)),
           (''note'', JStr ''Estimated inference admission only; GPU rental/energy and invoices are separate.'')]"

definition summary_notes :: "string list" where
  "summary_notes =
     [''Backend roundtrip includes unknown queue/network/compute/serialization components.'',
      ''Do not infer GPU time from HTTP latency or infer task success from a consumed result.'',
      ''All offered/rejected/expired work remains in the denominator.'',
      ''First content is not a complete valid decision; nonstreamed calls have no TTFT metric.'',
      ''Consumption age is measured at the coordinator, not after return-network delivery.'']"

definition summarize :: "runtime \<Rightarrow> json" where
  "summarize rt =
     (let rows = list_jobs (tenant_of rt) [] (rt_store rt);
          sm = fold summarize_row rows no_summary;
          ages = consumption_ages (export_events (rt_store rt))
      in JObj
        [(''kind'', JStr ''coordinator_measurements''), (''clock_id'', JStr (clock_id_of rt)),
         (''offered'', JInt (int (length rows))), (''states'', counts_json (sm_states sm)),
         (''by_workload'', JObj (map (\<lambda>(k, w). (k, workload_json w)) (sm_workloads sm))),
         (''timing'', JObj [(''queue'', timing_json (sm_queue sm)), (''backend_roundtrip'', timing_json (sm_roundtrip sm)),
            (''first_content'', timing_json (sm_first sm)), (''submit_to_completion'', timing_json (sm_completion sm)),
            (''observation_age_at_consumption'', timing_json ages)]),
         (''timing_groups'', JObj (map (\<lambda>(k, g). (k, times_json g)) (sm_groups sm))),
         (''tokens'', JObj [(''known_totals'', counts_json (sm_totals sm)),
            (''missing_attempt_counts'', counts_json (sm_missing sm)), (''reasoning_is_subset_of_output'', JBool True)]),
         (''cache_hits'', JInt (int (length (filter (\<lambda>(_, r). rc_cache_hit r) rows)))),
         (''budget'', budget_json (budget (rt_store rt))),
         (''quarantined_pools'', JList (map JStr (sort (quarantined (rt_store rt))))),
         (''gpu_seconds'', JNull), (''device_energy_joules'', JNull), (''physical_task_success'', JNull),
         (''semantic_quality'', JNull), (''notes'', JList (map JStr summary_notes))])"

section \<open>Nothing leaves the denominator\<close>

lemma state_value_inj [simp]: "state_value a = state_value b \<longleftrightarrow> a = b"
  by (cases a; cases b) simp_all

lemma map_of_alter: "map_of (alter d f k xs) k' =
    (if k' = k then Some (f (case map_of xs k of None \<Rightarrow> d | Some v \<Rightarrow> v)) else map_of xs k')"
  by (simp add: alter_def update_conv)

lemma fold_alter: "map_of (fold (\<lambda>x. alter d (f x) (key x)) ys xs) k =
    (case filter (\<lambda>x. key x = k) ys of [] \<Rightarrow> map_of xs k
     | zs \<Rightarrow> Some (fold f zs (case map_of xs k of None \<Rightarrow> d | Some v \<Rightarrow> v)))"
  by (induction ys arbitrary: xs) (auto simp: map_of_alter split: list.split)

lemma count_usage_keeps [simp]: "sm_states (count_usage r sm) = sm_states sm" "sm_workloads (count_usage r sm) = sm_workloads sm"
  by (simp_all add: count_usage_def usage_columns_def split: option.split)

lemma fold_summarize_row:
  "sm_states (fold summarize_row rows sm) = fold (\<lambda>row. alter 0 (\<lambda>n. n + 1) (state_value (rc_state (snd row)))) rows (sm_states sm)"
  "sm_workloads (fold summarize_row rows sm) = fold (\<lambda>row. alter \<lparr>wt_offered = 0, wt_usable = 0, wt_consumed = 0\<rparr>
     (tally_workload (rc_state (snd row))) (workload_value (job_workload (fst row)))) rows (sm_workloads sm)"
  by (induction rows arbitrary: sm) (auto simp: summarize_row_def Let_def)

lemma fold_count: "fold (\<lambda>x n. n + 1) xs (n :: int) = n + int (length xs)"
  by (induction xs arbitrary: n) auto

lemma fold_tally: "fold (\<lambda>row. tally_workload (rc_state (snd row))) rows w =
    \<lparr>wt_offered = wt_offered w + int (length rows),
     wt_usable = wt_usable w + int (length (filter (\<lambda>row. rc_state (snd row) \<in> {SUCCEEDED, CONSUMED}) rows)),
     wt_consumed = wt_consumed w + int (length (filter (\<lambda>row. rc_state (snd row) = CONSUMED) rows))\<rparr>"
  by (induction rows arbitrary: w) (auto simp: tally_workload_def)

text \<open>Nothing leaves the denominator: the summary offers every row of the journal, and for each state and each workload
  its counts are exactly the numbers of rows in that state, of that workload, usable and consumed, whatever became
  of them; a state or workload without rows has no entry.\<close>

theorem summary_counts_every_row:
  "\<exists>kvs states tallies. summarize rt = JObj kvs \<and>
     (let rows = list_jobs (tenant_of rt) [] (rt_store rt) in
      jget kvs ''offered'' = JInt (int (length rows)) \<and> jget kvs ''states'' = counts_json states \<and>
      jget kvs ''by_workload'' = JObj (map (\<lambda>(k, w). (k, workload_json w)) tallies) \<and>
      (\<forall>st. map_of states (state_value st) = (let n = length (filter (\<lambda>row. rc_state (snd row) = st) rows)
         in if n = 0 then None else Some (int n))) \<and>
      (\<forall>w. map_of tallies (workload_value w) = (let own = filter (\<lambda>row. job_workload (fst row) = w) rows
         in if own = [] then None
            else Some \<lparr>wt_offered = int (length own),
              wt_usable = int (length (filter (\<lambda>row. rc_state (snd row) \<in> {SUCCEEDED, CONSUMED}) own)),
              wt_consumed = int (length (filter (\<lambda>row. rc_state (snd row) = CONSUMED) own))\<rparr>)))"
proof -
  let ?rows = "list_jobs (tenant_of rt) [] (rt_store rt)"
  let ?sm = "fold summarize_row ?rows no_summary"
  have states: "map_of (sm_states ?sm) (state_value st) = (let n = length (filter (\<lambda>row. rc_state (snd row) = st) ?rows)
      in if n = 0 then None else Some (int n))" for st
    unfolding fold_summarize_row fold_alter
    by (cases "filter (\<lambda>row. rc_state (snd row) = st) ?rows") (simp_all add: no_summary_def fold_count Let_def)
  have tallies: "map_of (sm_workloads ?sm) (workload_value w) = (let own = filter (\<lambda>row. job_workload (fst row) = w) ?rows
         in if own = [] then None
            else Some \<lparr>wt_offered = int (length own),
              wt_usable = int (length (filter (\<lambda>row. rc_state (snd row) \<in> {SUCCEEDED, CONSUMED}) own)),
              wt_consumed = int (length (filter (\<lambda>row. rc_state (snd row) = CONSUMED) own))\<rparr>)" for w
    unfolding fold_summarize_row fold_alter fold_tally
    by (cases "filter (\<lambda>row. job_workload (fst row) = w) ?rows") (simp_all add: no_summary_def Let_def)
  show ?thesis
    using states tallies
    by (intro exI [of _ "case summarize rt of JObj kvs \<Rightarrow> kvs | _ \<Rightarrow> []"] exI [of _ "sm_states ?sm"] exI [of _ "sm_workloads ?sm"])
      (simp add: summarize_def Let_def jget_def)
qed

end
