(* ===== verification/Server.thy ===== *)
theory Server
  imports Telemetry Backends Wire Delivery
begin

text \<open>
  The sidecar of \<^verbatim>\<open>src/src/agmina_runtime/server.py\<close>: the bounded body, the bearer token, the mapping of errors to
  statuses and the nine routes, each of which calls one operation of \<open>Coordinator\<close>. What the web framework
  answers by itself (no such route, wrong method, a missing query parameter) is a parameter, and so is the
  text SQLite makes of a float that is compared with an ID column.
\<close>

record sidecar =
  sc_token :: string
  sc_framework :: "http_request \<Rightarrow> http_response"
  sc_float_text :: "pyfloat \<Rightarrow> string"

definition create_app :: "string \<Rightarrow> (http_request \<Rightarrow> http_response) \<Rightarrow> (pyfloat \<Rightarrow> string) \<Rightarrow> sidecar result" where
  "create_app token framework float_text =
     (if length token < 24 then Inl (ValueError ''Supply a high-entropy bearer token of at least 24 characters'')
      else Inr \<lparr>sc_token = token, sc_framework = framework, sc_float_text = float_text\<rparr>)"

section \<open>The bounded body\<close>

datatype asgi_event = Request_Part string bool | Disconnect | Other_Event

datatype received = Complete string | Too_Large | Gone | Pending

text \<open>\<open>Pending\<close>: the events so far end before the body does.\<close>

fun receive_body :: "int \<Rightarrow> int \<Rightarrow> string list \<Rightarrow> asgi_event list \<Rightarrow> received" where
  "receive_body limit seen chunks [] = Pending"
| "receive_body limit seen chunks (Disconnect # evs) = Gone"
| "receive_body limit seen chunks (Other_Event # evs) = receive_body limit seen chunks evs"
| "receive_body limit seen chunks (Request_Part body again # evs) =
     (let seen = seen + int (length body) in
      if limit < seen then Too_Large
      else if again then receive_body limit seen (chunks @ [body]) evs
      else Complete (concat (chunks @ [body])))"

definition body_limit :: int where
  "body_limit = 9000000"

text \<open>The events a request is sent as: every part but the last announces more.\<close>

fun request_events :: "string list \<Rightarrow> asgi_event list" where
  "request_events [] = [Request_Part [] False]"
| "request_events [c] = [Request_Part c False]"
| "request_events (c # cs) = Request_Part c True # request_events cs"

section \<open>Errors\<close>

definition error_body :: "string \<Rightarrow> json" where
  "error_body msg = JObj [(''error'', JStr msg)]"

text \<open>\<^verbatim>\<open>safe_error\<close>: a decoding or JSON error is a \<^verbatim>\<open>ValueError\<close>.\<close>

definition safe_error :: "py_error \<Rightarrow> http_response" where
  "safe_error e = (case e of
     ValueError _ \<Rightarrow> \<lparr>rs_status = 422, rs_body = error_body ''invalid_contract''\<rparr>
   | JSONDecodeError _ \<Rightarrow> \<lparr>rs_status = 422, rs_body = error_body ''invalid_contract''\<rparr>
   | UnicodeError _ \<Rightarrow> \<lparr>rs_status = 422, rs_body = error_body ''invalid_contract''\<rparr>
   | PermissionError _ \<Rightarrow> \<lparr>rs_status = 409, rs_body = error_body ''admission_denied''\<rparr>
   | KeyError _ \<Rightarrow> \<lparr>rs_status = 404, rs_body = error_body ''not_found''\<rparr>
   | _ \<Rightarrow> \<lparr>rs_status = 500, rs_body = error_body ''internal_error''\<rparr>)"

definition respond :: "json result \<times> runtime \<Rightarrow> http_response \<times> runtime" where
  "respond out = (case out of (Inl e, rt) \<Rightarrow> (safe_error e, rt) | (Inr v, rt) \<Rightarrow> (\<lparr>rs_status = 200, rs_body = v\<rparr>, rt))"

definition encode :: "('a \<Rightarrow> json) \<Rightarrow> 'a result \<times> runtime \<Rightarrow> json result \<times> runtime" where
  "encode f out = (case out of (r, rt) \<Rightarrow> (rbind r (\<lambda>x. Inr (f x)), rt))"

section \<open>Arguments\<close>

definition request_obj :: "string list \<Rightarrow> string \<Rightarrow> (string \<times> json) list result" where
  "request_obj names raw =
     rbind (utf8_decode raw) (\<lambda>s. rbind (strict_json 8192 s) (\<lambda>data.
       if keys_are names data then Inr data else Inl (ValueError ''Unexpected API fields'')))"

text \<open>
  The handlers pass any JSON value on as an ID. SQLite compares it with a text column as the text of the
  number; null equals nothing; a list or an object cannot be bound (\<^verbatim>\<open>sqlite3.ProgrammingError\<close>, an error
  without a status of its own, here a \<open>RuntimeError\<close>).
\<close>

definition text_key :: "sidecar \<Rightarrow> json \<Rightarrow> string option result" where
  "text_key sc v = (case v of
     JStr s \<Rightarrow> Inr (Some s)
   | JInt i \<Rightarrow> if - (2 ^ 63) \<le> i \<and> i < 2 ^ 63 then Inr (Some (int_repr i))
              else Inl (OverflowError ''Python int too large to convert to SQLite INTEGER'')
   | JBool b \<Rightarrow> Inr (Some (if b then ''1'' else ''0''))
   | JFloat x \<Rightarrow> Inr (Some (sc_float_text sc x))
   | JNull \<Rightarrow> Inr None
   | _ \<Rightarrow> Inl (RuntimeError ''type is not supported''))"

text \<open>A name the contract refuses, whatever it was: the empty name is refused at the same place.\<close>

definition name_or_empty :: "json \<Rightarrow> string" where
  "name_or_empty v = (case v of JStr s \<Rightarrow> s | _ \<Rightarrow> [])"

section \<open>Sessions\<close>

definition session_json :: "session \<Rightarrow> json" where
  "session_json s = JObj (session_fields s)"

definition serve_open :: "sidecar \<Rightarrow> (string \<times> json) list \<Rightarrow> runtime \<Rightarrow> session result \<times> runtime" where
  "serve_open sc data rt =
     (case text_key sc (jget data ''id'') of
        Inl e \<Rightarrow> (Inl e, snd (read_now rt))
      | Inr key \<Rightarrow>
          (case (jget data ''id'', jget data ''task_revision'') of
             (JStr sid, JStr revision) \<Rightarrow> open_session sid revision rt
           | _ \<Rightarrow>
             (Inl (case key of
                 None \<Rightarrow> ValueError field_error
               | Some k \<Rightarrow> (case get_session (tenant_of rt) k (rt_store rt) of
                   Inr s \<Rightarrow> if session_state s = ACTIVE then PermissionError ''Session already active; advance it explicitly''
                            else ValueError field_error
                 | Inl _ \<Rightarrow> ValueError field_error)), snd (read_now rt))))"

definition serve_advance :: "sidecar \<Rightarrow> (string \<times> json) list \<Rightarrow> runtime \<Rightarrow> session result \<times> runtime" where
  "serve_advance sc data rt =
     (case (jget data ''expected_epoch'', jget data ''close'') of
        (JInt epoch, JBool close) \<Rightarrow>
          (case text_key sc (jget data ''id'') of
             Inl e \<Rightarrow> (Inl e, rt)
           | Inr None \<Rightarrow> (Inl (KeyError ''Unknown session''), rt)
           | Inr (Some sid) \<Rightarrow> advance_session sid epoch (name_or_empty (jget data ''task_revision'')) close rt)
      | _ \<Rightarrow> (Inl (ValueError ''Invalid compare-and-swap arguments''), rt))"

text \<open>The event of a heartbeat keeps the ID as it was given.\<close>

definition relabel_last :: "json \<Rightarrow> runtime \<Rightarrow> runtime" where
  "relabel_last v = on_store (\<lambda>st. st\<lparr>st_events := (case rev (st_events st) of [] \<Rightarrow> []
     | e # es \<Rightarrow> rev es @ [e\<lparr>ev_metadata := AList.update ''session_id'' v (ev_metadata e)\<rparr>])\<rparr>)"

definition int_or_null :: "json \<Rightarrow> int option option" where
  "int_or_null v = (case v of JNull \<Rightarrow> Some None | JInt i \<Rightarrow> Some (Some i) | _ \<Rightarrow> None)"

definition serve_heartbeat :: "sidecar \<Rightarrow> (string \<times> json) list \<Rightarrow> runtime \<Rightarrow> session result \<times> runtime" where
  "serve_heartbeat sc data rt =
     (case (jget data ''expected_epoch'', int_or_null (jget data ''buffer_until_ns'')) of
        (JInt epoch, Some buffer) \<Rightarrow>
          (case text_key sc (jget data ''id'') of
             Inl e \<Rightarrow> (Inl e, rt)
           | Inr None \<Rightarrow> (Inl (KeyError ''Unknown session''), rt)
           | Inr (Some sid) \<Rightarrow>
               (case heartbeat sid epoch buffer rt of
                  (Inl e, rt) \<Rightarrow> (Inl e, rt) | (Inr s, rt) \<Rightarrow> (Inr s, relabel_last (jget data ''id'') rt)))
      | _ \<Rightarrow> (Inl (ValueError ''Invalid heartbeat''), rt))"

section \<open>Jobs\<close>

text \<open>\<^verbatim>\<open>model_dump(mode="json", exclude={"prediction_json"})\<close>.\<close>

definition receipt_json :: "receipt \<Rightarrow> json" where
  "receipt_json r = JObj (filter (\<lambda>kv. fst kv \<noteq> ''prediction_json'') (receipt_fields r))"

definition serve_submit :: "string \<Rightarrow> runtime \<Rightarrow> receipt result \<times> runtime" where
  "serve_submit raw rt =
     (case rbind (utf8_decode raw) (\<lambda>s. rbind (strict_json body_limit s) (\<lambda>data. job_of_json (JObj data))) of
        Inl e \<Rightarrow> (Inl e, rt) | Inr j \<Rightarrow> submit j rt)"

definition serve_consume :: "sidecar \<Rightarrow> (string \<times> json) list \<Rightarrow> runtime \<Rightarrow> receipt result \<times> runtime" where
  "serve_consume sc data rt =
     (case text_key sc (jget data ''job_id'') of
        Inl e \<Rightarrow> (Inl e, rt)
      | Inr None \<Rightarrow> (Inl (KeyError ''Unknown job''), rt)
      | Inr (Some jid) \<Rightarrow> consume jid (name_or_empty (jget data ''consumer_id'')) rt)"

definition serve_cancel :: "sidecar \<Rightarrow> (string \<times> json) list \<Rightarrow> runtime \<Rightarrow> receipt result \<times> runtime" where
  "serve_cancel sc data rt =
     (case text_key sc (jget data ''job_id'') of
        Inl e \<Rightarrow> (Inl e, rt)
      | Inr None \<Rightarrow> (Inl (KeyError ''Unknown job''), rt)
      | Inr (Some jid) \<Rightarrow> cancel jid rt)"

section \<open>Routes\<close>

definition clock_reply :: "runtime \<Rightarrow> json \<times> runtime" where
  "clock_reply rt =
     (let (now, rt) = read_now rt in
      (JObj [(''clock_id'', JStr (clock_id_of rt)), (''now_ns'', JInt now), (''tenant'', JStr (tenant_of rt)),
             (''remote_clock_mapping_required'', JBool True)], rt))"

text \<open>A handler that reads its fields from the body.\<close>

definition with_obj :: "string list \<Rightarrow> string \<Rightarrow> ((string \<times> json) list \<Rightarrow> runtime \<Rightarrow> 'a result \<times> runtime) \<Rightarrow> runtime \<Rightarrow>
    'a result \<times> runtime" where
  "with_obj names raw f rt = (case request_obj names raw of Inl e \<Rightarrow> (Inl e, rt) | Inr data \<Rightarrow> f data rt)"

definition route :: "sidecar \<Rightarrow> http_request \<Rightarrow> string \<Rightarrow> runtime \<Rightarrow> http_response \<times> runtime" where
  "route sc rq raw rt =
     (let at = (rq_method rq, rq_path rq) in
      if at = (''GET'', ''/v1/clock'') then (let (v, rt) = clock_reply rt in respond (Inr v, rt))
      else if at = (''POST'', ''/v1/sessions'') then
        respond (encode session_json (with_obj [''id'', ''task_revision''] raw (serve_open sc) rt))
      else if at = (''POST'', ''/v1/sessions/advance'') then
        respond (encode session_json (with_obj [''id'', ''expected_epoch'', ''task_revision'', ''close''] raw (serve_advance sc) rt))
      else if at = (''POST'', ''/v1/sessions/heartbeat'') then
        respond (encode session_json (with_obj [''id'', ''expected_epoch'', ''buffer_until_ns''] raw (serve_heartbeat sc) rt))
      else if at = (''POST'', ''/v1/jobs'') then respond (encode receipt_json (serve_submit raw rt))
      else if at = (''GET'', ''/v1/result'') then
        (case map_of (rev (rq_query rq)) ''id'' of
           None \<Rightarrow> (sc_framework sc rq, rt)
         | Some jid \<Rightarrow> respond (encode receipt_json (job_result jid rt, rt)))
      else if at = (''POST'', ''/v1/consume'') then
        respond (encode (\<lambda>r. JObj (receipt_fields r)) (with_obj [''job_id'', ''consumer_id''] raw (serve_consume sc) rt))
      else if at = (''POST'', ''/v1/cancel'') then
        respond (encode receipt_json (with_obj [''job_id''] raw (serve_cancel sc) rt))
      else if at = (''GET'', ''/v1/metrics'') then respond (Inr (summarize rt), rt)
      else (sc_framework sc rq, rt))"

section \<open>Authentication, and the whole application\<close>

definition is_ascii :: "string \<Rightarrow> bool" where
  "is_ascii s = list_all (\<lambda>c. (of_char c :: nat) < 128) s"

text \<open>\<^verbatim>\<open>hmac.compare_digest\<close> takes ASCII strings only.\<close>

definition compare_digest :: "string \<Rightarrow> string \<Rightarrow> bool result" where
  "compare_digest a b =
     (if is_ascii a \<and> is_ascii b then Inr (a = b)
      else Inl (TypeError ''comparing strings with non-ASCII characters is not supported''))"

definition authenticate :: "sidecar \<Rightarrow> http_request \<Rightarrow> string \<Rightarrow> runtime \<Rightarrow> http_response \<times> runtime" where
  "authenticate sc rq raw rt =
     (case compare_digest (rq_auth rq) (''Bearer '' @ sc_token sc) of
        Inl e \<Rightarrow> (safe_error e, rt)
      | Inr same \<Rightarrow> if \<not> same then (\<lparr>rs_status = 401, rs_body = error_body ''unauthorized''\<rparr>, rt) else route sc rq raw rt)"

text \<open>The response to a request that arrives as \<open>evs\<close>; none when the peer is gone or the body unfinished.\<close>

definition serve_events :: "sidecar \<Rightarrow> http_request \<Rightarrow> asgi_event list \<Rightarrow> runtime \<Rightarrow> http_response option \<times> runtime" where
  "serve_events sc rq evs rt =
     (case receive_body body_limit 0 [] evs of
        Complete raw \<Rightarrow> (let (r, rt) = authenticate sc rq raw rt in (Some r, rt))
      | Too_Large \<Rightarrow> (Some \<lparr>rs_status = 413, rs_body = error_body ''request_body_limit''\<rparr>, rt)
      | _ \<Rightarrow> (None, rt))"

definition serve :: "sidecar \<Rightarrow> http_request \<Rightarrow> runtime \<Rightarrow> http_response option \<times> runtime" where
  "serve sc rq rt = serve_events sc rq (request_events (rq_chunks rq)) rt"

end
