(* ===== verification/Server_Facts.thy ===== *)
theory Server_Facts
  imports Server Core_Properties Sample_Run
begin

text \<open>
  What the sidecar promises: nothing is done for a request that is too large or does not carry the token,
  and a client's call is the coordinator's operation, its outcome and its error included.
\<close>

section \<open>Nothing without the token and the bound\<close>

lemma receive_body_Complete:
  "receive_body limit seen chunks evs = Complete raw \<Longrightarrow> seen = int (length (concat chunks)) \<Longrightarrow> int (length raw) \<le> limit"
  by (induction limit seen chunks evs rule: receive_body.induct) (auto simp: Let_def split: if_splits)

lemma receive_request: "int (length (concat cs)) \<le> limit - int (length (concat chunks)) \<Longrightarrow>
    receive_body limit (int (length (concat chunks))) chunks (request_events cs) = Complete (concat chunks @ concat cs)"
proof (induction cs arbitrary: chunks rule: request_events.induct)
  case (3 c d ds)
  have "receive_body limit (int (length (concat (chunks @ [c])))) (chunks @ [c]) (request_events (d # ds)) =
      Complete (concat (chunks @ [c]) @ concat (d # ds))" using "3.prems" by (intro "3.IH") simp
  with "3.prems" show ?case by (simp add: Let_def)
qed (simp_all add: Let_def)

text \<open>C35: nothing is done, and nothing but a refusal is answered, for a request that does not carry exactly the bearer token or
  whose body is unfinished or beyond the bound: if the coordinator changed, or the status is not one of 401, 413
  and 500, then the whole body arrived within nine million bytes and the authorisation was the token's.\<close>

theorem refused_without_token:
  assumes "serve_events sc rq evs rt = (resp, rt')"
    "rt' \<noteq> rt \<or> (\<exists>r. resp = Some r \<and> rs_status r \<notin> {401, 413, 500})"
  shows "rq_auth rq = ''Bearer '' @ sc_token sc \<and> is_ascii (rq_auth rq) \<and>
    (\<exists>raw r. receive_body body_limit 0 [] evs = Complete raw \<and> int (length raw) \<le> body_limit \<and>
       route sc rq raw rt = (r, rt') \<and> resp = Some r)"
proof -
  have bad: "rs_status (safe_error (TypeError m)) = 500" for m by (simp add: safe_error_def)
  show ?thesis
  proof (cases "receive_body body_limit 0 [] evs")
    case (Complete raw)
    with receive_body_Complete [OF Complete] assms bad show ?thesis
      by (auto simp: serve_events_def authenticate_def compare_digest_def split: prod.splits if_splits)
  qed (use assms in \<open>auto simp: serve_events_def\<close>)
qed

section \<open>A client's call is the coordinator's operation\<close>

definition carries :: "(json \<Rightarrow> string) \<Rightarrow> int \<Rightarrow> (string \<times> json) list \<Rightarrow> bool" where
  "carries enc limit kvs \<longleftrightarrow> int (length (enc (JObj kvs))) \<le> body_limit \<and>
     rbind (utf8_decode (enc (JObj kvs))) (strict_json limit) = Inr kvs"

definition answered :: "('a \<Rightarrow> json) \<Rightarrow> 'a result \<times> runtime \<Rightarrow> http_response option \<times> runtime" where
  "answered f out = (case out of (Inl e, rt) \<Rightarrow> (Some (safe_error e), rt)
     | (Inr x, rt) \<Rightarrow> (Some \<lparr>rs_status = 200, rs_body = f x\<rparr>, rt))"

lemma serve_authorised:
  assumes "is_ascii (sc_token sc)" "rq_auth rq = ''Bearer '' @ sc_token sc" "int (length (concat (rq_chunks rq))) \<le> body_limit"
  shows "serve sc rq rt = (let (r, rt) = route sc rq (concat (rq_chunks rq)) rt in (Some r, rt))"
proof -
  have "receive_body body_limit 0 [] (request_events (rq_chunks rq)) = Complete (concat (rq_chunks rq))"
    using receive_request [of "rq_chunks rq" body_limit "[]"] assms(3) by simp
  moreover have "is_ascii (''Bearer '' @ sc_token sc)" using assms(1) by (simp add: is_ascii_def)
  ultimately show ?thesis using assms(2) by (simp add: serve_def serve_events_def authenticate_def compare_digest_def)
qed

lemma respond_encode: "(let (r, rt) = respond (encode f out) in (Some r, rt)) = answered f out"
  by (auto simp: respond_def encode_def answered_def split: prod.splits sum.splits)

lemma request_obj_carries: "carries enc 8192 kvs \<Longrightarrow> keys_are names kvs \<Longrightarrow> request_obj names (enc (JObj kvs)) = Inr kvs"
  by (auto simp: carries_def request_obj_def rbind_Inr_iff)

lemma receipt_json_wire:
  assumes "validate_receipt r = Inr r"
  shows "receipt_of_json (receipt_json r) = Inr (r\<lparr>rc_prediction_json := None\<rparr>)"
proof -
  have "opt_all (\<lambda>u. is_ok (validate_usage u)) (rc_usage r)" using assms by (simp add: validate_receipt_def)
  with assms show ?thesis
    by (cases r) (simp add: receipt_of_json_def receipt_json_def receipt_fields_def object_of_def field_def field_or_def validate_receipt_def)
qed

text \<open>C36: the sidecar adds nothing to and takes nothing from the coordinator: a client that holds the token and whose texts the
  server's reader takes back as they were (\<open>carries\<close>) gets for each call exactly what the operation of the
  coordinator gives, on the same state: its value as JSON with status 200, or its error's status.\<close>

theorem call_is_operation:
  assumes "is_ascii (sc_token sc)" "auth = ''Bearer '' @ sc_token sc" "validate_job j = Inr j"
    "carries enc body_limit (job_fields j)" "carries enc 8192 [(''id'', JStr sid), (''task_revision'', JStr revision)]"
    "carries enc 8192 [(''job_id'', JStr jid), (''consumer_id'', JStr consumer)]" "carries enc 8192 [(''job_id'', JStr jid)]"
  shows "serve sc (client_open_session enc auth sid revision) rt = answered session_json (open_session sid revision rt) \<and>
    serve sc (client_submit enc auth j) rt = answered receipt_json (submit j rt) \<and>
    serve sc (client_result auth jid) rt = answered receipt_json (job_result jid rt, rt) \<and>
    serve sc (client_consume enc auth jid consumer) rt = answered (\<lambda>r. JObj (receipt_fields r)) (consume jid consumer rt) \<and>
    serve sc (client_cancel enc auth jid) rt = answered receipt_json (cancel jid rt)"
proof (intro conjI)
  have fits: "int (length (enc (JObj kvs))) \<le> body_limit" if "carries enc n kvs" for n kvs
    using that by (simp add: carries_def)
  have call: "serve sc (post_request auth path (enc (JObj kvs))) rt =
      (let (r, rt) = route sc (post_request auth path (enc (JObj kvs))) (enc (JObj kvs)) rt in (Some r, rt))"
    if "carries enc n kvs" for path n kvs
    using serve_authorised [OF assms(1), of "post_request auth path (enc (JObj kvs))"] assms(2) fits [OF that]
    by (simp add: post_request_def)
  show "serve sc (client_open_session enc auth sid revision) rt = answered session_json (open_session sid revision rt)"
    using request_obj_carries [OF assms(5), of "[''id'', ''task_revision'']"]
    unfolding client_open_session_def call [OF assms(5)]
    by (simp add: route_def post_request_def respond_encode with_obj_def keys_are_def serve_open_def jget_def text_key_def)
  show "serve sc (client_submit enc auth j) rt = answered receipt_json (submit j rt)"
  proof -
    from assms(4) have "rbind (utf8_decode (enc (JObj (job_fields j)))) (\<lambda>s. rbind (strict_json body_limit s) (\<lambda>data. job_of_json (JObj data))) = Inr j"
      using job_wire [OF assms(3)] by (auto simp: carries_def rbind_Inr_iff)
    then show ?thesis unfolding client_submit_def call [OF assms(4)]
      by (simp add: route_def post_request_def respond_encode serve_submit_def)
  qed
  show "serve sc (client_result auth jid) rt = answered receipt_json (job_result jid rt, rt)"
    using serve_authorised [OF assms(1), of "client_result auth jid"] assms(2)
    by (simp add: client_result_def get_request_def route_def respond_encode body_limit_def)
  show "serve sc (client_consume enc auth jid consumer) rt = answered (\<lambda>r. JObj (receipt_fields r)) (consume jid consumer rt)"
    using request_obj_carries [OF assms(6), of "[''job_id'', ''consumer_id'']"]
    unfolding client_consume_def call [OF assms(6)]
    by (simp add: route_def post_request_def respond_encode with_obj_def keys_are_def serve_consume_def jget_def text_key_def name_or_empty_def)
  show "serve sc (client_cancel enc auth jid) rt = answered receipt_json (cancel jid rt)"
    using request_obj_carries [OF assms(7), of "[''job_id'']"]
    unfolding client_cancel_def call [OF assms(7)]
    by (simp add: route_def post_request_def respond_encode with_obj_def keys_are_def serve_cancel_def jget_def text_key_def)
qed

section \<open>Instances\<close>

definition sample_sidecar :: sidecar where
  "sample_sidecar = \<lparr>sc_token = ''a-token-of-enough-entropy'', sc_framework = (\<lambda>_. \<lparr>rs_status = 404, rs_body = JNull\<rparr>),
     sc_float_text = float_repr\<rparr>"

definition sample_auth :: string where
  "sample_auth = ''Bearer '' @ sc_token sample_sidecar"

text \<open>A client that writes compact JSON in UTF-8.\<close>

definition sample_enc :: "json \<Rightarrow> string" where
  "sample_enc v = utf8_encode (plain_dumps v)"

lemma length_utf8_encode: "length (utf8_encode s) = utf8_len s"
  by (induction s) (auto simp: utf8_encode_def utf8_len_def Let_def)

lemma carries_plain:
  assumes "json_plain (JObj kvs)" "json_depth (JObj kvs) \<le> 32" "int (utf8_len (plain_dumps (JObj kvs))) \<le> limit" "limit \<le> body_limit"
  shows "carries sample_enc limit kvs"
  using assms json_loads_plain [OF assms(1), of True] json_plain_finite [OF assms(1)]
  by (simp add: carries_def sample_enc_def utf8_round_trip length_utf8_encode strict_json_Inr_iff del: plain_dumps.simps)

lemma sample_carries: "carries sample_enc 8192 [(''id'', JStr ''s''), (''task_revision'', JStr ''r0'')]"
  "carries sample_enc 8192 [(''job_id'', JStr ''j1''), (''consumer_id'', JStr ''c'')]"
  "carries sample_enc 8192 [(''job_id'', JStr ''j1'')]"
proof -
  have len: "int (utf8_len (plain_dumps (JObj [(''id'', JStr ''s''), (''task_revision'', JStr ''r0'')]))) \<le> 8192"
    "int (utf8_len (plain_dumps (JObj [(''job_id'', JStr ''j1''), (''consumer_id'', JStr ''c'')]))) \<le> 8192"
    "int (utf8_len (plain_dumps (JObj [(''job_id'', JStr ''j1'')]))) \<le> 8192" by code_simp+
  show "carries sample_enc 8192 [(''id'', JStr ''s''), (''task_revision'', JStr ''r0'')]"
    by (rule carries_plain [OF _ _ len(1)]) (simp_all add: body_limit_def)
  show "carries sample_enc 8192 [(''job_id'', JStr ''j1''), (''consumer_id'', JStr ''c'')]"
    by (rule carries_plain [OF _ _ len(2)]) (simp_all add: body_limit_def)
  show "carries sample_enc 8192 [(''job_id'', JStr ''j1'')]"
    by (rule carries_plain [OF _ _ len(3)]) (simp_all add: body_limit_def)
qed

lemma sample_job_carries: "carries sample_enc body_limit (job_fields sample_job)"
proof (rule carries_plain)
  show "json_plain (JObj (job_fields sample_job))"
    using sample_job_valid by (intro job_fields_plain) (auto simp: validate_job_def rbind_Inr_iff)
  show "json_depth (JObj (job_fields sample_job)) \<le> 32" by code_simp
  show "int (utf8_len (plain_dumps (JObj (job_fields sample_job)))) \<le> body_limit" by code_simp
qed simp

theorem refused_without_token_witness:
  "serve_events sample_sidecar (client_result sample_auth ''j1'') [Request_Part [] False] sample_start =
     (Some \<lparr>rs_status = 404, rs_body = error_body ''not_found''\<rparr>, sample_start) \<and>
   receive_body body_limit 0 [] [Request_Part [] False] = Complete []"
proof -
  have ascii: "is_ascii (''Bearer '' @ sc_token sample_sidecar)" by code_simp
  have "job_result ''j1'' sample_start = Inl (KeyError ''Unknown job'')"
    by (simp add: job_result_def get_job_def find_job_def sample_start_def add_event_def empty_store_def)
  then have r: "serve_events sample_sidecar (client_result sample_auth ''j1'') [Request_Part [] False] sample_start =
     (Some \<lparr>rs_status = 404, rs_body = error_body ''not_found''\<rparr>, sample_start)"
    using ascii by (simp add: serve_events_def body_limit_def authenticate_def compare_digest_def sample_auth_def client_result_def
        get_request_def route_def respond_def encode_def safe_error_def)
  from refused_without_token [OF r] r show ?thesis by (simp add: body_limit_def)
qed

theorem call_is_operation_witness:
  "serve sample_sidecar (client_submit sample_enc sample_auth sample_job) sample_start =
     answered receipt_json (submit sample_job sample_start)"
proof -
  have "is_ascii (sc_token sample_sidecar)" by code_simp
  from call_is_operation [OF this sample_auth_def sample_job_valid sample_job_carries sample_carries] show ?thesis by blast
qed

end
