(* ===== verification/Load.thy ===== *)
theory Load
  imports Telemetry Backends
begin

text \<open>
  The paced load driver of \<^verbatim>\<open>src/src/agmina_runtime/load.py\<close>: the plan and its checks, the job made of an item, and
  the turns of \<^verbatim>\<open>run_load\<close>: the pacing loop between its sleeps and one round of a collector. The turns
  interleave with the background loop of \<open>Coordinator\<close> as the event loop schedules them.
\<close>

section \<open>Plans\<close>

record load_item =
  li_id :: string
  li_session :: string
  li_model :: string
  li_workload :: workload
  li_release_ms :: int
  li_deadline_after_ms :: int
  li_profile_capture_lag_ms :: int
  li_result_kind :: result_kind
  li_max_age_ms :: "int option"
  li_evidence_hashes :: "string list"
  li_observation_ids :: "string list option"
  li_operation :: string
  li_replace_key :: "string option"
  li_discardable :: bool
  li_cacheable :: bool
  li_payload_json :: string

definition item_fields_ok :: "load_item \<Rightarrow> bool" where
  "item_fields_ok i \<longleftrightarrow> is_name (li_id i) \<and> is_name (li_session i) \<and> is_name (li_model i) \<and>
     0 \<le> li_release_ms i \<and> li_release_ms i \<le> 3600000 \<and> 0 < li_deadline_after_ms i \<and> li_deadline_after_ms i \<le> 300000 \<and>
     0 \<le> li_profile_capture_lag_ms i \<and> li_profile_capture_lag_ms i \<le> 300000 \<and>
     opt_all (\<lambda>a. 0 < a \<and> a \<le> 300000) (li_max_age_ms i) \<and> list_all is_sha (li_evidence_hashes i) \<and>
     1 \<le> length (li_evidence_hashes i) \<and> length (li_evidence_hashes i) \<le> 32 \<and>
     opt_all (list_all is_name) (li_observation_ids i) \<and> is_name (li_operation i) \<and> opt_all is_name (li_replace_key i)"

definition item_guards :: "load_item \<Rightarrow> (bool \<times> string) list" where
  "item_guards i =
     [(li_result_kind i \<noteq> HISTORICAL \<and> li_max_age_ms i = None, ''Current load jobs require an age limit''),
      (\<not> opt_all (\<lambda>ids. length ids = length (li_evidence_hashes i)) (li_observation_ids i),
         ''observation_ids must match evidence_hashes length''),
      (\<not> opt_all distinct (li_observation_ids i), ''observation_ids must be unique''),
      (truthy (li_replace_key i) \<and> \<not> li_discardable i, ''replace_key requires discardable=true''),
      (li_workload i = POLICY \<and> (li_discardable i \<or> li_cacheable i),
         ''Policy load items cannot be implicitly dropped or cached''),
      (li_cacheable i \<and> li_result_kind i \<noteq> HISTORICAL, ''Only historical load items may be cached'')]"

definition validate_item :: "load_item \<Rightarrow> load_item result" where
  "validate_item i =
     rbind (guards [(\<not> item_fields_ok i, field_error)] i) (\<lambda>i.
     rbind (strict_json payload_limit (li_payload_json i)) (\<lambda>_. guards (item_guards i) i))"

record load_plan =
  lp_provenance :: string
  lp_synthetic_inputs :: bool
  lp_jobs :: "load_item list"

definition validate_plan :: "load_plan \<Rightarrow> load_plan result" where
  "validate_plan p = guards
     [(\<not> (1 \<le> length (lp_provenance p) \<and> length (lp_provenance p) \<le> 2048 \<and> 1 \<le> length (lp_jobs p) \<and>
          length (lp_jobs p) \<le> 2000 \<and> list_all (\<lambda>i. is_ok (validate_item i)) (lp_jobs p)), field_error),
      (\<not> distinct (map li_id (lp_jobs p)), ''Load IDs must be unique'')] p"

section \<open>The job of an item\<close>

definition item_observation_id :: "load_item \<Rightarrow> nat \<Rightarrow> string" where
  "item_observation_id i k =
     (case li_observation_ids i of
        Some ids \<Rightarrow> if ids \<noteq> [] then ids ! k else li_id i @ ''-o'' @ int_repr (int k)
      | None \<Rightarrow> li_id i @ ''-o'' @ int_repr (int k))"

definition item_observation :: "int \<Rightarrow> load_item \<Rightarrow> nat \<times> string \<Rightarrow> observation" where
  "item_observation release i = (\<lambda>(k, h).
     \<lparr>obs_id = item_observation_id i k, obs_source = li_session i, obs_sequence = int k, obs_sha256 = h,
      obs_capture_ns = max 0 (release - li_profile_capture_lag_ms i * 1000000), obs_available_ns = release,
      obs_uncertainty_ns = 0, obs_role = ROLE_CURRENT, obs_source_time = Some ''load-replay''\<rparr>)"

definition item_observations :: "int \<Rightarrow> load_item \<Rightarrow> observation list result" where
  "item_observations release i =
     traverse (\<lambda>kh. validate_observation (item_observation release i kh)) (enumerate 0 (li_evidence_hashes i))"

definition release_time :: "int \<Rightarrow> load_item \<Rightarrow> int" where
  "release_time base i = base + li_release_ms i * 1000000"

definition load_job :: "string \<Rightarrow> session \<Rightarrow> int \<Rightarrow> load_item \<Rightarrow> job result" where
  "load_job tenant s base i =
     rbind (item_observations (release_time base i) i) (\<lambda>observations.
       validate_job \<lparr>job_id = li_id i, job_tenant = tenant, job_session_id = session_id s, job_epoch = session_epoch s,
         job_task_revision = session_task_revision s, job_clock_id = session_clock_id s, job_model = li_model i,
         job_operation = li_operation i, job_workload = li_workload i, job_result_kind = li_result_kind i,
         job_observations = observations, job_snapshot_ns = release_time base i,
         job_deadline_ns = release_time base i + li_deadline_after_ms i * 1000000,
         job_max_age_ns = map_option (\<lambda>a. a * 1000000) (li_max_age_ms i), job_max_uncertainty_ns = 0, job_priority = 1,
         job_allowed_sites = [''local'', ''site'', ''cloud''], job_dependencies = [], job_payload_json = li_payload_json i,
         job_replace_key = li_replace_key i, job_discardable = li_discardable i, job_cacheable = li_cacheable i\<rparr>)"

section \<open>Running a plan\<close>

text \<open>The order of release, by \<^verbatim>\<open>(release_ms, id)\<close>.\<close>

definition release_order :: "load_item list \<Rightarrow> load_item list" where
  "release_order items = sort_key (\<lambda>i. (li_release_ms i, li_id i)) items"

text \<open>The sessions of the plan, opened in the order \<open>sids\<close> in which Python iterates over their set.\<close>

fun open_sessions :: "string list \<Rightarrow> runtime \<Rightarrow> (string \<times> session) list result \<times> runtime" where
  "open_sessions [] rt = (Inr [], rt)"
| "open_sessions (sid # sids) rt =
     (case open_session sid ''load-v1'' rt of
        (Inl e, rt) \<Rightarrow> (Inl e, rt)
      | (Inr s, rt) \<Rightarrow> (case open_sessions sids rt of (r, rt) \<Rightarrow> (rbind r (\<lambda>ss. Inr ((sid, s) # ss)), rt)))"

text \<open>The sleep before an item, in nanoseconds.\<close>

definition pace :: "int \<Rightarrow> load_item \<Rightarrow> runtime \<Rightarrow> int \<times> runtime" where
  "pace base i rt = (let (now, rt) = read_now rt in (max 0 (release_time base i - now), rt))"

text \<open>After the sleep: the lag, and the collector that is started.\<close>

definition release_item :: "(string \<times> session) list \<Rightarrow> int \<Rightarrow> load_item \<Rightarrow> runtime \<Rightarrow> (int \<times> string \<times> int) result \<times> runtime" where
  "release_item sessions base i rt =
     (let (now, rt) = read_now rt in
      case map_of sessions (li_session i) of
        None \<Rightarrow> (Inl (KeyError (li_session i)), rt)
      | Some s \<Rightarrow>
        (case load_job (tenant_of rt) s base i of
           Inl e \<Rightarrow> (Inl e, rt)
         | Inr j \<Rightarrow>
           (case submit j rt of
              (Inl e, rt) \<Rightarrow> (Inl e, rt)
            | (Inr _, rt) \<Rightarrow> (Inr (now - release_time base i, job_id j, job_deadline_ns j), rt))))"

text \<open>One round of \<^verbatim>\<open>collect\<close>: \<open>True\<close> returns, \<open>False\<close> sleeps and goes round again.\<close>

definition collect_turn :: "string \<Rightarrow> int \<Rightarrow> runtime \<Rightarrow> bool result \<times> runtime" where
  "collect_turn jid deadline rt =
     (case job_result jid rt of
        Inl e \<Rightarrow> (Inl e, rt)
      | Inr r \<Rightarrow>
        if rc_state r \<notin> {QUEUED, RUNNING} then
          (if rc_state r = SUCCEEDED then
             (case consume jid ''load-reader'' rt of
                (Inl (PermissionError _), rt) \<Rightarrow> (Inr True, emit_now ''load_consume_expired'' [(''job_id'', JStr jid)] rt)
              | (Inl e, rt) \<Rightarrow> (Inl e, rt)
              | (Inr _, rt) \<Rightarrow> (Inr True, rt))
           else (Inr True, rt))
        else
          let (now, rt) = read_now rt in
          if deadline + 1000000000 \<le> now then
            (case cancel jid rt of (Inl e, rt) \<Rightarrow> (Inl e, rt) | (Inr _, rt) \<Rightarrow> (Inr True, rt))
          else (Inr False, rt))"

definition load_report :: "load_plan \<Rightarrow> int list \<Rightarrow> runtime \<Rightarrow> json" where
  "load_report p lags rt =
     JObj (dict_update (case summarize rt of JObj kvs \<Rightarrow> kvs | _ \<Rightarrow> [])
       [(''kind'', JStr ''paced_inference_load''), (''synthetic_inputs'', JBool (lp_synthetic_inputs p)),
        (''provenance'', JStr (lp_provenance p)), (''source_decode_included'', JBool False),
        (''release_lag_max_ns'', opt_json JInt (max_opt lags)), (''source_clock_continues'', JBool True)])"

end
