(* ===== verification/Load_Facts.thy ===== *)
theory Load_Facts
  imports Load Json_Roundtrip Samples
begin

text \<open>
  When a valid plan item becomes a valid job. The item's own checks repeat the job's, so the only way to fail
  is the observation ID that the driver derives from the item's ID.
\<close>

lemma int_repr_of_nat: "int_repr (int k) = nat_digits k"
  by (simp add: int_repr_def)

lemma nat_digits_inj: "nat_digits a = nat_digits b \<Longrightarrow> a = b"
  by (metis digits_val_nat_digits)

lemma digit_name_char: "is_digit c \<Longrightarrow> is_name_char c"
  by (auto simp: is_digit_def is_name_char_def is_alnum_def)

lemma derived_name:
  assumes "is_name n"
  shows "is_name (n @ ''-o'' @ nat_digits k) \<longleftrightarrow> length n + 2 + length (nat_digits k) \<le> 160"
proof -
  have digits: "list_all is_name_char (nat_digits k)" using nat_digits_digits digit_name_char by (simp add: list_all_iff)
  have dash: "is_name_char (CHR ''-'')" "is_name_char (CHR ''o'')" by code_simp+
  from assms obtain c cs where n: "n = c # cs" by (cases n) (auto simp: is_name_def)
  with assms digits dash show ?thesis by (simp add: is_name_def)
qed

lemma nat_digits_mono: "a \<le> b \<Longrightarrow> length (nat_digits a) \<le> length (nat_digits b)"
proof (induction b arbitrary: a rule: nat_digits.induct)
  case (1 b)
  show ?case
  proof (cases "b < 10")
    case False
    show ?thesis
    proof (cases "a < 10")
      case False
      with 1 \<open>\<not> b < 10\<close> have "length (nat_digits (a div 10)) \<le> length (nat_digits (b div 10))" by (simp add: div_le_mono)
      with False \<open>\<not> b < 10\<close> show ?thesis by (simp add: nat_digits.simps [of a] nat_digits.simps [of b])
    qed (use \<open>\<not> b < 10\<close> in \<open>simp add: nat_digits.simps [of a] nat_digits.simps [of b]\<close>)
  qed (use 1 in \<open>simp add: nat_digits.simps [of a] nat_digits.simps [of b]\<close>)
qed

definition ids_fit :: "load_item \<Rightarrow> bool" where
  "ids_fit i \<longleftrightarrow> li_observation_ids i \<noteq> None \<or>
     length (li_id i) + 2 + length (nat_digits (length (li_evidence_hashes i) - 1)) \<le> 160"

lemma traverse_guarded:
  assumes "\<And>x. x \<in> set xs \<Longrightarrow> f x = (if ok x then Inr (g x) else Inl e)"
  shows "traverse f xs = (if list_all ok xs then Inr (map g xs) else Inl e)"
  using assms by (induction xs) auto

lemma item_checked:
  assumes "validate_item i = Inr i"
  shows "item_fields_ok i" "\<forall>g \<in> set (item_guards i). \<not> fst g" "\<exists>kvs. strict_json payload_limit (li_payload_json i) = Inr kvs"
  using assms by (auto simp: validate_item_def rbind_Inr_iff)

lemma item_observation_id_name:
  assumes "validate_item i = Inr i" "k < length (li_evidence_hashes i)"
  shows "is_name (item_observation_id i k) \<longleftrightarrow> li_observation_ids i \<noteq> None \<or> length (li_id i) + 2 + length (nat_digits k) \<le> 160"
proof (cases "li_observation_ids i")
  case None
  then show ?thesis using derived_name [of "li_id i" k] item_checked(1) [OF assms(1)]
    by (simp add: item_observation_id_def int_repr_of_nat item_fields_ok_def)
next
  case (Some ids)
  with item_checked(1,2) [OF assms(1)] have "list_all is_name ids" "length ids = length (li_evidence_hashes i)"
    by (auto simp: item_fields_ok_def item_guards_def opt_all_def)
  with assms(2) Some show ?thesis by (auto simp: item_observation_id_def list_all_length)
qed

lemma all_ids_fit:
  assumes "validate_item i = Inr i"
  shows "(\<forall>k < length (li_evidence_hashes i). is_name (item_observation_id i k)) \<longleftrightarrow> ids_fit i"
proof -
  let ?n = "length (li_evidence_hashes i)"
  have n: "0 < ?n" using item_checked(1) [OF assms] by (auto simp: item_fields_ok_def)
  show ?thesis
  proof
    assume all: "\<forall>k < ?n. is_name (item_observation_id i k)"
    from n have "?n - 1 < ?n" by simp
    with all item_observation_id_name [OF assms this] show "ids_fit i" by (simp add: ids_fit_def)
  next
    assume fit: "ids_fit i"
    show "\<forall>k < ?n. is_name (item_observation_id i k)"
    proof (intro allI impI)
      fix k
      assume k: "k < ?n"
      then have "length (nat_digits k) \<le> length (nat_digits (?n - 1))" by (intro nat_digits_mono) simp
      with fit item_observation_id_name [OF assms k] show "is_name (item_observation_id i k)" by (auto simp: ids_fit_def)
    qed
  qed
qed

lemma item_ids_distinct:
  assumes "validate_item i = Inr i"
  shows "distinct (map (item_observation_id i) [0..<length (li_evidence_hashes i)])"
proof (cases "li_observation_ids i")
  case None
  then have "inj (item_observation_id i)"
    by (auto simp: inj_on_def item_observation_id_def int_repr_of_nat dest: nat_digits_inj)
  then show ?thesis by (auto simp: distinct_map intro: inj_on_subset)
next
  case (Some ids)
  with item_checked(1,2) [OF assms] have "distinct ids" "length ids = length (li_evidence_hashes i)" "ids \<noteq> []"
    by (auto simp: item_fields_ok_def item_guards_def opt_all_def)
  then have "map (item_observation_id i) [0..<length (li_evidence_hashes i)] = ids"
    by (intro nth_equalityI) (auto simp: item_observation_id_def Some)
  with \<open>distinct ids\<close> show ?thesis by simp
qed

lemma validate_job_intro:
  assumes "job_fields_ok j" "payload_object (job_payload_json j) = Inr p" "\<forall>g \<in> set (job_guards (j\<lparr>job_payload_json := p\<rparr>)). \<not> fst g"
  shows "validate_job j = Inr (j\<lparr>job_payload_json := p\<rparr>)"
proof -
  have "guards (job_guards (j\<lparr>job_payload_json := p\<rparr>)) (j\<lparr>job_payload_json := p\<rparr>) = Inr (j\<lparr>job_payload_json := p\<rparr>)"
    using assms(3) by (simp only: guards_Inr_iff simp_thms)
  then show ?thesis using assms(1,2) by (simp add: validate_job_def Let_def guards.simps)
qed

lemma item_observations_ok:
  assumes "validate_item i = Inr i" "is_ns release"
  shows "item_observations release i =
    (if ids_fit i then Inr (map (item_observation release i) (enumerate 0 (li_evidence_hashes i))) else Inl (ValueError field_error))"
proof -
  note item = item_checked(1) [OF assms(1)]
  let ?ok = "\<lambda>kh. is_name (item_observation_id i (fst kh))"
  have one: "validate_observation (item_observation release i kh) =
      (if ?ok kh then Inr (item_observation release i kh) else Inl (ValueError field_error))"
    if kh: "kh \<in> set (enumerate 0 (li_evidence_hashes i))" for kh
  proof -
    obtain k h where [simp]: "kh = (k, h)" by fastforce
    from kh have "k < length (li_evidence_hashes i)" "h \<in> set (li_evidence_hashes i)" by (auto simp: in_set_enumerate_eq)
    with item have "is_sha h" "is_ns (int k)" "is_name (li_session i)" by (auto simp: item_fields_ok_def list_all_iff is_ns_def)
    moreover have "is_ns (max 0 (release - li_profile_capture_lag_ms i * 1000000))"
      "max 0 (release - li_profile_capture_lag_ms i * 1000000) \<le> release"
      using assms(2) item by (auto simp: is_ns_def item_fields_ok_def)
    ultimately show ?thesis using assms(2)
      by (auto simp: validate_observation_def item_observation_def guards.simps is_ns_def)
  qed
  have "list_all ?ok (enumerate 0 (li_evidence_hashes i)) = (\<forall>k < length (li_evidence_hashes i). is_name (item_observation_id i k))"
    by (simp add: list_all_length nth_enumerate_eq)
  moreover have "item_observations release i = (if list_all ?ok (enumerate 0 (li_evidence_hashes i))
      then Inr (map (item_observation release i) (enumerate 0 (li_evidence_hashes i))) else Inl (ValueError field_error))"
    unfolding item_observations_def by (rule traverse_guarded) (rule one)
  ultimately show ?thesis using all_ids_fit [OF assms(1)] by simp
qed

text \<open>C38: a valid plan item becomes a valid job exactly when the observation IDs it stands for fit: they do if the item
  names them, or if its own ID leaves room for the suffix of its last one within 160 characters. The job then
  has the item's evidence in order, each capture no later than the release and available at it, which is the
  snapshot. An item whose ID is too long passes the plan's checks and stops the run when it is released.\<close>

theorem valid_item_becomes_job:
  assumes "validate_item i = Inr i" "validate_session s = Inr s" "is_name tenant" "0 \<le> base"
    "release_time base i + li_deadline_after_ms i * 1000000 < 2 ^ 63"
  shows "is_ok (load_job tenant s base i) = ids_fit i \<and>
    (\<forall>j. load_job tenant s base i = Inr j \<longrightarrow> job_snapshot_ns j = release_time base i \<and>
       map obs_sha256 (job_observations j) = li_evidence_hashes i \<and>
       (\<forall>x \<in> set (job_observations j). obs_available_ns x = release_time base i \<and> obs_capture_ns x \<le> release_time base i))"
proof -
  note item = item_checked [OF assms(1)]
  let ?r = "release_time base i"
  let ?obs = "map (item_observation ?r i) (enumerate 0 (li_evidence_hashes i))"
  have r: "0 \<le> ?r" "is_ns ?r" using item(1) assms(4,5) by (auto simp: release_time_def item_fields_ok_def is_ns_def)
  show ?thesis
  proof (cases "ids_fit i")
    case False
    with item_observations_ok [OF assms(1) r(2)] show ?thesis by (simp add: load_job_def)
  next
    case True
    with item_observations_ok [OF assms(1) r(2)] have obs: "item_observations ?r i = Inr ?obs" by simp
    then have valid: "list_all (\<lambda>x. is_ok (validate_observation x)) ?obs"
      by (auto simp: item_observations_def traverse_Inr_iff list_all2_conv_all_nth list_all_length validate_observation_def)
    have ids: "map obs_id ?obs = map (item_observation_id i) [0..<length (li_evidence_hashes i)]"
      by (auto simp: item_observation_def case_prod_beta enumerate_eq_zip intro!: nth_equalityI)
    have hashes: "map obs_sha256 ?obs = li_evidence_hashes i"
      by (auto simp: item_observation_def case_prod_beta enumerate_eq_zip intro!: nth_equalityI)
    have times: "\<forall>x \<in> set ?obs. obs_available_ns x = ?r \<and> obs_capture_ns x \<le> ?r \<and> obs_uncertainty_ns x = 0 \<and> obs_role x = ROLE_CURRENT"
      using item(1) r(1) by (auto simp: item_observation_def item_fields_ok_def)
    have len: "length ?obs = length (li_evidence_hashes i)" by simp
    then have some: "?obs \<noteq> []" "length ?obs \<le> 32" using item(1) by (auto simp: item_fields_ok_def simp del: length_map)
    from item(3) obtain kvs where kvs: "strict_json payload_limit (li_payload_json i) = Inr kvs" by blast
    then have "json_finite (JObj kvs)" by (simp add: strict_json_Inr_iff)
    with kvs obtain p where p: "payload_object (li_payload_json i) = Inr p" by (auto simp: payload_object_def canonical_def)
    let ?j = "\<lparr>job_id = li_id i, job_tenant = tenant, job_session_id = session_id s, job_epoch = session_epoch s,
         job_task_revision = session_task_revision s, job_clock_id = session_clock_id s, job_model = li_model i,
         job_operation = li_operation i, job_workload = li_workload i, job_result_kind = li_result_kind i,
         job_observations = ?obs, job_snapshot_ns = ?r,
         job_deadline_ns = ?r + li_deadline_after_ms i * 1000000,
         job_max_age_ns = map_option (\<lambda>a. a * 1000000) (li_max_age_ms i), job_max_uncertainty_ns = 0, job_priority = 1,
         job_allowed_sites = [''local'', ''site'', ''cloud''], job_dependencies = [], job_payload_json = li_payload_json i,
         job_replace_key = li_replace_key i, job_discardable = li_discardable i, job_cacheable = li_cacheable i\<rparr>"
    have "is_name ''local''" "is_name ''site''" "is_name ''cloud''" by code_simp+
    then have fields: "job_fields_ok ?j"
      using item(1) valid some(2) r(2) assms(2,3,5) r(1)
      by (auto simp: job_fields_ok_def item_fields_ok_def validate_session_def is_ns_def opt_all_def split: option.splits)
    have replace: "li_replace_key i = None \<or> li_discardable i"
      using item(1,2) by (cases "li_replace_key i") (auto simp: item_fields_ok_def item_guards_def is_name_def)
    have some': "\<exists>a b. (a, b) \<in> set (enumerate 0 (li_evidence_hashes i))"
      using some(1) by (cases "enumerate 0 (li_evidence_hashes i)") auto
    have "\<forall>g \<in> set (job_guards (?j\<lparr>job_payload_json := p\<rparr>)). \<not> fst g"
      using item(1,2) some(1) some' replace times item_ids_distinct [OF assms(1)] unfolding job_guards_def
      by (simp add: ids [simplified] item_fields_ok_def item_guards_def list_ex_iff)
    from validate_job_intro [OF fields _ this] p have "validate_job ?j = Inr (?j\<lparr>job_payload_json := p\<rparr>)" by simp
    then have "load_job tenant s base i = Inr (?j\<lparr>job_payload_json := p\<rparr>)" using obs by (simp add: load_job_def)
    with hashes times True show ?thesis by simp
  qed
qed

text \<open>An item of the sample session.\<close>

definition sample_item :: load_item where
  "sample_item = \<lparr>li_id = ''i1'', li_session = ''s'', li_model = ''m'', li_workload = SEMANTIC, li_release_ms = 20,
     li_deadline_after_ms = 1000, li_profile_capture_lag_ms = 5, li_result_kind = CURRENT, li_max_age_ms = Some 500,
     li_evidence_hashes = [sample_sha, sample_sha], li_observation_ids = None, li_operation = ''paced_load'',
     li_replace_key = None, li_discardable = False, li_cacheable = False, li_payload_json = ''{}''\<rparr>"

lemma sample_item_valid: "validate_item sample_item = Inr sample_item"
  by (simp add: validate_item_def item_fields_ok_def sample_item_def is_name_def is_alnum_def is_name_char_def
      sample_sha_def is_sha_def is_hex_lower_def list_all_iff empty_object payload_limit_def item_guards_def guards.simps opt_all_def)

theorem valid_item_becomes_job_witness:
  "\<exists>j. load_job ''t'' sample_session 7 sample_item = Inr j \<and> job_snapshot_ns j = 20000007 \<and>
     map obs_sha256 (job_observations j) = [sample_sha, sample_sha]"
proof -
  have "validate_session sample_session = Inr sample_session" "is_name ''t''"
    by (simp_all add: validate_session_def sample_session_def is_name_def is_alnum_def is_name_char_def is_ns_def)
  from valid_item_becomes_job [OF sample_item_valid this, of 7]
  have "is_ok (load_job ''t'' sample_session 7 sample_item) = ids_fit sample_item \<and>
    (\<forall>j. load_job ''t'' sample_session 7 sample_item = Inr j \<longrightarrow> job_snapshot_ns j = 20000007 \<and>
       map obs_sha256 (job_observations j) = [sample_sha, sample_sha])"
    by (auto simp: release_time_def sample_item_def)
  moreover have "ids_fit sample_item" by code_simp
  ultimately show ?thesis by (auto simp: is_ok_iff)
qed

end
