(* ===== verification/Cli.thy ===== *)
theory Cli
  imports Telemetry Wire Http_Backend Load Replay Server
begin

text \<open>
  The commands of \<^verbatim>\<open>src/src/agmina_runtime/cli.py\<close>: the demonstration, the bounded probe, the replay
  comparison, the ledger report and the start of the sidecar, as programs over the operations of the components.
  Argument parsing, printing and the files written are not modelled. \<open>wait\<close> stands for \<^verbatim>\<open>Runtime.wait\<close> with
  whatever the event loop runs meanwhile.
\<close>

section \<open>Programs over a runtime\<close>

type_synonym 'a program = "runtime \<Rightarrow> 'a result \<times> runtime"

definition return_rt :: "'a \<Rightarrow> 'a program" where
  "return_rt x = (\<lambda>rt. (Inr x, rt))"

definition raise_rt :: "'a result \<Rightarrow> 'a program" where
  "raise_rt r = (\<lambda>rt. (r, rt))"

definition and_then :: "'a program \<Rightarrow> ('a \<Rightarrow> 'b program) \<Rightarrow> 'b program" where
  "and_then m f = (\<lambda>rt. case m rt of (Inl e, rt) \<Rightarrow> (Inl e, rt) | (Inr x, rt) \<Rightarrow> f x rt)"

definition now_rt :: "int program" where
  "now_rt = (\<lambda>rt. let (n, rt) = read_now rt in (Inr n, rt))"

definition note_rt :: "string \<Rightarrow> unit program" where
  "note_rt kind = (\<lambda>rt. (Inr (), emit_now kind [] rt))"

section \<open>The demonstration\<close>

definition demo_models :: "string list" where
  "demo_models = [''policy'', ''semantic'', ''mapping'']"

definition demo_config :: runtime_config where
  "demo_config =
     \<lparr>cfg_tenant = ''local'', cfg_campaign = ''synthetic-demo'', cfg_max_attempts = 20, cfg_max_microusd = 0,
      cfg_max_queue = 128, cfg_max_jobs = 10000, cfg_scheduler = ''slack'', cfg_placement = ''fastest'',
      cfg_cache_entries = 64, cfg_cache_bytes = 8000000, cfg_cache_ttl_ns = 60000000000,
      cfg_pools = [\<lparr>pool_id = ''shared-device'', pool_slots = 1\<rparr>],
      cfg_models = map (\<lambda>k. \<lparr>mc_alias = k, mc_weights = ''synthetic-v1'', mc_preprocessing = ''fixture-v1'',
        mc_output_schema = ''fixture-json-v1'', mc_sampling = ''deterministic'', mc_stateful = False\<rparr>) demo_models,
      cfg_endpoints = map (\<lambda>k. \<lparr>ep_id = k @ ''-worker'', ep_model = k, ep_pool = ''shared-device'', ep_site = ''local'',
        ep_kind = MOCK, ep_url = None, ep_credential_env = None, ep_model_name = ''fixture'', ep_model_version = None,
        ep_response_model_required = True, ep_service_p95_ns = 1000000, ep_transport_p95_ns = 0, ep_margin_ns = 0,
        ep_timeout_s = Dec 3 1, ep_max_inflight = 1, ep_reserve_microusd = 0, ep_externally_billed = False,
        ep_input_per_million_microusd = None, ep_cached_per_million_microusd = None,
        ep_output_per_million_microusd = None, ep_stream = False, ep_max_output_tokens = 256,
        ep_max_response_bytes = 2000000, ep_extra_body_json = ''{}''\<rparr>) demo_models\<rparr>"

text \<open>\<^verbatim>\<open>int(deadline_s * 1e9)\<close> of a positive float: the rounded product, cut to an integer.\<close>

definition seconds_cut :: "pyfloat \<Rightarrow> int result" where
  "seconds_cut x =
     (case x of
        Dec m e \<Rightarrow>
          (case round_double (m * 10 ^ nat e) (10 ^ nat (- e)) of
             None \<Rightarrow> Inl (OverflowError ''cannot convert float infinity to integer'')
           | Some (m1, e1) \<Rightarrow>
             (case round_double (m1 * 1000000000 * 2 ^ nat e1) (2 ^ nat (- e1)) of
                None \<Rightarrow> Inl (OverflowError ''cannot convert float infinity to integer'')
              | Some (m2, e2) \<Rightarrow> Inr (m2 * 2 ^ nat e2 div 2 ^ nat (- e2))))
      | _ \<Rightarrow> Inl (OverflowError ''cannot convert float infinity to integer''))"

definition fixture_job :: "(string \<Rightarrow> string) \<Rightarrow> session \<Rightarrow> int \<Rightarrow> string \<Rightarrow> string \<Rightarrow> pyfloat \<Rightarrow> pyfloat \<Rightarrow> bool \<Rightarrow> job result" where
  "fixture_job sha s now jid model delay deadline_s historical =
     rbind (validate_observation \<lparr>obs_id = ''obs-'' @ jid, obs_source = ''fixture'', obs_sequence = 0,
         obs_sha256 = sha ''explicit fixture evidence'', obs_capture_ns = now, obs_available_ns = now,
         obs_uncertainty_ns = 0, obs_role = ROLE_CURRENT, obs_source_time = None\<rparr>) (\<lambda>x.
     rbind (seconds_cut deadline_s) (\<lambda>span.
     rbind (canonical (JObj [(''fixture_delay_s'', JFloat delay), (''fixture_output'', JObj [(''fixture'', JBool True)])])) (\<lambda>body.
       case find (\<lambda>w. workload_value w = model) [POLICY, SEGMENTATION, SEMANTIC, MAPPING, QUERY] of
         None \<Rightarrow> Inl (ValueError field_error)
       | Some w \<Rightarrow>
         validate_job \<lparr>job_id = jid, job_tenant = session_tenant s, job_session_id = session_id s,
           job_epoch = session_epoch s, job_task_revision = session_task_revision s, job_clock_id = session_clock_id s,
           job_model = model, job_operation = ''fixture'', job_workload = w,
           job_result_kind = (if historical then HISTORICAL else if model = ''policy'' then ACTION_PROPOSAL else CURRENT),
           job_observations = [x], job_snapshot_ns = now, job_deadline_ns = now + span, job_max_age_ns = Some span,
           job_max_uncertainty_ns = 0, job_priority = 1, job_allowed_sites = [''local'', ''site'', ''cloud''],
           job_dependencies = [], job_payload_json = body, job_replace_key = None, job_discardable = False,
           job_cacheable = False\<rparr>)))"

definition submit_fixture :: "session \<Rightarrow> int \<Rightarrow> string \<Rightarrow> string \<Rightarrow> pyfloat \<Rightarrow> bool \<Rightarrow> receipt program" where
  "submit_fixture s now jid model delay historical =
     (\<lambda>rt. and_then (raise_rt (fixture_job (rt_sha rt) s now jid model delay (Dec 2 0) historical)) submit rt)"

fun wait_all :: "(string \<Rightarrow> receipt program) \<Rightarrow> string list \<Rightarrow> unit program" where
  "wait_all wait [] = return_rt ()"
| "wait_all wait (jid # jids) = and_then (wait jid) (\<lambda>_. wait_all wait jids)"

text \<open>A refused consumption is the expected outcome and is recorded.\<close>

definition consume_or_note :: "string \<Rightarrow> string \<Rightarrow> string \<Rightarrow> unit program" where
  "consume_or_note jid consumer kind =
     (\<lambda>rt. case consume jid consumer rt of
        (Inl (PermissionError _), rt) \<Rightarrow> note_rt kind rt | (Inl e, rt) \<Rightarrow> (Inl e, rt) | (Inr _, rt) \<Rightarrow> (Inr (), rt))"

definition extended_summary :: "(string \<times> json) list \<Rightarrow> json program" where
  "extended_summary extra =
     (\<lambda>rt. (Inr (JObj (dict_update (case summarize rt of JObj kvs \<Rightarrow> kvs | _ \<Rightarrow> []) extra)), rt))"

definition demo :: "(string \<Rightarrow> receipt program) \<Rightarrow> json program" where
  "demo wait =
     and_then (open_session ''robot'' ''search-v1'') (\<lambda>s.
     and_then (open_session ''camera'' ''watch-v1'') (\<lambda>video.
     and_then now_rt (\<lambda>now.
     and_then (submit_fixture video now ''background'' ''mapping'' (Dec 25 (- 3)) False) (\<lambda>_.
     and_then tick (\<lambda>_.
     and_then (submit_fixture s now ''policy'' ''policy'' (Dec 2 (- 3)) False) (\<lambda>_.
     and_then (submit_fixture video now ''inventory'' ''semantic'' (Dec 5 (- 3)) True) (\<lambda>_.
     and_then (wait_all wait [''background'', ''policy'', ''inventory'']) (\<lambda>_.
     and_then (consume ''policy'' ''native-shadow'') (\<lambda>_.
     and_then (record_outcome ''policy'' ''native-shadow'' ''rejected'' ''fixture:no-actuator'') (\<lambda>_.
     and_then (advance_session (session_id video) (session_epoch video) ''watch-v2'' False) (\<lambda>_.
     and_then (consume_or_note ''inventory'' ''video'' ''fixture_old_epoch_rejection_confirmed'') (\<lambda>_.
       extended_summary [(''synthetic'', JBool True), (''models_loaded'', JBool False), (''native_actions'', JInt 0),
         (''paid_api_calls'', JInt 0)]))))))))))))"

section \<open>The probe\<close>

text \<open>The observations of the packet, with the IDs of the \<open>i\<close>-th probe once they are validated.\<close>

definition probe_observation :: "int \<Rightarrow> nat \<Rightarrow> nat \<times> json \<Rightarrow> observation result" where
  "probe_observation now i jo = (case jo of (j, v) \<Rightarrow> (case v of
     JObj kvs \<Rightarrow>
       (case (map_of kvs ''source'', map_of kvs ''sha256'') of
          (None, _) \<Rightarrow> Inl (KeyError ''source'')
        | (_, None) \<Rightarrow> Inl (KeyError ''sha256'')
        | (Some source, Some digest) \<Rightarrow>
            rbind (dec_str source) (\<lambda>source. rbind (dec_str digest) (\<lambda>digest.
            rbind (validate_observation \<lparr>obs_id = ''input-'' @ int_repr (int j), obs_source = source, obs_sequence = int j,
                obs_sha256 = digest, obs_capture_ns = now, obs_available_ns = now, obs_uncertainty_ns = 0,
                obs_role = ROLE_CURRENT, obs_source_time = None\<rparr>) (\<lambda>x.
              Inr (x\<lparr>obs_id := ''input-'' @ int_repr (int i) @ ''-'' @ int_repr (int j)\<rparr>)))))
   | _ \<Rightarrow> Inl (TypeError ''string indices required'')))"

definition probe_job :: "string \<Rightarrow> session \<Rightarrow> string \<Rightarrow> int \<Rightarrow> int \<Rightarrow> (string \<times> json) list \<Rightarrow> nat \<Rightarrow> job result" where
  "probe_job tenant s model deadline_ms now data i =
     rbind (case jget data ''observations'' of
        JList os \<Rightarrow> traverse (probe_observation now i) (enumerate 0 os)
      | _ \<Rightarrow> Inl (TypeError ''observations'')) (\<lambda>observations.
     rbind (canonical (jget data ''payload'')) (\<lambda>body.
       validate_job \<lparr>job_id = ''probe-'' @ int_repr (int i), job_tenant = tenant, job_session_id = session_id s,
         job_epoch = session_epoch s, job_task_revision = session_task_revision s, job_clock_id = session_clock_id s,
         job_model = model, job_operation = ''frozen_input_probe'', job_workload = QUERY, job_result_kind = HISTORICAL,
         job_observations = observations, job_snapshot_ns = now, job_deadline_ns = now + deadline_ms * 1000000,
         job_max_age_ns = None, job_max_uncertainty_ns = 0, job_priority = 1,
         job_allowed_sites = [''local'', ''site'', ''cloud''], job_dependencies = [], job_payload_json = body,
         job_replace_key = None, job_discardable = False, job_cacheable = False\<rparr>))"

text \<open>\<open>n\<close> more calls from the \<open>i\<close>-th; a result that did not succeed ends the probe.\<close>

fun probe_loop :: "(string \<Rightarrow> receipt program) \<Rightarrow> session \<Rightarrow> string \<Rightarrow> int \<Rightarrow> (string \<times> json) list \<Rightarrow> nat \<Rightarrow> nat \<Rightarrow> unit program" where
  "probe_loop wait s model deadline_ms data i 0 = return_rt ()"
| "probe_loop wait s model deadline_ms data i (Suc n) =
     and_then now_rt (\<lambda>now rt.
       and_then (raise_rt (probe_job (tenant_of rt) s model deadline_ms now data i)) (\<lambda>j.
       and_then (submit j) (\<lambda>_.
       and_then (wait (job_id j)) (\<lambda>r.
         if rc_state r = SUCCEEDED
         then and_then (consume (job_id j) ''probe'') (\<lambda>_. probe_loop wait s model deadline_ms data (Suc i) n)
         else return_rt ()))) rt)"

definition probe :: "(string \<Rightarrow> receipt program) \<Rightarrow> string \<Rightarrow> int \<Rightarrow> (string \<times> json) list \<Rightarrow> nat \<Rightarrow> json program" where
  "probe wait model deadline_ms data n =
     (if \<not> keys_are [''payload'', ''observations''] data then raise_rt (Inl (ValueError ''Packet requires payload and observations''))
      else and_then (open_session ''probe'' ''frozen-input'') (\<lambda>s.
        and_then (probe_loop wait s model deadline_ms data 0 n) (\<lambda>_.
          extended_summary [(''input_replay_not_live_video'', JBool True), (''cold_first_run_separate'', JBool True)])))"

section \<open>Arguments\<close>

text \<open>\<^verbatim>\<open>int(text)\<close>: blanks around it, a sign, and single underscores between digits.\<close>

fun digits_only :: "string \<Rightarrow> string option" where
  "digits_only [] = None"
| "digits_only [c] = (if is_digit c then Some [c] else None)"
| "digits_only (c # d # cs) =
     (if \<not> is_digit c then None
      else map_option ((#) c) (if d = CHR ''_'' then digits_only cs else digits_only (d # cs)))"

definition py_int :: "string \<Rightarrow> int result" where
  "py_int text =
     (let s = strip text;
          sgn = (if take 1 s = ''-'' then - 1 else 1 :: int);
          body = (if take 1 s = ''-'' \<or> take 1 s = ''+'' then drop 1 s else s)
      in case digits_only body of
           None \<Rightarrow> Inl (ValueError ''invalid literal for int() with base 10'')
         | Some ds \<Rightarrow> if int_digits_limit < length ds then Inl (ValueError ''Exceeds the limit for integer string conversion'')
                     else Inr (sgn * int (digits_val ds)))"

definition bounded_deadline :: "string \<Rightarrow> int result" where
  "bounded_deadline text =
     rbind (py_int text) (\<lambda>v.
       if \<not> (1 \<le> v \<and> v \<le> 300000) then Inl (ValueError ''deadline must be 1..300000 milliseconds'') else Inr v)"

section \<open>The other commands\<close>

definition cli_ledger :: "store \<Rightarrow> json" where
  "cli_ledger st =
     JObj [(''caps'', JObj [(''campaign'', JStr (bc_campaign (st_budget st))), (''max_attempts'', JInt (bc_max_attempts (st_budget st))),
              (''max_microusd'', JInt (bc_max_microusd (st_budget st)))]),
           (''attempts'', JList (map (\<lambda>a. JObj [(''tenant'', JStr (at_tenant a)), (''job'', JStr (at_job a)),
              (''pool'', JStr (at_pool a)), (''endpoint'', JStr (at_endpoint a)), (''quote'', JInt (at_quote a)),
              (''actual'', opt_json JInt (at_actual a)), (''disposition'', JStr (disposition_value (at_disposition a)))])
              (st_attempts st))),
           (''quarantined_pools'', JList (map (\<lambda>(p, reason). JObj [(''pool'', JStr p), (''reason'', JStr reason)]) (st_quarantines st)))]"

text \<open>The comparison of the three policies: every report without its rows.\<close>

definition cli_replay :: "(string \<Rightarrow> string) \<Rightarrow> trace \<Rightarrow> (string \<times> json) list result" where
  "cli_replay sha t =
     traverse (\<lambda>mode. rbind (replay sha t mode) (\<lambda>v.
       Inr (mode, JObj (filter (\<lambda>kv. fst kv \<noteq> ''records'') (case v of JObj kvs \<Rightarrow> kvs | _ \<Rightarrow> []))))) [''fifo'', ''edf'', ''slack'']"

text \<open>\<^verbatim>\<open>AGMINA_TOKEN\<close> from the environment.\<close>

definition cli_serve :: "string option \<Rightarrow> (http_request \<Rightarrow> http_response) \<Rightarrow> (pyfloat \<Rightarrow> string) \<Rightarrow> sidecar result" where
  "cli_serve env framework float_text =
     (let token = (case env of None \<Rightarrow> [] | Some s \<Rightarrow> s) in
      if length token < 24 then Inl (ValueError ''Set AGMINA_TOKEN before launching the sidecar'')
      else create_app token framework float_text)"

text \<open>The configuration of the demonstration passes its own checks.\<close>

lemma demo_config_valid: "validate_config demo_config = Inr demo_config"
proof -
  have names: "list_all is_name [''local'', ''synthetic-demo'', ''shared-device'', ''policy'', ''semantic'', ''mapping'', ''policy-worker'',
      ''semantic-worker'', ''mapping-worker'']" by code_simp
  have "is_ok (validate_endpoint e)" if "e \<in> set (cfg_endpoints demo_config)" for e
  proof -
    from that names have "endpoint_fields_ok e"
      by (auto simp: demo_config_def demo_models_def endpoint_fields_ok_def is_ns_def)
    moreover from that have "ep_kind e = MOCK" "\<not> ep_externally_billed e" "ep_extra_body_json e = ''{}''"
      by (auto simp: demo_config_def)
    ultimately show ?thesis by (simp add: validate_endpoint_def url_guards_def empty_object Let_def guards.simps)
  qed
  moreover have "list_all (\<lambda>p. is_ok (validate_pool p)) (cfg_pools demo_config)"
    "list_all (\<lambda>m. is_ok (validate_model_contract m)) (cfg_models demo_config)" by code_simp+
  ultimately have "config_fields_ok demo_config"
    using names by (simp add: config_fields_ok_def list_all_iff) (simp add: demo_config_def is_ns_def)
  moreover have "\<forall>g \<in> set (reference_guards demo_config). \<not> fst g"
    by (simp add: reference_guards_def registry_bad_def demo_config_def demo_models_def)
  ultimately show ?thesis by (simp add: validate_config_def)
qed

end
