(* ===== verification/Coordinator_Rows.thy ===== *)
theory Coordinator_Rows
  imports Sample_Run
begin

text \<open>
  What the journal of a reachable coordinator holds, and what a turn of the background loop settles: every stored job
  satisfies the contract, and a tick ends all work that is no longer useful.
\<close>

section \<open>The stored jobs\<close>

definition bodies :: "runtime \<Rightarrow> job list" where
  "bodies rt = map row_body (st_jobs (rt_store rt))"

lemma bodies_set_receipt [simp]: "map row_body (st_jobs (set_receipt t r st)) = map row_body (st_jobs st)"
  by (simp add: set_receipt_def)

lemma bodies_update [simp]:
  "bodies (rt\<lparr>rt_clock := c\<rparr>) = bodies rt" "bodies (rt\<lparr>rt_cache := h\<rparr>) = bodies rt"
  "bodies (rt\<lparr>rt_running := ts\<rparr>) = bodies rt" "bodies (rt\<lparr>rt_pool_use := u\<rparr>) = bodies rt"
  "bodies (rt\<lparr>rt_endpoint_use := u\<rparr>) = bodies rt" "bodies (rt\<lparr>rt_closed := b\<rparr>) = bodies rt"
  "map row_body (st_jobs (f (rt_store rt))) = map row_body (st_jobs (rt_store rt)) \<Longrightarrow> bodies (on_store f rt) = bodies rt"
  "bodies (emit n k m rt) = bodies rt" "bodies (emit_now k m rt) = bodies rt"
  "bodies (release_task i t rt) = bodies rt" "bodies (snd (set_state j r s reason rt)) = bodies rt"
  by (simp_all add: bodies_def release_task_def set_state_eq)

lemma bodies_fold: "(\<And>x rt. bodies (f x rt) = bodies rt) \<Longrightarrow> bodies (fold f xs rt) = bodies rt"
  by (induction xs arbitrary: rt) auto

lemma bodies_expire [simp]: "bodies (snd (expire rt)) = bodies rt"
proof -
  have "bodies (snd (expire_loop now jrs rt)) = bodies rt" for now jrs rt
    by (induction now jrs rt rule: expire_loop.induct) (simp_all split: sum.split option.split)
  then show ?thesis by (simp add: expire_def read_now_eq)
qed

lemma bodies_sessions [simp]:
  "bodies (snd (open_session sid revision rt)) = bodies rt" "bodies (snd (advance_session sid e revision close rt)) = bodies rt"
  "bodies (snd (heartbeat sid e until rt)) = bodies rt"
  by (simp_all add: open_session_def advance_session_def heartbeat_def read_now_eq Let_def split_beta split: sum.split)

lemma bodies_dispatch_one: "bodies (snd (dispatch_one jr rt)) = bodies rt"
proof -
  have "bodies (serve_hit now j r h rt) = bodies rt" "bodies (launch now j r s ep key rt) = bodies rt" for now j r h s ep key rt
    by (simp_all add: serve_hit_def launch_def Let_def split_beta)
  moreover have "bodies (rt\<lparr>rt_clock := c, rt_cache := h, rt_store := st\<rparr>) = bodies rt"
    if "reserve j ep now (rt_store rt) = Inr st" for c h st j ep now
    using reserve_frame [OF that] by (simp add: bodies_def)
  ultimately show ?thesis
    by (simp add: dispatch_one_def read_now_eq Let_def split_beta split: sum.split option.split py_error.split)
qed

lemma bodies_tick [simp]: "bodies (snd (tick rt)) = bodies rt"
proof -
  have "bodies (snd (ready_scan now jrs ready rt)) = bodies rt" for now jrs ready rt
    by (induction now jrs ready rt rule: ready_scan.induct) (simp_all split: sum.split)
  moreover have "bodies (snd (dispatch_loop ks rt)) = bodies rt" for ks rt
  proof (induction ks arbitrary: rt)
    case (Cons kjr ks)
    obtain k jr e rt1 where "kjr = (k, jr)" "dispatch_one jr rt = (e, rt1)" by (metis prod.exhaust)
    with Cons bodies_dispatch_one [of jr rt] show ?case by (simp split: sum.split)
  qed simp
  ultimately show ?thesis
    by (simp add: tick_def read_now_eq split_beta split: sum.split prod.split)
qed

lemma bodies_fail [simp]: "bodies (fail_task i t f rt) = bodies rt"
  by (simp add: fail_task_def read_now_eq Let_def split_beta split: sum.split)

lemma bodies_tasks [simp]:
  "bodies (task_begin i rt) = bodies rt" "bodies (task_complete i p rt) = bodies rt" "bodies (task_fail i f rt) = bodies rt"
  by (simp_all add: task_begin_def task_complete_def task_fail_def read_now_eq Let_def split_beta
      split: sum.split option.split)

lemma bodies_delivery [simp]:
  "bodies (snd (cancel i rt)) = bodies rt" "bodies (snd (consume i c rt)) = bodies rt"
  "bodies (snd (record_outcome i c outcome evidence rt)) = bodies rt"
proof -
  have "bodies (snd (read_ages os rt)) = bodies rt" for os rt
    by (induction os arbitrary: rt) (simp_all add: read_now_eq split_beta Let_def)
  then show "bodies (snd (cancel i rt)) = bodies rt" "bodies (snd (consume i c rt)) = bodies rt"
    "bodies (snd (record_outcome i c outcome evidence rt)) = bodies rt"
    by (simp_all add: cancel_def consume_def record_outcome_def read_now_eq Let_def split_beta
        split: sum.split option.split)
qed

lemma bodies_close [simp]: "bodies (close_begin rt) = bodies rt" "bodies (close_tasks rt) = bodies rt"
  by (simp_all add: close_begin_def close_queue_def close_tasks_def bodies_fold split_beta)

lemma bodies_add_job: "add_job j r (rt_store rt) = Inr st \<Longrightarrow> bodies (rt\<lparr>rt_store := st\<rparr>) = bodies rt @ [j]"
  by (auto simp: bodies_def add_job_def rbind_Inr_iff split: if_splits)

lemma bodies_submit: "set (bodies (snd (submit j rt))) \<subseteq> set (bodies rt) \<union> {j'. validate_job j = Inr j'}"
proof -
  have "bodies (supersede jrs rt) = bodies rt" for jrs rt
    unfolding supersede_def by (rule bodies_fold) (simp add: split_beta)
  then have "set (bodies (snd (store_submission now j reason jrs rt))) \<subseteq> insert j (set (bodies rt))" for now j reason jrs rt
    by (auto simp: store_submission_def Let_def bodies_add_job split: sum.split)
  then have "set (bodies (snd (submit_new j rt))) \<subseteq> insert j (set (bodies rt))" for j rt
    by (simp add: submit_new_def read_now_eq split_beta Let_def subset_insertI split: sum.split)
      (metis bodies_update(1))
  then show ?thesis
    by (auto simp: submit_def split: sum.split)
qed

lemma validated_job: "validate_job j = Inr j' \<Longrightarrow> job_valid j'"
  by (auto simp: validate_job_def job_valid_def rbind_Inr_iff Let_def job_fields_ok_def)

lemma step_valid: "rt_step rt rt' \<Longrightarrow> \<forall>j \<in> set (bodies rt). job_valid j \<Longrightarrow> \<forall>j \<in> set (bodies rt'). job_valid j"
proof (induction rule: rt_step.induct)
  case (submit rt j)
  then show ?case using bodies_submit [of j rt] validated_job by blast
qed (simp_all add: wait_turn_snd)

lemma recover_bodies [simp]: "map row_body (st_jobs (recover t now st)) = map row_body (st_jobs st)"
proof -
  have "map row_body (st_jobs (fold f xs st)) = map row_body (st_jobs st)"
    if "\<And>x st. map row_body (st_jobs (f x st)) = map row_body (st_jobs st)" for f and xs :: "'b list" and st
    using that by (induction xs arbitrary: st) auto
  note fold_same = this
  show ?thesis
    by (simp add: recover_def Let_def fold_same recover_job_def recover_attempt_def split_beta split: option.split)
qed

lemma start_valid:
  assumes "start_runtime sha cfg clk net bks locked file_left fp = Inr rt"
    "\<And>st. file_left = Some st \<Longrightarrow> \<forall>row \<in> set (st_jobs st). job_valid (row_body row)"
  shows "\<forall>j \<in> set (bodies rt). job_valid j"
proof -
  from assms(1) obtain st1 st2 now clk' m n where opened: "open_store locked file_left (budget_of cfg) = Inr st1"
      "bind_tenant (cfg_tenant cfg) st1 = Inr st2" "rt_store rt = add_event n ''coordinator_started'' m (recover (cfg_tenant cfg) now st2)"
    using validate_config_refs(1) by (fastforce simp: start_runtime_def rbind_Inr_iff Let_def split_beta)
  have "st_jobs st2 = (case file_left of None \<Rightarrow> [] | Some st \<Rightarrow> st_jobs st)"
    using opened(1,2) by (cases file_left) (auto simp: open_store_def bind_tenant_def empty_store_def split: if_splits option.splits)
  with opened(3) have "bodies rt = (case file_left of None \<Rightarrow> [] | Some st \<Rightarrow> map row_body (st_jobs st))"
    by (simp add: bodies_def split: option.split)
  then show ?thesis using assms(2) by (auto split: option.splits)
qed

lemma stored_jobs_valid:
  "reachable rt \<Longrightarrow> \<forall>j \<in> set (bodies rt). job_valid j"
  "left_behind st \<Longrightarrow> \<forall>row \<in> set (st_jobs st). job_valid (row_body row)"
proof (induction rule: reachable_left_behind.inducts)
  case (fresh sha cfg clk net bks locked fp rt)
  then show ?case by (intro start_valid) auto
next
  case (restart st sha cfg clk net bks locked fp rt)
  then show ?case by (intro start_valid) auto
next
  case (step rt rt')
  then show ?case using step_valid by blast
next
  case (crash rt)
  then show ?case by (simp add: bodies_def)
next
  case (reconciled st t es n st')
  then have "store_ok st" using reachable_ok(2) by (auto simp: file_ok_def)
  with reconciled show ?case by (simp add: reconcile_many_eq)
next
  case (released st p evidence n st')
  then show ?case by (auto simp: release_pool_def split: if_splits)
next
  case (extended st attempts microusd approval n st')
  then show ?case by (auto simp: extend_budget_def Let_def split: if_splits)
qed

lemma find_job_mem: "find_job t i st = Some row \<Longrightarrow> row \<in> set (st_jobs st)"
  by (auto simp: find_job_def find_Some_iff)



section \<open>Work that is no longer useful\<close>

lemma lapsed_stays:
  assumes "moves rt rt'" "find_job (tenant_of rt) i (rt_store rt) = Some row" "rc_state (row_receipt row) \<in> {EXPIRED, STALE}"
  shows "\<exists>row'. find_job (tenant_of rt) i (rt_store rt') = Some row' \<and> rc_state (row_receipt row') \<in> {EXPIRED, STALE}"
proof -
  from assms(1,2) obtain row' where "find_job (tenant_of rt) i (rt_store rt') = Some row'"
    "receipt_le (row_receipt row) (row_receipt row')" by (auto simp: moves_def rows_advance_def)
  with assms(3) show ?thesis by (auto simp: receipt_le_def)
qed

lemma expire_loop_ends:
  assumes "coord_ok rt" "\<And>jr. jr \<in> set jrs \<Longrightarrow> row_is rt jr \<and> rc_state (snd jr) \<in> {QUEUED, RUNNING}"
    "distinct (map (job_id \<circ> fst) jrs)" "(j, r) \<in> set jrs"
    "get_session (job_tenant j) (job_session_id j) (rt_store rt) = Inr s" "invalid_reason j s now (clock_id_of rt) \<noteq> None"
  shows "\<exists>row. find_job (tenant_of rt) (job_id j) (rt_store (snd (expire_loop now jrs rt))) = Some row \<and>
    rc_state (row_receipt row) \<in> {EXPIRED, STALE}"
  using assms
proof (induction jrs arbitrary: rt)
  case (Cons jr jrs)
  obtain j0 r0 where jr: "jr = (j0, r0)" by (cases jr)
  have here: "row_is rt (j0, r0)" "rc_state r0 \<in> {QUEUED, RUNNING}" using Cons.prems(2) [of jr] jr by auto
  then have id: "rc_job_id r0 = job_id j0" "job_tenant j0 = tenant_of rt" by (auto simp: row_is_def)
  obtain s0 where s0: "get_session (job_tenant j0) (job_session_id j0) (rt_store rt) = Inr s0"
    using session_of_row [OF Cons.prems(1) here(1)] .
  show ?case
  proof (cases "invalid_reason j0 s0 now (clock_id_of rt)")
    case None
    then have "(j, r) \<in> set jrs" using Cons.prems(4,5,6) s0 jr by auto
    with Cons.IH [of rt] Cons.prems None s0 jr show ?thesis by simp
  next
    case (Some reason)
    let ?rt = "snd (set_state j0 r0 (lapse_state reason) (Some reason) rt)"
    have g: "good rt ?rt"
      using may_set_end [OF here] lapse_state_cases [of reason] id by (intro good_set_state) auto
    then have ok: "coord_ok ?rt" by (rule goodD [OF _ Cons.prems(1)])
    have rest: "row_is ?rt jr' \<and> rc_state (snd jr') \<in> {QUEUED, RUNNING}" if "jr' \<in> set jrs" for jr'
      using Cons.prems(2) [of jr'] rest_ids [OF Cons.prems(3) that] that id
      by (auto simp: jr intro!: row_is_set_state)
    have d: "distinct (map (job_id \<circ> fst) jrs)" using Cons.prems(3) by (simp only: list.map distinct.simps)
    have step: "expire_loop now (jr # jrs) rt = expire_loop now jrs ?rt" using s0 Some by (simp add: jr)
    show ?thesis
    proof (cases "(j, r) = (j0, r0)")
      case True
      have "\<exists>row. find_job (tenant_of ?rt) (job_id j0) (rt_store ?rt) = Some row \<and> rc_state (row_receipt row) \<in> {EXPIRED, STALE}"
        using here(1) lapse_state_cases [of reason] id by (auto simp: row_is_def set_state_eq ledger with_receipt_def)
      then obtain row where row: "find_job (tenant_of ?rt) (job_id j0) (rt_store ?rt) = Some row"
        "rc_state (row_receipt row) \<in> {EXPIRED, STALE}" by blast
      have "good ?rt (snd (expire_loop now jrs ?rt))" using expire_loop_good [of ?rt jrs now] rest d by blast
      then have "moves ?rt (snd (expire_loop now jrs ?rt))" using ok by (simp add: good_def)
      from lapsed_stays [OF this row] True step show ?thesis by simp
    next
      case False
      then have "(j, r) \<in> set jrs" using Cons.prems(4) jr by auto
      moreover have "get_session (job_tenant j) (job_session_id j) (rt_store ?rt) = Inr s"
        using Cons.prems(5) get_session_cong [of "rt_store ?rt" "rt_store rt"] by simp
      ultimately show ?thesis using Cons.IH [OF ok rest d] Cons.prems(6) step by simp
    qed
  qed
qed simp

text \<open>C12: no work lingers: every job that is not useful any more when the background loop takes its turn (its window
  has passed, its session is closed or of another generation, the clock is another one) has ended when the turn is
  over, however many jobs there are and whatever else the turn does; in particular a queued or running job ends at
  the first turn after its window.\<close>

theorem lapsed_work_ends:
  assumes "reachable rt" "\<not> rt_closed rt" "find_job (tenant_of rt) i (rt_store rt) = Some row"
    "get_session (tenant_of rt) (job_session_id (row_body row)) (rt_store rt) = Inr s"
    "invalid_reason (row_body row) s (fst (clock_now_ns (rt_clock rt))) (clock_id_of rt) \<noteq> None"
  shows "\<exists>row'. find_job (tenant_of rt) i (rt_store (snd (tick rt))) = Some row' \<and> row_body row' = row_body row \<and>
    row_state row' \<notin> {QUEUED, RUNNING} \<and> (row_state row \<in> {QUEUED, RUNNING} \<longrightarrow> row_state row' \<in> {EXPIRED, STALE})"
proof -
  have ok: "coord_ok rt" using reachable_ok(1) [OF assms(1)] by simp
  let ?jrs = "list_jobs (tenant_of rt) [QUEUED, RUNNING] (rt_store rt)"
    and ?rt0 = "rt\<lparr>rt_clock := snd (clock_now_ns (rt_clock rt))\<rparr>" and ?now = "fst (clock_now_ns (rt_clock rt))"
  have row: "row_ok row" "row_tenant row = tenant_of rt" "row_id row = i" "row \<in> set (st_jobs (rt_store rt))"
    using find_job_ok [OF coord_store_ok [OF ok] assms(3)] find_job_mem [OF assms(3)] by auto
  have m: "moves rt (snd (tick rt))" "coord_ok (snd (tick rt))" using tick_good [of rt] ok by (simp_all add: good_def)
  then obtain row' where row': "find_job (tenant_of rt) i (rt_store (snd (tick rt))) = Some row'" "row_body row' = row_body row"
    "receipt_le (row_receipt row) (row_receipt row')" using assms(3) by (auto simp: moves_def rows_advance_def)
  have state: "row_state row' = rc_state (row_receipt row')" "row_state row = rc_state (row_receipt row)"
    using find_job_ok(1) [OF coord_store_ok [OF m(2)] row'(1)] row(1) by (simp_all add: row_ok_def)
  have ended: "rc_state (row_receipt row') \<in> {EXPIRED, STALE}" if "row_state row \<in> {QUEUED, RUNNING}"
  proof -
    let ?j = "row_body row" and ?r = "row_receipt row"
    have mem: "(?j, ?r) \<in> set ?jrs" using row that by (force simp: list_jobs_def)
    have ok0: "coord_ok ?rt0" by (rule goodD [OF good_clock ok])
    have jrs: "row_is ?rt0 jr \<and> rc_state (snd jr) \<in> {QUEUED, RUNNING}" if "jr \<in> set ?jrs" for jr
      using snapshot_rows [OF ok that] by simp
    have id: "job_tenant ?j = tenant_of rt" "job_id ?j = i" using row by (auto simp: row_ok_def)
    have eq: "snd (expire rt) = snd (expire_loop ?now ?jrs ?rt0)" by (simp add: expire_def read_now_eq)
    have "\<exists>row. find_job (tenant_of ?rt0) (job_id ?j) (rt_store (snd (expire_loop ?now ?jrs ?rt0))) = Some row \<and>
        rc_state (row_receipt row) \<in> {EXPIRED, STALE}"
      using expire_loop_ends [OF ok0 jrs snapshot_distinct [OF ok] mem, of s ?now] assms(4,5) id by simp
    then obtain row1 where row1: "find_job (tenant_of rt) i (rt_store (snd (expire rt))) = Some row1"
      "rc_state (row_receipt row1) \<in> {EXPIRED, STALE}" using id eq by auto
    have e: "coord_ok (snd (expire rt)) \<and> moves rt (snd (expire rt))" using expire_good [of rt] ok by (simp add: good_def)
    have "moves (snd (expire rt)) (snd (tick rt))" using tick_rest [OF ok assms(2)] e by (simp add: good_def)
    moreover have "tenant_of (snd (expire rt)) = tenant_of rt" using e by (simp add: moves_def)
    ultimately show ?thesis using lapsed_stays [of "snd (expire rt)" "snd (tick rt)" i row1] row1 row'(1) by auto
  qed
  moreover have "row_state row' \<notin> {QUEUED, RUNNING}" if "row_state row \<notin> {QUEUED, RUNNING}"
    using that row'(3) state by (cases "rc_state (row_receipt row)") (auto simp: receipt_le_def)
  ultimately have "row_state row' \<notin> {QUEUED, RUNNING} \<and> (row_state row \<in> {QUEUED, RUNNING} \<longrightarrow> row_state row' \<in> {EXPIRED, STALE})"
    by (cases "row_state row \<in> {QUEUED, RUNNING}") (auto simp: state(1))
  with row'(1,2) show ?thesis by blast
qed

text \<open>The deployment of \<open>Sample_Run\<close> on a clock that jumps past the deadline of the queued job.\<close>

definition late_clock :: clock where
  "late_clock = sample_clock\<lparr>clk_read := \<lambda>n. if n < 4 then 20 else 1000\<rparr>"

definition late_queued :: runtime where
  "late_queued = snd (submit sample_job (snd (open_session ''s'' ''r0'' (sample_start\<lparr>rt_clock := late_clock\<lparr>clk_pos := 2\<rparr>\<rparr>))))"

lemma late_reachable: "reachable late_queued"
proof -
  have "start_runtime (\<lambda>_. ''fp'') sample_config late_clock False [] False None ''fp'' = Inr (sample_start\<lparr>rt_clock := late_clock\<lparr>clk_pos := 2\<rparr>\<rparr>)"
    unfolding sample_start_def late_clock_def
    by (simp add: start_runtime_def sample_config_valid open_store_def sample_clock_def clock_now_ns_def bind_tenant_def)
      (simp add: sample_config_def budget_of_def empty_store_def recover_def list_jobs_def)
  then have "reachable (sample_start\<lparr>rt_clock := late_clock\<lparr>clk_pos := 2\<rparr>\<rparr>)" by (rule reachable_left_behind.fresh)
  then show ?thesis unfolding late_queued_def
    by (intro reachable_left_behind.step [OF reachable_left_behind.step [OF _ rt_step.open_session] rt_step.submit])
qed

definition late_view :: "runtime \<Rightarrow> bool \<times> string \<times> (job_state \<times> job) option \<times> string option" where
  "late_view rt = (rt_closed rt, tenant_of rt,
     map_option (\<lambda>row. (row_state row, row_body row)) (find_job ''t'' ''j1'' (rt_store rt)),
     (case get_session ''t'' ''s'' (rt_store rt) of Inl _ \<Rightarrow> None
      | Inr s \<Rightarrow> invalid_reason sample_job s (fst (clock_now_ns (rt_clock rt))) (clock_id_of rt)))"

theorem lapsed_work_ends_witness:
  "map_option row_state (find_job ''t'' ''j1'' (rt_store late_queued)) = Some QUEUED \<and>
   map_option (\<lambda>row. row_state row \<in> {EXPIRED, STALE}) (find_job ''t'' ''j1'' (rt_store (snd (tick late_queued)))) = Some True"
proof -
  have view: "late_view late_queued = (False, ''t'', Some (QUEUED, sample_job), Some ''deadline_or_freshness_expired'')" by code_simp
  then obtain row s where row: "find_job ''t'' ''j1'' (rt_store late_queued) = Some row" "row_state row = QUEUED" "row_body row = sample_job"
    and s: "get_session ''t'' ''s'' (rt_store late_queued) = Inr s"
      "invalid_reason sample_job s (fst (clock_now_ns (rt_clock late_queued))) (clock_id_of late_queued) \<noteq> None"
    by (auto simp: late_view_def split: sum.splits)
  have sid: "job_session_id sample_job = ''s''" by (simp add: sample_job_def)
  from lapsed_work_ends [OF late_reachable, of "''j1''" row s] view row s sid show ?thesis
    by (auto simp: late_view_def simp del: clock_now_ns_simps)
qed

end
