(* ===== verification/Py_Dict.thy ===== *)
theory Py_Dict
  imports Backends Py_Text Py_Bytes
begin

text \<open>
  What the tools under \<^verbatim>\<open>src/tools\<close> use of Python's dynamic values, over the JSON values of \<open>Py_Json\<close>: lookups that
  raise, iteration, dictionaries and sets keyed by values, \<^verbatim>\<open>sorted\<close>, and the arithmetic of \<^verbatim>\<open>int\<close> and \<^verbatim>\<open>float\<close>.
  Every \<^verbatim>\<open>NaN\<close> that the reader of \<^verbatim>\<open>json\<close> makes is one object, so it is one key.
\<close>

section \<open>Objects and lists\<close>

text \<open>\<^verbatim>\<open>v.get(k, d)\<close>, \<^verbatim>\<open>v[k]\<close>, \<^verbatim>\<open>v.values()\<close> and \<^verbatim>\<open>for x in v\<close>.\<close>

definition dict_get :: "json \<Rightarrow> string \<Rightarrow> json \<Rightarrow> json result" where
  "dict_get v k d = (case v of JObj kvs \<Rightarrow> Inr (case map_of kvs k of None \<Rightarrow> d | Some x \<Rightarrow> x) | _ \<Rightarrow> Inl (AttributeError ''get''))"

definition item_at :: "json \<Rightarrow> string \<Rightarrow> json result" where
  "item_at v k =
     (case v of JObj kvs \<Rightarrow> (case map_of kvs k of None \<Rightarrow> Inl (KeyError k) | Some x \<Rightarrow> Inr x)
      | _ \<Rightarrow> Inl (TypeError ''not indexed by a string''))"

definition first_of :: "json \<Rightarrow> json result" where
  "first_of v =
     (case v of JList (x # _) \<Rightarrow> Inr x | JList [] \<Rightarrow> Inl (IndexError ''list index out of range'')
      | JStr (c # _) \<Rightarrow> Inr (JStr [c]) | JStr [] \<Rightarrow> Inl (IndexError ''string index out of range'')
      | JObj _ \<Rightarrow> Inl (KeyError ''0'') | _ \<Rightarrow> Inl (TypeError ''not subscriptable''))"

definition dict_items :: "json \<Rightarrow> (string \<times> json) list result" where
  "dict_items v = (case v of JObj kvs \<Rightarrow> Inr kvs | _ \<Rightarrow> Inl (AttributeError ''items''))"

definition iterate :: "json \<Rightarrow> json list result" where
  "iterate v =
     (case v of JList vs \<Rightarrow> Inr vs | JObj kvs \<Rightarrow> Inr (map (\<lambda>kv. JStr (fst kv)) kvs) | JStr s \<Rightarrow> Inr (map (\<lambda>c. JStr [c]) s)
      | _ \<Rightarrow> Inl (TypeError ''not iterable''))"

text \<open>\<^verbatim>\<open>all(...)\<close> of a generator: it stops at the first false item.\<close>

fun all_true :: "('a \<Rightarrow> bool result) \<Rightarrow> 'a list \<Rightarrow> bool result" where
  "all_true f [] = Inr True"
| "all_true f (x # xs) = rbind (f x) (\<lambda>b. if b then all_true f xs else Inr False)"

section \<open>Keys\<close>

definition hashable :: "json \<Rightarrow> json result" where
  "hashable v = (case v of JList _ \<Rightarrow> Inl (TypeError ''unhashable type: list'') | JObj _ \<Rightarrow> Inl (TypeError ''unhashable type: dict'') | _ \<Rightarrow> Inr v)"

definition same_key :: "json \<Rightarrow> json \<Rightarrow> bool" where
  "same_key a b \<longleftrightarrow> a = b \<or> py_eq a b"

text \<open>A set made of values in turn, and \<^verbatim>\<open>d[k] = v\<close>: an equal key keeps its place.\<close>

definition add_key :: "json \<Rightarrow> json list \<Rightarrow> json list" where
  "add_key k ks = (if list_ex (same_key k) ks then ks else ks @ [k])"

definition keys_of :: "json list \<Rightarrow> json list" where
  "keys_of vs = fold add_key vs []"

fun put_by :: "('k \<Rightarrow> 'k \<Rightarrow> bool) \<Rightarrow> 'k \<Rightarrow> 'v \<Rightarrow> ('k \<times> 'v) list \<Rightarrow> ('k \<times> 'v) list" where
  "put_by eq k v [] = [(k, v)]"
| "put_by eq k v ((k', v') # kvs) = (if eq k k' then (k', v) # kvs else (k', v') # put_by eq k v kvs)"

definition same_keys :: "json list \<Rightarrow> json list \<Rightarrow> bool" where
  "same_keys ks ls \<longleftrightarrow> list_all (\<lambda>k. list_ex (same_key k) ls) ks \<and> list_all (\<lambda>l. list_ex (same_key l) ks) ls"

text \<open>
  \<^verbatim>\<open>sorted\<close> of the values of a set: text by code points, numbers by value, and \<^verbatim>\<open>TypeError\<close> for two values that do
  not compare. The place of a \<^verbatim>\<open>NaN\<close> among numbers is that of an insertion, which Python does not promise.
\<close>

definition json_le :: "json \<Rightarrow> json \<Rightarrow> bool" where
  "json_le a b = (case (py_number a, py_number b) of (Some x, Some y) \<Rightarrow> float_le x y | _ \<Rightarrow> False)"

fun insert_number :: "json \<Rightarrow> json list \<Rightarrow> json list" where
  "insert_number v [] = [v]"
| "insert_number v (w # ws) = (if json_le v w then v # w # ws else w # insert_number v ws)"

definition str_of :: "json \<Rightarrow> string" where
  "str_of v = (case v of JStr s \<Rightarrow> s | _ \<Rightarrow> [])"

definition sorted_values :: "json list \<Rightarrow> json list result" where
  "sorted_values vs =
     (if length vs \<le> 1 then Inr vs
      else if list_all is_str vs then Inr (map JStr (sort (map str_of vs)))
      else if list_all (\<lambda>v. py_number v \<noteq> None) vs then Inr (foldr insert_number vs [])
      else Inl (TypeError ''< not supported''))"

section \<open>Numbers\<close>

text \<open>
  The shortest decimal literal of the binary64 number nearest to \<open>a / b\<close>, the closest to it among the shortest:
  what \<^verbatim>\<open>float.__repr__\<close> prints. \<open>decimals n a b\<close> are the two literals of \<open>n\<close> digits around \<open>a / b\<close>.
\<close>

function dec_len :: "int \<Rightarrow> nat" where
  "dec_len n = (if n \<le> 0 then 0 else Suc (dec_len (n div 10)))"
  by pat_completeness auto
termination by (relation "measure nat") auto

declare dec_len.simps [simp del]

definition decimals :: "nat \<Rightarrow> int \<Rightarrow> int \<Rightarrow> (int \<times> int) list" where
  "decimals n a b =
     (let l = int (dec_len a) - int (dec_len b);
          point = (if a * 10 ^ nat (- l) < b * 10 ^ nat l then l else l + 1);
          k = point - int n;
          num = a * 10 ^ nat (- k); den = b * 10 ^ nat k; q = num div den
      in if 2 * (num mod den) < den \<or> 2 * (num mod den) = den \<and> even q then [(q, k), (q + 1, k)] else [(q + 1, k), (q, k)])"

definition same_binary :: "int \<times> int \<Rightarrow> (int \<times> int) option \<Rightarrow> bool" where
  "same_binary x y =
     (case y of None \<Rightarrow> False
      | Some (m', e') \<Rightarrow> (case x of (m, e) \<Rightarrow> let k = min e e' in m * 2 ^ nat (e - k) = m' * 2 ^ nat (e' - k)))"

definition shortest :: "int \<times> int \<Rightarrow> pyfloat" where
  "shortest x = (case x of (m, e) \<Rightarrow>
     if m = 0 then Dec 0 0
     else case filter (\<lambda>(d, k). same_binary x (round_double (d * 10 ^ nat k) (10 ^ nat (- k))))
            (concat (map (\<lambda>n. decimals n (m * 2 ^ nat e) (2 ^ nat (- e))) [1..<18])) of
       (d, k) # _ \<Rightarrow> drop_zeros 17 d k
     | [] \<Rightarrow> Dec 0 0)"

definition float_minus :: "pyfloat \<Rightarrow> pyfloat" where
  "float_minus x = (case x of Dec m e \<Rightarrow> Dec (- m) e | PosInf \<Rightarrow> NegInf | NegInf \<Rightarrow> PosInf | NotANumber \<Rightarrow> NotANumber)"

text \<open>The float nearest to \<open>a / b\<close> for \<open>0 < b\<close>, infinite when it overflows.\<close>

definition float_ratio :: "int \<Rightarrow> int \<Rightarrow> pyfloat" where
  "float_ratio a b =
     (let x = (case round_double \<bar>a\<bar> b of None \<Rightarrow> PosInf | Some d \<Rightarrow> shortest d)
      in if a < 0 then float_minus x else x)"

text \<open>The value of a float, as the binary64 number that its literal denotes: \<open>(a, b)\<close> for \<open>a / b\<close>.\<close>

definition float_value :: "pyfloat \<Rightarrow> (int \<times> int) option" where
  "float_value x =
     (case x of Dec m e \<Rightarrow>
        (case round_double (\<bar>m\<bar> * 10 ^ nat e) (10 ^ nat (- e)) of
           None \<Rightarrow> None | Some (d, k) \<Rightarrow> Some ((if m < 0 then - d else d) * 2 ^ nat k, 2 ^ nat (- k)))
      | _ \<Rightarrow> None)"

definition to_float :: "json \<Rightarrow> pyfloat result" where
  "to_float v =
     (case v of JFloat x \<Rightarrow> Inr x | JBool b \<Rightarrow> Inr (Dec (if b then 1 else 0) 0)
      | JInt i \<Rightarrow> if int_too_large i then Inl (OverflowError ''int too large to convert to float'') else Inr (float_ratio i 1)
      | _ \<Rightarrow> Inl (TypeError ''unsupported operand''))"

text \<open>
  \<^verbatim>\<open>a + b\<close> of numbers; an integer operand of a float sum is converted first. \<^verbatim>\<open>sum\<close> is the repeated addition: the
  compensation that later releases of CPython add to a sum of floats is left out.
\<close>

definition as_int :: "json \<Rightarrow> int option" where
  "as_int v = (case v of JInt i \<Rightarrow> Some i | JBool b \<Rightarrow> Some (if b then 1 else 0) | _ \<Rightarrow> None)"

definition float_add :: "pyfloat \<Rightarrow> pyfloat \<Rightarrow> pyfloat" where
  "float_add x y =
     (case (float_value x, float_value y) of
        (Some (a, b), Some (c, d)) \<Rightarrow> float_ratio (a * d + c * b) (b * d)
      | (Some _, None) \<Rightarrow> y
      | (None, Some _) \<Rightarrow> x
      | (None, None) \<Rightarrow> if x = y then x else NotANumber)"

definition py_add :: "json \<Rightarrow> json \<Rightarrow> json result" where
  "py_add u v =
     (case (as_int u, as_int v) of
        (Some i, Some j) \<Rightarrow> Inr (JInt (i + j))
      | _ \<Rightarrow> rbind (to_float u) (\<lambda>x. rbind (to_float v) (\<lambda>y. Inr (JFloat (float_add x y)))))"

fun py_sum_from :: "json \<Rightarrow> json list \<Rightarrow> json result" where
  "py_sum_from acc [] = Inr acc"
| "py_sum_from acc (v # vs) = rbind (py_add acc v) (\<lambda>acc. py_sum_from acc vs)"

definition py_sum :: "json list \<Rightarrow> json result" where
  "py_sum vs = py_sum_from (JInt 0) vs"

text \<open>\<^verbatim>\<open>a / b\<close>: integers are divided exactly and rounded once.\<close>

definition float_divide :: "pyfloat \<Rightarrow> pyfloat \<Rightarrow> pyfloat result" where
  "float_divide x y =
     (case float_value y of
        None \<Rightarrow> Inr (if y = NotANumber \<or> float_value x = None then NotANumber else Dec 0 0)
      | Some (c, d) \<Rightarrow>
          if c = 0 then Inl (ZeroDivisionError ''float division by zero'')
          else (case float_value x of
                  Some (a, b) \<Rightarrow> Inr (float_ratio (a * d * sgn c) (b * \<bar>c\<bar>))
                | None \<Rightarrow> Inr (if c < 0 then float_minus x else x)))"

definition py_divide :: "json \<Rightarrow> json \<Rightarrow> json result" where
  "py_divide u v =
     (case (as_int u, as_int v) of
        (Some i, Some j) \<Rightarrow>
          if j = 0 then Inl (ZeroDivisionError ''division by zero'')
          else (case float_ratio (i * sgn j) \<bar>j\<bar> of
                  Dec m e \<Rightarrow> Inr (JFloat (Dec m e))
                | _ \<Rightarrow> Inl (OverflowError ''integer division result too large for a float''))
      | _ \<Rightarrow> rbind (to_float u) (\<lambda>x. rbind (to_float v) (\<lambda>y. rbind (float_divide x y) (\<lambda>z. Inr (JFloat z)))))"

section \<open>\<open>str\<close> and \<open>repr\<close>\<close>

text \<open>Printing of a value: a string in single quotes unless only those occur in it, with what is not printable escaped.\<close>

definition repr_char :: "char \<Rightarrow> char \<Rightarrow> string" where
  "repr_char q c =
     (let n = (of_char c :: nat) in
      if c = q \<or> c = backslash_char then [backslash_char, c]
      else if n = 10 then [backslash_char, CHR ''n'']
      else if n = 13 then [backslash_char, CHR ''r'']
      else if n = 9 then [backslash_char, CHR ''t'']
      else if n < 32 \<or> 127 \<le> n \<and> n \<le> 160 \<or> n = 173 then [backslash_char, CHR ''x'', hex_char (n div 16), hex_char (n mod 16)]
      else [c])"

definition repr_str :: "string \<Rightarrow> string" where
  "repr_str s =
     (let q = (if CHR 0x27 \<in> set s \<and> quote_char \<notin> set s then quote_char else CHR 0x27)
      in q # concat (map (repr_char q) s) @ [q])"

definition repr_float :: "pyfloat \<Rightarrow> string" where
  "repr_float x = (case x of PosInf \<Rightarrow> ''inf'' | NegInf \<Rightarrow> ''-inf'' | NotANumber \<Rightarrow> ''nan'' | Dec _ _ \<Rightarrow> float_repr x)"

fun py_repr :: "json \<Rightarrow> string"
  and repr_items :: "json list \<Rightarrow> string"
  and repr_members :: "(string \<times> json) list \<Rightarrow> string" where
  "py_repr JNull = ''None''"
| "py_repr (JBool b) = (if b then ''True'' else ''False'')"
| "py_repr (JInt i) = int_repr i"
| "py_repr (JFloat x) = repr_float x"
| "py_repr (JStr s) = repr_str s"
| "py_repr (JList vs) = CHR ''['' # repr_items vs @ '']''"
| "py_repr (JObj kvs) = CHR ''{'' # repr_members kvs @ ''}''"
| "repr_items [] = ''''"
| "repr_items (v # vs) = py_repr v @ (if vs = [] then '''' else '', '' @ repr_items vs)"
| "repr_members [] = ''''"
| "repr_members ((k, v) # kvs) = repr_str k @ '': '' @ py_repr v @ (if kvs = [] then '''' else '', '' @ repr_members kvs)"

definition py_str :: "json \<Rightarrow> string" where
  "py_str v = (case v of JStr s \<Rightarrow> s | _ \<Rightarrow> py_repr v)"

section \<open>Facts\<close>

lemma put_by_length: "length (put_by eq k v kvs) \<le> Suc (length kvs)"
  by (induction eq k v kvs rule: put_by.induct) auto

lemma put_by_keys: "map fst (put_by eq k v kvs) = map fst kvs \<or> map fst (put_by eq k v kvs) = map fst kvs @ [k] \<and> (\<forall>k' \<in> fst ` set kvs. \<not> eq k k')"
  by (induction eq k v kvs rule: put_by.induct) auto

lemma all_true_Inr_True: "all_true f xs = Inr True \<longleftrightarrow> (\<forall>x \<in> set xs. f x = Inr True)"
  by (induction xs) (auto simp: rbind_Inr_iff)

end
