(* ===== verification/Tools_Evaluate.thy ===== *)
theory Tools_Evaluate
  imports Py_Dict
begin

text \<open>
  Scoring of a candidate run, \<^verbatim>\<open>src/tools/r5_evaluate_candidate.py\<close>. Files are given by their bytes, digests by the
  function \<open>sha256\<close> on bytes, and the evaluation is the object that \<^verbatim>\<open>evaluate\<close> returns.
\<close>

definition response_keys :: "string list" where
  "response_keys = [''answer'', ''evidence_ids'', ''reason'']"

definition read_json :: "string \<Rightarrow> json result" where
  "read_json content = rbind (utf8_decode content) (json_loads False)"

definition read_object :: "string \<Rightarrow> (string \<times> json) list result" where
  "read_object content = rbind (read_json content) (\<lambda>v.
     case v of JObj kvs \<Rightarrow> Inr kvs | _ \<Rightarrow> Inl (ValueError ''Expected a JSON object''))"

section \<open>One trial\<close>

text \<open>The response of a prediction, or the code that says why there is none.\<close>

definition prediction_value :: "json \<Rightarrow> (string + (string \<times> json) list) result" where
  "prediction_value prediction =
     (case prediction of
        JObj kvs \<Rightarrow>
          if keys_are response_keys kvs then Inr (Inr kvs)
          else (case jget kvs ''text'' of
            JStr s \<Rightarrow>
              if s = [] then Inr (Inl ''missing_text_payload'')
              else (case json_loads False s of
                Inl (JSONDecodeError _) \<Rightarrow> Inr (Inl ''text_not_strict_json'')
              | Inl e \<Rightarrow> Inl e
              | Inr (JObj value) \<Rightarrow> Inr (Inr value)
              | Inr _ \<Rightarrow> Inr (Inl ''response_not_object''))
          | _ \<Rightarrow> Inr (Inl ''missing_text_payload''))
      | _ \<Rightarrow> Inr (Inl ''prediction_not_object''))"

text \<open>The answers allowed, the answer expected and the evidence offered, checked in that order.\<close>

definition label_answers :: "json \<Rightarrow> (json list \<times> json) result" where
  "label_answers label =
     rbind (dict_get label ''allowed_answers'' JNull) (\<lambda>allowed.
       case allowed of
         JList vs \<Rightarrow>
           if vs = [] \<or> \<not> list_all is_str vs then Inl (ValueError ''Invalid allowed answers'')
           else rbind (dict_get label ''answer'' JNull) (\<lambda>expected.
             if expected \<notin> set vs then Inl (ValueError ''Expected answer is not allowed'') else Inr (vs, expected))
       | _ \<Rightarrow> Inl (ValueError ''Invalid allowed answers''))"

definition case_evidence :: "(string \<times> json) list \<Rightarrow> json list result" where
  "case_evidence c =
     (case jget c ''selected_frames'' of
        JList frames \<Rightarrow>
          if frames = [] then Inl (ValueError ''Missing selected-frame provenance'')
          else rbind (traverse (\<lambda>row. rbind (dict_get row ''evidence_id'' JNull) hashable) frames) (\<lambda>found.
            if JNull \<in> set found \<or> length (keys_of found) \<noteq> length frames then Inl (ValueError ''Invalid evidence IDs'')
            else Inr (keys_of found))
      | _ \<Rightarrow> Inl (ValueError ''Missing selected-frame provenance''))"

definition reason_given :: "json \<Rightarrow> bool" where
  "reason_given v = (case v of JStr s \<Rightarrow> strip s \<noteq> [] | _ \<Rightarrow> False)"

definition cited_ids :: "(string \<times> json) list \<Rightarrow> json list option" where
  "cited_ids value = (case jget value ''evidence_ids'' of
     JList found \<Rightarrow> if list_all is_str found then Some found else None | _ \<Rightarrow> None)"

definition schema_valid :: "json list \<Rightarrow> (string \<times> json) list \<Rightarrow> bool" where
  "schema_valid allowed value \<longleftrightarrow>
     keys_are response_keys value \<and> jget value ''answer'' \<in> set allowed \<and> reason_given (jget value ''reason'') \<and> cited_ids value \<noteq> None"

definition citations_valid :: "json list \<Rightarrow> (string \<times> json) list \<Rightarrow> bool" where
  "citations_valid evidence value \<longleftrightarrow>
     (case cited_ids value of None \<Rightarrow> False
      | Some found \<Rightarrow> found \<noteq> [] \<and> distinct found \<and> list_all (\<lambda>i. list_ex (same_key i) evidence) found)"

record score_row =
  sr_case :: json
  sr_state :: json
  sr_parse_error :: "string option"
  sr_schema_valid :: bool
  sr_citations_valid :: bool
  sr_answer_correct :: bool
  sr_cited_correct :: bool

definition score_trial :: "(string \<times> json) list \<Rightarrow> (string \<times> json) list \<Rightarrow> json \<Rightarrow> score_row result" where
  "score_trial trial c label =
     rbind (prediction_value (jget trial ''prediction'')) (\<lambda>parsed.
     rbind (label_answers label) (\<lambda>(allowed, expected).
     rbind (case_evidence c) (\<lambda>evidence.
       let schema = (case parsed of Inl _ \<Rightarrow> False | Inr value \<Rightarrow> schema_valid allowed value);
           citations = (case parsed of Inl _ \<Rightarrow> False | Inr value \<Rightarrow> schema \<and> citations_valid evidence value);
           correct = (case parsed of Inl _ \<Rightarrow> False | Inr value \<Rightarrow> schema \<and> jget value ''answer'' = expected)
       in Inr \<lparr>sr_case = jget trial ''case_id'', sr_state = jget trial ''state'',
            sr_parse_error = (case parsed of Inl code \<Rightarrow> Some code | Inr _ \<Rightarrow> None), sr_schema_valid = schema,
            sr_citations_valid = citations, sr_answer_correct = correct, sr_cited_correct = (correct \<and> citations)\<rparr>)))"

section \<open>A report\<close>

definition verify_label_audit :: "(string \<Rightarrow> string) \<Rightarrow> string \<Rightarrow> string \<Rightarrow> json result" where
  "verify_label_audit sha256 audit labels =
     rbind (read_object audit) (\<lambda>kvs.
       case jget kvs ''labels'' of
         JObj l \<Rightarrow>
           if jget l ''sha256'' \<noteq> JStr (sha256 labels)
           then Inl (ValueError ''Private labels do not match the retained audit report hash'')
           else Inr (JObj [(''audit_report_sha256'', JStr (sha256 audit)), (''labels_sha256'', JStr (sha256 labels)),
             (''audit_held_out'', jget l ''held_out''), (''audit_case_count'', jget l ''case_count'')])
       | _ \<Rightarrow> Inl (ValueError ''Private labels do not match the retained audit report hash''))"

text \<open>\<^verbatim>\<open>{row.get("case_id"): row for row in rows if isinstance(row, dict)}\<close>.\<close>

fun rows_by_case :: "(json \<times> (string \<times> json) list) list \<Rightarrow> json list \<Rightarrow> (json \<times> (string \<times> json) list) list result" where
  "rows_by_case acc [] = Inr acc"
| "rows_by_case acc (v # vs) =
     (case v of JObj row \<Rightarrow> rbind (hashable (jget row ''case_id'')) (\<lambda>k. rows_by_case (put_by same_key k row acc) vs)
      | _ \<Rightarrow> rows_by_case acc vs)"

definition case_row :: "json \<Rightarrow> (json \<times> (string \<times> json) list) list \<Rightarrow> (string \<times> json) list" where
  "case_row k rows = (case find (\<lambda>kr. same_key k (fst kr)) rows of None \<Rightarrow> [] | Some (_, row) \<Rightarrow> row)"

text \<open>The checks of a report, up to its cases and trials by their ids.\<close>

definition report_cases :: "(string \<times> json) list \<Rightarrow> (string \<times> json) list \<Rightarrow>
    ((json \<times> (string \<times> json) list) list \<times> (json \<times> (string \<times> json) list) list) result" where
  "report_cases report labels =
     (if jget report ''labels_read'' \<noteq> JBool False then Inl (ValueError ''Runtime report does not prove labels remained unread'')
      else if jget report ''r5_qualification'' \<noteq> JStr ''not_qualified''
      then Inl (ValueError ''Evaluator expects an explicitly unqualified runtime report'')
      else case jget report ''input_provenance'' of
        JObj provenance \<Rightarrow>
          (case (jget provenance ''cases'', jget report ''trials'') of
             (JList cs, JList ts) \<Rightarrow>
               rbind (rows_by_case [] cs) (\<lambda>case_rows. rbind (rows_by_case [] ts) (\<lambda>trial_rows.
                 if length case_rows \<noteq> length cs \<or> length trial_rows \<noteq> length ts
                 then Inl (ValueError ''Duplicate or malformed case IDs'')
                 else if \<not> same_keys (map fst case_rows) (map fst trial_rows) \<or>
                   \<not> list_all (\<lambda>(k, _). k \<in> set (map (\<lambda>(l, _). JStr l) labels)) case_rows
                 then Inl (ValueError ''Report provenance, trials, and labels do not contain the same cases'')
                 else Inr (case_rows, trial_rows)))
           | _ \<Rightarrow> Inl (ValueError ''Runtime report lacks cases or trials''))
      | _ \<Rightarrow> Inl (ValueError ''Runtime report lacks input provenance''))"

definition score_rows :: "(string \<times> json) list \<Rightarrow> (string \<times> json) list \<Rightarrow> score_row list result" where
  "score_rows report labels =
     rbind (report_cases report labels) (\<lambda>(case_rows, trial_rows).
       traverse (\<lambda>(k, c). score_trial (case_row k trial_rows) c (jget labels (str_of k))) case_rows)"

definition score_columns :: "(string \<times> (score_row \<Rightarrow> bool)) list" where
  "score_columns = [(''schema_valid'', sr_schema_valid), (''citations_valid'', sr_citations_valid),
     (''answer_correct'', sr_answer_correct), (''cited_correct'', sr_cited_correct)]"

definition score_counts :: "score_row list \<Rightarrow> (string \<times> int) list" where
  "score_counts rows = map (\<lambda>(k, f). (k, int (length (filter f rows)))) score_columns"

definition score_row_json :: "score_row \<Rightarrow> json" where
  "score_row_json r =
     JObj [(''case_id'', sr_case r), (''transport_state'', sr_state r), (''parse_error'', opt_json JStr (sr_parse_error r)),
           (''schema_valid'', JBool (sr_schema_valid r)), (''citations_valid'', JBool (sr_citations_valid r)),
           (''answer_correct'', JBool (sr_answer_correct r)), (''cited_correct'', JBool (sr_cited_correct r))]"

definition evaluate_candidate :: "(string \<Rightarrow> string) \<Rightarrow> string \<Rightarrow> string \<Rightarrow> string \<Rightarrow> json result" where
  "evaluate_candidate sha256 report_file labels_file audit_file =
     rbind (read_object report_file) (\<lambda>report.
     rbind (read_object labels_file) (\<lambda>labels.
     rbind (verify_label_audit sha256 audit_file labels_file) (\<lambda>label_audit.
     rbind (score_rows report labels) (\<lambda>rows.
       let total = int (length rows); counts = score_counts rows in
       rbind (traverse (\<lambda>(k, n). rbind (py_divide (JInt n) (JInt total)) (\<lambda>rate. Inr (k, rate))) counts) (\<lambda>rates.
         Inr (JObj
           [(''protocol'', JStr ''R5 candidate independent post-inference evaluation''),
            (''source_report_sha256'', JStr (sha256 report_file)), (''private_labels_sha256'', JStr (sha256 labels_file)),
            (''label_audit'', label_audit), (''labels_read_by_runtime'', JBool False),
            (''labels_read_by_evaluator'', JBool True), (''case_count'', JInt total),
            (''transport_consumed'', JInt (int (length (filter (\<lambda>r. sr_state r = JStr ''consumed'') rows)))),
            (''counts'', JObj (map (\<lambda>(k, n). (k, JInt n)) counts)), (''rates'', JObj rates),
            (''rows'', JList (map score_row_json rows)), (''r5_qualification'', JStr ''not_qualified''),
            (''interpretation'', JStr (''Post-inference scoring artifact only. Qualification additionally requires independent '' @
              ''label custody and the predeclared campaign quality, latency, cost, and charge gates.'')),
            (''model_calls'', JInt 0), (''native_actions'', JInt 0)]))))))"

end
