(* ===== verification/Tools_Matrix.thy ===== *)
theory Tools_Matrix
  imports Tools_Evaluate Load Wire
begin

text \<open>
  The two tools that read recorded runs of the scheduler matrix: the generation audit of
  \<^verbatim>\<open>src/tools/r4_audit_generations.py\<close>, with the provider's answers as a parameter, and the evaluation of
  \<^verbatim>\<open>src/tools/r4_evaluate_endpoint_matrix.py\<close>. Files are given by their bytes.
\<close>

section \<open>The generation audit\<close>

record gen_ref =
  gr_ledger :: string
  gr_job :: string
  gr_generation :: string

text \<open>The receipts of a ledger in the order of their job ids.\<close>

definition generation_ids :: "string \<times> store \<Rightarrow> gen_ref list" where
  "generation_ids = (\<lambda>(ledger, s). concat (map (\<lambda>r.
     case rc_provider_request_id (row_receipt r) of
       None \<Rightarrow> []
     | Some g \<Rightarrow> if g = [] then [] else [\<lparr>gr_ledger = ledger, gr_job = row_id r, gr_generation = g\<rparr>])
     (sort_key row_id (st_jobs s))))"

text \<open>What \<^verbatim>\<open>urlopen\<close> of a request gives: a body, an error status, an error of the network, or another exception.\<close>

datatype query_reply = Body string | Http_Status int | Network_Error string | Other_Error py_error

definition generation_fields :: "string list" where
  "generation_fields = [''id'', ''request_id'', ''provider_name'', ''model'', ''upstream_id'', ''created_at'', ''data_region'',
     ''finish_reason'', ''total_cost'', ''usage'', ''generation_time'', ''latency'']"

text \<open>\<^verbatim>\<open>urlencode({"id": ...})\<close>: every byte but letters, digits and \<open>_.-~\<close> is escaped, a space is a plus sign.\<close>

definition hex_upper :: "nat \<Rightarrow> char" where
  "hex_upper n = (if n < 10 then char_of (48 + n) else char_of (55 + n))"

definition quote_char_plus :: "char \<Rightarrow> string" where
  "quote_char_plus c =
     (if is_alpha c \<or> c \<in> set ''0123456789_.-~'' then [c]
      else if c = CHR '' '' then ''+''
      else [CHR ''%'', hex_upper (of_char c div 16), hex_upper (of_char c mod 16)])"

definition generation_url :: "string \<Rightarrow> string \<Rightarrow> string" where
  "generation_url base g =
     rev (dropWhile (\<lambda>c. c = CHR ''/'') (rev base)) @ ''/generation?id='' @ concat (map quote_char_plus (utf8_encode g))"

definition query_record :: "string \<Rightarrow> string \<Rightarrow> (string \<times> json) list \<Rightarrow> (string \<times> json) list" where
  "query_record g status rest = [(''generation_id'', JStr g), (''status'', JStr status)] @ rest"

definition fetch :: "(string \<Rightarrow> string \<Rightarrow> query_reply) \<Rightarrow> string \<Rightarrow> string \<Rightarrow> string \<Rightarrow> (string \<times> json) list result" where
  "fetch urlopen base token g =
     (case urlopen (generation_url base g) (''Bearer '' @ token) of
        Http_Status n \<Rightarrow> Inr (query_record g ''http_error'' [(''http_status'', JInt n)])
      | Network_Error name \<Rightarrow> Inr (query_record g ''query_error'' [(''error_type'', JStr name)])
      | Other_Error e \<Rightarrow> Inl e
      | Body content \<Rightarrow>
          (case read_json content of
             Inl (JSONDecodeError _) \<Rightarrow> Inr (query_record g ''query_error'' [(''error_type'', JStr ''JSONDecodeError'')])
           | Inl e \<Rightarrow> Inl e
           | Inr body \<Rightarrow>
             (case (case body of JObj kvs \<Rightarrow> jget kvs ''data'' | _ \<Rightarrow> JNull) of
                JObj found \<Rightarrow> Inr (query_record g ''ok''
                  (map (\<lambda>f. (f, jget found f)) (filter (\<lambda>f. f \<in> set (map fst found)) generation_fields)))
              | _ \<Rightarrow> Inr (query_record g ''invalid_response'' []))))"

text \<open>The first reference to each generation, by generation.\<close>

definition unique_refs :: "gen_ref list \<Rightarrow> gen_ref list" where
  "unique_refs refs = fold (\<lambda>r us. if gr_generation r \<in> set (map gr_generation us) then us else us @ [r]) refs []"

definition fetch_record :: "(string \<Rightarrow> string \<Rightarrow> query_reply) \<Rightarrow> string \<Rightarrow> string \<Rightarrow> gen_ref \<Rightarrow> (string \<times> json) list result" where
  "fetch_record urlopen base token r =
     rbind (fetch urlopen base token (gr_generation r)) (\<lambda>kvs.
       Inr (dict_update kvs [(''ledger'', JStr (gr_ledger r)), (''job_id'', JStr (gr_job r))]))"

text \<open>\<^verbatim>\<open>sorted({r.get(k) for r in records if r.get(k)})\<close>.\<close>

definition served :: "string \<Rightarrow> (string \<times> json) list list \<Rightarrow> json list result" where
  "served k records =
     rbind (traverse hashable (filter py_true (map (\<lambda>r. jget r k) records))) (\<lambda>found. sorted_values (keys_of found))"

definition audit_generations :: "bool \<Rightarrow> string option \<Rightarrow> (string \<Rightarrow> string \<Rightarrow> query_reply) \<Rightarrow> string \<Rightarrow> (string \<times> store) list \<Rightarrow> json result" where
  "audit_generations exists token urlopen base ledgers =
     (if exists then Inl (FileExistsError ''Output already exists'')
      else case token of
        None \<Rightarrow> Inl (ValueError ''Missing credential'')
      | Some token \<Rightarrow>
          if token = [] then Inl (ValueError ''Missing credential'')
          else let refs = concat (map generation_ids ledgers) in
            rbind (traverse (fetch_record urlopen base token) (sort_key gr_generation (unique_refs refs))) (\<lambda>records.
              let successful = filter (\<lambda>r. jget r ''status'' = JStr ''ok'') records in
              rbind (served ''provider_name'' successful) (\<lambda>providers.
              rbind (served ''model'' successful) (\<lambda>models.
                Inr (JObj
                  [(''protocol'', JStr ''R4 retained generation metadata audit''),
                   (''ledgers'', JList (map (\<lambda>l. JStr (fst l)) ledgers)),
                   (''generation_ids_found'', JInt (int (length refs))), (''generation_ids_unique'', JInt (int (length records))),
                   (''successful_metadata'', JInt (int (length successful))),
                   (''failed_metadata_queries'', JInt (int (length records) - int (length successful))),
                   (''providers'', JList providers), (''models'', JList models), (''records'', JList (map JObj records)),
                   (''metadata_only'', JBool True), (''model_calls'', JInt 0), (''native_actions'', JInt 0),
                   (''quality_claim'', JBool False)])))))"

section \<open>The plan in canonical form\<close>

definition item_names :: "string list" where
  "item_names = [''id'', ''session'', ''model'', ''workload'', ''release_ms'', ''deadline_after_ms'', ''profile_capture_lag_ms'',
     ''result_kind'', ''max_age_ms'', ''evidence_hashes'', ''observation_ids'', ''operation'', ''replace_key'', ''discardable'',
     ''cacheable'', ''payload_json'']"

definition item_of_json :: "json \<Rightarrow> load_item result" where
  "item_of_json v =
     rbind (object_of item_names v) (\<lambda>kvs.
     rbind (field kvs ''id'' dec_str) (\<lambda>iid. rbind (field kvs ''session'' dec_str) (\<lambda>sid.
     rbind (field kvs ''model'' dec_str) (\<lambda>model.
     rbind (field kvs ''workload'' (dec_enum workload_value [POLICY, SEMANTIC, SEGMENTATION, MAPPING, QUERY])) (\<lambda>work.
     rbind (field kvs ''release_ms'' dec_int) (\<lambda>release. rbind (field kvs ''deadline_after_ms'' dec_int) (\<lambda>deadline.
     rbind (field_or 0 kvs ''profile_capture_lag_ms'' dec_int) (\<lambda>lag.
     rbind (field_or HISTORICAL kvs ''result_kind'' (dec_enum kind_value [CURRENT, HISTORICAL, ACTION_PROPOSAL])) (\<lambda>kind.
     rbind (field_or None kvs ''max_age_ms'' (dec_opt dec_int)) (\<lambda>max_age.
     rbind (field kvs ''evidence_hashes'' (dec_list dec_str)) (\<lambda>hashes.
     rbind (field_or None kvs ''observation_ids'' (dec_opt (dec_list dec_str))) (\<lambda>oids.
     rbind (field_or ''paced_load'' kvs ''operation'' dec_str) (\<lambda>operation.
     rbind (field_or None kvs ''replace_key'' (dec_opt dec_str)) (\<lambda>replace_key.
     rbind (field_or False kvs ''discardable'' dec_bool) (\<lambda>discardable.
     rbind (field_or False kvs ''cacheable'' dec_bool) (\<lambda>cacheable.
     rbind (field kvs ''payload_json'' dec_str) (\<lambda>payload_text.
       validate_item \<lparr>li_id = iid, li_session = sid, li_model = model, li_workload = work, li_release_ms = release,
         li_deadline_after_ms = deadline, li_profile_capture_lag_ms = lag, li_result_kind = kind, li_max_age_ms = max_age,
         li_evidence_hashes = hashes, li_observation_ids = oids, li_operation = operation, li_replace_key = replace_key,
         li_discardable = discardable, li_cacheable = cacheable, li_payload_json = payload_text\<rparr>)))))))))))))))))"

definition plan_of_json :: "json \<Rightarrow> load_plan result" where
  "plan_of_json v =
     rbind (object_of [''provenance'', ''synthetic_inputs'', ''jobs''] v) (\<lambda>kvs.
     rbind (field kvs ''provenance'' dec_str) (\<lambda>provenance. rbind (field kvs ''synthetic_inputs'' dec_bool) (\<lambda>synthetic.
     rbind (field kvs ''jobs'' (dec_list item_of_json)) (\<lambda>jobs.
       validate_plan \<lparr>lp_provenance = provenance, lp_synthetic_inputs = synthetic, lp_jobs = jobs\<rparr>))))"

definition item_json :: "load_item \<Rightarrow> json" where
  "item_json i =
     JObj [(''id'', JStr (li_id i)), (''session'', JStr (li_session i)), (''model'', JStr (li_model i)),
       (''workload'', JStr (workload_value (li_workload i))), (''release_ms'', JInt (li_release_ms i)),
       (''deadline_after_ms'', JInt (li_deadline_after_ms i)), (''profile_capture_lag_ms'', JInt (li_profile_capture_lag_ms i)),
       (''result_kind'', JStr (kind_value (li_result_kind i))), (''max_age_ms'', opt_json JInt (li_max_age_ms i)),
       (''evidence_hashes'', JList (map JStr (li_evidence_hashes i))),
       (''observation_ids'', opt_json (\<lambda>found. JList (map JStr found)) (li_observation_ids i)),
       (''operation'', JStr (li_operation i)), (''replace_key'', opt_json JStr (li_replace_key i)),
       (''discardable'', JBool (li_discardable i)), (''cacheable'', JBool (li_cacheable i)),
       (''payload_json'', JStr (li_payload_json i))]"

definition plan_json :: "load_plan \<Rightarrow> json" where
  "plan_json p = JObj [(''provenance'', JStr (lp_provenance p)), (''synthetic_inputs'', JBool (lp_synthetic_inputs p)),
     (''jobs'', JList (map item_json (lp_jobs p)))]"

text \<open>A value that is no plan stays as it is; \<^verbatim>\<open>except (ValidationError, ValueError, TypeError)\<close>.\<close>

definition canonical_plan :: "json \<Rightarrow> json result" where
  "canonical_plan v =
     (case plan_of_json v of
        Inr p \<Rightarrow> Inr (plan_json p)
      | Inl (ValueError _) \<Rightarrow> Inr v | Inl (JSONDecodeError _) \<Rightarrow> Inr v | Inl (UnicodeError _) \<Rightarrow> Inr v
      | Inl (TypeError _) \<Rightarrow> Inr v | Inl e \<Rightarrow> Inl e)"

definition semantic_digest :: "(string \<Rightarrow> string) \<Rightarrow> json \<Rightarrow> string" where
  "semantic_digest sha256 v = sha256 (json_dumps v)"

section \<open>The records of an audit\<close>

definition digit_text :: "char \<Rightarrow> bool" where
  "digit_text c \<longleftrightarrow> is_digit c \<or> (of_char c :: nat) \<in> {178, 179, 185}"

definition served_model_matches :: "json \<Rightarrow> json \<Rightarrow> bool result" where
  "served_model_matches model configured =
     (if \<not> py_true model then Inr False
      else if py_eq model configured then Inr True
      else case model of
        JStr s \<Rightarrow>
          (case configured of
             JStr c \<Rightarrow>
               let suffix = (if starts c s then drop (length c) s else []) in
               Inr (starts ''-'' suffix \<and> take 1 (drop 1 suffix) \<noteq> [] \<and> list_all digit_text (take 1 (drop 1 suffix)))
           | _ \<Rightarrow> Inl (TypeError ''startswith first arg must be str''))
      | _ \<Rightarrow> Inl (AttributeError ''startswith''))"

record audit_index =
  ai_records :: "((json \<times> json) \<times> json) list"
  ai_providers :: "json list"
  ai_models :: "json list"

definition same_pair :: "json \<times> json \<Rightarrow> json \<times> json \<Rightarrow> bool" where
  "same_pair a b \<longleftrightarrow> same_key (fst a) (fst b) \<and> same_key (snd a) (snd b)"

definition add_served :: "json \<Rightarrow> json list \<Rightarrow> json list result" where
  "add_served v ks = (if py_true v then rbind (hashable v) (\<lambda>v. Inr (add_key v ks)) else Inr ks)"

definition index_record :: "json \<Rightarrow> audit_index \<Rightarrow> audit_index result" where
  "index_record r ix =
     rbind (dict_get r ''ledger'' JNull) (\<lambda>ledger. rbind (dict_get r ''job_id'' JNull) (\<lambda>jid.
     rbind (hashable ledger) (\<lambda>_. rbind (hashable jid) (\<lambda>_.
       let ix = ix\<lparr>ai_records := put_by same_pair (ledger, jid) r (ai_records ix)\<rparr> in
       rbind (dict_get r ''status'' JNull) (\<lambda>status.
         if status \<noteq> JStr ''ok'' then Inr ix
         else rbind (dict_get r ''provider_name'' JNull) (\<lambda>provider. rbind (add_served provider (ai_providers ix)) (\<lambda>providers.
              rbind (dict_get r ''model'' JNull) (\<lambda>model. rbind (add_served model (ai_models ix)) (\<lambda>models.
                Inr (ix\<lparr>ai_providers := providers, ai_models := models\<rparr>))))))))))"

fun index_records :: "json list \<Rightarrow> audit_index \<Rightarrow> audit_index result" where
  "index_records [] ix = Inr ix"
| "index_records (r # rs) ix = rbind (index_record r ix) (index_records rs)"

definition read_audit :: "string option \<Rightarrow> audit_index result" where
  "read_audit audit_file =
     (case audit_file of
        None \<Rightarrow> Inr \<lparr>ai_records = [], ai_providers = [], ai_models = []\<rparr>
      | Some content \<Rightarrow>
          rbind (read_json content) (\<lambda>audit. rbind (dict_get audit ''records'' (JList [])) (\<lambda>v. rbind (iterate v) (\<lambda>records.
            index_records records \<lparr>ai_records = [], ai_providers = [], ai_models = []\<rparr>))))"

section \<open>One scheduler\<close>

record matrix_row =
  mr_endpoints :: "json list"
  mr_known :: json
  mr_unknown :: json
  mr_row :: "(string \<times> json) list"

text \<open>\<^verbatim>\<open>report.get(a, {}).get(b, d)\<close>, and a percentile in milliseconds.\<close>

definition get_in :: "json \<Rightarrow> string \<Rightarrow> string \<Rightarrow> json \<Rightarrow> json result" where
  "get_in v a b d = rbind (dict_get v a (JObj [])) (\<lambda>inner. dict_get inner b d)"

definition timing_ms :: "json \<Rightarrow> string \<Rightarrow> string \<Rightarrow> json result" where
  "timing_ms timing key k = rbind (get_in timing key k (JInt 0)) (\<lambda>v. py_divide v (JFloat (Dec 1 6)))"

definition states_terminal :: "json \<Rightarrow> bool result" where
  "states_terminal report =
     rbind (dict_get report ''states'' (JObj [])) (\<lambda>states. rbind (dict_items states) (\<lambda>kvs. rbind (py_sum (map snd kvs)) (\<lambda>total.
     rbind (dict_get report ''offered'' (JInt (- 1))) (\<lambda>offered. Inr (py_eq total offered)))))"

definition endpoint_ids :: "json \<Rightarrow> json list result" where
  "endpoint_ids cfg = rbind (dict_get cfg ''endpoints'' (JList [])) (\<lambda>v. rbind (iterate v) (traverse (\<lambda>e. item_at e ''id'')))"

text \<open>The row of a scheduler, whether its report is terminal under it, and whether its accounts are closed.\<close>

definition scheduler_row :: "(string \<Rightarrow> string) \<Rightarrow> string \<Rightarrow> json \<Rightarrow> json \<Rightarrow> json \<Rightarrow> (matrix_row \<times> bool \<times> bool) result" where
  "scheduler_row sha256 scheduler cfg report p =
     rbind (states_terminal report) (\<lambda>terminal.
     rbind (get_in report ''budget'' ''unknown_attempts'' JNull) (\<lambda>unknown.
     rbind (get_in report ''budget'' ''held_microusd'' JNull) (\<lambda>held_microusd.
     rbind (endpoint_ids cfg) (\<lambda>found.
     rbind (dict_get cfg ''scheduler'' JNull) (\<lambda>named.
     rbind (dict_get report ''offered'' (JInt 0)) (\<lambda>offered.
     rbind (dict_get report ''states'' (JObj [])) (\<lambda>states.
     rbind (dict_get states ''consumed'' (JInt 0)) (\<lambda>consumed.
     rbind (dict_get report ''timing'' (JObj [])) (\<lambda>timing.
     rbind (dict_get states ''expired'' (JInt 0)) (\<lambda>expired.
     rbind (dict_items states) (\<lambda>kvs.
     rbind (if py_true offered then py_divide consumed offered else Inr JNull) (\<lambda>fraction.
     rbind (get_in report ''budget'' ''attempts'' JNull) (\<lambda>attempts.
     rbind (get_in report ''budget'' ''known_microusd'' JNull) (\<lambda>known_microusd.
     rbind (timing_ms timing ''queue'' ''p50_ns'') (\<lambda>queue50.
     rbind (timing_ms timing ''queue'' ''p95_ns'') (\<lambda>queue95.
     rbind (timing_ms timing ''submit_to_completion'' ''p50_ns'') (\<lambda>complete50.
     rbind (timing_ms timing ''submit_to_completion'' ''p95_ns'') (\<lambda>complete95.
     rbind (dict_get report ''quarantined_pools'' (JList [])) (\<lambda>quarantined_pools.
       Inr (\<lparr>mr_endpoints = found, mr_known = known_microusd, mr_unknown = unknown, mr_row =
         [(''scheduler'', JStr scheduler), (''offered'', offered), (''consumed'', consumed), (''expired'', expired),
          (''other_states'', JObj (filter (\<lambda>(k, _). k \<notin> {''consumed'', ''expired''}) kvs)),
          (''consumed_fraction'', fraction), (''attempts'', attempts), (''known_microusd'', known_microusd),
          (''unknown_attempts'', unknown), (''held_microusd'', held_microusd), (''queue_p50_ms'', queue50),
          (''queue_p95_ms'', queue95), (''complete_p50_ms'', complete50), (''complete_p95_ms'', complete95),
          (''endpoint_ids'', JList found), (''plan_sha256'', JStr (semantic_digest sha256 p)),
          (''quarantined_pools'', quarantined_pools)]\<rparr>,
          terminal \<and> named = JStr scheduler, py_eq unknown (JInt 0) \<and> py_eq held_microusd (JInt 0)))))))))))))))))))))"

section \<open>The matrix\<close>

text \<open>The files of the run of a scheduler, and the text of the path of its ledger.\<close>

record matrix_files =
  mf_prepared_plan :: string
  mf_config :: "string \<Rightarrow> string"
  mf_report :: "string \<Rightarrow> string"
  mf_plan :: "string \<Rightarrow> string"
  mf_ledger :: "string \<Rightarrow> string"
  mf_audit :: "string option"

definition matrix_schedulers :: "string list" where
  "matrix_schedulers = [''fifo'', ''edf'', ''slack'']"

definition run_row :: "(string \<Rightarrow> string) \<Rightarrow> matrix_files \<Rightarrow> json \<Rightarrow> string \<Rightarrow> (matrix_row \<times> bool \<times> bool \<times> bool) result" where
  "run_row sha256 fs expected_plan scheduler =
     rbind (read_json (mf_config fs scheduler)) (\<lambda>cfg. rbind (read_json (mf_report fs scheduler)) (\<lambda>report.
     rbind (read_json (mf_plan fs scheduler)) (\<lambda>v. rbind (canonical_plan v) (\<lambda>p.
     rbind (scheduler_row sha256 scheduler cfg report p) (\<lambda>(row, complete, accounted).
       Inr (row, py_eq p expected_plan, complete, accounted))))))"

definition endpoint_pinned :: "json \<Rightarrow> bool result" where
  "endpoint_pinned e = rbind (dict_get e ''model_version'' JNull) (\<lambda>v.
     Inr (py_true v \<and> (case v of JStr s \<Rightarrow> \<not> starts ''operator-record'' s | _ \<Rightarrow> True)))"

definition record_matches :: "json \<Rightarrow> json \<Rightarrow> bool result" where
  "record_matches expected_model r =
     rbind (dict_get r ''status'' JNull) (\<lambda>status.
       if status \<noteq> JStr ''ok'' then Inr False
       else rbind (dict_get r ''model'' JNull) (\<lambda>model.
         if \<not> py_true model then Inr False else served_model_matches model expected_model))"

definition metadata_complete :: "matrix_files \<Rightarrow> audit_index \<Rightarrow> string \<Rightarrow> bool result" where
  "metadata_complete fs ix scheduler =
     rbind (read_json (mf_config fs scheduler)) (\<lambda>cfg. rbind (item_at cfg ''endpoints'') (\<lambda>es. rbind (first_of es) (\<lambda>e.
     rbind (item_at e ''model_name'') (\<lambda>expected_model. rbind (read_json (mf_report fs scheduler)) (\<lambda>report.
     rbind (get_in report ''budget'' ''attempts'' (JInt 0)) (\<lambda>attempts.
       let records = map snd (filter (\<lambda>((l, _), _). l = JStr (mf_ledger fs scheduler)) (ai_records ix)) in
       if \<not> py_eq (JInt (int (length records))) attempts then Inr False
       else all_true (record_matches expected_model) records))))))"

text \<open>Whether the served revision is pinned, and whether the metadata of the generations is complete.\<close>

definition provider_pinned :: "matrix_files \<Rightarrow> audit_index \<Rightarrow> (bool \<times> bool) result" where
  "provider_pinned fs ix =
     rbind (read_json (mf_config fs ''fifo'')) (\<lambda>cfg. rbind (dict_get cfg ''endpoints'' (JList [])) (\<lambda>v.
     if mf_audit fs = None
     then rbind (iterate v) (\<lambda>es. rbind (all_true endpoint_pinned es) (\<lambda>pinned. Inr (pinned, False)))
     else rbind (traverse (metadata_complete fs ix) matrix_schedulers) (\<lambda>found.
       let complete = list_all id found in
       Inr (complete \<and> length (ai_providers ix) = 1 \<and> length (ai_models ix) = 1, complete))))"

definition matrix_interpretation :: "string list" where
  "matrix_interpretation =
     [''The same retained plan was run once per scheduler on one externally served endpoint.'',
      ''This is transport/capacity evidence, not semantic quality or a universal scheduler ranking.'',
      ''Provider revision is pinned only when every dispatched attempt has a successful generation metadata record.'',
      ''Replication at additional load levels is required before selecting a scheduler.'']"

definition evaluate_matrix :: "(string \<Rightarrow> string) \<Rightarrow> matrix_files \<Rightarrow> json result" where
  "evaluate_matrix sha256 fs =
     rbind (read_json (mf_prepared_plan fs)) (\<lambda>v. rbind (canonical_plan v) (\<lambda>expected_plan.
     rbind (read_audit (mf_audit fs)) (\<lambda>ix.
     rbind (traverse (run_row sha256 fs expected_plan) matrix_schedulers) (\<lambda>runs.
     rbind (provider_pinned fs ix) (\<lambda>(pinned, metadata).
     rbind (sorted_values (ai_providers ix)) (\<lambda>providers. rbind (sorted_values (ai_models ix)) (\<lambda>models.
     rbind (py_sum (map (\<lambda>(row, _). py_or (mr_known row) (JInt 0)) runs)) (\<lambda>known_total.
     rbind (py_sum (map (\<lambda>(row, _). py_or (mr_unknown row) (JInt 0)) runs)) (\<lambda>unknown_total.
       let shared = list_all (\<lambda>(_, shared, _, _). shared) runs;
           complete = list_all (\<lambda>(_, _, complete, _). complete) runs;
           accounted = list_all (\<lambda>(_, _, _, accounted). accounted) runs
       in Inr (JObj
         [(''protocol'', JStr ''R4 bounded real-endpoint scheduler matrix evaluation''),
          (''status'', JStr (if complete \<and> accounted \<and> shared then ''bounded_real_endpoint_observation'' else ''incomplete'')),
          (''quality_claim'', JBool False), (''native_actions'', JInt 0), (''labels_read'', JBool False),
          (''shared_plan'', JBool shared), (''canonical_plan_sha256'', JStr (semantic_digest sha256 expected_plan)),
          (''shared_endpoint'', JBool (list_all (\<lambda>(row, _). list_all2 same_key (mr_endpoints row) (mr_endpoints (fst (hd runs)))) runs)),
          (''terminal_reports'', JBool complete), (''accounting_complete'', JBool accounted),
          (''served_provider_revision_pinned'', JBool pinned), (''generation_metadata_complete'', JBool metadata),
          (''served_providers'', JList providers), (''served_model_revisions'', JList models),
          (''conditions'', JList (map (\<lambda>(row, _). JObj (mr_row row)) runs)), (''total_known_microusd'', known_total),
          (''total_unknown_attempts'', unknown_total),
          (''interpretation'', JList (map JStr matrix_interpretation))]))))))))))"

end
