(* ===== verification/Tools_Prepare.thy ===== *)
theory Tools_Prepare
  imports Load Py_Dict
begin

text \<open>
  The preparation tools: the cache and latest-only conditions of \<^verbatim>\<open>src/tools/r4_prepare_ablation.py\<close>, the scheduler
  matrix of \<^verbatim>\<open>src/tools/r4_prepare_endpoint_matrix.py\<close>, the injected controls of
  \<^verbatim>\<open>src/tools/r4_injected_conditions.py\<close> and the file check of \<^verbatim>\<open>src/tools/verify_bundle.py\<close>. What they read is an
  argument, what they write the result; \<open>exists\<close> says that the output is already there.
\<close>

section \<open>Plans made in the process\<close>

text \<open>\<^verbatim>\<open>LoadPlan(...)\<close> around items that are contract values already: they are not checked again.\<close>

definition new_plan :: "string \<Rightarrow> bool \<Rightarrow> load_item list \<Rightarrow> load_plan result" where
  "new_plan provenance synthetic jobs = guards
     [(\<not> (1 \<le> length provenance \<and> length provenance \<le> 2048 \<and> 1 \<le> length jobs \<and> length jobs \<le> 2000), field_error),
      (\<not> distinct (map li_id jobs), ''Load IDs must be unique'')]
     \<lparr>lp_provenance = provenance, lp_synthetic_inputs = synthetic, lp_jobs = jobs\<rparr>"

definition file_exists :: "'a result" where
  "file_exists = Inl (FileExistsError ''Output already exists'')"

section \<open>Cache and latest-only conditions\<close>

definition cache_item :: "load_item \<Rightarrow> string \<Rightarrow> load_item" where
  "cache_item template iid = template\<lparr>li_id := iid, li_release_ms := 0, li_cacheable := True,
     li_observation_ids := Some [''r4-retained-evidence-0'']\<rparr>"

definition cache_items :: "load_item \<Rightarrow> load_item list" where
  "cache_items template = [cache_item template ''cache-first'', cache_item template ''cache-duplicate'']"

definition latest_update :: "int option \<Rightarrow> load_item \<Rightarrow> load_item" where
  "latest_update deadline i = (case deadline of None \<Rightarrow> i | Some d \<Rightarrow> if d = 0 then i else i\<lparr>li_deadline_after_ms := d\<rparr>)"

definition latest_items :: "int option \<Rightarrow> load_item \<Rightarrow> load_item list" where
  "latest_items deadline template = map (latest_update deadline)
     [template\<lparr>li_id := ''latest-blocker'', li_release_ms := 0, li_operation := ''blocker''\<rparr>,
      template\<lparr>li_id := ''latest-old'', li_release_ms := 0, li_operation := ''latest'', li_replace_key := Some ''latest'',
        li_discardable := True\<rparr>,
      template\<lparr>li_id := ''latest-new'', li_release_ms := 1, li_operation := ''latest'', li_replace_key := Some ''latest'',
        li_discardable := True\<rparr>]"

definition baseline_items :: "int option \<Rightarrow> load_item \<Rightarrow> load_item list" where
  "baseline_items deadline template =
     map (\<lambda>i. i\<lparr>li_replace_key := None, li_discardable := False\<rparr>) (latest_items deadline template)"

definition ablation_conditions :: "int option \<Rightarrow> bool \<Rightarrow> load_item \<Rightarrow> (string \<times> string \<times> load_item list) list" where
  "ablation_conditions deadline joint template =
     [(''cache'', ''R4 real cache-only ablation from one retained source item; no quality claim'', cache_items template),
      (''latest'', ''R4 real latest-only ablation from one retained source item; no quality claim'', latest_items deadline template),
      (''baseline'', ''R4 matched no-replacement baseline from one retained source item; no quality claim'',
        baseline_items deadline template)] @
     (if joint then [(''joint'', ''R4 real joint cache plus latest-only ablation from one retained source item; no quality claim'',
        cache_items template @ latest_items deadline template)] else [])"

definition ablation_config :: "runtime_config \<Rightarrow> string \<Rightarrow> int \<Rightarrow> string \<Rightarrow> nat \<Rightarrow> runtime_config" where
  "ablation_config cfg prefix cap condition n =
     (let caching = condition \<in> {''cache'', ''joint''} in
      cfg\<lparr>cfg_campaign := prefix @ ''-'' @ condition, cfg_max_attempts := int n, cfg_max_microusd := cap,
          cfg_cache_entries := (if caching then 64 else 0), cfg_cache_bytes := (if caching then 8000000 else 0)\<rparr>)"

definition ablation_manifest :: "string \<Rightarrow> load_plan \<Rightarrow> load_item \<Rightarrow> int \<Rightarrow> int option \<Rightarrow> (string \<times> load_plan) list \<Rightarrow> json" where
  "ablation_manifest source_path source template cap deadline plans =
     JObj [(''protocol'', JStr ''R4 bounded real cache/latest-only preparation''), (''dispatches'', JInt 0),
           (''paid_calls'', JInt 0), (''native_actions'', JInt 0), (''labels_read'', JBool False),
           (''source_plan'', JStr source_path), (''source_model'', JStr (li_model template)),
           (''source_inputs_synthetic'', JBool (lp_synthetic_inputs source)), (''no_retries'', JBool True),
           (''provider_fallbacks'', JBool False), (''quality_claim'', JBool False),
           (''latest_deadline_after_ms'', opt_json JInt deadline),
           (''conditions'', JList (map (\<lambda>(c, p). JObj
              [(''name'', JStr c), (''jobs'', JInt (int (length (lp_jobs p)))), (''cap_microusd'', JInt cap),
               (''config'', JStr (c @ ''/config.json'')), (''plan'', JStr (c @ ''/plan.json''))]) plans))]"

text \<open>The configurations and plans written, and the manifest.\<close>

definition prepare_ablation :: "bool \<Rightarrow> runtime_config \<Rightarrow> load_plan \<Rightarrow> string \<Rightarrow> int \<Rightarrow> string \<Rightarrow> int option \<Rightarrow> bool \<Rightarrow>
    ((string \<times> runtime_config \<times> load_plan) list \<times> json) result" where
  "prepare_ablation exists cfg source source_path cap prefix deadline joint =
     (if exists then file_exists
      else rbind (validate_config cfg) (\<lambda>cfg. rbind (validate_plan source) (\<lambda>source.
        if lp_jobs source = [] then Inl (ValueError ''Source plan is empty'')
        else let template = hd (lp_jobs source) in
          (case filter (\<lambda>e. ep_model e = li_model template) (cfg_endpoints cfg) of
             [e] \<Rightarrow>
               if \<not> ep_externally_billed e then Inl (ValueError ''This preparation tool is for the declared real endpoint'')
               else if cap \<le> 0 then Inl (ValueError ''Positive per-condition cap required'')
               else rbind (traverse (\<lambda>(c, provenance, jobs).
                   rbind (new_plan provenance (lp_synthetic_inputs source) jobs) (\<lambda>p. Inr (c, p)))
                   (ablation_conditions deadline joint template)) (\<lambda>plans.
                 Inr (map (\<lambda>(c, p). (c, ablation_config cfg prefix cap c (length (lp_jobs p)), p)) plans,
                      ablation_manifest source_path source template cap deadline plans))
           | _ \<Rightarrow> Inl (ValueError ''Expected exactly one endpoint for the source model'')))))"

section \<open>The scheduler matrix\<close>

definition schedulers :: "string list" where
  "schedulers = [''fifo'', ''edf'', ''slack'']"

text \<open>The \<^verbatim>\<open>provider\<close> object of the endpoint's extra body, read without the strict rules.\<close>

definition provider_of :: "endpoint \<Rightarrow> json result" where
  "provider_of e = (case json_loads False (ep_extra_body_json e) of
     Inl (JSONDecodeError _) \<Rightarrow> Inl (ValueError ''Endpoint extras are not valid JSON'')
   | Inl err \<Rightarrow> Inl err
   | Inr (JObj kvs) \<Rightarrow> Inr (case map_of kvs ''provider'' of None \<Rightarrow> JObj [] | Some v \<Rightarrow> v)
   | Inr _ \<Rightarrow> Inr (JObj []))"

definition matrix_config :: "runtime_config \<Rightarrow> string \<Rightarrow> nat \<Rightarrow> string \<Rightarrow> runtime_config" where
  "matrix_config cfg prefix n scheduler =
     cfg\<lparr>cfg_campaign := prefix @ ''-'' @ scheduler, cfg_max_attempts := int n, cfg_scheduler := scheduler\<rparr>"

definition matrix_condition :: "runtime_config \<Rightarrow> string \<Rightarrow> nat \<Rightarrow> endpoint \<Rightarrow> json \<Rightarrow> json \<Rightarrow> string \<Rightarrow> json" where
  "matrix_condition cfg prefix n e order fallbacks scheduler =
     (let variant = matrix_config cfg prefix n scheduler in
      JObj [(''name'', JStr scheduler), (''campaign'', JStr (prefix @ ''-'' @ scheduler)),
            (''config'', JStr (''config-'' @ scheduler @ ''.json'')), (''offered_jobs'', JInt (int n)),
            (''max_attempts'', JInt (cfg_max_attempts variant)), (''max_microusd'', JInt (cfg_max_microusd variant)),
            (''endpoint'', JStr (ep_id e)), (''provider_order'', order), (''fallbacks_allowed'', fallbacks)])"

text \<open>The checks on the plan and the configuration, in their order: the model, its endpoint, the caps, the provider.\<close>

definition matrix_endpoint :: "runtime_config \<Rightarrow> load_plan \<Rightarrow> (endpoint \<times> json) result" where
  "matrix_endpoint cfg p =
     (case remdups (map li_model (lp_jobs p)) of
        [model] \<Rightarrow>
          (case filter (\<lambda>e. ep_model e = model) (cfg_endpoints cfg) of
             [e] \<Rightarrow>
               if cfg_max_attempts cfg < int (length (lp_jobs p)) \<or>
                  cfg_max_microusd cfg < int (length (lp_jobs p)) * ep_reserve_microusd e
               then Inl (ValueError ''Base config cap is smaller than the retained plan'')
               else rbind (provider_of e) (\<lambda>provider.
                 rbind (if ep_externally_billed e then dict_get provider ''allow_fallbacks'' JNull else Inr (JBool False)) (\<lambda>fallbacks.
                   if fallbacks \<noteq> JBool False
                   then Inl (ValueError ''R4 real matrix requires provider fallbacks to be explicitly disabled'')
                   else Inr (e, provider)))
           | _ \<Rightarrow> Inl (ValueError ''R4 scheduler-only matrix requires exactly one matching endpoint''))
      | _ \<Rightarrow> Inl (ValueError ''R4 matrix requires one model alias across the retained plan''))"

definition matrix_metrics :: "string list" where
  "matrix_metrics = [''offered_and_terminal_counts'', ''useful_completion_rate'', ''queue_and_complete_output_latency'',
     ''deadline_misses_and_expiry'', ''pool_quarantine_and_recovery'', ''provider_request_id_and_charge_reconciliation'']"

text \<open>\<open>plan_digest\<close> is the digest of the plan file as written.\<close>

definition prepare_matrix :: "bool \<Rightarrow> runtime_config \<Rightarrow> load_plan \<Rightarrow> string \<Rightarrow> string \<Rightarrow> string \<Rightarrow> (load_plan \<Rightarrow> string) \<Rightarrow>
    ((string \<times> runtime_config) list \<times> (string \<times> json) list) result" where
  "prepare_matrix exists cfg p plan_path config_path prefix plan_digest =
     (if exists then file_exists
      else rbind (validate_config cfg) (\<lambda>cfg. rbind (validate_plan p) (\<lambda>p.
        rbind (matrix_endpoint cfg p) (\<lambda>(e, provider).
        rbind (dict_get provider ''order'' (JList [])) (\<lambda>order.
        rbind (dict_get provider ''allow_fallbacks'' JNull) (\<lambda>fallbacks.
          let n = length (lp_jobs p) in
          Inr (map (\<lambda>s. (s, matrix_config cfg prefix n s)) schedulers,
            [(''protocol'', JStr ''R4 controlled real-endpoint scheduler matrix preparation''), (''dispatches'', JInt 0),
             (''paid_calls'', JInt 0), (''native_actions'', JInt 0), (''labels_read'', JBool False),
             (''synthetic_inputs'', JBool (lp_synthetic_inputs p)), (''plan_sha256'', JStr (plan_digest p)),
             (''source_plan'', JStr plan_path), (''base_config'', JStr config_path), (''same_model'', JStr (ep_model e)),
             (''same_endpoint'', JStr (ep_id e)),
             (''same_pool_capacity'', (case find (\<lambda>q. pool_id q = ep_pool e) (cfg_pools cfg) of
                None \<Rightarrow> JNull | Some q \<Rightarrow> JInt (pool_slots q))),
             (''per_condition_admission_cap_microusd'', JInt (cfg_max_microusd cfg)),
             (''required_cap_for_offered_jobs_microusd'', JInt (int n * ep_reserve_microusd e)), (''no_retries'', JBool True),
             (''conditions'', JList (map (matrix_condition cfg prefix n e order fallbacks) schedulers)),
             (''metrics'', JList (map JStr matrix_metrics)), (''quality_claim'', JBool False)])))))))"

section \<open>Injected controls\<close>

text \<open>\<^verbatim>\<open>json.dumps\<close> of an object with one member, with its default separators.\<close>

definition dumps_one :: "string \<Rightarrow> json \<Rightarrow> string" where
  "dumps_one k v = ''{'' @ str_dumps k @ '': '' @ plain_dumps v @ ''}''"

definition injected_item :: "string \<Rightarrow> string \<Rightarrow> load_item result" where
  "injected_item jid payload_text = validate_item
     \<lparr>li_id = jid, li_session = ''r4-mock'', li_model = ''semantic'', li_workload = SEMANTIC, li_release_ms = 0,
      li_deadline_after_ms = 1000, li_profile_capture_lag_ms = 0, li_result_kind = HISTORICAL, li_max_age_ms = None,
      li_evidence_hashes = [replicate 64 (CHR ''0'')], li_observation_ids = None, li_operation = ''paced_load'',
      li_replace_key = None, li_discardable = False, li_cacheable = False, li_payload_json = payload_text\<rparr>"

definition injected_delays :: "pyfloat list" where
  "injected_delays = [Dec 1 (- 3), Dec 1 (- 2), Dec 3 (- 2), Dec 5 (- 2)]"

definition injected_plans :: "(string \<times> load_plan) list result" where
  "injected_plans =
     rbind (rbind (traverse (\<lambda>(i, d). injected_item (''delay-'' @ int_repr (int i)) (dumps_one ''fixture_delay_s'' (JFloat d)))
         (enumerate 0 injected_delays)) (new_plan ''R4 injected-delay control; deterministic mock backend'' True)) (\<lambda>delay.
     rbind (rbind (injected_item ''loss'' (dumps_one ''fixture_unknown'' (JBool True))) (\<lambda>i.
         new_plan ''R4 unconfirmed-loss control; deterministic mock backend'' True [i])) (\<lambda>loss.
       Inr [(''delay'', delay), (''loss'', loss)]))"

text \<open>The manifest made of the two reports of \<^verbatim>\<open>run_load\<close>, and the run, with \<^verbatim>\<open>run_load\<close> as its argument.\<close>

definition injected_manifest :: "string \<Rightarrow> json \<Rightarrow> json \<Rightarrow> json result" where
  "injected_manifest config_path delay loss =
     rbind (item_at delay ''states'') (\<lambda>delay_states. rbind (item_at loss ''states'') (\<lambda>loss_states.
     rbind (rbind (item_at loss ''budget'') (\<lambda>b. item_at b ''unknown_attempts'')) (\<lambda>unknown.
     rbind (item_at loss ''quarantined_pools'') (\<lambda>pools.
       Inr (JObj [(''protocol'', JStr ''R4 zero-cost injected delay/loss controls''), (''config'', JStr config_path),
           (''paid_calls'', JInt 0), (''native_actions'', JInt 0), (''labels_read'', JBool False),
           (''network_enabled'', JBool False), (''gpu_work'', JBool False), (''quality_claim'', JBool False),
           (''delay_states'', delay_states), (''loss_states'', loss_states), (''loss_unknown_attempts'', unknown),
           (''loss_quarantined_pools'', pools),
           (''reports'', JObj [(''delay'', JStr ''delay/report.json''), (''loss'', JStr ''loss/report.json'')])])))))"

definition injected_run :: "(runtime_config \<Rightarrow> load_plan \<Rightarrow> string \<Rightarrow> json result) \<Rightarrow> bool \<Rightarrow> runtime_config \<Rightarrow> string \<Rightarrow> json result" where
  "injected_run run_load exists cfg config_path =
     (if exists then file_exists
      else rbind (validate_config cfg) (\<lambda>cfg. rbind injected_plans (\<lambda>plans.
        rbind (traverse (\<lambda>(condition, p). run_load cfg p condition) plans) (\<lambda>reports.
          injected_manifest config_path (reports ! 0) (reports ! 1)))))"

section \<open>The bundle check\<close>

text \<open>
  The tree below the root: for the parts of a relative path, whether it is a symbolic link and the content when it is
  a file, and the paths that \<^verbatim>\<open>rglob\<close> finds, in its order.
\<close>

record tree =
  tr_symlink :: "string list \<Rightarrow> bool"
  tr_content :: "string list \<Rightarrow> string option"
  tr_paths :: "string list list"

text \<open>\<^verbatim>\<open>PurePosixPath(rel).parts\<close> of a relative path, and the path of its parts.\<close>

fun split_at :: "char \<Rightarrow> string \<Rightarrow> string \<Rightarrow> string list" where
  "split_at c acc [] = [acc]"
| "split_at c acc (x # xs) = (if x = c then acc # split_at c [] xs else split_at c (acc @ [x]) xs)"

definition path_parts :: "string \<Rightarrow> string list" where
  "path_parts rel = filter (\<lambda>p. p \<noteq> [] \<and> p \<noteq> ''.'') (split_at (CHR ''/'') [] rel)"

fun join_path :: "string list \<Rightarrow> string" where
  "join_path [] = ''.''"
| "join_path [p] = p"
| "join_path (p # ps) = p @ ''/'' @ join_path ps"

text \<open>\<^verbatim>\<open>line.split("  ", 1)\<close>, unpacked into two names.\<close>

fun split_two_spaces :: "string \<Rightarrow> string \<Rightarrow> (string \<times> string) option" where
  "split_two_spaces acc (a # b # s) =
     (if a = CHR '' '' \<and> b = CHR '' '' then Some (acc, s) else split_two_spaces (acc @ [a]) (b # s))"
| "split_two_spaces acc _ = None"

definition manifest_line :: "(string \<times> string) list \<Rightarrow> string \<Rightarrow> (string \<times> string) list result" where
  "manifest_line expected line =
     (case split_two_spaces [] line of
        None \<Rightarrow> Inl (ValueError ''not enough values to unpack'')
      | Some (sha, rel) \<Rightarrow>
          if length sha \<noteq> 64 \<or> \<not> list_all (\<lambda>c. c \<in> set ''0123456789abcdef'') sha \<or> take 1 rel = ''/'' \<or>
             ''..'' \<in> set (path_parts rel) \<or> rel \<in> fst ` set expected
          then Inl (ValueError ''Malformed manifest'') else Inr (expected @ [(rel, sha)]))"

fun manifest_lines :: "(string \<times> string) list \<Rightarrow> string list \<Rightarrow> (string \<times> string) list result" where
  "manifest_lines expected [] = Inr expected"
| "manifest_lines expected (line # lines) = rbind (manifest_line expected line) (\<lambda>expected. manifest_lines expected lines)"

definition prefixes :: "'a list \<Rightarrow> 'a list list" where
  "prefixes xs = map (\<lambda>i. take i xs) [1..<Suc (length xs)]"

definition entry_errors :: "(string \<Rightarrow> string) \<Rightarrow> tree \<Rightarrow> string \<times> string \<Rightarrow> string list" where
  "entry_errors sha256 t = (\<lambda>(rel, sha).
     if list_ex (tr_symlink t) (prefixes (path_parts rel)) then [''symlink: '' @ rel]
     else case tr_content t (path_parts rel) of
       None \<Rightarrow> [''missing: '' @ rel]
     | Some content \<Rightarrow> if sha256 content \<noteq> sha then [''hash mismatch: '' @ rel] else [])"

definition ignored_part :: "string \<Rightarrow> bool" where
  "ignored_part p \<longleftrightarrow>
     p \<in> {''.git'', ''.venv'', ''.pytest_cache'', ''.ruff_cache'', ''__pycache__'', ''build'', ''dist'', ''runs''} \<or>
     (length p \<ge> 9 \<and> drop (length p - 9) p = ''.egg-info'')"

definition path_errors :: "tree \<Rightarrow> (string \<times> string) list \<Rightarrow> string list \<Rightarrow> string list" where
  "path_errors t expected parts =
     (if list_ex ignored_part parts then []
      else if tr_content t parts \<noteq> None \<and> join_path parts \<notin> fst ` set expected \<and> join_path parts \<noteq> ''MANIFEST.sha256''
      then [''unexpected: '' @ join_path parts] else [])"

definition verify_bundle :: "(string \<Rightarrow> string) \<Rightarrow> tree \<Rightarrow> string \<Rightarrow> string list result" where
  "verify_bundle sha256 t manifest =
     rbind (utf8_decode manifest) (\<lambda>s. rbind (manifest_lines [] (splitlines s)) (\<lambda>expected.
       Inr (concat (map (entry_errors sha256 t) expected) @ concat (map (path_errors t expected) (tr_paths t)))))"

text \<open>
  An accepted manifest names every path once and only paths below the root, and a check without errors means that each
  of them is a file, not reached through a link, with the digest given, and that no other file is there.
\<close>

lemma manifest_lines_ok:
  assumes "manifest_lines acc lines = Inr expected" "distinct (map fst acc)"
    "list_all (\<lambda>(rel, sha). length sha = 64 \<and> ''..'' \<notin> set (path_parts rel) \<and> take 1 rel \<noteq> ''/'') acc"
  shows "distinct (map fst expected) \<and>
    list_all (\<lambda>(rel, sha). length sha = 64 \<and> ''..'' \<notin> set (path_parts rel) \<and> take 1 rel \<noteq> ''/'') expected"
  using assms
proof (induction acc lines rule: manifest_lines.induct)
  case (2 acc line lines)
  then obtain acc' where a: "manifest_line acc line = Inr acc'" "manifest_lines acc' lines = Inr expected"
    by (auto simp: rbind_Inr_iff)
  from a(1) 2(3,4) show ?case
    by (intro 2(1) [OF a]) (auto simp: manifest_line_def split: option.splits if_splits)
qed simp

lemma no_entry_errors:
  "entry_errors sha256 t (rel, sha) = [] \<longleftrightarrow>
     (\<forall>p \<in> set (prefixes (path_parts rel)). \<not> tr_symlink t p) \<and>
     (\<exists>content. tr_content t (path_parts rel) = Some content \<and> sha256 content = sha)"
  by (auto simp: entry_errors_def list_ex_iff split: option.splits)

lemma bundle_verified:
  assumes "verify_bundle sha256 t manifest = Inr []"
  obtains s expected where "utf8_decode manifest = Inr s" "manifest_lines [] (splitlines s) = Inr expected"
    "\<And>rel sha. (rel, sha) \<in> set expected \<Longrightarrow> entry_errors sha256 t (rel, sha) = []"
    "\<And>parts. parts \<in> set (tr_paths t) \<Longrightarrow> path_errors t expected parts = []"
proof -
  from assms obtain s expected where e: "utf8_decode manifest = Inr s" "manifest_lines [] (splitlines s) = Inr expected"
    "concat (map (entry_errors sha256 t) expected) = []" "concat (map (path_errors t expected) (tr_paths t)) = []"
    by (auto simp: verify_bundle_def rbind_Inr_iff)
  from e(3) have n: "entry_errors sha256 t x = []" if "x \<in> set expected" for x
    using that unfolding concat_eq_Nil_conv by simp
  from e(4) have p: "path_errors t expected x = []" if "x \<in> set (tr_paths t)" for x
    using that unfolding concat_eq_Nil_conv by simp
  show ?thesis by (rule that [OF e(1,2) n p])
qed

end
