(* ===== verification/Tools_Cohort.thy ===== *)
theory Tools_Cohort
  imports Tools_Evaluate
begin

text \<open>
  The load cohorts of \<^verbatim>\<open>src/tools/r3_prepare_streamarena_load.py\<close>: the frames selected from a retained clip, the jobs of a
  number of sessions, and the configuration and manifest written beside them. The files read are given by their bytes
  and the files written by their JSON values.
\<close>

record cohort_input =
  ci_exists :: bool                              \<comment> \<open>the output directory is there already\<close>
  ci_dataset :: string                           \<comment> \<open>the resolved path of the dataset\<close>
  ci_dataset_plan :: string
  ci_video :: string
  ci_inside :: bool                              \<comment> \<open>the video's folder lies below the dataset\<close>
  ci_preparation :: string
  ci_frame :: "string \<Rightarrow> string option"          \<comment> \<open>a retained frame's bytes, if it is a file inside the folder\<close>
  ci_base_config :: string
  ci_sessions :: "int list"
  ci_jobs :: int
  ci_period_ms :: int
  ci_deadline_ms :: int
  ci_prefix :: string

record frame =
  fr_file :: json
  fr_digest :: string
  fr_bytes :: string

text \<open>
  \<^verbatim>\<open>round((index + 1) * (n - 1) / (k + 1))\<close>: the quotient is far closer to its exact value than to any half that it is
  not, so the rounding of the exact quotient is the one computed.
\<close>

definition frame_position :: "int \<Rightarrow> int \<Rightarrow> int \<Rightarrow> nat" where
  "frame_position n k i = nat (round_div ((i + 1) * (n - 1)) (k + 1))"

definition select_frame :: "(string \<Rightarrow> string) \<Rightarrow> cohort_input \<Rightarrow> json list \<Rightarrow> int \<Rightarrow> frame result" where
  "select_frame sha256 ci rows i =
     (let row = rows ! frame_position (int (length rows)) (ci_jobs ci) i in
      rbind (item_at row ''file'') (\<lambda>name.
        case name of
          JStr s \<Rightarrow>
            (case ci_frame ci s of
               None \<Rightarrow> Inl (ValueError ''Retained frame is missing or escapes the video directory'')
             | Some content \<Rightarrow>
                 rbind (dict_get row ''sha256'' JNull) (\<lambda>digest.
                   if digest \<noteq> JStr (sha256 content) then Inl (ValueError ''Retained frame hash mismatch'')
                   else Inr \<lparr>fr_file = name, fr_digest = sha256 content, fr_bytes = content\<rparr>))
        | _ \<Rightarrow> Inl (TypeError ''unsupported operand'')))"

definition selected_frames :: "(string \<Rightarrow> string) \<Rightarrow> cohort_input \<Rightarrow> frame list result" where
  "selected_frames sha256 ci =
     rbind (read_json (ci_preparation ci)) (\<lambda>preparation. rbind (dict_get preparation ''frame_hashes'' JNull) (\<lambda>v.
       case v of
         JList rows \<Rightarrow>
           if int (length rows) < ci_jobs ci then Inl (ValueError ''Preparation record does not contain enough retained frames'')
           else traverse (select_frame sha256 ci rows) (map int [0..<nat (ci_jobs ci)])
       | _ \<Rightarrow> Inl (ValueError ''Preparation record does not contain enough retained frames'')))"

text \<open>The items of a list whose field is a given text.\<close>

fun items_with :: "string \<Rightarrow> json \<Rightarrow> json list \<Rightarrow> json list result" where
  "items_with k x [] = Inr []"
| "items_with k x (v # vs) =
     rbind (item_at v k) (\<lambda>y. rbind (items_with k x vs) (\<lambda>ws. Inr (if py_eq y x then v # ws else ws)))"

definition vision_parts :: "json \<Rightarrow> (json list \<times> json list \<times> int) result" where
  "vision_parts cfg =
     rbind (rbind (item_at cfg ''models'') iterate) (\<lambda>ms. rbind (items_with ''alias'' (JStr ''vision'') ms) (\<lambda>models.
     rbind (rbind (item_at cfg ''endpoints'') iterate) (\<lambda>es. rbind (items_with ''model'' (JStr ''vision'') es) (\<lambda>endpoints.
       if length models \<noteq> 1 \<or> length endpoints \<noteq> 1
       then Inl (ValueError ''Base config must contain exactly one vision model and endpoint'')
       else rbind (item_at (hd endpoints) ''reserve_microusd'') (\<lambda>reserve.
         case reserve of
           JInt n \<Rightarrow> if n < 0 then Inl (ValueError ''Endpoint reserve_microusd must be a nonnegative integer'')
                    else Inr (models, endpoints, n)
         | _ \<Rightarrow> Inl (ValueError ''Endpoint reserve_microusd must be a nonnegative integer''))))))"

definition caption_payload :: "string \<Rightarrow> json" where
  "caption_payload url =
     JObj [(''messages'', JList
        [JObj [(''role'', JStr ''system''),
           (''content'', JStr (''Return exactly one JSON object with one key, caption, whose value '' @
              ''is a concise string. This is a transport load measurement.''))],
         JObj [(''role'', JStr ''user''), (''content'', JList
           [JObj [(''type'', JStr ''text''), (''text'', JStr ''Describe the visible driving scene.'')],
            JObj [(''type'', JStr ''image_url''), (''image_url'', JObj [(''url'', JStr url)])]])]]),
       (''response_format'', JObj [(''type'', JStr ''json_schema''), (''json_schema'', JObj
          [(''name'', JStr ''load_caption''), (''strict'', JBool True), (''schema'', JObj
             [(''type'', JStr ''object''), (''additionalProperties'', JBool False),
              (''properties'', JObj [(''caption'', JObj [(''type'', JStr ''string'')])]),
              (''required'', JList [JStr ''caption''])])])])]"

definition cohort_job :: "cohort_input \<Rightarrow> int \<Rightarrow> int \<times> frame \<Rightarrow> int \<Rightarrow> json" where
  "cohort_job ci n = (\<lambda>(step, f) i.
     JObj [(''id'', JStr (''s'' @ int_repr n @ ''-'' @ int_repr i @ ''-'' @ int_repr step)),
       (''session'', JStr (''camera-'' @ int_repr i)), (''model'', JStr ''vision''), (''workload'', JStr ''semantic''),
       (''release_ms'', JInt (step * ci_period_ms ci + i * max 1 (ci_period_ms ci div n))),
       (''deadline_after_ms'', JInt (ci_deadline_ms ci)), (''profile_capture_lag_ms'', JInt 0),
       (''result_kind'', JStr ''historical''), (''max_age_ms'', JNull), (''evidence_hashes'', JList [JStr (fr_digest f)]),
       (''payload_json'', JStr (plain_dumps (caption_payload (''data:image/jpeg;base64,'' @ b64encode (fr_bytes f)))))])"

definition cohort_jobs :: "cohort_input \<Rightarrow> frame list \<Rightarrow> int \<Rightarrow> json list" where
  "cohort_jobs ci frames n =
     concat (map (\<lambda>(step, f). map (cohort_job ci n (int step, f)) (map int [0..<nat n])) (enumerate 0 frames))"

definition cohort_plan :: "cohort_input \<Rightarrow> frame list \<Rightarrow> int \<Rightarrow> json" where
  "cohort_plan ci frames n =
     JObj [(''provenance'', JStr (''Retained StreamArena frame cohort from '' @ ci_video ci @ ''; labels unread; '' @
              ''prepared-input transport/capacity study, not semantic quality'')),
       (''synthetic_inputs'', JBool False), (''jobs'', JList (cohort_jobs ci frames n))]"

text \<open>\<^verbatim>\<open>max(v, n)\<close> of a value and an integer.\<close>

definition max_with :: "json \<Rightarrow> int \<Rightarrow> json result" where
  "max_with v n =
     (if py_number v = None then Inl (TypeError ''> not supported'')
      else Inr (if json_le v (JInt n) \<and> \<not> json_le (JInt n) v then JInt n else v))"

definition cohort_config :: "cohort_input \<Rightarrow> (string \<times> json) list \<Rightarrow> json list \<times> json list \<times> int \<Rightarrow> int \<Rightarrow> int \<Rightarrow> json result" where
  "cohort_config ci cfg = (\<lambda>(models, endpoints, reserve) jobs n.
     rbind (rbind (dict_get (JObj cfg) ''max_queue'' (JInt 0)) (\<lambda>v. max_with v jobs)) (\<lambda>queue.
     rbind (rbind (dict_get (JObj cfg) ''max_jobs'' (JInt 0)) (\<lambda>v. max_with v jobs)) (\<lambda>most.
       Inr (JObj (dict_update cfg
         [(''campaign'', JStr (ci_prefix ci @ ''-s'' @ int_repr n)), (''max_attempts'', JInt jobs),
          (''max_microusd'', JInt (jobs * reserve)), (''max_queue'', queue), (''max_jobs'', most),
          (''models'', JList models), (''endpoints'', JList endpoints)])))))"

text \<open>A cohort: its plan, its configuration and its entry in the manifest; \<open>digest\<close> is that of the file with a value.\<close>

definition cohort :: "(json \<Rightarrow> string) \<Rightarrow> cohort_input \<Rightarrow> (string \<times> json) list \<Rightarrow> json list \<times> json list \<times> int \<Rightarrow>
    frame list \<Rightarrow> int \<Rightarrow> (json \<times> json \<times> string \<times> json) result" where
  "cohort digest ci cfg parts frames n =
     (let plan = cohort_plan ci frames n; jobs = int (length (cohort_jobs ci frames n)) in
      rbind (cohort_config ci cfg parts jobs n) (\<lambda>config.
        Inr (plan, config, int_repr n,
          JObj [(''jobs'', JInt jobs), (''max_microusd'', JInt (jobs * snd (snd parts))),
                (''plan_sha256'', JStr (digest plan)), (''config_sha256'', JStr (digest config))])))"

definition cohort_manifest :: "(string \<Rightarrow> string) \<Rightarrow> cohort_input \<Rightarrow> frame list \<Rightarrow> (string \<times> json) list \<Rightarrow> json" where
  "cohort_manifest sha256 ci frames reports =
     JObj [(''protocol'', JStr ''R3 paced retained-input load cohort''), (''dataset'', JStr (ci_dataset ci)),
       (''dataset_plan_sha256'', JStr (sha256 (ci_dataset_plan ci))), (''video_id'', JStr (ci_video ci)),
       (''preparation_sha256'', JStr (sha256 (ci_preparation ci))), (''labels_read'', JBool False),
       (''source_decode_included'', JBool False), (''jobs_per_session'', JInt (ci_jobs ci)),
       (''release_period_ms_per_session'', JInt (ci_period_ms ci)), (''deadline_after_ms'', JInt (ci_deadline_ms ci)),
       (''selected_frames'', JList (map (\<lambda>f. JObj [(''file'', fr_file f), (''sha256'', JStr (fr_digest f)),
          (''bytes'', JInt (int (length (fr_bytes f))))]) frames)),
       (''cohorts'', JObj reports)]"

definition prepare_cohorts :: "(string \<Rightarrow> string) \<Rightarrow> (json \<Rightarrow> string) \<Rightarrow> cohort_input \<Rightarrow> ((json \<times> json) list \<times> json) result" where
  "prepare_cohorts sha256 digest ci =
     rbind (guards
       [(ci_exists ci, ''Refusing to overwrite an existing cohort directory''),
        (ci_sessions ci = [] \<or> list_ex (\<lambda>n. n < 1 \<or> 64 < n) (ci_sessions ci), ''Session counts must be between 1 and 64''),
        (ci_jobs ci < 1 \<or> 100 < ci_jobs ci, ''jobs-per-session must be between 1 and 100''),
        (ci_period_ms ci < 1 \<or> ci_deadline_ms ci < 1, ''Release period and deadline must be positive''),
        (\<not> ci_inside ci, ''Video path escapes the dataset'')] ()) (\<lambda>_.
     rbind (selected_frames sha256 ci) (\<lambda>frames.
     rbind (read_json (ci_base_config ci)) (\<lambda>cfg. rbind (vision_parts cfg) (\<lambda>parts. rbind (dict_items cfg) (\<lambda>kvs.
     rbind (traverse (cohort digest ci kvs parts frames) (ci_sessions ci)) (\<lambda>cohorts.
       Inr (map (\<lambda>(plan, config, _). (plan, config)) cohorts,
         cohort_manifest sha256 ci frames (dict_update [] (map (\<lambda>(_, _, n, entry). (n, entry)) cohorts)))))))))"

text \<open>The frame picked is one of the record, never its last one for want of room: the position stays inside the list.\<close>

lemma frame_position_inside:
  assumes "1 \<le> n" "0 \<le> i" "i < k"
  shows "frame_position n k i < nat n"
proof -
  let ?a = "(i + 1) * (n - 1)" and ?b = "k + 1"
  have b: "0 < ?b" using assms by simp
  have "?a \<le> k * (n - 1)" using assms by (intro mult_right_mono) auto
  also have "\<dots> \<le> (n - 1) * ?b" using assms by (simp add: algebra_simps)
  finally have le: "?a div ?b \<le> n - 1" using b by (metis nonzero_mult_div_cancel_right order_less_irrefl zdiv_mono1)
  have "round_div ?a ?b \<le> n - 1"
  proof (cases "?a div ?b = n - 1")
    case True
    have "?a \<le> k * (n - 1)" using assms by (intro mult_right_mono) auto
    then have "?a mod ?b = ?a - (n - 1) * ?b" using True by (metis minus_mult_div_eq_mod mult.commute)
    also have "\<dots> \<le> 0" using \<open>?a \<le> k * (n - 1)\<close> assms(1) by (simp add: algebra_simps)
    finally have "?a mod ?b = 0" using b by (metis order_antisym pos_mod_sign)
    with True b show ?thesis by (simp add: round_div_def Let_def)
  next
    case False
    with le show ?thesis by (auto simp: round_div_def Let_def)
  qed
  with assms(1) show ?thesis by (simp add: frame_position_def nat_less_iff)
qed

end
