(* ===== verification/Tools_Facts.thy ===== *)
theory Tools_Facts
  imports Tools_Matrix Tools_Prepare Tools_Cohort Sample_Run
begin

text \<open>
  What the evaluation tools guarantee (\<open>score_trial\<close>), when a prepared plan is refused by the loader, and what the part of
  \<open>scheduler_row\<close> that reads \<open>load_report\<close> makes of a coordinator's own report.
\<close>

section \<open>Scores\<close>

lemma same_key_str [simp]: "same_key (JStr s) v \<longleftrightarrow> v = JStr s"
  by (auto simp: same_key_def)

lemma add_key_set: "set (add_key k ks) \<subseteq> insert k (set ks)"
  by (auto simp: add_key_def)

lemma keys_of_subset: "set (keys_of vs) \<subseteq> set vs"
proof -
  have "set (fold add_key vs acc) \<subseteq> set vs \<union> set acc" for acc
    by (induction vs arbitrary: acc) (auto dest: subsetD [OF add_key_set])
  from this [of "[]"] show ?thesis by (simp add: keys_of_def)
qed

lemma hashable_same: "hashable v = Inr k \<Longrightarrow> k = v"
  by (auto simp: hashable_def split: json.splits)

lemma case_evidence_from:
  assumes "case_evidence c = Inr evidence" "e \<in> set evidence"
  obtains frames kvs where "jget c ''selected_frames'' = JList frames" "JObj kvs \<in> set frames" "jget kvs ''evidence_id'' = e"
proof -
  from assms(1) obtain frames found where f: "jget c ''selected_frames'' = JList frames"
    "traverse (\<lambda>row. rbind (dict_get row ''evidence_id'' JNull) hashable) frames = Inr found" "evidence = keys_of found"
    by (auto simp: case_evidence_def rbind_Inr_iff split: json.splits if_splits)
  with assms(2) have "e \<in> set found" using keys_of_subset by auto
  then obtain n where n: "n < length found" "found ! n = e" by (auto simp: in_set_conv_nth)
  with f(2) have "n < length frames" "rbind (dict_get (frames ! n) ''evidence_id'' JNull) hashable = Inr e"
    by (auto simp: traverse_Inr_iff list_all2_conv_all_nth)
  then have "\<exists>kvs. frames ! n = JObj kvs \<and> jget kvs ''evidence_id'' = e"
    by (auto simp: rbind_Inr_iff dict_get_def jget_def dest!: hashable_same split: json.splits)
  moreover have "frames ! n \<in> set frames" using \<open>n < length frames\<close> by simp
  ultimately show thesis using f(1) that by metis
qed

lemma cited_ids_Some: "cited_ids value = Some found \<longleftrightarrow> jget value ''evidence_ids'' = JList found \<and> list_all is_str found"
  by (auto simp: cited_ids_def split: json.splits)

text \<open>C39: a trial counts as correct with citations only when its response is an object of exactly the three keys, its
  answer is the expected answer of the label, and it cites at least one evidence ID, none twice, each of which is the
  ID of a frame selected for that very case.\<close>

theorem cited_correct_is_supported:
  assumes "score_trial trial c label = Inr row" "sr_cited_correct row"
  shows "\<exists>value cited frames. prediction_value (jget trial ''prediction'') = Inr (Inr value) \<and>
    keys_are response_keys value \<and> dict_get label ''answer'' JNull = Inr (jget value ''answer'') \<and>
    jget value ''evidence_ids'' = JList cited \<and> cited \<noteq> [] \<and> distinct cited \<and> list_all is_str cited \<and>
    jget c ''selected_frames'' = JList frames \<and>
    (\<forall>i \<in> set cited. \<exists>kvs. JObj kvs \<in> set frames \<and> jget kvs ''evidence_id'' = i)"
proof -
  from assms(1) obtain parsed allowed expected evidence where v: "prediction_value (jget trial ''prediction'') = Inr parsed"
    "label_answers label = Inr (allowed, expected)" "case_evidence c = Inr evidence"
    by (auto simp: score_trial_def rbind_Inr_iff)
  with assms obtain kvs where "parsed = Inr kvs" "schema_valid allowed kvs" "citations_valid evidence kvs" "jget kvs ''answer'' = expected"
    by (cases parsed) (auto simp: score_trial_def Let_def)
  note v = v [unfolded this(1)] this(2-4)
  from v(5) obtain cited where cited: "cited_ids kvs = Some cited" "cited \<noteq> []" "distinct cited"
    "\<forall>i \<in> set cited. list_ex (same_key i) evidence"
    by (auto simp: citations_valid_def list_all_iff split: option.splits)
  obtain x where "dict_get label ''allowed_answers'' JNull = Inr x" using v(2) by (auto simp: label_answers_def rbind_Inr_iff)
  then have answer: "dict_get label ''answer'' JNull = Inr expected"
    using v(2) by (cases x) (auto simp: label_answers_def rbind_Inr_iff split: if_splits)
  obtain frames where frames: "jget c ''selected_frames'' = JList frames"
    using v(3) by (auto simp: case_evidence_def split: json.splits)
  have "\<exists>kvs. JObj kvs \<in> set frames \<and> jget kvs ''evidence_id'' = i" if "i \<in> set cited" for i
  proof -
    have "is_str i" using cited(1) that by (auto simp: cited_ids_Some list_all_iff)
    then obtain s where "i = JStr s" by (auto simp: is_str_def split: json.splits)
    with cited(4) that have "i \<in> set evidence" by (fastforce simp: list_ex_iff)
    from case_evidence_from [OF v(3) this] frames show ?thesis by (metis json.inject(5))
  qed
  with v cited frames answer show ?thesis by (auto simp: schema_valid_def cited_ids_Some)
qed

definition sample_response :: json where
  "sample_response = JObj [(''answer'', JStr ''B''), (''evidence_ids'', JList [JStr ''e1'']), (''reason'', JStr ''seen'')]"

definition sample_trial :: "(string \<times> json) list" where
  "sample_trial = [(''case_id'', JStr ''c''), (''state'', JStr ''consumed''), (''prediction'', sample_response)]"

definition sample_case :: "(string \<times> json) list" where
  "sample_case = [(''case_id'', JStr ''c''), (''selected_frames'', JList [JObj [(''evidence_id'', JStr ''e0'')], JObj [(''evidence_id'', JStr ''e1'')]])]"

definition sample_label :: json where
  "sample_label = JObj [(''allowed_answers'', JList [JStr ''A'', JStr ''B'']), (''answer'', JStr ''B'')]"

theorem cited_correct_is_supported_witness:
  "\<exists>value cited. prediction_value sample_response = Inr (Inr value) \<and> jget value ''evidence_ids'' = JList cited \<and> cited \<noteq> []"
proof -
  have "(case score_trial sample_trial sample_case sample_label of Inl _ \<Rightarrow> False | Inr row \<Rightarrow> sr_cited_correct row)" by code_simp
  then obtain row where "score_trial sample_trial sample_case sample_label = Inr row" "sr_cited_correct row" by (auto split: sum.splits)
  from cited_correct_is_supported [OF this] show ?thesis by (auto simp: sample_trial_def jget_def)
qed

text \<open>A report without cases passes every check, and then its rates divide by zero.\<close>

lemma empty_report_raises:
  assumes "read_object report_file = Inr report" "read_object labels_file = Inr labels"
    "verify_label_audit sha256 audit_file labels_file = Inr label_audit" "score_rows report labels = Inr []"
  shows "evaluate_candidate sha256 report_file labels_file audit_file = Inl (ZeroDivisionError ''division by zero'')"
  using assms by (simp add: evaluate_candidate_def Let_def score_counts_def score_columns_def py_divide_def as_int_def)

lemma empty_report_scores:
  assumes "jget report ''labels_read'' = JBool False" "jget report ''r5_qualification'' = JStr ''not_qualified''"
    "jget report ''input_provenance'' = JObj [(''cases'', JList [])]" "jget report ''trials'' = JList []"
  shows "score_rows report labels = Inr []"
  using assms by (simp add: score_rows_def report_cases_def jget_def [of "[(''cases'', JList [])]"] same_keys_def)

section \<open>Prepared plans\<close>

text \<open>
  The plans of the cache condition are not validated again: from a source item with more than one evidence hash the
  tool writes a plan that the loader refuses.
\<close>

lemma ablation_cache_refused:
  assumes "prepare_ablation exists cfg source path cap prefix deadline joint = Inr (conditions, m)"
    "(''cache'', cfg', p) \<in> set conditions" "length (li_evidence_hashes (hd (lp_jobs source))) \<noteq> 1"
  shows "\<not> is_ok (validate_plan p)"
proof -
  let ?template = "hd (lp_jobs source)"
  from assms(1) obtain plans where plans: "traverse (\<lambda>(c, provenance, jobs).
      rbind (new_plan provenance (lp_synthetic_inputs source) jobs) (\<lambda>p. Inr (c, p))) (ablation_conditions deadline joint ?template) = Inr plans"
    "conditions = map (\<lambda>(c, p). (c, ablation_config cfg prefix cap c (length (lp_jobs p)), p)) plans"
    by (auto simp: prepare_ablation_def validate_plan_def rbind_Inr_iff Let_def file_exists_def dest: validate_config_refs(1)
        split: if_splits list.splits)
  with assms(2) have "(''cache'', p) \<in> set plans" by auto
  with plans(1) have "lp_jobs p = cache_items ?template"
    by (auto simp: ablation_conditions_def rbind_Inr_iff new_plan_def split: if_splits)
  moreover have "\<not> is_ok (validate_item (cache_item ?template iid))" for iid
    using assms(3) by (auto simp: validate_item_def is_ok_iff rbind_Inr_iff item_guards_def cache_item_def)
  ultimately show ?thesis by (simp add: validate_plan_def cache_items_def)
qed

text \<open>
  The bounds that the cohort tool checks (64 sessions, 100 jobs each) admit plans of up to 6400 jobs; a plan of more than
  2000 is refused by the loader.
\<close>

lemma cohort_jobs_length: "length (cohort_jobs ci frames n) = length frames * nat n"
  unfolding cohort_jobs_def by (simp add: length_concat comp_def split_beta sum_list_triv)

lemma large_cohort_refused:
  assumes "2000 < length frames * nat n"
  shows "\<not> is_ok (plan_of_json (cohort_plan ci frames n))"
proof -
  have "length jobs = length frames * nat n" if "traverse item_of_json (cohort_jobs ci frames n) = Inr jobs" for jobs
    using traverse_length [OF that] by (simp add: cohort_jobs_length)
  with assms show ?thesis
    by (auto simp: plan_of_json_def cohort_plan_def object_of_def field_def dec_str_def dec_bool_def dec_list_def is_ok_iff
        rbind_Inr_iff validate_plan_def)
qed

section \<open>The report of a run\<close>

lemma map_of_dict_update: "k \<notin> fst ` set items \<Longrightarrow> map_of (dict_update d items) k = map_of d k"
  unfolding dict_update_def by (induction items arbitrary: d) (auto simp: update_conv)

lemma report_field:
  assumes "k \<in> {''states'', ''offered'', ''timing'', ''budget'', ''quarantined_pools''}"
  shows "dict_get (load_report p lags rt) k d = (case summarize rt of JObj kvs \<Rightarrow> dict_get (JObj kvs) k d | _ \<Rightarrow> Inr d)"
  using assms by (auto simp: load_report_def dict_get_def map_of_dict_update summarize_def Let_def)

lemma counts_alter: "sum_list (map snd (alter (0::int) (\<lambda>n. n + 1) k xs)) = sum_list (map snd xs) + 1"
  unfolding alter_def by (induction xs) (auto split: option.splits)

lemma counts_fold: "sum_list (map snd (fold (\<lambda>row. alter (0::int) (\<lambda>n. n + 1) (f row)) rows xs)) = sum_list (map snd xs) + int (length rows)"
  by (induction rows arbitrary: xs) (simp_all add: counts_alter)

lemma py_sum_ints: "py_sum_from (JInt i) (map JInt xs) = Inr (JInt (i + sum_list xs))"
  by (induction xs arbitrary: i) (simp_all add: py_add_def as_int_def add.assoc)

lemma report_terminal: "states_terminal (load_report p lags rt) = Inr True"
proof -
  let ?rows = "list_jobs (tenant_of rt) [] (rt_store rt)"
  let ?states = "sm_states (fold summarize_row ?rows no_summary)"
  have s: "dict_get (load_report p lags rt) ''states'' (JObj []) = Inr (counts_json ?states)"
    "dict_get (load_report p lags rt) ''offered'' (JInt (- 1)) = Inr (JInt (int (length ?rows)))"
    by (simp_all add: report_field) (simp_all add: summarize_def Let_def dict_get_def)
  have "map snd (map (\<lambda>(k, n). (k, JInt n)) ?states) = map JInt (map snd ?states)" by (induction ?states) auto
  then have total: "py_sum (map snd (map (\<lambda>(k, n). (k, JInt n)) ?states)) = Inr (JInt (int (length ?rows)))"
    unfolding py_sum_def by (simp only: py_sum_ints) (simp add: fold_summarize_row counts_fold no_summary_def)
  show ?thesis
    unfolding states_terminal_def s rbind_simps counts_json_def dict_items_def json.case total
    by (simp add: number_eq_def py_number_def)
qed

lemma queue_unstarted:
  assumes "rc_started_ns r = None"
  shows "sm_queue (summarize_row (j, r) sm) = sm_queue sm"
proof -
  have "sm_queue (count_usage r sm) = sm_queue sm" for sm
    by (simp add: count_usage_def usage_columns_def split: option.split)
  then show ?thesis using assms by (simp add: summarize_row_def Let_def elapsed_def)
qed

lemma queue_empty:
  "list_all (\<lambda>(_, r). rc_started_ns r = None) rows \<Longrightarrow> sm_queue (fold summarize_row rows sm) = sm_queue sm"
  by (induction rows arbitrary: sm) (auto simp: queue_unstarted)

text \<open>C40: what the matrix evaluation makes of the report of \<open>run_load\<close>: its test that a report is terminal accepts the
  report of every coordinator, however many jobs are still queued or running, since the states of all rows always add
  up to the rows offered; and for a run in which no job was ever started (all were rejected or expired in the queue) the
  evaluation raises instead of giving a row, because the percentiles of an empty list are there as null.\<close>

theorem matrix_reads_report:
  "states_terminal (load_report p lags rt) = Inr True \<and>
   (list_all (\<lambda>(_, r). rc_started_ns r = None) (list_jobs (tenant_of rt) [] (rt_store rt)) \<longrightarrow>
      \<not> is_ok (scheduler_row sha256 scheduler cfg (load_report p lags rt) v))"
proof (intro conjI impI)
  let ?report = "load_report p lags rt" and ?rows = "list_jobs (tenant_of rt) [] (rt_store rt)"
  assume "list_all (\<lambda>(_, r). rc_started_ns r = None) ?rows"
  then have "sm_queue (fold summarize_row ?rows no_summary) = []"
    using queue_empty [of ?rows no_summary] by (simp add: no_summary_def)
  then have "\<exists>timing. dict_get ?report ''timing'' (JObj []) = Inr timing \<and> \<not> is_ok (timing_ms timing ''queue'' ''p50_ns'')"
    by (simp add: report_field)
      (simp add: summarize_def Let_def dict_get_def timing_ms_def get_in_def timing_json_def percentile_def opt_json_def
        py_divide_def as_int_def to_float_def)
  then show "\<not> is_ok (scheduler_row sha256 scheduler cfg ?report v)"
    by (auto simp: scheduler_row_def is_ok_iff rbind_Inr_iff)
qed (rule report_terminal)

definition sample_plan :: load_plan where
  "sample_plan = \<lparr>lp_provenance = ''sample'', lp_synthetic_inputs = True, lp_jobs = []\<rparr>"

theorem matrix_reads_report_witness:
  "map_option row_state (find_job ''t'' ''j1'' (rt_store sample_queued)) = Some QUEUED \<and>
   states_terminal (load_report sample_plan [] sample_queued) = Inr True \<and>
   \<not> is_ok (scheduler_row (\<lambda>_. ''digest'') ''fifo'' (JObj []) (load_report sample_plan [] sample_queued) JNull)"
proof -
  have "list_all (\<lambda>(_, r). rc_started_ns r = None) (list_jobs (tenant_of sample_queued) [] (rt_store sample_queued))" by code_simp
  moreover have "map_option row_state (find_job ''t'' ''j1'' (rt_store sample_queued)) = Some QUEUED"
    using sample_views(1) by (auto simp: sample_view_def)
  ultimately show ?thesis using matrix_reads_report by blast
qed

end
