(* ===== verification/Tools_Dataset.thy ===== *)
theory Tools_Dataset
  imports Tools_Evaluate
begin

text \<open>
  The dataset tools: the selection of a disjoint candidate set of \<^verbatim>\<open>src/tools/r5_prepare_disjoint.py\<close>, with the download
  and the decoding of a video as a parameter, and the label audit of \<^verbatim>\<open>src/tools/r5_streamarena_label_audit.py\<close>. Files are
  given by their bytes, and what is written is part of the result.
\<close>

section \<open>Source rows\<close>

definition mmvu_revision :: string where
  "mmvu_revision = ''b937f414a87e9012acba49d95669020b24fa9ee9''"

definition selection_seed :: string where
  "selection_seed = ''agmina-r5-heldout-20260925-v1''"

record source_row =
  so_id :: string
  so_source :: json
  so_category :: json
  so_video :: string
  so_url :: string
  so_question :: json
  so_options :: "(string \<times> json) list"
  so_answer :: json

text \<open>\<^verbatim>\<open>s.replace(old, new)\<close> for an \<open>old\<close> that is not empty.\<close>

function replace_all :: "string \<Rightarrow> string \<Rightarrow> string \<Rightarrow> string" where
  "replace_all old new s =
     (case s of [] \<Rightarrow> []
      | c # cs \<Rightarrow> if old \<noteq> [] \<and> starts old s then new @ replace_all old new (drop (length old) s) else c # replace_all old new cs)"
  by pat_completeness auto
termination by (relation "measure (\<lambda>(_, _, s). length s)") auto

declare replace_all.simps [simp del]

text \<open>One row of the source; \<open>None\<close> is a row that is passed over.\<close>

definition source_row_of :: "json \<Rightarrow> source_row option result" where
  "source_row_of row =
     rbind (dict_get row ''question_type'' JNull) (\<lambda>kind.
       if kind \<noteq> JStr ''multiple-choice'' then Inr None
       else rbind (rbind (item_at row ''choices'') dict_items) (\<lambda>choices.
         let options = filter (\<lambda>(_, v). py_true v) choices in
         rbind (item_at row ''answer'') (\<lambda>answer. rbind (hashable answer) (\<lambda>_.
           if answer \<notin> (\<lambda>(k, _). JStr k) ` set options then Inl (ValueError ''Source answer is not an offered option'')
           else rbind (item_at row ''id'') (\<lambda>sid.
             case sid of
               JStr s \<Rightarrow>
                 rbind (rbind (item_at row ''metadata'') (\<lambda>m. item_at m ''subject'')) (\<lambda>category.
                 rbind (item_at row ''video'') (\<lambda>video.
                   case video of
                     JStr v \<Rightarrow>
                       rbind (item_at row ''question'') (\<lambda>question.
                         Inr (Some \<lparr>so_id = ''MMVU-'' @ s, so_source = sid, so_category = category, so_video = v,
                           so_url = replace_all ''/resolve/main/'' (''/resolve/'' @ mmvu_revision @ ''/'') v, so_question = question,
                           so_options = options, so_answer = answer\<rparr>))
                   | _ \<Rightarrow> Inl (AttributeError ''replace'')))
             | _ \<Rightarrow> Inl (TypeError ''can only concatenate str''))))))"

definition fetch_rows :: "json \<Rightarrow> source_row list result" where
  "fetch_rows body =
     rbind (iterate body) (\<lambda>rows. rbind (traverse source_row_of rows) (\<lambda>found. Inr (concat (map (\<lambda>r. case r of None \<Rightarrow> [] | Some x \<Rightarrow> [x]) found))))"

fun named_ids :: "json list \<Rightarrow> string list result" where
  "named_ids [] = Inr []"
| "named_ids (row # rows) =
     rbind (dict_get row ''id'' JNull) (\<lambda>v.
       if v = JStr ''probe'' then named_ids rows
       else rbind (item_at row ''id'') (\<lambda>v. rbind (named_ids rows) (\<lambda>found. Inr (py_str v # found))))"

definition excluded_ids :: "string \<Rightarrow> string list result" where
  "excluded_ids manifest =
     rbind (read_json manifest) (\<lambda>v. rbind (dict_get v ''packets'' (JList [])) (\<lambda>packets. rbind (iterate packets) (\<lambda>rows.
       rbind (named_ids rows) (\<lambda>found. Inr (remdups found)))))"

section \<open>The selection\<close>

text \<open>The rows of each category in the order of their seeded digests, the categories in the order of theirs.\<close>

definition seeded :: "(string \<Rightarrow> string) \<Rightarrow> string \<Rightarrow> string" where
  "seeded sha256 s = sha256 (utf8_encode (selection_seed @ ''|'' @ s))"

fun add_group :: "source_row \<Rightarrow> (json \<times> source_row list) list \<Rightarrow> (json \<times> source_row list) list" where
  "add_group r [] = [(so_category r, [r])]"
| "add_group r ((c, rows) # gs) = (if same_key (so_category r) c then (c, rows @ [r]) # gs else (c, rows) # add_group r gs)"

fun groups_of :: "source_row list \<Rightarrow> (json \<times> source_row list) list \<Rightarrow> (json \<times> source_row list) list result" where
  "groups_of [] gs = Inr gs"
| "groups_of (r # rs) gs = rbind (hashable (so_category r)) (\<lambda>_. groups_of rs (add_group r gs))"

definition ordered_groups :: "(string \<Rightarrow> string) \<Rightarrow> (json \<times> source_row list) list \<Rightarrow> source_row list list" where
  "ordered_groups sha256 gs =
     map (\<lambda>(_, rows). sort_key (\<lambda>r. seeded sha256 (so_id r)) rows) (sort_key (\<lambda>(c, _). seeded sha256 (py_str c)) gs)"

text \<open>
  One pass over the categories: each gives its first row whose video is not used yet, until \<open>n\<close> rows are selected. The
  result is the groups left and the selection; the videos used are those of the selection.
\<close>

fun choose_round :: "nat \<Rightarrow> source_row list list \<Rightarrow> source_row list \<Rightarrow> source_row list list \<times> source_row list" where
  "choose_round n [] sel = ([], sel)"
| "choose_round n (g # gs) sel =
     (case dropWhile (\<lambda>r. so_video r \<in> so_video ` set sel) g of
        [] \<Rightarrow> (case choose_round n gs sel of (gs', sel') \<Rightarrow> ([] # gs', sel'))
      | r # g' \<Rightarrow>
          if length (sel @ [r]) = n then (g' # gs, sel @ [r])
          else (case choose_round n gs (sel @ [r]) of (gs', sel') \<Rightarrow> (g' # gs', sel')))"

lemma choose_round_grows: "length sel \<le> length (snd (choose_round n gs sel))"
proof (induction n gs sel rule: choose_round.induct)
  case (2 n g gs sel)
  show ?case
  proof (cases "dropWhile (\<lambda>r. so_video r \<in> so_video ` set sel) g")
    case Nil
    with 2(1) show ?thesis by (simp add: split_beta del: dropWhile_eq_Nil_conv)
  next
    case (Cons r g')
    with 2(2) [OF Cons] show ?thesis by (auto simp: split_beta)
  qed
qed simp

function choose_loop :: "nat \<Rightarrow> source_row list list \<Rightarrow> source_row list \<Rightarrow> source_row list result" where
  "choose_loop n gs sel =
     (if length sel < n then
        (let (gs', sel') = choose_round n gs sel in
         if length sel' = length sel then Inl (ValueError ''Not enough disjoint source cases'') else choose_loop n gs' sel')
      else Inr sel)"
  by pat_completeness auto
termination
proof (relation "measure (\<lambda>(n, _, sel). n - length sel)")
  fix n :: nat and gs sel x gs' sel'
  assume "length sel < n" "x = choose_round n gs sel" "(gs', sel') = x" "length sel' \<noteq> length sel"
  then have "choose_round n gs sel = (gs', sel')" "length sel < n" "length sel' \<noteq> length sel" by simp_all
  with choose_round_grows [of sel n gs] show "((n, gs', sel'), (n, gs, sel)) \<in> measure (\<lambda>(n, _, sel). n - length sel)"
    by auto
qed simp

declare choose_loop.simps [simp del]

definition choose_rows :: "(string \<Rightarrow> string) \<Rightarrow> source_row list \<Rightarrow> string list \<Rightarrow> nat \<Rightarrow> source_row list result" where
  "choose_rows sha256 rows excluded n =
     rbind (groups_of (filter (\<lambda>r. so_id r \<notin> set excluded) rows) []) (\<lambda>gs. choose_loop n (ordered_groups sha256 gs) [])"

section \<open>The candidate\<close>

text \<open>
  What getting a row's video gives: the digest of the file, its duration, the frames that were sampled of it, its size and
  the time it took.
\<close>

record acquisition =
  ac_digest :: string
  ac_duration :: pyfloat
  ac_frames :: "json list"
  ac_bytes :: int
  ac_elapsed :: pyfloat

record candidate_files =
  ca_selection :: json
  ca_labels :: json
  ca_packets :: "(string \<times> json) list"
  ca_manifest :: json
  ca_acquisition :: json
  ca_summary :: json

definition selected_row_json :: "source_row \<Rightarrow> json" where
  "selected_row_json r =
     JObj [(''id'', JStr (so_id r)), (''source_id'', so_source r), (''category'', so_category r), (''video_key'', JStr (so_video r)),
       (''video_url'', JStr (so_url r)), (''question'', so_question r), (''options'', JObj (so_options r)), (''answer'', so_answer r)]"

definition labels_json :: "source_row list \<Rightarrow> json" where
  "labels_json rows = JObj (dict_update [] (map (\<lambda>r. (so_id r, JObj [(''answer'', so_answer r),
     (''allowed_answers'', JList (map (\<lambda>(k, _). JStr k) (so_options r)))])) rows))"

definition packet_json :: "source_row \<times> acquisition \<Rightarrow> json" where
  "packet_json = (\<lambda>(r, a). JObj [(''id'', JStr (so_id r)), (''category'', so_category r), (''question'', so_question r),
     (''options'', JObj (so_options r)), (''video_sha256'', JStr (ac_digest a)), (''frames'', JList (ac_frames a))])"

definition frames_json :: "source_row \<times> acquisition \<Rightarrow> json" where
  "frames_json = (\<lambda>(r, a). JObj [(''duration_s'', JFloat (ac_duration a)), (''frames'', JList (ac_frames a)),
     (''sampling'', JStr ''uniform video PTS''), (''id'', JStr (so_id r))])"

definition acquired_json :: "source_row \<times> acquisition \<Rightarrow> json" where
  "acquired_json = (\<lambda>(r, a). JObj [(''id'', JStr (so_id r)), (''video_sha256'', JStr (ac_digest a)),
     (''bytes'', JInt (ac_bytes a)), (''elapsed_s'', JFloat (ac_elapsed a))])"

definition candidate_manifest :: "(string \<Rightarrow> string) \<Rightarrow> string \<Rightarrow> string \<Rightarrow> string \<Rightarrow> nat \<Rightarrow> (source_row \<times> acquisition) list \<Rightarrow> json" where
  "candidate_manifest sha256 url manifest_path manifest excluded found =
     JObj [(''protocol'', JStr ''R5 fresh disjoint held-out candidate preparation''), (''outcome'', JStr ''prepared_not_qualified''),
       (''model_calls'', JInt 0),
       (''source'', JObj [(''dataset'', JStr ''MMVU''), (''revision'', JStr mmvu_revision), (''metadata_url'', JStr url),
          (''selection_seed'', JStr selection_seed), (''excluded_manifest'', JStr manifest_path),
          (''excluded_manifest_sha256'', JStr (sha256 manifest)), (''excluded_case_count'', JInt (int excluded))]),
       (''packet_count'', JInt (int (length found))), (''packets'', JList (map packet_json found)),
       (''evaluator_labels_outside_runtime_manifest'', JBool True),
       (''next_required'', JList (map JStr [''independent label custody'', ''Agmina-backed model run'',
          ''fixed latency/cost thresholds'', ''quality evaluation'']))]"

definition candidate_summary :: "string \<Rightarrow> nat \<Rightarrow> source_row list \<Rightarrow> json" where
  "candidate_summary out excluded selected =
     JObj [(''out'', JStr out), (''packet_count'', JInt (int (length selected))), (''excluded_case_count'', JInt (int excluded)),
       (''ids'', JList (map (\<lambda>r. JStr (so_id r)) selected)), (''model_calls'', JInt 0), (''outcome'', JStr ''prepared_not_qualified'')]"

text \<open>
  \<open>body\<close> is the JSON value of the metadata, \<open>acquire\<close> the download and the sampling of a row's video, \<open>exists\<close> says that the
  output directory is there already (its parent is taken to exist).
\<close>

definition prepare_disjoint :: "(string \<Rightarrow> string) \<Rightarrow> (json \<Rightarrow> string) \<Rightarrow> (source_row \<Rightarrow> acquisition result) \<Rightarrow> string \<Rightarrow> bool \<Rightarrow> string \<Rightarrow>
    string \<Rightarrow> string \<Rightarrow> json \<Rightarrow> nat \<Rightarrow> candidate_files result" where
  "prepare_disjoint sha256 digest acquire out exists manifest_path manifest url body n =
     (if exists then Inl (FileExistsError ''Output already exists'')
      else rbind (excluded_ids manifest) (\<lambda>excluded. rbind (fetch_rows body) (\<lambda>rows.
        rbind (choose_rows sha256 rows excluded n) (\<lambda>selected.
        rbind (traverse (\<lambda>r. rbind (acquire r) (\<lambda>a. Inr (r, a))) selected) (\<lambda>found.
          Inr \<lparr>ca_selection = JList (map selected_row_json selected), ca_labels = labels_json selected,
            ca_packets = map (\<lambda>x. (so_id (fst x), frames_json x)) found,
            ca_manifest = candidate_manifest sha256 url manifest_path manifest (length excluded) found,
            ca_acquisition = JObj [(''status'', JStr ''complete''), (''packets'', JList (map acquired_json found)),
              (''evaluator_labels_sha256'', JStr (digest (labels_json selected)))],
            ca_summary = candidate_summary out (length excluded) selected\<rparr>)))))"

section \<open>The label audit\<close>

record video_files =
  vf_inside :: bool
  vf_tasks :: string
  vf_labels :: string

definition read_rows :: "string \<Rightarrow> json list result" where
  "read_rows content = rbind (utf8_decode content) (\<lambda>s. traverse (json_loads False) (filter (\<lambda>line. line \<noteq> []) (splitlines s)))"

definition row_ids :: "string \<Rightarrow> json list \<Rightarrow> string list result" where
  "row_ids k rows = rbind (traverse (\<lambda>row. item_at row k) rows) (\<lambda>vs. Inr (remdups (map py_str vs)))"

definition audit_video :: "(string \<Rightarrow> string) \<Rightarrow> (string \<Rightarrow> video_files) \<Rightarrow> json \<Rightarrow> (string \<times> json) result" where
  "audit_video sha256 fs v =
     (case v of
        JStr name \<Rightarrow>
          let f = fs name in
          if \<not> vf_inside f then Inl (ValueError ''Video path escapes dataset'')
          else rbind (read_rows (vf_tasks f)) (\<lambda>tasks. rbind (read_rows (vf_labels f)) (\<lambda>labels.
            rbind (row_ids ''id'' tasks) (\<lambda>task_ids. rbind (row_ids ''qid'' labels) (\<lambda>label_ids.
              if set task_ids \<noteq> set label_ids then Inl (ValueError ''Task/label IDs differ'')
              else Inr (name, JObj [(''tasks_sha256'', JStr (sha256 (vf_tasks f))), (''labels_sha256'', JStr (sha256 (vf_labels f))),
                (''task_count'', JInt (int (length tasks))), (''label_count'', JInt (int (length labels))),
                (''label_ids'', JList (map JStr (sort label_ids)))])))))
      | _ \<Rightarrow> Inl (TypeError ''unsupported operand''))"

definition audited_videos :: "json \<Rightarrow> string list option \<Rightarrow> json list result" where
  "audited_videos plan wanted =
     rbind (rbind (item_at plan ''videos'') iterate) (\<lambda>items. rbind (traverse (\<lambda>i. item_at i ''video_id'') items) (\<lambda>selected.
       case wanted of
         None \<Rightarrow> Inr selected
       | Some names \<Rightarrow>
           rbind (traverse hashable selected) (\<lambda>_.
             if \<not> set (map JStr names) \<subseteq> set selected then Inl (ValueError ''Unknown video'') else Inr (map JStr names))))"

definition audit_labels :: "(string \<Rightarrow> string) \<Rightarrow> (string \<Rightarrow> video_files) \<Rightarrow> string \<Rightarrow> string list option \<Rightarrow> json result" where
  "audit_labels sha256 fs plan_file wanted =
     rbind (read_json plan_file) (\<lambda>plan. rbind (audited_videos plan wanted) (\<lambda>videos.
     rbind (traverse (audit_video sha256 fs) videos) (\<lambda>entries.
       Inr (JObj [(''protocol'', JStr ''R5 StreamArena private-label hash audit''), (''dataset_plan_sha256'', JStr (sha256 plan_file)),
         (''videos'', JObj (dict_update [] entries)), (''answers_included'', JBool False),
         (''custody_claim'', JStr ''operator-created hash record; labels remain outside runtime'')]))))"

section \<open>The selection is disjoint and as large as asked for\<close>

abbreviation videos :: "source_row list \<Rightarrow> string set" where
  "videos rows \<equiv> so_video ` set rows"

abbreviation group_videos :: "source_row list list \<Rightarrow> string set" where
  "group_videos gs \<equiv> (\<Union>g \<in> set gs. videos g)"

lemma videos_dropped:
  "videos g \<subseteq> U \<union> videos (dropWhile (\<lambda>r. so_video r \<in> U) g)"
  by (induction g) auto

lemma taken_rows: "A \<union> X \<subseteq> insert r S \<union> G \<Longrightarrow> r \<in> H \<Longrightarrow> H' \<subseteq> H \<Longrightarrow> A \<union> (H' \<union> X) \<subseteq> S \<union> (H \<union> G)"
  by blast

lemma taken_videos: "insert v S \<union> G \<subseteq> A \<union> X \<Longrightarrow> H \<subseteq> S \<union> {v} \<union> H' \<Longrightarrow> S \<union> (H \<union> G) \<subseteq> A \<union> (H' \<union> X)"
  by blast

lemma choose_round_keeps:
  assumes "choose_round n gs sel = (gs', sel')" "distinct (map so_video sel)" "length sel < n"
  shows "distinct (map so_video sel') \<and> length sel' \<le> n \<and> set sel \<subseteq> set sel' \<and>
    set sel' \<union> \<Union> (set ` set gs') \<subseteq> set sel \<union> \<Union> (set ` set gs) \<and>
    videos sel \<union> group_videos gs \<subseteq> videos sel' \<union> group_videos gs' \<and>
    (length sel' = length sel \<longrightarrow> sel' = sel \<and> group_videos gs' = {})"
  using assms
proof (induction n gs sel arbitrary: gs' sel' rule: choose_round.induct)
  case (2 n g gs sel)
  let ?rest = "dropWhile (\<lambda>r. so_video r \<in> videos sel) g"
  have drop: "videos g \<subseteq> videos sel \<union> videos ?rest" "set ?rest \<subseteq> set g"
    by (rule videos_dropped) (auto dest: set_dropWhileD)
  show ?case
  proof (cases ?rest)
    case Nil
    obtain gs1 s1 where c: "choose_round n gs sel = (gs1, s1)" by (cases "choose_round n gs sel")
    have gs1: "s1 = sel'" "gs' = [] # gs1"
      using 2(3) unfolding choose_round.simps Nil list.case c prod.case by simp_all
    have none: "videos g \<subseteq> videos sel" using drop(1) unfolding Nil by simp
    note ih = 2(1) [OF Nil c [unfolded gs1(1)] 2(4,5)]
    have "set sel' \<union> \<Union> (set ` set gs') \<subseteq> set sel \<union> \<Union> (set ` set (g # gs))" using ih unfolding gs1(2) by auto
    moreover have "videos sel \<union> group_videos (g # gs) = videos sel \<union> group_videos gs" using none by auto
    moreover have "group_videos gs' = group_videos gs1" unfolding gs1(2) by simp
    ultimately show ?thesis using ih by simp
  next
    case (Cons r g')
    have fresh: "so_video r \<notin> videos sel" using Cons hd_dropWhile [of "\<lambda>r. so_video r \<in> videos sel" g] by simp
    then have d: "distinct (map so_video (sel @ [r]))" using 2(4) by auto
    show ?thesis
    proof (cases "length (sel @ [r]) = n")
      case True
      have eq: "gs' = g' # gs" "sel' = sel @ [r]" using 2(3) True unfolding choose_round.simps Cons list.case by simp_all
      have part: "r \<in> set g" "set g' \<subseteq> set g" "videos g \<subseteq> videos sel \<union> {so_video r} \<union> videos g'" using drop Cons by auto
      have "set sel' \<union> \<Union> (set ` set gs') \<subseteq> set sel \<union> \<Union> (set ` set (g # gs))"
        unfolding eq list.set(2) image_insert Union_insert by (rule taken_rows [OF _ part(1,2)]) simp
      moreover have "videos sel \<union> group_videos (g # gs) \<subseteq> videos sel' \<union> group_videos gs'"
        unfolding eq list.set(2) image_insert Union_insert by (rule taken_videos [OF _ part(3)]) simp
      moreover have "length sel' = n" "set sel \<subseteq> set sel'" "length sel' \<noteq> length sel" using True unfolding eq by auto
      ultimately show ?thesis using d unfolding eq(2) by simp
    next
      case False
      obtain gs1 s1 where c: "choose_round n gs (sel @ [r]) = (gs1, s1)" by (cases "choose_round n gs (sel @ [r])")
      have "s1 = sel'" and eq: "gs' = g' # gs1"
        using 2(3) False unfolding choose_round.simps Cons list.case c prod.case by simp_all
      with c have gs1: "choose_round n gs (sel @ [r]) = (gs1, sel')" "gs' = g' # gs1" by simp_all
      have longer: "length sel < length sel'" using choose_round_grows [of "sel @ [r]" n gs] gs1(1) by simp
      have part: "r \<in> set g" "set g' \<subseteq> set g" "videos g \<subseteq> videos sel \<union> {so_video r} \<union> videos g'" using drop Cons by auto
      have ih: "distinct (map so_video sel')" "length sel' \<le> n" "set (sel @ [r]) \<subseteq> set sel'"
        "set sel' \<union> \<Union> (set ` set gs1) \<subseteq> set (sel @ [r]) \<union> \<Union> (set ` set gs)"
        "videos (sel @ [r]) \<union> group_videos gs \<subseteq> videos sel' \<union> group_videos gs1"
        using 2(2) [OF Cons False gs1(1) d] 2(5) False by simp_all
      have "set sel' \<union> \<Union> (set ` set gs') \<subseteq> set sel \<union> \<Union> (set ` set (g # gs))"
        unfolding gs1(2) list.set(2) image_insert Union_insert by (rule taken_rows [OF _ part(1,2)]) (use ih(4) in simp)
      moreover have "videos sel \<union> group_videos (g # gs) \<subseteq> videos sel' \<union> group_videos gs'"
        unfolding gs1(2) list.set(2) image_insert Union_insert by (rule taken_videos [OF _ part(3)]) (use ih(5) in simp)
      ultimately show ?thesis using ih(1-3) longer by simp
    qed
  qed
qed simp

lemma choose_round_facts:
  assumes "choose_round n gs sel = (gs', sel')" "distinct (map so_video sel)" "length sel < n"
  shows "distinct (map so_video sel')" "length sel' \<le> n"
    "set sel' \<union> \<Union> (set ` set gs') \<subseteq> set sel \<union> \<Union> (set ` set gs)"
    "videos sel \<union> group_videos gs \<subseteq> videos sel' \<union> group_videos gs'"
    "length sel' = length sel \<longrightarrow> sel' = sel \<and> group_videos gs' = {}"
  using choose_round_keeps [OF assms] by argo+

lemma choose_loop_exact:
  assumes "distinct (map so_video sel)" "length sel \<le> n"
  shows "case choose_loop n gs sel of
      Inl _ \<Rightarrow> card (videos sel \<union> group_videos gs) < n
    | Inr s \<Rightarrow> length s = n \<and> distinct (map so_video s) \<and> set s \<subseteq> set sel \<union> \<Union> (set ` set gs)"
  using assms
proof (induction n gs sel rule: choose_loop.induct)
  case (1 n gs sel)
  show ?case
  proof (cases "length sel < n")
    case False
    with 1(2,3) show ?thesis by (simp add: choose_loop.simps [of n gs sel])
  next
    case True
    obtain gs' sel' where r: "choose_round n gs sel = (gs', sel')" by (cases "choose_round n gs sel")
    note k = choose_round_facts [OF r 1(2) True]
    show ?thesis
    proof (cases "length sel' = length sel")
      case same: True
      with k(5) have eq: "sel' = sel" "group_videos gs' = {}" by simp_all
      have "videos sel \<union> group_videos gs \<subseteq> videos sel" using k(4) unfolding eq Un_empty_right .
      then have "card (videos sel \<union> group_videos gs) \<le> card (videos sel)" by (intro card_mono) simp_all
      also have "\<dots> \<le> length sel" by (metis card_length length_map set_map)
      finally show ?thesis using True same r by (simp add: choose_loop.simps [of n gs sel])
    next
      case False
      have step: "choose_loop n gs sel = choose_loop n gs' sel'" using True False r by (simp add: choose_loop.simps [of n gs sel])
      have ih: "case choose_loop n gs' sel' of Inl _ \<Rightarrow> card (videos sel' \<union> group_videos gs') < n
        | Inr s \<Rightarrow> length s = n \<and> distinct (map so_video s) \<and> set s \<subseteq> set sel' \<union> \<Union> (set ` set gs')"
        by (rule 1(1) [OF True r [symmetric] refl False k(1,2)])
      have le: "card (videos sel \<union> group_videos gs) \<le> card (videos sel' \<union> group_videos gs')"
        by (rule card_mono [OF _ k(4)]) simp
      show ?thesis
      proof (cases "choose_loop n gs' sel'")
        case (Inl e)
        with ih le show ?thesis unfolding step by simp
      next
        case (Inr s)
        with ih have "length s = n" "distinct (map so_video s)" "set s \<subseteq> set sel' \<union> \<Union> (set ` set gs')" by simp_all
        with k(3) show ?thesis unfolding step Inr sum.case by (intro conjI order_trans [OF _ k(3)])
      qed
    qed
  qed
qed

abbreviation group_rows :: "(json \<times> source_row list) list \<Rightarrow> source_row set" where
  "group_rows gs \<equiv> \<Union>a \<in> set gs. set (snd a)"

lemma add_group_rows: "group_rows (add_group r gs) = insert r (group_rows gs)"
  by (induction r gs rule: add_group.induct) auto

lemma groups_of_rows:
  assumes "list_all (\<lambda>r. is_ok (hashable (so_category r))) rs"
  obtains gs' where "groups_of rs gs = Inr gs'" "group_rows gs' = set rs \<union> group_rows gs"
  using assms
proof (induction rs arbitrary: gs thesis)
  case (Cons r rs)
  from Cons.prems(2) obtain u where u: "hashable (so_category r) = Inr u" by (auto simp: is_ok_iff)
  show ?case
  proof (rule Cons.IH [of "add_group r gs"])
    show "list_all (\<lambda>r. is_ok (hashable (so_category r))) rs" using Cons.prems(2) by simp
    fix gs' assume "groups_of rs (add_group r gs) = Inr gs'" "group_rows gs' = set rs \<union> group_rows (add_group r gs)"
    with u show thesis by (intro Cons.prems(1) [of gs']) (simp_all add: add_group_rows)
  qed
qed simp

lemma ordered_groups_rows: "\<Union> (set ` set (ordered_groups sha256 gs)) = group_rows gs"
  by (simp add: ordered_groups_def image_image split_beta)

text \<open>C22: the selection is disjoint and finds as many cases as there are: with categories that can be dictionary keys, it
  returns exactly when the rows that are not excluded show at least the asked number of different videos, and then it
  returns that many of them, no two with the same video.\<close>

theorem choose_is_exact:
  assumes "list_all (\<lambda>r. is_ok (hashable (so_category r))) rows"
  shows "(is_ok (choose_rows sha256 rows excluded n) \<longleftrightarrow> n \<le> card (so_video ` {r \<in> set rows. so_id r \<notin> set excluded})) \<and>
    (\<forall>s. choose_rows sha256 rows excluded n = Inr s \<longrightarrow>
       length s = n \<and> distinct (map so_video s) \<and> set s \<subseteq> {r \<in> set rows. so_id r \<notin> set excluded})"
proof -
  let ?rows = "filter (\<lambda>r. so_id r \<notin> set excluded) rows" and ?set = "{r \<in> set rows. so_id r \<notin> set excluded}"
  have "list_all (\<lambda>r. is_ok (hashable (so_category r))) ?rows" using assms by (simp add: list_all_iff)
  from groups_of_rows [OF this, of "[]"] obtain gs where gs: "groups_of ?rows [] = Inr gs" "group_rows gs = ?set" by auto
  let ?gs = "ordered_groups sha256 gs"
  have all: "\<Union> (set ` set ?gs) = ?set" by (simp add: ordered_groups_rows gs(2))
  have vids: "group_videos ?gs = so_video ` ?set" unfolding all [symmetric] by blast
  have eq: "choose_rows sha256 rows excluded n = choose_loop n ?gs []" by (simp add: choose_rows_def gs(1))
  have c: "case choose_loop n ?gs [] of Inl _ \<Rightarrow> card (so_video ` ?set) < n
      | Inr s \<Rightarrow> length s = n \<and> distinct (map so_video s) \<and> set s \<subseteq> ?set"
    using choose_loop_exact [of "[]" n ?gs] unfolding vids all list.set(1) image_empty Un_empty_left by simp
  show ?thesis
  proof (cases "choose_loop n ?gs []")
    case (Inl e)
    with c show ?thesis by (simp add: eq)
  next
    case (Inr s)
    with c have s: "length s = n" "distinct (map so_video s)" "set s \<subseteq> ?set" by simp_all
    have "n = card (so_video ` set s)" using s(1,2) by (metis distinct_card length_map set_map)
    also have "\<dots> \<le> card (so_video ` ?set)" using s(3) by (intro card_mono image_mono) auto
    finally show ?thesis using s Inr by (simp add: eq)
  qed
qed

definition sample_row :: "string \<Rightarrow> string \<Rightarrow> string \<Rightarrow> source_row" where
  "sample_row i c v = \<lparr>so_id = i, so_source = JStr i, so_category = JStr c, so_video = v, so_url = v, so_question = JStr ''q'',
     so_options = [(''A'', JStr ''x'')], so_answer = JStr ''A''\<rparr>"

definition sample_rows :: "source_row list" where
  "sample_rows = [sample_row ''a'' ''art'' ''v1'', sample_row ''b'' ''art'' ''v2'', sample_row ''c'' ''law'' ''v1'', sample_row ''d'' ''law'' ''v3'']"

theorem choose_is_exact_witness:
  "is_ok (choose_rows (\<lambda>s. s) sample_rows [''b''] 2) \<and> \<not> is_ok (choose_rows (\<lambda>s. s) sample_rows [''b''] 3)"
proof -
  have ok: "list_all (\<lambda>r. is_ok (hashable (so_category r))) sample_rows" by code_simp
  have "{r \<in> set sample_rows. so_id r \<notin> set [''b'']} = set (filter (\<lambda>r. so_id r \<notin> set [''b'']) sample_rows)" by simp
  also have "filter (\<lambda>r. so_id r \<notin> set [''b'']) sample_rows =
      [sample_row ''a'' ''art'' ''v1'', sample_row ''c'' ''law'' ''v1'', sample_row ''d'' ''law'' ''v3'']" by code_simp
  finally have "card (so_video ` {r \<in> set sample_rows. so_id r \<notin> set [''b'']}) = card (set [''v1'', ''v1'', ''v3''])"
    by (simp add: sample_row_def)
  also have "\<dots> = 2" by code_simp
  finally have card: "card (so_video ` {r \<in> set sample_rows. so_id r \<notin> set [''b'']}) = 2" .
  show ?thesis using choose_is_exact [OF ok, of "\<lambda>s. s" "[''b'']" 2] choose_is_exact [OF ok, of "\<lambda>s. s" "[''b'']" 3] unfolding card by simp
qed

end
