(* ===== verification/Tools_Native.thy ===== *)
theory Tools_Native
  imports Cli Native_Policy Tools_Evaluate
begin

text \<open>
  The tools of the native policy campaign: the extraction of a retained packet (\<^verbatim>\<open>src/tools/r6_extract_native_packet.py\<close>),
  the replay of recorded queries through the coordinator (\<^verbatim>\<open>src/tools/r6_recorded_policy_replay.py\<close>), and the comparison
  of a direct with a coordinated sequence of calls (\<^verbatim>\<open>src/tools/r6_native_policy_compare.py\<close>). Runs are programs as in
  \<open>Cli\<close>; archives, arrays and pictures are given decoded, and the reports written are results.
\<close>

section \<open>Extraction of a packet\<close>

text \<open>The row of the trace and the digest of its line.\<close>

definition load_row :: "(string \<Rightarrow> string) \<Rightarrow> string \<Rightarrow> int \<Rightarrow> ((string \<times> json) list \<times> string) result" where
  "load_row sha256 trace i =
     (if i < 0 then Inl (ValueError ''Trace index must be nonnegative'')
      else rbind (utf8_decode trace) (\<lambda>s.
        case drop (nat i) (splitlines s) of
          [] \<Rightarrow> Inl (IndexError ''Trace has no row'')
        | line # _ \<Rightarrow> rbind (json_loads False line) (\<lambda>v.
            case v of JObj kvs \<Rightarrow> Inr (kvs, sha256 (utf8_encode line)) | _ \<Rightarrow> Inl (ValueError ''Trace row must be an object''))))"

record archive_member =
  am_name :: string
  am_isfile :: bool
  am_content :: "string option"

definition ends_with :: "string \<Rightarrow> string \<Rightarrow> bool" where
  "ends_with p s = starts (rev p) (rev s)"

definition find_member :: "archive_member list \<Rightarrow> string \<Rightarrow> archive_member result" where
  "find_member members uri =
     (case filter (\<lambda>m. am_isfile m \<and> ends_with (''/'' @ uri) (am_name m)) members of
        [m] \<Rightarrow> Inr m
      | _ \<Rightarrow> Inl (ValueError ''Expected one archived asset''))"

text \<open>A decoded picture: its width, its height and its pixels, three bytes each.\<close>

type_synonym picture = "nat \<times> nat \<times> string"

definition picture_envelope :: "picture \<Rightarrow> json \<times> (string \<times> json) list" where
  "picture_envelope = (\<lambda>(width, height, pixels).
     (JObj [(''__ndarray__'', JStr (b64encode pixels)), (''dtype'', JStr ''uint8''),
        (''shape'', JList [JInt (int height), JInt (int width), JInt 3])],
      [(''width'', JInt (int width)), (''height'', JInt (int height)), (''bytes'', JInt (int (length pixels)))]))"

text \<open>The picture of one camera and what the report says of it. \<open>decode\<close> is the picture library.\<close>

definition camera_asset :: "(string \<Rightarrow> string) \<Rightarrow> (string \<Rightarrow> picture result) \<Rightarrow> archive_member list \<Rightarrow> json \<Rightarrow> string \<Rightarrow>
    (json \<times> json) result" where
  "camera_asset sha256 decode members rgb camera =
     rbind (item_at rgb camera) (\<lambda>evidence. rbind (dict_get evidence ''uri'' JNull) (\<lambda>v.
       case v of
         JStr uri \<Rightarrow>
           if \<not> ends_with ''.png'' uri then Inl (ValueError ''Missing PNG URI'')
           else rbind (find_member members uri) (\<lambda>m.
             case am_content m of
               None \<Rightarrow> Inl (ValueError ''Could not read archived member'')
             | Some raw \<Rightarrow>
                 if sha256 raw \<noteq> take (length uri - 4) uri then Inl (ValueError ''Archived PNG hash disagrees with URI'')
                 else rbind (decode raw) (\<lambda>p.
                   Inr (fst (picture_envelope p),
                     JObj ([(''uri'', JStr uri), (''member'', JStr (am_name m)), (''png_sha256'', JStr (sha256 raw))] @
                           snd (picture_envelope p)))))
       | _ \<Rightarrow> Inl (ValueError ''Missing PNG URI'')))"

definition extracted_packet :: "(string \<Rightarrow> string) \<Rightarrow> (string \<Rightarrow> picture result) \<Rightarrow> archive_member list \<Rightarrow> (string \<times> json) list \<Rightarrow>
    (json \<times> (string \<times> json) list) result" where
  "extracted_packet sha256 decode members row =
     (case jget row ''observation'' of
        JObj ob \<Rightarrow>
          rbind (rbind (dict_get (JObj ob) ''rgb'' (JObj [])) iterate) (\<lambda>cameras. rbind (traverse hashable cameras) (\<lambda>_.
            if \<not> same_keys cameras (map JStr policy_cameras)
            then Inl (ValueError ''Selected observation does not contain the audited R1Pro camera set'')
            else case jget ob ''proprio'' of
              JList proprio \<Rightarrow>
                if length proprio \<noteq> 61
                then Inl (ValueError ''Selected observation does not contain native 61-element proprioception'')
                else rbind (traverse (camera_asset sha256 decode members (jget ob ''rgb'')) policy_cameras) (\<lambda>assets.
                  rbind (item_at (JObj ob) ''stamp'') (\<lambda>s.
                  rbind (validate_native_packet (JObj [(''stamp'', s), (''instruction'', jget row ''instruction''),
                      (''proprio'', JList proprio), (''rgb'', JObj (zip policy_cameras (map fst assets)))])) (\<lambda>packet.
                    Inr (packet, zip policy_cameras (map snd assets)))))
            | _ \<Rightarrow> Inl (ValueError ''Selected observation does not contain native 61-element proprioception'')))
      | _ \<Rightarrow> Inl (ValueError ''Selected trace row has no observation''))"

text \<open>The packet and the report that are written. \<open>exists\<close> says that the output directory is there already.\<close>

definition extract_packet :: "(string \<Rightarrow> string) \<Rightarrow> (string \<Rightarrow> picture result) \<Rightarrow> bool \<Rightarrow> string \<Rightarrow> string \<Rightarrow> string \<Rightarrow> string \<Rightarrow>
    archive_member list \<Rightarrow> int \<Rightarrow> (json \<times> json) result" where
  "extract_packet sha256 decode exists trace_path trace archive_path archive members i =
     (if exists then Inl (FileExistsError ''Output already exists'')
      else rbind (load_row sha256 trace i) (\<lambda>(row, row_hash).
        rbind (extracted_packet sha256 decode members row) (\<lambda>(packet, assets).
        rbind (item_at packet ''stamp'') (\<lambda>s.
          Inr (packet, JObj
            [(''protocol'', JStr ''R6 retained native packet extraction''), (''outcome'', JStr ''passed''),
             (''source_scope'', JStr ''retained-offline-only''),
             (''trace'', JObj [(''path'', JStr trace_path), (''sha256'', JStr (sha256 trace)), (''selected_index'', JInt i),
                (''selected_row_sha256'', JStr row_hash)]),
             (''archive'', JObj [(''path'', JStr archive_path), (''sha256'', JStr (sha256 archive))]),
             (''packet_sha256'', JStr (sha256 (json_dumps packet))), (''stamp'', s), (''assets'', JObj assets),
             (''future_leakage_claim'', JBool False), (''live_observation_claim'', JBool False),
             (''inference_calls'', JInt 0), (''native_actions'', JInt 0)])))))"

section \<open>Recorded queries\<close>

text \<open>
  An array of the archive of a query: its shape, its type, its bytes in row-major order and whether all of it is finite;
  the archive, with the least and the greatest action and the actions as a list.
\<close>

record array_data =
  ad_shape :: "int list"
  ad_dtype :: string
  ad_bytes :: string
  ad_finite :: bool

record query_archive =
  qa_content :: string
  qa_names :: "string list"
  qa_array :: "string \<Rightarrow> array_data"
  qa_min :: pyfloat
  qa_max :: pyfloat
  qa_actions :: json

record recorded_query =
  rq_index :: nat
  rq_name :: string
  rq_bytes :: int
  rq_sha :: string
  rq_image_sha :: string
  rq_joint_sha :: string
  rq_gripper_sha :: string
  rq_action_sha :: string
  rq_min :: pyfloat
  rq_max :: pyfloat
  rq_actions :: json

definition query_keys :: "string list" where
  "query_keys = [''image'', ''joint_position'', ''gripper_position'', ''actions'']"

definition pad_zeros :: "nat \<Rightarrow> string \<Rightarrow> string" where
  "pad_zeros n s = replicate (n - length s) (CHR ''0'') @ s"

text \<open>\<^verbatim>\<open>math.isclose(x, y, rel_tol=0, abs_tol=1e-7)\<close>.\<close>

definition is_close :: "pyfloat \<Rightarrow> pyfloat \<Rightarrow> bool" where
  "is_close x y \<longleftrightarrow>
     float_le x y \<and> float_le y x \<or>
     float_finite x \<and> float_finite y \<and>
       (let d = float_add y (float_minus x) in float_le d (Dec 1 (- 7)) \<and> float_le (Dec (- 1) (- 7)) d)"

definition array_is :: "array_data \<Rightarrow> int list \<Rightarrow> string \<Rightarrow> bool" where
  "array_is a shape dtype \<longleftrightarrow> ad_shape a = shape \<and> ad_dtype a = dtype"

definition image_is :: "array_data \<Rightarrow> json list \<Rightarrow> bool" where
  "image_is a resolution \<longleftrightarrow> py_eq_list (map JInt (ad_shape a)) (resolution @ [JInt 3]) \<and> ad_dtype a = ''uint8''"

definition bound_agrees :: "json \<Rightarrow> string \<Rightarrow> pyfloat \<Rightarrow> string \<Rightarrow> unit result" where
  "bound_agrees metadata k x msg =
     rbind (item_at metadata k) (\<lambda>v. rbind (to_float v) (\<lambda>y. if is_close x y then Inr () else Inl (ValueError msg)))"

definition inspect_query :: "(string \<Rightarrow> string) \<Rightarrow> (string \<Rightarrow> query_archive option) \<Rightarrow> json list \<Rightarrow> nat \<times> json \<Rightarrow> recorded_query result" where
  "inspect_query sha256 load resolution = (\<lambda>(offset, metadata).
     rbind (dict_get metadata ''index'' JNull) (\<lambda>v.
       if \<not> py_eq v (JInt (int offset)) then Inl (ValueError ''Recorded query indices must be contiguous and ordered'')
       else let name = ''query-'' @ pad_zeros 3 (int_repr (int offset)) @ ''.npz'' in
         case load name of
           None \<Rightarrow> Inl (FileNotFoundError name)
         | Some f \<Rightarrow>
             let image = qa_array f ''image''; joints = qa_array f ''joint_position'';
                 gripper = qa_array f ''gripper_position''; actions = qa_array f ''actions'' in
             if set (qa_names f) \<noteq> set query_keys then Inl (ValueError ''Unexpected tensor keys'')
             else if \<not> image_is image resolution then Inl (ValueError ''Unexpected image codec'')
             else if \<not> array_is joints [7] ''float32'' then Inl (ValueError ''Unexpected joint codec'')
             else if \<not> array_is gripper [1] ''float32'' then Inl (ValueError ''Unexpected gripper codec'')
             else if \<not> array_is actions [32, 8] ''float32'' then Inl (ValueError ''Unexpected action codec'')
             else if \<not> list_all ad_finite [joints, gripper, actions] then Inl (ValueError ''Nonfinite policy tensor'')
             else rbind (bound_agrees metadata ''action_min'' (qa_min f) ''Action minimum disagrees with metadata'') (\<lambda>_.
               rbind (bound_agrees metadata ''action_max'' (qa_max f) ''Action maximum disagrees with metadata'') (\<lambda>_.
                 Inr \<lparr>rq_index = offset, rq_name = name, rq_bytes = int (length (qa_content f)), rq_sha = sha256 (qa_content f),
                   rq_image_sha = sha256 (ad_bytes image), rq_joint_sha = sha256 (ad_bytes joints),
                   rq_gripper_sha = sha256 (ad_bytes gripper), rq_action_sha = sha256 (ad_bytes actions),
                   rq_min = qa_min f, rq_max = qa_max f, rq_actions = qa_actions f\<rparr>))))"

definition inspect_recording :: "(string \<Rightarrow> string) \<Rightarrow> (string \<Rightarrow> query_archive option) \<Rightarrow> string \<Rightarrow> string \<Rightarrow>
    (json \<times> recorded_query list) result" where
  "inspect_recording sha256 load result_file queries_file =
     rbind (read_json result_file) (\<lambda>v. rbind (read_json queries_file) (\<lambda>queries.
       case queries of
         JList metadata \<Rightarrow>
           if metadata = [] then Inl (ValueError ''queries.json must contain a nonempty list'')
           else rbind (rbind (dict_get v ''metadata'' (JObj [])) (\<lambda>m. dict_get m ''image_resolution'' (JList []))) (\<lambda>declared.
             rbind (iterate declared) (\<lambda>resolution.
               if length resolution \<noteq> 2 then Inl (ValueError ''result.json must declare image_resolution'')
               else rbind (traverse (inspect_query sha256 load resolution) (enumerate 0 metadata)) (\<lambda>rows. Inr (v, rows))))
       | _ \<Rightarrow> Inl (ValueError ''queries.json must contain a nonempty list'')))"

text \<open>The backend that returns the recorded actions, and the job of a query.\<close>

definition recorded_payload :: "recorded_query \<Rightarrow> (string \<times> json) list" where
  "recorded_payload row =
     [(''action_codec'', JObj [(''datatype'', JStr ''FP32''), (''shape'', JList [JInt 32, JInt 8])]),
      (''query_index'', JInt (int (rq_index row))), (''recording_sha256'', JStr (rq_sha row))]"

definition recorded_output :: "recorded_query \<Rightarrow> json" where
  "recorded_output row =
     JObj [(''actions'', rq_actions row), (''datatype'', JStr ''FP32''), (''shape'', JList [JInt 32, JInt 8])]"

definition recorded_job_id :: "recorded_query \<Rightarrow> string" where
  "recorded_job_id row = ''policy-'' @ int_repr (int (rq_index row))"

definition recorded_infer :: "recorded_query list \<Rightarrow> job \<Rightarrow> string list \<Rightarrow> string list \<times> prediction outcome" where
  "recorded_infer rows j calls =
     (case find (\<lambda>row. recorded_job_id row = job_id j) (rev rows) of
        None \<Rightarrow> (calls, raised (ValueError ''Unknown recorded query''))
      | Some row \<Rightarrow>
          (case payload j of
             Inl e \<Rightarrow> (calls, raised e)
           | Inr body \<Rightarrow>
               if \<not> py_eq (JObj body) (JObj (recorded_payload row)) then (calls, raised (ValueError ''Recorded replay payload changed''))
               else if map obs_sha256 (job_observations j) \<noteq> [rq_sha row]
               then (calls, raised (ValueError ''Recorded replay source binding changed''))
               else (calls @ [job_id j],
                 rbind (lift (canonical (recorded_output row))) (\<lambda>text. new_prediction text zero_charge None None))))"

definition recorded_job :: "string \<Rightarrow> session \<Rightarrow> int \<Rightarrow> recorded_query \<Rightarrow> job result" where
  "recorded_job tenant s now row =
     rbind (validate_observation \<lparr>obs_id = ''recorded-query-'' @ int_repr (int (rq_index row)),
         obs_source = ''retained-native-policy-query'', obs_sequence = int (rq_index row), obs_sha256 = rq_sha row,
         obs_capture_ns = now, obs_available_ns = now, obs_uncertainty_ns = 0, obs_role = ROLE_CURRENT,
         obs_source_time = Some (''recorded-query:'' @ int_repr (int (rq_index row)) @ '';capture-time-unavailable'')\<rparr>) (\<lambda>x.
     rbind (canonical (JObj (recorded_payload row))) (\<lambda>text.
       validate_job \<lparr>job_id = recorded_job_id row, job_tenant = tenant, job_session_id = session_id s,
         job_epoch = session_epoch s, job_task_revision = session_task_revision s, job_clock_id = session_clock_id s,
         job_model = ''recorded-policy'', job_operation = ''recorded_policy_replay'', job_workload = POLICY,
         job_result_kind = ACTION_PROPOSAL, job_observations = [x], job_snapshot_ns = now,
         job_deadline_ns = now + 10000000000, job_max_age_ns = Some 10000000000, job_max_uncertainty_ns = 0,
         job_priority = 1, job_allowed_sites = [''local''], job_dependencies = [], job_payload_json = text,
         job_replace_key = None, job_discardable = False, job_cacheable = False\<rparr>))"

text \<open>The configuration of the replay, around the model and the endpoint of the recording.\<close>

definition recorded_model :: "string \<Rightarrow> model_contract" where
  "recorded_model result_hash =
     \<lparr>mc_alias = ''recorded-policy'', mc_weights = ''operator-recording:'' @ result_hash,
      mc_preprocessing = ''native-npz-v1:image-uint8-540x640x3,joints-fp32x7,gripper-fp32x1'',
      mc_output_schema = ''joint-position-chunk-fp32-32x8'', mc_sampling = ''recorded-output-no-inference'', mc_stateful = False\<rparr>"

definition default_endpoint :: endpoint where
  "default_endpoint =
     \<lparr>ep_id = [], ep_model = [], ep_pool = [], ep_site = [], ep_kind = MOCK, ep_url = None, ep_credential_env = None,
      ep_model_name = ''fixture'', ep_model_version = None, ep_response_model_required = True, ep_service_p95_ns = 100000000,
      ep_transport_p95_ns = 0, ep_margin_ns = 5000000, ep_timeout_s = Dec 3 1, ep_max_inflight = 1, ep_reserve_microusd = 0,
      ep_externally_billed = False, ep_input_per_million_microusd = None, ep_cached_per_million_microusd = None,
      ep_output_per_million_microusd = None, ep_stream = False, ep_max_output_tokens = 256, ep_max_response_bytes = 2000000,
      ep_extra_body_json = ''{}''\<rparr>"

definition recorded_endpoint :: "string \<Rightarrow> endpoint" where
  "recorded_endpoint result_hash =
     default_endpoint\<lparr>ep_id := ''recorded-policy-backend'', ep_model := ''recorded-policy'', ep_pool := ''recorded-source'',
       ep_site := ''local'', ep_kind := MOCK, ep_model_name := ''recorded-output'', ep_model_version := Some result_hash,
       ep_service_p95_ns := 10000000, ep_margin_ns := 1000000\<rparr>"

definition single_config :: "string \<Rightarrow> int \<Rightarrow> int \<Rightarrow> int \<Rightarrow> int \<Rightarrow> model_contract \<Rightarrow> endpoint \<Rightarrow> runtime_config result" where
  "single_config campaign attempts n entries bytes m ep =
     rbind (validate_model_contract m) (\<lambda>m. rbind (validate_endpoint ep) (\<lambda>ep.
     rbind (validate_pool \<lparr>pool_id = ep_pool ep, pool_slots = 1\<rparr>) (\<lambda>p.
       validate_config
         \<lparr>cfg_tenant = ''local'', cfg_campaign = campaign, cfg_max_attempts = attempts, cfg_max_microusd = 0,
          cfg_max_queue = n, cfg_max_jobs = n, cfg_scheduler = ''fifo'', cfg_placement = ''fastest'', cfg_cache_entries = entries,
          cfg_cache_bytes = bytes, cfg_cache_ttl_ns = 60000000000, cfg_pools = [p], cfg_models = [m], cfg_endpoints = [ep]\<rparr>)))"

definition recorded_config :: "string \<Rightarrow> recorded_query list \<Rightarrow> runtime_config result" where
  "recorded_config result_hash rows =
     single_config ''r6-recorded-policy-replay'' (int (length rows)) (int (length rows)) 0 0
       (recorded_model result_hash) (recorded_endpoint result_hash)"

text \<open>The row of a replayed query: what is reported of it and whether the prediction is the recorded one.\<close>

definition prediction_value_of :: "receipt \<Rightarrow> json result" where
  "prediction_value_of r =
     json_loads False (case rc_prediction_json r of None \<Rightarrow> ''{}'' | Some s \<Rightarrow> if s = [] then ''{}'' else s)"

definition replayed_row :: "recorded_query \<Rightarrow> receipt \<Rightarrow> receipt \<Rightarrow> receipt \<Rightarrow> ((string \<times> json) list \<times> bool) result" where
  "replayed_row row submitted completed consumed =
     rbind (prediction_value_of consumed) (\<lambda>v. rbind (canonical v) (\<lambda>found. rbind (canonical (recorded_output row)) (\<lambda>expected.
       Inr ([(''index'', JInt (int (rq_index row))), (''source_sha256'', JStr (rq_sha row)),
             (''action_sha256'', JStr (rq_action_sha row)), (''submitted_state'', JStr (state_value (rc_state submitted))),
             (''completed_state'', JStr (state_value (rc_state completed))),
             (''consumed_state'', JStr (state_value (rc_state consumed))), (''prediction_exact'', JBool (found = expected)),
             (''endpoint'', opt_json JStr (rc_endpoint consumed))], found = expected))))"

fun replay_queries :: "(string \<Rightarrow> receipt program) \<Rightarrow> session \<Rightarrow> recorded_query list \<Rightarrow> ((string \<times> json) list \<times> bool) list program" where
  "replay_queries wait s [] = return_rt []"
| "replay_queries wait s (row # rows) =
     and_then now_rt (\<lambda>now rt.
       and_then (raise_rt (recorded_job (tenant_of rt) s now row)) (\<lambda>j.
       and_then (submit j) (\<lambda>submitted.
       and_then (wait (job_id j)) (\<lambda>completed.
       and_then (consume (job_id j) ''r6-shadow'') (\<lambda>consumed.
       and_then (record_outcome (job_id j) ''r6-shadow'' ''rejected'' ''recorded-replay:no-actuator'') (\<lambda>_.
       and_then (raise_rt (replayed_row row submitted completed consumed)) (\<lambda>x.
       and_then (replay_queries wait s rows) (\<lambda>xs. return_rt (x # xs)))))))) rt)"

definition event_value :: "event \<Rightarrow> (string \<times> json) list" where
  "event_value e =
     dict_update [(''seq'', JInt (int (ev_seq e))), (''at_ns'', JInt (ev_at_ns e)), (''kind'', JStr (ev_kind e))] (ev_metadata e)"

definition replay_recording :: "(string \<Rightarrow> receipt program) \<Rightarrow> recorded_query list \<Rightarrow>
    (((string \<times> json) list \<times> bool) list \<times> (string \<times> json) list list) program" where
  "replay_recording wait rows =
     and_then (open_session ''recorded-episode'' ''no-actuation-replay-v1'') (\<lambda>s.
     and_then (replay_queries wait s rows) (\<lambda>replayed rt.
       (Inr (replayed, map event_value (export_events (rt_store rt))), rt)))"

definition action_flags :: "(string \<times> json) list list \<Rightarrow> json list" where
  "action_flags events = map (\<lambda>e. jget e ''action_authorized'') (filter (\<lambda>e. jget e ''kind'' = JStr ''consumed'') events)"

definition flags_false :: "recorded_query list \<Rightarrow> (string \<times> json) list list \<Rightarrow> bool" where
  "flags_false rows events \<longleftrightarrow> py_eq_list (action_flags events) (replicate (length rows) (JBool False))"

text \<open>\<open>calls\<close> are the job ids that the backend answered.\<close>

definition recording_passed :: "recorded_query list \<Rightarrow> string list \<Rightarrow> ((string \<times> json) list \<times> bool) list \<Rightarrow>
    (string \<times> json) list list \<Rightarrow> bool" where
  "recording_passed rows calls replayed events \<longleftrightarrow>
     length replayed = length rows \<and> calls = map recorded_job_id rows \<and> list_all snd replayed \<and> flags_false rows events"

definition query_json :: "recorded_query \<Rightarrow> json" where
  "query_json row =
     JObj [(''index'', JInt (int (rq_index row))), (''file'', JStr (rq_name row)), (''bytes'', JInt (rq_bytes row)),
       (''sha256'', JStr (rq_sha row)), (''image_sha256'', JStr (rq_image_sha row)), (''joint_sha256'', JStr (rq_joint_sha row)),
       (''gripper_sha256'', JStr (rq_gripper_sha row)), (''action_sha256'', JStr (rq_action_sha row)),
       (''action_min'', JFloat (rq_min row)), (''action_max'', JFloat (rq_max row))]"

definition episode_success :: "json \<Rightarrow> bool result" where
  "episode_success v =
     rbind (dict_get v ''results'' JNull) (\<lambda>found.
       if \<not> py_true found then Inr False
       else rbind (iterate found) (all_true (\<lambda>item. rbind (dict_get item ''success'' JNull) (\<lambda>x. Inr (x = JBool True)))))"

definition array_codec :: "int list \<Rightarrow> string \<Rightarrow> json" where
  "array_codec shape dtype = JObj [(''shape'', JList (map JInt shape)), (''datatype'', JStr dtype)]"

definition recording_report :: "(string \<Rightarrow> string) \<Rightarrow> string \<Rightarrow> string \<Rightarrow> json \<Rightarrow> recorded_query list \<Rightarrow> string list \<Rightarrow>
    ((string \<times> json) list \<times> bool) list \<Rightarrow> (string \<times> json) list list \<Rightarrow> json result" where
  "recording_report sha256 result_file queries_file v rows calls replayed events =
     rbind (dict_get v ''scope'' JNull) (\<lambda>scope. rbind (dict_get v ''environment'' JNull) (\<lambda>environment.
     rbind (dict_get v ''instruction'' JNull) (\<lambda>instruction. rbind (episode_success v) (\<lambda>success.
     rbind (dict_get v ''metadata'' JNull) (\<lambda>metadata. rbind (dict_get v ''native_loop_timing'' JNull) (\<lambda>timing.
     rbind (rbind (dict_get v ''metadata'' (JObj [])) (\<lambda>m. dict_get m ''action_space'' JNull)) (\<lambda>space.
       Inr (JObj
         [(''protocol'', JStr ''R6 retained native-policy no-action replay''),
          (''outcome'', JStr (if recording_passed rows calls replayed events then ''passed'' else ''failed'')),
          (''source_scope'', scope), (''source_environment'', environment), (''source_instruction'', instruction),
          (''source_episode_success'', JBool success), (''source_result_sha256'', JStr (sha256 result_file)),
          (''source_queries_sha256'', JStr (sha256 queries_file)), (''source_query_count'', JInt (int (length rows))),
          (''source_native_metadata'', metadata), (''source_native_loop_timing'', timing),
          (''codec'', JObj
             [(''image'', array_codec [540, 640, 3] ''UINT8''), (''joint_position'', array_codec [7] ''FP32''),
              (''gripper_position'', array_codec [1] ''FP32''), (''actions'', array_codec [32, 8] ''FP32''),
              (''action_space'', space)]),
          (''model_inference_calls'', JInt 0), (''network_calls'', JInt 0), (''gpu_calls'', JInt 0), (''native_actions'', JInt 0),
          (''all_consumptions_action_authorized_false'', JBool (flags_false rows events)),
          (''exact_action_roundtrips'', JInt (int (length (filter snd replayed)))), (''live_offload_qualified'', JBool False),
          (''live_offload_blockers'', JList (map JStr
             [''exact checkpoint/server revision is not present in the retained receipt'',
              ''native metadata requires a session ID but reset/sequence semantics are not captured'',
              ''capture timestamps are unavailable for the retained queries'',
              ''this replay returns recorded outputs and does not execute the policy''])),
          (''quality_claim'', JBool False), (''task_success_claim'', JBool False),
          (''queries'', JList (map query_json rows)), (''replay'', JList (map (\<lambda>(x, _). JObj x) replayed))]))))))))"

section \<open>Direct and coordinated calls\<close>

definition native_job :: "(string \<Rightarrow> string) \<Rightarrow> json \<Rightarrow> session \<Rightarrow> string \<Rightarrow> int \<Rightarrow> int \<Rightarrow> job result" where
  "native_job sha packet s model now deadline =
     rbind (canonical packet) (\<lambda>text. let digest = sha text in
     rbind (rbind (item_at packet ''stamp'') (\<lambda>st. item_at st ''sequence'')) (\<lambda>v.
       case v of
         JInt seq \<Rightarrow>
           rbind (validate_observation \<lparr>obs_id = ''native-packet-'' @ take 24 digest, obs_source = ''native-policy'',
               obs_sequence = seq, obs_sha256 = digest, obs_capture_ns = now, obs_available_ns = now, obs_uncertainty_ns = 0,
               obs_role = ROLE_CURRENT, obs_source_time = Some ''native-policy-packet''\<rparr>) (\<lambda>x.
             validate_job \<lparr>job_id = ''agmina-native-policy-'' @ take 16 digest, job_tenant = session_tenant s,
               job_session_id = session_id s, job_epoch = session_epoch s, job_task_revision = session_task_revision s,
               job_clock_id = session_clock_id s, job_model = model, job_operation = ''native_policy_infer'',
               job_workload = POLICY, job_result_kind = ACTION_PROPOSAL, job_observations = [x], job_snapshot_ns = now,
               job_deadline_ns = deadline, job_max_age_ns = Some (deadline - now), job_max_uncertainty_ns = 0,
               job_priority = 1, job_allowed_sites = [''local''], job_dependencies = [], job_payload_json = text,
               job_replace_key = None, job_discardable = False, job_cacheable = False\<rparr>)
       | _ \<Rightarrow> Inl (ValueError field_error)))"

definition read_packet :: "string \<Rightarrow> json result" where
  "read_packet content = rbind (read_json content) validate_native_packet"

text \<open>The packets of a campaign belong to one episode and come in the order of their sequence numbers.\<close>

definition stamp_field :: "json \<Rightarrow> string \<Rightarrow> json" where
  "stamp_field packet k = (case packet_stamp packet of JObj kvs \<Rightarrow> jget kvs k | _ \<Rightarrow> JNull)"

definition stamp_sequence :: "json \<Rightarrow> int" where
  "stamp_sequence packet = (case stamp_field packet ''sequence'' of JInt i \<Rightarrow> i | _ \<Rightarrow> 0)"

fun check_cohort :: "json \<Rightarrow> int \<Rightarrow> json list \<Rightarrow> unit result" where
  "check_cohort first previous [] = Inr ()"
| "check_cohort first previous (p # ps) =
     (if \<not> py_eq (stamp_field p ''session'') (stamp_field first ''session'') \<or>
         \<not> py_eq (stamp_field p ''epoch'') (stamp_field first ''epoch'')
      then Inl (ValueError ''Native packet cohort crosses a policy session or epoch'')
      else if stamp_sequence p \<le> previous
      then Inl (ValueError ''Native packet cohort must have strictly increasing sequences'')
      else check_cohort first (stamp_sequence p) ps)"

record compare_args =
  ca_url :: string
  ca_model_name :: string
  ca_model_version :: string
  ca_weights :: string
  ca_preprocessing :: string
  ca_output_schema :: string
  ca_sampling :: string
  ca_estimate_s :: pyfloat
  ca_timeout_s :: pyfloat

text \<open>The packets and the configuration of a campaign that may start; the network has been allowed.\<close>

definition compare_packets :: "compare_args \<Rightarrow> bool \<Rightarrow> string list \<Rightarrow> json list result" where
  "compare_packets a exists files =
     (if float_le (ca_estimate_s a) (Dec 0 0) \<or> \<not> float_le (ca_estimate_s a) (ca_timeout_s a)
      then Inl (ValueError ''Scheduler estimate must be positive and no greater than the RPC timeout'')
      else if exists then Inl (FileExistsError ''Output already exists'')
      else rbind (traverse read_packet files) (\<lambda>packets.
        case packets of
          [] \<Rightarrow> Inl (ValueError ''At least one native packet is required'')
        | first # _ \<Rightarrow> rbind (check_cohort first (- 1) packets) (\<lambda>_. Inr packets)))"

definition compare_config :: "compare_args \<Rightarrow> json list \<Rightarrow> runtime_config result" where
  "compare_config a packets =
     (let n = int (length packets);
          m = \<lparr>mc_alias = ''native-policy'', mc_weights = ca_weights a, mc_preprocessing = ca_preprocessing a,
               mc_output_schema = ca_output_schema a, mc_sampling = ca_sampling a, mc_stateful = False\<rparr> in
      rbind (validate_model_contract m) (\<lambda>_. rbind (round_scaled (ca_estimate_s a) 1000000000) (\<lambda>estimate.
        single_config ''r6-native-policy-direct-vs-agmina'' (2 * n) n 64 8000000 m
          (default_endpoint\<lparr>ep_id := ''native-policy-loopback'', ep_model := ''native-policy'', ep_pool := ''native-policy'',
             ep_site := ''local'', ep_kind := WORKER, ep_url := Some (ca_url a @ ''/infer''), ep_model_name := ca_model_name a,
             ep_model_version := Some (ca_model_version a), ep_timeout_s := ca_timeout_s a, ep_service_p95_ns := estimate,
             ep_margin_ns := 0\<rparr>))))"

text \<open>\<open>net i\<close> answers the \<open>i\<close>-th call of the server. A list of results ends where a call failed.\<close>

fun direct_calls :: "(nat \<Rightarrow> json \<Rightarrow> reply) \<Rightarrow> nat \<Rightarrow> json list \<Rightarrow> json list \<times> failure option" where
  "direct_calls net i [] = ([], None)"
| "direct_calls net i (p # ps) =
     (case rbind (native_infer (net i) p) (\<lambda>r. lift (validate_native_result r (packet_stamp p))) of
        Inl f \<Rightarrow> ([], Some f)
      | Inr r \<Rightarrow> (case direct_calls net (Suc i) ps of (rs, f) \<Rightarrow> (r # rs, f)))"

definition route_packet :: "(string \<Rightarrow> receipt program) \<Rightarrow> session \<Rightarrow> pyfloat \<Rightarrow> json \<Rightarrow> (json \<times> receipt \<times> receipt \<times> string) program" where
  "route_packet wait s timeout p =
     and_then now_rt (\<lambda>now rt.
       and_then (raise_rt (rbind (round_scaled timeout 1000000000) (\<lambda>span.
         native_job (rt_sha rt) p s ''native-policy'' now (now + span)))) (\<lambda>j.
       and_then (submit j) (\<lambda>submitted.
       and_then (wait (job_id j)) (\<lambda>completed.
         if rc_state completed \<noteq> SUCCEEDED then raise_rt (Inl (RuntimeError ''Agmina policy job did not succeed''))
         else and_then (consume (job_id j) ''r6-shadow'') (\<lambda>r.
           and_then (raise_rt (prediction_value_of r)) (\<lambda>v. return_rt (v, submitted, completed, job_id j)))))) rt)"

fun routed_calls :: "(string \<Rightarrow> receipt program) \<Rightarrow> session \<Rightarrow> pyfloat \<Rightarrow> json list \<Rightarrow> runtime \<Rightarrow>
    ((json \<times> receipt \<times> receipt \<times> string) list \<times> py_error option) \<times> runtime" where
  "routed_calls wait s timeout [] rt = (([], None), rt)"
| "routed_calls wait s timeout (p # ps) rt =
     (case route_packet wait s timeout p rt of
        (Inl e, rt) \<Rightarrow> (([], Some e), rt)
      | (Inr x, rt) \<Rightarrow>
          (case record_outcome (snd (snd (snd x))) ''r6-shadow'' ''rejected'' ''r6-native-transport:no-actuation'' rt of
             (Inl e, rt) \<Rightarrow> (([x], Some e), rt)
           | (Inr _, rt) \<Rightarrow> (case routed_calls wait s timeout ps rt of ((xs, e), rt) \<Rightarrow> ((x # xs, e), rt))))"

record campaign_result =
  cr_direct :: "json list"
  cr_routed :: "(json \<times> receipt \<times> receipt \<times> string) list"
  cr_error :: "(failure + py_error) option"

text \<open>Both paths begin with a reset of the server; the first error ends the campaign.\<close>

definition compare_paths :: "(string \<Rightarrow> receipt program) \<Rightarrow> (nat \<Rightarrow> json \<Rightarrow> reply) \<Rightarrow> session \<Rightarrow> pyfloat \<Rightarrow> json list \<Rightarrow> runtime \<Rightarrow>
    campaign_result \<times> runtime" where
  "compare_paths wait net s timeout packets rt =
     (let st = packet_stamp (hd packets); n = length packets in
      case native_reset (net 0) st of
        Inl f \<Rightarrow> (\<lparr>cr_direct = [], cr_routed = [], cr_error = Some (Inl f)\<rparr>, rt)
      | Inr _ \<Rightarrow>
          (case direct_calls net 1 packets of
             (direct, Some f) \<Rightarrow> (\<lparr>cr_direct = direct, cr_routed = [], cr_error = Some (Inl f)\<rparr>, rt)
           | (direct, None) \<Rightarrow>
               (case native_reset (net (Suc n)) st of
                  Inl f \<Rightarrow> (\<lparr>cr_direct = direct, cr_routed = [], cr_error = Some (Inl f)\<rparr>, rt)
                | Inr _ \<Rightarrow>
                    (case routed_calls wait s timeout packets rt of
                       ((routed, e), rt) \<Rightarrow>
                         (\<lparr>cr_direct = direct, cr_routed = routed, cr_error = map_option Inr e\<rparr>, rt)))))"

definition kind_name :: "endpoint_kind \<Rightarrow> string" where
  "kind_name k = (case k of MOCK \<Rightarrow> ''mock'' | CHAT \<Rightarrow> ''chat'' | TRITON \<Rightarrow> ''triton'' | WORKER \<Rightarrow> ''worker'')"

definition endpoint_fields :: "endpoint \<Rightarrow> (string \<times> json) list" where
  "endpoint_fields e =
     [(''id'', JStr (ep_id e)), (''model'', JStr (ep_model e)), (''pool'', JStr (ep_pool e)), (''site'', JStr (ep_site e)),
      (''kind'', JStr (kind_name (ep_kind e))), (''url'', opt_json JStr (ep_url e)),
      (''credential_env'', opt_json JStr (ep_credential_env e)), (''model_name'', JStr (ep_model_name e)),
      (''model_version'', opt_json JStr (ep_model_version e)), (''response_model_required'', JBool (ep_response_model_required e)),
      (''service_p95_ns'', JInt (ep_service_p95_ns e)), (''transport_p95_ns'', JInt (ep_transport_p95_ns e)),
      (''margin_ns'', JInt (ep_margin_ns e)), (''timeout_s'', JFloat (ep_timeout_s e)), (''max_inflight'', JInt (ep_max_inflight e)),
      (''reserve_microusd'', JInt (ep_reserve_microusd e)), (''externally_billed'', JBool (ep_externally_billed e)),
      (''input_per_million_microusd'', opt_json JInt (ep_input_per_million_microusd e)),
      (''cached_per_million_microusd'', opt_json JInt (ep_cached_per_million_microusd e)),
      (''output_per_million_microusd'', opt_json JInt (ep_output_per_million_microusd e)), (''stream'', JBool (ep_stream e)),
      (''max_output_tokens'', JInt (ep_max_output_tokens e)), (''max_response_bytes'', JInt (ep_max_response_bytes e)),
      (''extra_body_json'', JStr (ep_extra_body_json e))]"

definition campaign_head :: "(string \<Rightarrow> string) \<Rightarrow> bool \<Rightarrow> json list \<Rightarrow> runtime_config \<Rightarrow> (string \<times> json) list \<Rightarrow> (string \<times> json) list result" where
  "campaign_head sha passed packets c counted =
     rbind (traverse canonical packets) (\<lambda>texts.
       Inr ([(''protocol'', JStr ''R6 native policy direct-versus-Agmina transport comparison''),
             (''outcome'', JStr (if passed then ''passed'' else ''failed'')),
             (''packet_sha256'', JList (map (\<lambda>t. JStr (sha t)) texts))] @ counted @
            [(''stamps'', JList (map packet_stamp packets)),
             (''model'', JObj (model_contract_fields (hd (cfg_models c)))),
             (''endpoint'', JObj (endpoint_fields (hd (cfg_endpoints c))))]))"

text \<open>
  The report that is written and whether the campaign passed; it raises when it did not. \<open>repr\<close> prints an exception, the
  elapsed times are those of the two lists of calls.
\<close>

definition campaign_report :: "(string \<Rightarrow> string) \<Rightarrow> (failure + py_error \<Rightarrow> string) \<Rightarrow> json list \<Rightarrow> runtime_config \<Rightarrow> int list \<Rightarrow> int list \<Rightarrow>
    campaign_result \<Rightarrow> (json \<times> bool) result" where
  "campaign_report sha repr packets c direct_ns routed_ns r =
     (case cr_error r of
        Some e \<Rightarrow>
          rbind (campaign_head sha False packets c []) (\<lambda>top.
            Inr (JObj (top @
              [(''error'', JStr (repr e)), (''direct_completed'', JInt (int (length (cr_direct r)))),
               (''routed_completed'', JInt (int (length (cr_routed r)))), (''native_actions'', JInt 0),
               (''action_authorized'', JBool False), (''paid_calls'', JInt 0), (''closed_loop_qualified'', JBool False),
               (''limitations'', JList (map JStr
                  [''transport campaign did not complete; inspect error and retained ledger'',
                   ''no simulator or actuator was connected'']))]), False))
      | None \<Rightarrow>
          rbind (traverse canonical (cr_direct r)) (\<lambda>direct. rbind (traverse canonical (map fst (cr_routed r))) (\<lambda>routed.
          rbind (campaign_head sha (direct = routed) packets c [(''packet_count'', JInt (int (length packets)))]) (\<lambda>top.
            Inr (JObj (top @
              [(''direct'', JObj [(''predictions'', JList (cr_direct r)), (''infer_elapsed_ns'', JList (map JInt direct_ns))]),
               (''agmina'', JObj [(''predictions'', JList (map fst (cr_routed r))),
                  (''infer_and_runtime_elapsed_ns'', JList (map JInt routed_ns)),
                  (''submitted_states'', JList (map (\<lambda>(_, x, _, _). JStr (state_value (rc_state x))) (cr_routed r))),
                  (''completed_states'', JList (map (\<lambda>(_, _, x, _). JStr (state_value (rc_state x))) (cr_routed r)))]),
               (''predictions_exact'', JBool (direct = routed)), (''native_actions'', JInt 0), (''action_authorized'', JBool False),
               (''paid_calls'', JInt 0), (''gpu_calls'', JStr ''server-dependent; not measured by Agmina''),
               (''closed_loop_qualified'', JBool False),
               (''limitations'', JList (map JStr
                  [''transport comparison only; no simulator or actuator was connected'',
                   ''reset latency is excluded from direct and routed infer timings'',
                   ''server checkpoint and hardware are operator-supplied metadata'']))]), direct = routed)))))"

end
