(* ===== verification/Tools_Transport.thy ===== *)
theory Tools_Transport
  imports Tools_Native Hosts Tools_Dataset
begin

text \<open>
  Two tools that send work through the coordinator and keep what came of it: the comparison of a direct chat call with the
  same call through the coordinator (\<^verbatim>\<open>src/tools/r2_transport_compare.py\<close>) and the run of a prepared candidate set
  (\<^verbatim>\<open>src/tools/r5_agmina_screen.py\<close>). Runs are programs as in \<open>Cli\<close>; files are given by their bytes.
\<close>

section \<open>Direct and coordinated chat\<close>

definition read_chat_packet :: "string \<Rightarrow> (json \<times> json list) result" where
  "read_chat_packet content =
     rbind (read_json content) (\<lambda>packet. rbind (iterate packet) (\<lambda>ks. rbind (traverse hashable ks) (\<lambda>_.
       if \<not> same_keys ks [JStr ''payload'', JStr ''observations''] then Inl (ValueError ''Packet requires payload and observations'')
       else rbind (item_at packet ''observations'') (\<lambda>v.
         case v of
           JList os \<Rightarrow> if os = [] then Inl (ValueError ''Packet requires nonempty observations'')
                      else rbind (item_at packet ''payload'') (\<lambda>p. Inr (p, os))
         | _ \<Rightarrow> Inl (ValueError ''Packet requires nonempty observations'')))))"

definition chat_observation :: "string \<Rightarrow> int \<Rightarrow> nat \<times> json \<Rightarrow> observation result" where
  "chat_observation jid now = (\<lambda>(i, item).
     rbind (item_at item ''source'') (\<lambda>source. rbind (item_at item ''sha256'') (\<lambda>digest.
     rbind (dec_str source) (\<lambda>source. rbind (dec_str digest) (\<lambda>digest.
       validate_observation \<lparr>obs_id = jid @ ''-input-'' @ int_repr (int i), obs_source = source, obs_sequence = int i,
         obs_sha256 = digest, obs_capture_ns = now, obs_available_ns = now, obs_uncertainty_ns = 0,
         obs_role = ROLE_CURRENT, obs_source_time = None\<rparr>)))))"

definition make_chat_job :: "string \<Rightarrow> session \<Rightarrow> json \<Rightarrow> json list \<Rightarrow> string \<Rightarrow> string \<Rightarrow> int \<Rightarrow> job result" where
  "make_chat_job tenant s body raw jid model now =
     rbind (traverse (chat_observation jid now) (enumerate 0 raw)) (\<lambda>observations. rbind (canonical body) (\<lambda>text.
       validate_job \<lparr>job_id = jid, job_tenant = tenant, job_session_id = session_id s, job_epoch = session_epoch s,
         job_task_revision = session_task_revision s, job_clock_id = session_clock_id s, job_model = model,
         job_operation = ''r2_transport_compare'', job_workload = SEMANTIC, job_result_kind = HISTORICAL,
         job_observations = observations, job_snapshot_ns = now, job_deadline_ns = now + 300000000000,
         job_max_age_ns = None, job_max_uncertainty_ns = 0, job_priority = 1,
         job_allowed_sites = [''local'', ''site'', ''cloud''], job_dependencies = [], job_payload_json = text,
         job_replace_key = None, job_discardable = False, job_cacheable = False\<rparr>))"

definition single_endpoint :: "runtime_config \<Rightarrow> string \<Rightarrow> endpoint result" where
  "single_endpoint c model = (case filter (\<lambda>e. ep_model e = model) (cfg_endpoints c) of
     [e] \<Rightarrow> Inr e | _ \<Rightarrow> Inl (ValueError ''R2 comparison requires exactly one endpoint for --model''))"

definition config_dump :: "runtime_config \<Rightarrow> json" where
  "config_dump c =
     JObj [(''tenant'', JStr (cfg_tenant c)), (''campaign'', JStr (cfg_campaign c)), (''max_attempts'', JInt (cfg_max_attempts c)),
       (''max_microusd'', JInt (cfg_max_microusd c)), (''max_queue'', JInt (cfg_max_queue c)), (''max_jobs'', JInt (cfg_max_jobs c)),
       (''scheduler'', JStr (cfg_scheduler c)), (''placement'', JStr (cfg_placement c)), (''cache_entries'', JInt (cfg_cache_entries c)),
       (''cache_bytes'', JInt (cfg_cache_bytes c)), (''cache_ttl_ns'', JInt (cfg_cache_ttl_ns c)),
       (''pools'', JList (map (\<lambda>p. JObj [(''id'', JStr (pool_id p)), (''slots'', JInt (pool_slots p))]) (cfg_pools c))),
       (''models'', JList (map (\<lambda>m. JObj (model_contract_fields m)) (cfg_models c))),
       (''endpoints'', JList (map (\<lambda>e. JObj (endpoint_fields e)) (cfg_endpoints c)))]"

definition served_contract :: "runtime_config \<Rightarrow> string \<Rightarrow> model_contract" where
  "served_contract c model = hd (filter (\<lambda>m. mc_alias m = model) (cfg_models c))"

text \<open>The packet is turned into a request, which is not sent.\<close>

definition chat_preflight :: "(string \<Rightarrow> string) \<Rightarrow> runtime_config \<Rightarrow> endpoint \<Rightarrow> json \<Rightarrow> json list \<Rightarrow> json program" where
  "chat_preflight sha c ep body raw =
     and_then (open_session ''r2-preflight'' ''frozen-packet'') (\<lambda>s. and_then now_rt (\<lambda>now rt.
       (rbind (make_chat_job (cfg_tenant c) s body raw ''preflight'' (ep_model ep) now) (\<lambda>j.
        rbind (validate_chat sha j ep) (\<lambda>request.
        rbind (json_loads False (ep_extra_body_json ep)) (\<lambda>extra.
        rbind (case extra of JObj _ \<Rightarrow> dict_get extra ''provider'' (JObj []) | _ \<Rightarrow> Inr (JObj [])) (\<lambda>provider.
        rbind (canonical (JObj request)) (\<lambda>text.
        rbind (dict_get provider ''order'' (JList [])) (\<lambda>order. rbind (dict_get provider ''allow_fallbacks'' JNull) (\<lambda>fallbacks.
          Inr (JObj
            [(''protocol'', JStr ''R2 no-network transport preflight''), (''outcome'', JStr ''preflight_passed''),
             (''network_calls'', JInt 0), (''paid_calls'', JInt 0), (''quality_claim'', JBool False),
             (''model_alias'', JStr (ep_model ep)),
             (''model_contract_fingerprint'', JStr (model_fingerprint sha (served_contract c (ep_model ep)))),
             (''endpoint_id'', JStr (ep_id ep)), (''endpoint_model_name'', JStr (ep_model_name ep)),
             (''response_model_required'', JBool (ep_response_model_required ep)), (''request_sha256'', JStr (sha text)),
             (''request_body_valid'', JBool True), (''provider_order'', order), (''provider_fallbacks_allowed'', fallbacks),
             (''declared_campaign'', JStr (cfg_campaign c)), (''declared_max_microusd'', JInt (cfg_max_microusd c)),
             (''endpoint_reservation_microusd'', JInt (ep_reserve_microusd ep)),
             (''credential_env_name'', opt_json JStr (ep_credential_env ep)), (''config'', config_dump c)])))))))), rt)))"

text \<open>The jobs of a pair and the digest of their common request.\<close>

definition chat_pair :: "(string \<Rightarrow> string) \<Rightarrow> string \<Rightarrow> session \<Rightarrow> session \<Rightarrow> endpoint \<Rightarrow> json \<Rightarrow> json list \<Rightarrow> int \<Rightarrow> nat \<Rightarrow>
    (job \<times> job \<times> string) result" where
  "chat_pair sha tenant direct_session agmina_session ep body raw now i =
     rbind (make_chat_job tenant direct_session body raw (''direct-'' @ int_repr (int i)) (ep_model ep) now) (\<lambda>direct.
     rbind (make_chat_job tenant agmina_session body raw (''agmina-'' @ int_repr (int i)) (ep_model ep) now) (\<lambda>agmina.
     rbind (validate_chat sha direct ep) (\<lambda>direct_body. rbind (validate_chat sha agmina ep) (\<lambda>agmina_body.
     rbind (canonical (JObj direct_body)) (\<lambda>direct_text. rbind (canonical (JObj agmina_body)) (\<lambda>agmina_text.
       if direct_text \<noteq> agmina_text then Inl (AssertionError ''Direct and Agmina request bodies differ'')
       else Inr (direct, agmina, sha direct_text)))))))"

definition minus_opt :: "int option \<Rightarrow> int option \<Rightarrow> json" where
  "minus_opt x y = (case (x, y) of (Some a, Some b) \<Rightarrow> JInt (a - b) | _ \<Rightarrow> JNull)"

definition text_or_empty :: "string option \<Rightarrow> string" where
  "text_or_empty x = (case x of None \<Rightarrow> [] | Some s \<Rightarrow> s)"

definition chat_sample :: "(string \<Rightarrow> string) \<Rightarrow> nat \<Rightarrow> string \<Rightarrow> int \<Rightarrow> int \<times> int \<Rightarrow> prediction \<Rightarrow> receipt \<Rightarrow> receipt \<Rightarrow> json" where
  "chat_sample sha i request_hash now spent direct r consumed =
     JObj [(''index'', JInt (int i)), (''request_sha256'', JStr request_hash),
       (''direct'', JObj
          [(''elapsed_ns'', JInt (fst spent)),
           (''first_content_relative_ns'', minus_opt (pred_first_content_ns direct) (Some now)),
           (''prediction_sha256'', JStr (sha (utf8_encode (pred_payload_json direct)))),
           (''usage'', JObj (usage_fields (pred_usage direct)))]),
       (''agmina'', JObj
          [(''elapsed_ns'', JInt (snd spent)), (''queue_ns'', minus_opt (rc_started_ns r) (Some (rc_submitted_ns r))),
           (''backend_roundtrip_ns'', minus_opt (rc_completed_ns r) (rc_started_ns r)),
           (''first_content_relative_ns'', minus_opt (rc_first_content_ns r) (rc_started_ns r)),
           (''prediction_sha256'', JStr (sha (utf8_encode (text_or_empty (rc_prediction_json consumed))))),
           (''usage'', opt_json (\<lambda>u. JObj (usage_fields u)) (rc_usage consumed)),
           (''state'', JStr (state_value (rc_state consumed))), (''endpoint'', opt_json JStr (rc_endpoint consumed))])]"

text \<open>
  \<open>infer\<close> is the direct backend: an error is its code or class and whether it says that the work ended. \<open>spent\<close> gives the
  measured times of a pair. The loop ends at the first failure on either path.
\<close>

definition failure_row :: "string \<Rightarrow> nat \<Rightarrow> (string \<times> json) list \<Rightarrow> int \<Rightarrow> json" where
  "failure_row path i rest spent =
     JObj ([(''path'', JStr path), (''index'', JInt (int i))] @ rest @ [(''elapsed_ns'', JInt spent)])"

fun compare_chat :: "(string \<Rightarrow> receipt program) \<Rightarrow> (job \<Rightarrow> (string \<times> bool option) + prediction) \<Rightarrow> (nat \<Rightarrow> int \<times> int) \<Rightarrow>
    (string \<Rightarrow> string) \<Rightarrow> session \<Rightarrow> session \<Rightarrow> endpoint \<Rightarrow> json \<Rightarrow> json list \<Rightarrow> nat \<Rightarrow> nat \<Rightarrow> (json list \<times> json option) program" where
  "compare_chat wait infer spent sha ds gs ep body raw i 0 = return_rt ([], None)"
| "compare_chat wait infer spent sha ds gs ep body raw i (Suc n) =
     and_then now_rt (\<lambda>now rt.
       and_then (raise_rt (chat_pair sha (tenant_of rt) ds gs ep body raw now i)) (\<lambda>(direct, agmina, request_hash).
         case infer direct of
           Inl (code, ended) \<Rightarrow> return_rt ([], Some (failure_row ''direct'' i
             [(''error'', JStr code), (''termination_known'', opt_json JBool ended)] (fst (spent i))))
         | Inr p \<Rightarrow>
             and_then (submit agmina) (\<lambda>submitted.
               if rc_state submitted \<noteq> QUEUED then raise_rt (Inl (RuntimeError ''Agmina rejected job''))
               else (\<lambda>rt. case wait (job_id agmina) rt of
                 (Inl e, rt) \<Rightarrow> (Inr ([], Some (failure_row ''agmina'' i
                   [(''error'', JStr (exception_name e)), (''termination_known'', JNull)] (snd (spent i)))), rt)
               | (Inr r, rt) \<Rightarrow>
                   if rc_state r \<noteq> SUCCEEDED
                   then (Inr ([], Some (failure_row ''agmina'' i
                     [(''error'', JStr (case rc_reason r of None \<Rightarrow> state_value (rc_state r)
                         | Some s \<Rightarrow> if s = [] then state_value (rc_state r) else s)),
                      (''state'', JStr (state_value (rc_state r)))] (snd (spent i)))), rt)
                   else and_then (consume (job_id agmina) ''r2-compare'') (\<lambda>consumed.
                     and_then (compare_chat wait infer spent sha ds gs ep body raw (Suc i) n) (\<lambda>(samples, failure).
                       return_rt (chat_sample sha i request_hash now (spent i) p r consumed # samples, failure))) rt))) rt)"

definition run_chat_comparison :: "(string \<Rightarrow> receipt program) \<Rightarrow> (job \<Rightarrow> (string \<times> bool option) + prediction) \<Rightarrow> (nat \<Rightarrow> int \<times> int) \<Rightarrow>
    (string \<Rightarrow> string) \<Rightarrow> bool \<Rightarrow> runtime_config \<Rightarrow> endpoint \<Rightarrow> json \<Rightarrow> json list \<Rightarrow> nat \<Rightarrow> json program" where
  "run_chat_comparison wait infer spent sha allow_network c ep body raw n =
     and_then (open_session ''r2-direct'' ''frozen-packet'') (\<lambda>ds.
     and_then (open_session ''r2-agmina'' ''frozen-packet'') (\<lambda>gs.
     and_then (compare_chat wait infer spent sha ds gs ep body raw 0 n) (\<lambda>(samples, failure).
       return_rt (JObj
         [(''protocol'', JStr ''R2 direct-versus-Agmina transport comparison''), (''quality_claim'', JBool False),
          (''model_alias'', JStr (ep_model ep)),
          (''model_contract_fingerprint'', JStr (model_fingerprint sha (served_contract c (ep_model ep)))),
          (''endpoint_id'', JStr (ep_id ep)), (''endpoint_model_name'', JStr (ep_model_name ep)),
          (''response_model_required'', JBool (ep_response_model_required ep)), (''count'', JInt (int (length samples))),
          (''outcome'', JStr (if length samples = n then ''passed'' else ''failed_or_incomplete'')), (''no_retries'', JBool True),
          (''paid_calls'', JBool (allow_network \<and> ep_externally_billed ep)), (''samples'', JList samples),
          (''failure'', opt_json id failure), (''config'', config_dump c)]))))"

section \<open>A prepared candidate set\<close>

definition task_spec_sha256 :: "(string \<Rightarrow> string) \<Rightarrow> json \<Rightarrow> string result" where
  "task_spec_sha256 sha c =
     rbind (item_at c ''id'') (\<lambda>i. rbind (dict_get c ''category'' JNull) (\<lambda>category.
     rbind (item_at c ''question'') (\<lambda>question. rbind (item_at c ''options'') (\<lambda>options.
       Inr (sha (json_dumps (JObj [(''id'', i), (''category'', category), (''question'', question), (''options'', options)])))))))"

definition frame_name :: "json \<Rightarrow> json \<Rightarrow> string result" where
  "frame_name case_id row = rbind (item_at row ''index'') (\<lambda>i. Inr (py_str case_id @ ''-f'' @ py_str i))"

definition frame_provenance :: "json \<Rightarrow> json \<Rightarrow> json result" where
  "frame_provenance case_id row =
     rbind (frame_name case_id row) (\<lambda>name.
     rbind (traverse (\<lambda>k. rbind (item_at row k) (\<lambda>v. Inr (k, v))) [''file'', ''timestamp'', ''sha256'', ''width'', ''height'']) (\<lambda>kvs.
       Inr (JObj ((''evidence_id'', JStr name) # kvs))))"

definition case_provenance :: "(string \<Rightarrow> string) \<Rightarrow> string \<Rightarrow> json \<Rightarrow> json result" where
  "case_provenance sha manifest_hash c =
     rbind (item_at c ''id'') (\<lambda>i. rbind (item_at c ''video_sha256'') (\<lambda>video. rbind (task_spec_sha256 sha c) (\<lambda>spec.
     rbind (rbind (item_at c ''frames'') iterate) (\<lambda>rows. rbind (traverse (frame_provenance i) rows) (\<lambda>frames.
       Inr (JObj [(''case_id'', i), (''video_sha256'', video), (''task_spec_sha256'', JStr spec),
         (''preparation_manifest_sha256'', JStr manifest_hash), (''selected_frames'', JList frames)]))))))"

text \<open>The files of a candidate: the videos and the frames of a case, \<open>None\<close> for a path that leaves the directory.\<close>

record candidate_dir =
  cd_manifest :: string
  cd_video :: "string \<Rightarrow> string"
  cd_frame :: "string \<Rightarrow> string \<Rightarrow> string option"

text \<open>A case with the bytes of its frames.\<close>

record loaded_case =
  lc_case :: json
  lc_frames :: "(json \<times> string) list"

text \<open>\<^verbatim>\<open>a <= b\<close> of numbers and of texts; lists, which compare by their items, are left out.\<close>

definition py_le :: "json \<Rightarrow> json \<Rightarrow> bool result" where
  "py_le a b =
     (case (a, b) of
        (JStr s, JStr t) \<Rightarrow> Inr (s \<le> t)
      | _ \<Rightarrow> (case (py_number a, py_number b) of (Some x, Some y) \<Rightarrow> Inr (float_le x y) | _ \<Rightarrow> Inl (TypeError ''<= not supported'')))"

text \<open>\<^verbatim>\<open>any(b[k] <= a[k] for a, b in zip(rows, rows[1:]))\<close>.\<close>

fun some_not_later :: "string \<Rightarrow> json list \<Rightarrow> bool result" where
  "some_not_later k (a # b # rows) =
     rbind (item_at b k) (\<lambda>y. rbind (item_at a k) (\<lambda>x. rbind (py_le y x) (\<lambda>found.
       if found then Inr True else some_not_later k (b # rows))))"
| "some_not_later k _ = Inr False"

text \<open>A frame, with its index unless the row names its own; a row that names a \<^verbatim>\<open>path\<close> is not considered.\<close>

definition load_frame :: "(string \<Rightarrow> string) \<Rightarrow> candidate_dir \<Rightarrow> json \<Rightarrow> nat \<times> json \<Rightarrow> (json \<times> string) result" where
  "load_frame sha fs case_id = (\<lambda>(i, row).
     rbind (item_at row ''file'') (\<lambda>v.
       case (case_id, v) of
         (JStr cid, JStr name) \<Rightarrow>
           (case cd_frame fs cid name of
              None \<Rightarrow> Inl (ValueError ''Frame path escapes candidate packet'')
            | Some content \<Rightarrow>
                rbind (item_at row ''sha256'') (\<lambda>declared.
                  if declared \<noteq> JStr (sha content) then Inl (ValueError ''Frame hash mismatch'')
                  else rbind (dict_items row) (\<lambda>kvs. Inr (JObj (dict_update [(''index'', JInt (int i))] kvs), content))))
       | _ \<Rightarrow> Inl (TypeError ''unsupported operand'')))"

definition load_case :: "(string \<Rightarrow> string) \<Rightarrow> candidate_dir \<Rightarrow> json \<Rightarrow> loaded_case result" where
  "load_case sha fs c =
     rbind (item_at c ''id'') (\<lambda>i. rbind (item_at c ''video_sha256'') (\<lambda>declared.
       if declared \<noteq> JStr (sha (cd_video fs (py_str i))) then Inl (ValueError ''Video hash mismatch'')
       else rbind (rbind (item_at c ''frames'') iterate) (\<lambda>rows.
         rbind (traverse (load_frame sha fs i) (enumerate 0 rows)) (\<lambda>frames.
         rbind (if frames = [] then Inr True else some_not_later ''timestamp'' (map fst frames)) (\<lambda>bad.
           if bad then Inl (ValueError ''Non-increasing frame timestamps'')
           else rbind (dict_items c) (\<lambda>kvs.
             Inr \<lparr>lc_case = JObj (dict_update kvs [(''frames'', JList (map fst frames))]), lc_frames = frames\<rparr>))))))"

definition load_cases :: "(string \<Rightarrow> string) \<Rightarrow> candidate_dir \<Rightarrow> nat \<Rightarrow> string list option \<Rightarrow> loaded_case list result" where
  "load_cases sha fs maximum wanted =
     rbind (read_json (cd_manifest fs)) (\<lambda>manifest. rbind (dict_get manifest ''outcome'' JNull) (\<lambda>outcome.
       if outcome \<noteq> JStr ''prepared_not_qualified'' then Inl (ValueError ''Expected a prepared, not-yet-qualified candidate manifest'')
       else rbind (dict_get manifest ''packets'' JNull) (\<lambda>packets.
         case packets of
           JList cs \<Rightarrow>
             if \<not> (1 \<le> length cs \<and> length cs \<le> 64) then Inl (ValueError ''Candidate manifest has an invalid packet count'')
             else (case wanted of
               None \<Rightarrow> traverse (load_case sha fs) (take maximum cs)
             | Some names \<Rightarrow>
                 rbind (traverse (\<lambda>c. rbind (rbind (item_at c ''id'') hashable) (\<lambda>i. Inr (i, c))) cs) (\<lambda>found.
                   let selected = filter (\<lambda>(i, _). i \<in> JStr ` set names) found in
                   if fst ` set selected \<noteq> JStr ` set names then Inl (ValueError ''Unknown candidate case ID(s)'')
                   else traverse (load_case sha fs) (take maximum (map snd selected))))
         | _ \<Rightarrow> Inl (ValueError ''Candidate manifest has an invalid packet count''))))"

definition question_text :: "json \<Rightarrow> string result" where
  "question_text c =
     rbind (item_at c ''question'') (\<lambda>q.
       case q of
         JStr s \<Rightarrow> rbind (rbind (item_at c ''options'') dict_items) (\<lambda>kvs.
           Inr (s @ [CHR 0x0A] @ concat (map (\<lambda>(i, k, v). (if i = 0 then [] else [CHR 0x0A]) @ k @ ''. '' @ py_str v) (enumerate 0 kvs))))
       | _ \<Rightarrow> Inl (TypeError ''can only concatenate str''))"

text \<open>The job of a case; \<open>system\<close> is the host's system prompt.\<close>

definition screen_image :: "json \<Rightarrow> json \<times> string \<Rightarrow> stream_image result" where
  "screen_image case_id = (\<lambda>(row, content). rbind (frame_name case_id row) (\<lambda>name. rbind (item_at row ''timestamp'') (\<lambda>t.
     Inr \<lparr>im_evidence_id = name, im_timestamp = t, im_jpeg = Some content\<rparr>)))"

definition image_positions :: "stream_image list \<Rightarrow> string \<Rightarrow> int option" where
  "image_positions images = map_of (rev (map (\<lambda>(i, im). (im_evidence_id im, int i)) (enumerate 0 images)))"

definition image_times :: "stream_image list \<Rightarrow> string \<Rightarrow> json option" where
  "image_times images = map_of (rev (map (\<lambda>im. (im_evidence_id im, im_timestamp im)) images))"

definition screen_job :: "(string \<Rightarrow> string) \<Rightarrow> string \<Rightarrow> session \<Rightarrow> string \<Rightarrow> pyfloat \<Rightarrow> int \<Rightarrow> loaded_case \<Rightarrow> job result" where
  "screen_job sha system s model timeout now lc =
     rbind (item_at (lc_case lc) ''id'') (\<lambda>i. rbind (traverse (screen_image i) (lc_frames lc)) (\<lambda>images.
     rbind (question_text (lc_case lc)) (\<lambda>question.
     rbind (make_clock_map \<lparr>cm_source = ''r5-video'', cm_target = session_clock_id s, cm_offset_ns = 0, cm_error_ns = 0,
         cm_valid_until_ns = now + 3600000000000\<rparr>) (\<lambda>m.
     rbind (round_scaled timeout 1000000000) (\<lambda>span.
       case i of
         JStr cid \<Rightarrow>
           streambudget_job sha \<lparr>sr_system = system, sr_text = question, sr_operation = ''benchmark_subset'', sr_images = images\<rparr>
             s m now now (now + span) model (''r5-'' @ cid) (image_positions images) (image_times images) HISTORICAL None
       | _ \<Rightarrow> Inl (TypeError ''can only concatenate str''))))))"

definition screen_row :: "(string \<Rightarrow> string) \<Rightarrow> json \<Rightarrow> job \<Rightarrow> receipt \<Rightarrow> receipt \<Rightarrow> (string \<times> json) list result" where
  "screen_row sha case_id j submitted completed =
     rbind (case rc_prediction_json completed of
        None \<Rightarrow> Inr JNull | Some text \<Rightarrow> if text = [] then Inr JNull else json_loads False text) (\<lambda>prediction.
       Inr [(''case_id'', case_id), (''request_fingerprint'', JStr (job_fingerprint sha j)),
         (''state'', JStr (state_value (rc_state completed))), (''submitted_ns'', JInt (rc_submitted_ns submitted)),
         (''completed_ns'', opt_json JInt (rc_completed_ns completed)),
         (''usage'', opt_json (\<lambda>u. JObj (usage_fields u)) (rc_usage completed)), (''prediction'', prediction)])"

text \<open>One case: a result that succeeded is claimed and recorded as pending, and the row tells the state after that.\<close>

definition screen_case :: "(string \<Rightarrow> receipt program) \<Rightarrow> string \<Rightarrow> session \<Rightarrow> string \<Rightarrow> pyfloat \<Rightarrow> loaded_case \<Rightarrow> (string \<times> json) list program" where
  "screen_case wait system s model timeout lc =
     and_then now_rt (\<lambda>now rt.
       and_then (raise_rt (screen_job (rt_sha rt) system s model timeout now lc)) (\<lambda>j.
       and_then (submit j) (\<lambda>submitted.
       and_then (wait (job_id j)) (\<lambda>completed.
       and_then (raise_rt (rbind (item_at (lc_case lc) ''id'') (\<lambda>i. screen_row (rt_sha rt) i j submitted completed))) (\<lambda>row.
         if rc_state completed \<in> {SUCCEEDED, CONSUMED}
         then and_then (consume (job_id j) ''r5-independent-evaluator'') (\<lambda>_.
           and_then (record_outcome (job_id j) ''r5-independent-evaluator'' ''rejected'' ''r5-pending-independent-evaluation'') (\<lambda>_ rt.
             (rbind (job_result (job_id j) rt) (\<lambda>r. Inr (AList.update ''state'' (JStr (state_value (rc_state r))) row)), rt)))
         else return_rt row)))) rt)"

text \<open>The trials up to the first error, which the run raises once its report is written.\<close>

fun screen_cases :: "(string \<Rightarrow> receipt program) \<Rightarrow> string \<Rightarrow> session \<Rightarrow> string \<Rightarrow> pyfloat \<Rightarrow> loaded_case list \<Rightarrow> runtime \<Rightarrow>
    ((string \<times> json) list list \<times> py_error option) \<times> runtime" where
  "screen_cases wait system s model timeout [] rt = (([], None), rt)"
| "screen_cases wait system s model timeout (c # cs) rt =
     (case screen_case wait system s model timeout c rt of
        (Inl e, rt) \<Rightarrow> (([], Some e), rt)
      | (Inr row, rt) \<Rightarrow>
          (case screen_cases wait system s model timeout cs rt of ((rows, e), rt) \<Rightarrow> ((row # rows, e), rt)))"

definition screen_provenance :: "(string \<Rightarrow> string) \<Rightarrow> candidate_dir \<Rightarrow> loaded_case list \<Rightarrow> json result" where
  "screen_provenance sha fs cases =
     rbind (read_json (cd_manifest fs)) (\<lambda>manifest. rbind (dict_get manifest ''source'' JNull) (\<lambda>source.
     rbind (traverse (\<lambda>c. case_provenance sha (sha (cd_manifest fs)) (lc_case c)) cases) (\<lambda>found.
       Inr (JObj [(''candidate_manifest_sha256'', JStr (sha (cd_manifest fs))), (''source'', source), (''cases'', JList found)]))))"

definition all_consumed :: "(string \<times> json) list list \<Rightarrow> bool" where
  "all_consumed rows \<longleftrightarrow> rows \<noteq> [] \<and> list_all (\<lambda>r. jget r ''state'' = JStr ''consumed'') rows"

definition reserved_events :: "store \<Rightarrow> (string \<times> json) list list" where
  "reserved_events st = filter (\<lambda>e. jget e ''kind'' = JStr ''attempt_reserved'') (map event_value (export_events st))"

definition screen_report :: "string \<Rightarrow> string \<Rightarrow> string \<Rightarrow> runtime_config \<Rightarrow> json \<Rightarrow> (string \<times> json) list list \<Rightarrow> store \<Rightarrow> json" where
  "screen_report candidate config_path model c provenance trials st =
     (let external = map ep_id (filter ep_externally_billed (cfg_endpoints c)) in
      JObj [(''protocol'', JStr ''R5 candidate application/Agmina screen''),
        (''outcome'', JStr (if all_consumed trials then ''transport_completed'' else ''transport_incomplete'')),
        (''candidate'', JStr candidate), (''config'', JStr config_path), (''model'', JStr model),
        (''case_count'', JInt (int (length trials))), (''input_provenance'', provenance), (''trials'', JList (map JObj trials)),
        (''labels_read'', JBool False), (''r5_qualification'', JStr ''not_qualified''),
        (''model_attempts'', JInt (int (length (reserved_events st)))),
        (''paid_model_calls'', JInt (int (length (filter (\<lambda>e. jget e ''endpoint'' \<in> JStr ` set external) (reserved_events st))))),
        (''budget'', budget_json (budget st)), (''native_actions'', JInt 0),
        (''next_required'', JList (map JStr [''preserve independent label custody'',
           ''evaluate under the frozen quality/latency/cost protocol'', ''reconcile every external charge attempt'']))])"

text \<open>\<open>rt\<close> is the runtime started on the configuration; the report comes with the error that is raised after it.\<close>

definition run_screen :: "(string \<Rightarrow> receipt program) \<Rightarrow> string \<Rightarrow> string \<Rightarrow> string \<Rightarrow> string \<Rightarrow>
    runtime_config \<Rightarrow> pyfloat \<Rightarrow> json \<Rightarrow> loaded_case list \<Rightarrow> runtime \<Rightarrow> (json \<times> py_error option) \<times> runtime" where
  "run_screen wait system candidate config_path model c timeout provenance cases rt =
     (case open_session ''r5-candidate'' ''r5-screen-v1'' rt of
        (Inl e, rt) \<Rightarrow> ((screen_report candidate config_path model c provenance [] (rt_store rt), Some e), rt)
      | (Inr s, rt) \<Rightarrow>
          (case screen_cases wait system s model timeout cases rt of
             ((rows, e), rt) \<Rightarrow> ((screen_report candidate config_path model c provenance rows (rt_store rt), e), rt)))"

text \<open>What is read and checked before the runtime starts.\<close>

definition screen_inputs :: "(string \<Rightarrow> string) \<Rightarrow> candidate_dir \<Rightarrow> nat \<Rightarrow> string list option \<Rightarrow> runtime_config \<Rightarrow> string \<Rightarrow>
    (loaded_case list \<times> json) result" where
  "screen_inputs sha fs maximum wanted c model =
     rbind (load_cases sha fs maximum wanted) (\<lambda>cases. rbind (screen_provenance sha fs cases) (\<lambda>provenance.
       if model \<notin> set (map mc_alias (cfg_models c)) then Inl (ValueError ''Model alias is not registered'')
       else Inr (cases, provenance)))"

end
