(* ===== verification/Tools_Claims.thy ===== *)
theory Tools_Claims
  imports Tools_Transport Load_Facts
begin

text \<open>
  What the tools that send work through the coordinator rely on: both sides of a comparison send the same request, and a
  recorded query is always answered with its recording.
\<close>

section \<open>Both sides of a comparison\<close>

lemma chat_observation_sha:
  "chat_observation jid now (i, item) = Inr x \<Longrightarrow> chat_observation jid' now' (i', item) = Inr y \<Longrightarrow> obs_sha256 x = obs_sha256 y"
  by (auto simp: chat_observation_def rbind_Inr_iff validate_observation_def)

lemma chat_observations_sha:
  assumes "traverse (chat_observation jid now) (enumerate n raw) = Inr xs"
    "traverse (chat_observation jid' now') (enumerate n raw) = Inr ys"
  shows "map obs_sha256 xs = map obs_sha256 ys"
  using assms
proof (induction raw arbitrary: n xs ys)
  case (Cons item raw)
  from Cons.prems show ?case by (auto simp: rbind_Inr_iff dest: chat_observation_sha Cons.IH)
qed simp

lemma validate_job_keeps:
  "validate_job j = Inr j' \<Longrightarrow> \<exists>p. payload_object (job_payload_json j) = Inr p \<and> j' = j\<lparr>job_payload_json := p\<rparr>"
  by (auto simp: validate_job_def rbind_Inr_iff Let_def)

lemma chat_job_parts:
  assumes "make_chat_job tenant s body raw jid model now = Inr j"
  obtains xs t where "traverse (chat_observation jid now) (enumerate 0 raw) = Inr xs" "canonical body = Inr t"
    "payload_object t = Inr (job_payload_json j)" "job_observations j = xs"
  using assms unfolding make_chat_job_def rbind_Inr_iff by (auto dest!: validate_job_keeps)

lemma chat_request_common:
  assumes "make_chat_job tenant s body raw jid model now = Inr a" "make_chat_job tenant' s' body raw jid' model' now' = Inr b"
  shows "validate_chat sha a ep = validate_chat sha b ep"
proof -
  obtain xs t where a: "traverse (chat_observation jid now) (enumerate 0 raw) = Inr xs" "canonical body = Inr t"
    "payload_object t = Inr (job_payload_json a)" "job_observations a = xs"
    using assms(1) by (rule chat_job_parts)
  obtain ys u where b: "traverse (chat_observation jid' now') (enumerate 0 raw) = Inr ys" "canonical body = Inr u"
    "payload_object u = Inr (job_payload_json b)" "job_observations b = ys"
    using assms(2) by (rule chat_job_parts)
  have same: "job_payload_json a = job_payload_json b" using a(2,3) b(2,3) by simp
  have "map obs_sha256 (job_observations a) = map obs_sha256 (job_observations b)"
    using chat_observations_sha [OF a(1) b(1)] a(4) b(4) by simp
  then show ?thesis unfolding validate_chat_def payload_def same by (rule subst) (rule refl)
qed


section \<open>Recorded queries\<close>

lemma inspected_index: "inspect_query sha load resolution (i, m) = Inr row \<Longrightarrow> rq_index row = i"
  by (auto simp: inspect_query_def rbind_Inr_iff Let_def split: if_splits option.splits)

lemma inspected_indices:
  "traverse (inspect_query sha load resolution) (enumerate n ms) = Inr rows \<Longrightarrow> map rq_index rows = [n..<n + length ms]"
proof (induction ms arbitrary: n rows)
  case (Cons m ms)
  from Cons.prems obtain row rest where r: "rows = row # rest" "inspect_query sha load resolution (n, m) = Inr row"
    "traverse (inspect_query sha load resolution) (enumerate (Suc n) ms) = Inr rest"
    by (auto simp: rbind_Inr_iff)
  have "[n..<n + length (m # ms)] = n # [Suc n..<Suc n + length ms]" by (simp add: upt_conv_Cons del: upt_Suc)
  then show ?case using Cons.IH [OF r(3)] inspected_index [OF r(2)] r(1) by (simp del: upt_Suc)
qed simp

lemma recorded_ids_distinct:
  assumes "inspect_recording sha load rf qf = Inr (v, rows)"
  shows "distinct (map recorded_job_id rows)"
proof -
  obtain x q where q: "read_json qf = Inr q"
    and rest: "(case q of JList ms \<Rightarrow> if ms = [] then Inl (ValueError ''queries.json must contain a nonempty list'')
        else rbind (rbind (dict_get x ''metadata'' (JObj [])) (\<lambda>m. dict_get m ''image_resolution'' (JList []))) (\<lambda>declared.
          rbind (iterate declared) (\<lambda>resolution.
            if length resolution \<noteq> 2 then Inl (ValueError ''result.json must declare image_resolution'')
            else rbind (traverse (inspect_query sha load resolution) (enumerate 0 ms)) (\<lambda>rows. Inr (x, rows))))
      | _ \<Rightarrow> Inl (ValueError ''queries.json must contain a nonempty list'')) = Inr (v, rows)"
    using assms unfolding inspect_recording_def rbind_Inr_iff by blast
  obtain resolution ms where "traverse (inspect_query sha load resolution) (enumerate 0 ms) = Inr rows"
    using rest by (cases q) (auto simp: rbind_Inr_iff split: if_splits)
  from inspected_indices [OF this] have "distinct (map rq_index rows)" by simp
  then show ?thesis
    by (auto simp: distinct_map inj_on_def recorded_job_id_def int_repr_of_nat dest: nat_digits_inj)
qed

lemma find_unique:
  assumes "x \<in> set xs" "P x" "\<forall>y \<in> set xs. P y \<longrightarrow> y = x"
  shows "find P xs = Some x"
  using assms
proof (induction xs)
  case (Cons a xs)
  show ?case
  proof (cases "P a")
    case True
    with Cons.prems(3) have "a = x" by simp
    with True show ?thesis by simp
  next
    case False
    with Cons.prems(1,2) have "x \<in> set xs" by (metis set_ConsD)
    with Cons.IH [OF _ Cons.prems(2)] Cons.prems(3) False show ?thesis by simp
  qed
qed simp

text \<open>The payload of a valid job is what its canonical text was made of.\<close>

lemma recorded_payload_read:
  assumes "canonical (JObj (recorded_payload row)) = Inr t" "payload_object t = Inr p" "is_ns (int (rq_index row))"
  shows "strict_json payload_limit p = Inr (recorded_payload row)"
proof -
  let ?v = "JObj (recorded_payload row)"
  have plain: "json_plain ?v" using ns_printable [OF assms(3)] ns_printable [of 32] ns_printable [of 8]
    by (simp add: recorded_payload_def is_ns_def)
  have sorted: "sort_keys ?v = ?v" unfolding recorded_payload_def by code_simp
  have t: "t = json_dumps ?v" using assms(1) by (auto simp: canonical_def split: if_splits)
  have loads: "json_loads True t = Inr ?v" using json_loads_dumps [OF plain, of True] unfolding sorted t .
  obtain kvs where kvs: "strict_json payload_limit t = Inr kvs" "canonical (JObj kvs) = Inr p"
    using assms(2) by (auto simp: payload_object_def rbind_Inr_iff)
  with loads have "kvs = recorded_payload row" by (simp add: strict_json_Inr_iff)
  with kvs assms(1) show ?thesis by simp
qed

lemma recorded_payload_same: "py_eq_obj (recorded_payload row) (recorded_payload row)"
  by (simp add: recorded_payload_def number_eq_def py_number_def Let_def)

lemma recorded_job_parts:
  assumes "recorded_job tenant s now row = Inr j"
  obtains x t p where "obs_sha256 x = rq_sha row" "is_ns (int (rq_index row))"
    "canonical (JObj (recorded_payload row)) = Inr t" "payload_object t = Inr p"
    "job_id j = recorded_job_id row" "job_observations j = [x]" "job_payload_json j = p"
proof -
  note r = assms [unfolded recorded_job_def rbind_Inr_iff]
  from r obtain x t where x: "obs_sha256 x = rq_sha row" "is_ns (int (rq_index row))"
    and t: "canonical (JObj (recorded_payload row)) = Inr t"
    and j: "\<exists>j0. validate_job j0 = Inr j \<and> job_payload_json j0 = t \<and> job_id j0 = recorded_job_id row \<and> job_observations j0 = [x]"
    by (elim exE conjE) (rule that, auto simp: validate_observation_def)
  from j obtain j0 where j0: "validate_job j0 = Inr j" "job_payload_json j0 = t" "job_id j0 = recorded_job_id row"
    "job_observations j0 = [x]" by blast
  from validate_job_keeps [OF j0(1)] obtain p where p: "payload_object t = Inr p" "j = j0\<lparr>job_payload_json := p\<rparr>"
    unfolding j0(2) by blast
  show thesis by (rule that [OF x t p(1)]) (simp_all add: p(2) j0)
qed


definition sample_digest :: string where
  "sample_digest = replicate 64 (CHR ''0'')"

definition sample_array :: "string \<Rightarrow> array_data" where
  "sample_array k =
     \<lparr>ad_shape = (if k = ''image'' then [540, 640, 3] else if k = ''joint_position'' then [7] else if k = ''gripper_position'' then [1] else [32, 8]),
      ad_dtype = (if k = ''image'' then ''uint8'' else ''float32''), ad_bytes = [], ad_finite = True\<rparr>"

definition sample_archive :: "string \<Rightarrow> query_archive option" where
  "sample_archive name =
     Some \<lparr>qa_content = name, qa_names = query_keys, qa_array = sample_array, qa_min = Dec 0 0, qa_max = Dec 0 0, qa_actions = JList []\<rparr>"

definition sample_result_file :: string where
  "sample_result_file = plain_dumps (JObj [(''metadata'', JObj [(''image_resolution'', JList [JInt 540, JInt 640])])])"

definition sample_queries_file :: string where
  "sample_queries_file = plain_dumps (JList [JObj [(''index'', JInt 0), (''action_min'', JFloat (Dec 0 0)), (''action_max'', JFloat (Dec 0 0))]])"

definition sample_policy_session :: session where
  "sample_policy_session =
     \<lparr>session_tenant = ''local'', session_id = ''recorded-episode'', session_epoch = 0, session_task_revision = ''r1'',
      session_clock_id = ''clock'', session_state = ACTIVE, session_updated_ns = 0, session_buffer_until_ns = None\<rparr>"

lemma sample_inspected:
  "(case inspect_recording (\<lambda>_. sample_digest) sample_archive sample_result_file sample_queries_file of
     Inl _ \<Rightarrow> False | Inr (_, rows) \<Rightarrow> length rows = 1 \<and> is_ok (recorded_job ''local'' sample_policy_session 5 (hd rows)))"
  by code_simp


end
