(* ===== verification/Tools_Score.thy ===== *)
theory Tools_Score
  imports Tools_Dataset Tools_Matrix
begin

text \<open>
  Two evaluators: the exact-text scoring of a StreamArena replay (\<^verbatim>\<open>src/tools/r5_evaluate_streamarena.py\<close>) and the audit of a
  dataset (\<^verbatim>\<open>src/tools/r5_dataset_audit.py\<close>). Files are given by their bytes.
\<close>

section \<open>Normalised text\<close>

text \<open>
  \<^verbatim>\<open>casefold\<close> over U+0000 to U+00FF. The micro sign folds to a letter beyond that range, which no other character here
  folds to; it stands for itself, so that two folded texts are equal exactly when Python's are.
\<close>

definition fold_char :: "char \<Rightarrow> string" where
  "fold_char c =
     (let n = (of_char c :: nat) in
      if 65 \<le> n \<and> n \<le> 90 \<or> 192 \<le> n \<and> n \<le> 222 \<and> n \<noteq> 215 then [char_of (n + 32)]
      else if n = 223 then ''ss'' else [c])"

definition is_word_char :: "char \<Rightarrow> bool" where
  "is_word_char c \<longleftrightarrow> (let n = (of_char c :: nat) in
     is_alnum c \<or> n \<in> {95, 170, 178, 179, 181, 185, 186, 188, 189, 190} \<or> 192 \<le> n \<and> n \<noteq> 215 \<and> n \<noteq> 247)"

text \<open>\<^verbatim>\<open>s.split()\<close>, on a word that has begun.\<close>

fun split_words :: "string \<Rightarrow> string \<Rightarrow> string list" where
  "split_words w [] = (if w = [] then [] else [w])"
| "split_words w (c # cs) =
     (if is_space c then (if w = [] then [] else [w]) @ split_words [] cs else split_words (w @ [c]) cs)"

fun join_words :: "string list \<Rightarrow> string" where
  "join_words [] = []"
| "join_words [w] = w"
| "join_words (w # ws) = w @ '' '' @ join_words ws"

definition normalized :: "json \<Rightarrow> string" where
  "normalized v =
     (case v of
        JStr s \<Rightarrow> join_words (split_words [] (map (\<lambda>c. if is_word_char c \<or> is_space c then c else CHR '' '') (concat (map fold_char s))))
      | _ \<Rightarrow> [])"

section \<open>The binding to the label audit\<close>

record scored_folder =
  sd_inside :: bool
  sd_labels :: string
  sd_tasks :: string

definition bind_video :: "(string \<Rightarrow> string) \<Rightarrow> (string \<Rightarrow> scored_folder) \<Rightarrow> (string \<times> json) list \<Rightarrow> string \<times> json \<Rightarrow>
    (string \<times> json) result" where
  "bind_video sha256 fs audit = (\<lambda>(vid, actual).
     rbind (get_in (JObj audit) ''videos'' vid JNull) (\<lambda>expected.
       let f = fs vid in
       if \<not> py_true expected then Inl (ValueError ''Runtime video is absent from the label audit'')
       else if \<not> sd_inside f then Inl (ValueError ''Video path escapes dataset'')
       else rbind (dict_get actual ''tasks_sha256'' JNull) (\<lambda>declared. rbind (dict_get expected ''tasks_sha256'' JNull) (\<lambda>tasks.
         if \<not> py_eq declared tasks then Inl (ValueError ''Runtime task provenance does not match label audit'')
         else rbind (dict_get expected ''labels_sha256'' JNull) (\<lambda>labels.
           if labels \<noteq> JStr (sha256 (sd_labels f)) \<or> tasks \<noteq> JStr (sha256 (sd_tasks f))
           then Inl (ValueError ''Dataset changed since label audit'') else Inr (vid, expected))))))"

definition audit_binding :: "(string \<Rightarrow> string) \<Rightarrow> (string \<Rightarrow> scored_folder) \<Rightarrow> (string \<times> json) list \<Rightarrow> (string \<times> json) list \<Rightarrow>
    (string \<times> json) list result" where
  "audit_binding sha256 fs report audit =
     (case jget report ''source_receipt'' of
        JObj source \<Rightarrow>
          if \<not> py_eq (jget source ''plan_sha256'') (jget audit ''dataset_plan_sha256'')
          then Inl (ValueError ''Runtime source receipt does not match the label audit plan hash'')
          else rbind (rbind (dict_get (JObj source) ''videos'' (JObj [])) dict_items) (\<lambda>kvs.
            traverse (bind_video sha256 fs audit) kvs)
      | _ \<Rightarrow> Inl (ValueError ''Runtime source receipt does not match the label audit plan hash''))"

section \<open>One question\<close>

record stream_row =
  ss_video :: string
  ss_question :: string
  ss_qtype :: string
  ss_censored :: bool
  ss_correct :: "bool option"
  ss_emitted :: bool
  ss_timing :: "bool option"
  ss_status :: json

definition missing_row :: "string \<Rightarrow> string \<Rightarrow> string \<Rightarrow> stream_row" where
  "missing_row vid qid qtype =
     \<lparr>ss_video = vid, ss_question = qid, ss_qtype = qtype, ss_censored = False, ss_correct = None, ss_emitted = False,
      ss_timing = None, ss_status = JStr ''missing''\<rparr>"

definition is_number :: "json \<Rightarrow> bool" where
  "is_number v \<longleftrightarrow> py_number v \<noteq> None"

definition same_text :: "json \<Rightarrow> json \<Rightarrow> bool" where
  "same_text v w \<longleftrightarrow> normalized v = normalized w"

text \<open>\<^verbatim>\<open>ref - 0.5 <= delivered <= ref + 2\<close>.\<close>

definition delivered_in_window :: "json \<Rightarrow> json \<Rightarrow> bool result" where
  "delivered_in_window ref delivered =
     (if \<not> is_number delivered then Inr False
      else rbind (py_add ref (JFloat (Dec (- 5) (- 1)))) (\<lambda>low.
        if \<not> json_le low delivered then Inr False
        else rbind (py_add ref (JInt 2)) (\<lambda>high. Inr (json_le delivered high))))"

definition watch_alerts :: "string \<Rightarrow> json list \<Rightarrow> json list result" where
  "watch_alerts qid alerts =
     rbind (traverse (\<lambda>a. rbind (dict_get a ''watch_id'' JNull) (\<lambda>v. Inr (a, py_str v \<in> {qid, CHR ''q'' # qid}))) alerts) (\<lambda>found.
       Inr (map fst (filter snd found)))"

definition score_alert :: "json list \<Rightarrow> json \<Rightarrow> stream_row \<Rightarrow> stream_row result" where
  "score_alert alerts label row =
     rbind (dict_get label ''ref_sec'' JNull) (\<lambda>ref.
       let censored = is_number ref \<and> json_le (JInt 600) ref in
       rbind (watch_alerts (ss_question row) alerts) (\<lambda>found.
         case found of
           [] \<Rightarrow> Inr (row\<lparr>ss_censored := censored\<rparr>)
         | alert # _ \<Rightarrow>
             rbind (dict_get alert ''text'' JNull) (\<lambda>said. rbind (dict_get label ''answer'' JNull) (\<lambda>answer.
             rbind (if censored \<or> \<not> is_number ref then Inr None
               else rbind (dict_get alert ''delivered_at'' JNull) (\<lambda>t. rbind (delivered_in_window ref t) (\<lambda>ok. Inr (Some ok)))) (\<lambda>timing.
               Inr (row\<lparr>ss_censored := censored, ss_emitted := True, ss_status := JStr ''emitted'',
                 ss_correct := Some (same_text said answer), ss_timing := timing\<rparr>))))))"

definition unanswered :: "string list" where
  "unanswered = [''error'', ''dropped'', ''step_limit'', ''no_evidence'', ''abstained'']"

definition score_answer :: "json option \<Rightarrow> json \<Rightarrow> stream_row \<Rightarrow> stream_row result" where
  "score_answer prediction label row =
     (case prediction of
        None \<Rightarrow> Inr row
      | Some p \<Rightarrow>
          rbind (dict_get p ''status'' (JStr ''unknown'')) (\<lambda>status. rbind (dict_get p ''text'' (JStr [])) (\<lambda>actual.
          rbind (hashable status) (\<lambda>_.
          rbind (if status \<in> JStr ` set unanswered then Inr False
                 else rbind (dict_get label ''answer'' JNull) (\<lambda>answer. Inr (same_text actual answer))) (\<lambda>ok.
            Inr (row\<lparr>ss_status := status, ss_correct := Some ok\<rparr>))))))"

type_synonym answers = "((string \<times> string) \<times> json) list"

definition score_question :: "answers \<Rightarrow> json list result \<Rightarrow> string \<Rightarrow> string \<times> json \<Rightarrow> stream_row result" where
  "score_question predictions alerts vid = (\<lambda>(qid, label).
     rbind (dict_get label ''qtype'' (JStr ''unknown'')) (\<lambda>v.
       let row = missing_row vid qid (py_str v) in
       if py_str v = ''Pro'' then rbind alerts (\<lambda>items. score_alert items label row)
       else score_answer (map_of (rev predictions) (vid, qid)) label row))"

section \<open>A replay\<close>

definition rows_by :: "string \<Rightarrow> json list \<Rightarrow> (string \<times> json) list result" where
  "rows_by k rows =
     rbind (traverse (\<lambda>row. rbind (item_at row k) (\<lambda>v. Inr (py_str v, row))) rows) (\<lambda>kvs. Inr (dict_update [] kvs))"

definition score_video :: "(string \<Rightarrow> scored_folder) \<Rightarrow> answers \<Rightarrow> (string \<times> json) list \<Rightarrow> string \<Rightarrow> stream_row list result" where
  "score_video fs predictions parents vid =
     rbind (rbind (read_rows (sd_labels (fs vid))) (rows_by ''qid'')) (\<lambda>labels.
     rbind (rbind (read_rows (sd_tasks (fs vid))) (rows_by ''id'')) (\<lambda>tasks.
       if fst ` set labels \<noteq> fst ` set tasks then Inl (ValueError ''Task/label IDs differ at evaluation'')
       else rbind (dict_get (py_or (jget parents vid) (JObj [])) ''alerts_detail'' (JList [])) (\<lambda>alerts.
         traverse (score_question predictions (iterate alerts) vid) labels)))"

definition answers_of :: "json list \<Rightarrow> answers result" where
  "answers_of rows =
     traverse (\<lambda>row. rbind (dict_get row ''video_id'' JNull) (\<lambda>v. rbind (dict_get row ''question_id'' JNull) (\<lambda>q.
       Inr ((py_str v, py_str q), row)))) rows"

definition stream_rows :: "(string \<Rightarrow> string) \<Rightarrow> (string \<Rightarrow> scored_folder) \<Rightarrow> (string \<times> json) list \<Rightarrow> (string \<times> json) list \<Rightarrow>
    ((string \<times> json) list \<times> stream_row list) result" where
  "stream_rows sha256 fs report audit =
     (if jget report ''labels_read'' \<noteq> JBool False then Inl (ValueError ''Runtime report does not prove labels remained unread'')
      else if jget report ''outcome'' \<noteq> JStr ''transport_completed''
      then Inl (ValueError ''Score only a transport-completed run; retain incomplete runs as negative evidence'')
      else rbind (audit_binding sha256 fs report audit) (\<lambda>bound.
        rbind (rbind (dict_get (JObj report) ''predictions'' (JList [])) iterate) (\<lambda>ps. rbind (answers_of ps) (\<lambda>predictions.
        rbind (rbind (dict_get (JObj report) ''parent_reports'' (JList [])) iterate) (\<lambda>qs. rbind (rows_by ''video_id'' qs) (\<lambda>parents.
        rbind (traverse (\<lambda>(vid, _). score_video fs predictions parents vid) bound) (\<lambda>found. Inr (bound, concat found))))))))"

definition strictly_correct :: "stream_row \<Rightarrow> bool" where
  "strictly_correct r \<longleftrightarrow> ss_correct r = Some True \<and> ss_timing r \<noteq> Some False"

definition eligible :: "stream_row list \<Rightarrow> stream_row list" where
  "eligible rows = filter (\<lambda>r. \<not> ss_censored r) rows"

definition count_rows :: "(stream_row \<Rightarrow> bool) \<Rightarrow> stream_row list \<Rightarrow> int" where
  "count_rows f rows = int (length (filter f rows))"

definition question_types :: "stream_row list \<Rightarrow> string list" where
  "question_types rows = sort (remdups (map ss_qtype rows))"

definition of_type :: "string \<Rightarrow> stream_row list \<Rightarrow> stream_row list" where
  "of_type t rows = filter (\<lambda>r. ss_qtype r = t) (eligible rows)"

definition type_summary :: "stream_row list \<Rightarrow> string \<Rightarrow> json" where
  "type_summary rows t =
     (let part = of_type t rows in
      JObj [(''count'', JInt (int (length part))), (''semantic_correct'', JInt (count_rows (\<lambda>r. ss_correct r = Some True) part)),
        (''strict_correct'', JInt (count_rows strictly_correct part)), (''emitted'', JInt (count_rows ss_emitted part))])"

definition stream_row_json :: "stream_row \<Rightarrow> json" where
  "stream_row_json r =
     JObj [(''video_id'', JStr (ss_video r)), (''question_id'', JStr (ss_question r)), (''qtype'', JStr (ss_qtype r)),
       (''censored'', JBool (ss_censored r)), (''semantic_correct'', opt_json JBool (ss_correct r)),
       (''emitted'', JBool (ss_emitted r)), (''timing_ok'', opt_json JBool (ss_timing r)), (''status'', ss_status r)]"

text \<open>A counter over the statuses; a key is printed as \<^verbatim>\<open>json.dumps\<close> prints it.\<close>

definition key_text :: "json \<Rightarrow> string" where
  "key_text v = (case v of JStr s \<Rightarrow> s | _ \<Rightarrow> plain_dumps v)"

definition status_counts :: "stream_row list \<Rightarrow> json result" where
  "status_counts rows =
     rbind (traverse (\<lambda>r. hashable (ss_status r)) rows) (\<lambda>vs.
       Inr (JObj (map (\<lambda>k. (key_text k, JInt (int (length (filter (same_key k) vs))))) (keys_of vs))))"

definition labels_complete :: "(string \<times> json) list \<Rightarrow> (string \<times> json) list \<Rightarrow> bool result" where
  "labels_complete report bound =
     all_true (\<lambda>(vid, expected).
       rbind (item_at (JObj report) ''source_receipt'') (\<lambda>source. rbind (item_at source ''videos'') (\<lambda>found. rbind (item_at found vid) (\<lambda>v.
       rbind (dict_get v ''task_count'' JNull) (\<lambda>n. rbind (item_at expected ''label_count'') (\<lambda>m. Inr (py_eq n m))))))) bound"

definition score_stream :: "(string \<Rightarrow> string) \<Rightarrow> (string \<Rightarrow> scored_folder) \<Rightarrow> string \<Rightarrow> string \<Rightarrow> json result" where
  "score_stream sha256 fs report_file audit_file =
     rbind (read_object report_file) (\<lambda>report. rbind (read_object audit_file) (\<lambda>audit.
     rbind (stream_rows sha256 fs report audit) (\<lambda>(bound, rows).
     rbind (labels_complete report bound) (\<lambda>complete. rbind (status_counts rows) (\<lambda>statuses.
       let part = eligible rows in
       Inr (JObj
         [(''protocol'', JStr ''R5 StreamArena independent exact-text/event evaluation''),
          (''outcome'', JStr (if complete then ''scored_complete'' else ''scored_incomplete'')),
          (''r5_qualification'', JStr ''not_qualified''), (''label_audit_sha256'', JStr (sha256 audit_file)),
          (''labels_read_by_runtime'', JBool False), (''labels_read_by_evaluator'', JBool True),
          (''task_count'', JInt (int (length rows))), (''eligible_count'', JInt (int (length part))),
          (''censored_count'', JInt (int (length rows) - int (length part))),
          (''semantic_correct'', JInt (count_rows (\<lambda>r. ss_correct r = Some True) part)),
          (''strict_correct'', JInt (count_rows strictly_correct part)),
          (''by_type'', JObj (map (\<lambda>t. (t, type_summary rows t)) (question_types rows))), (''statuses'', statuses),
          (''rows'', JList (map stream_row_json rows)),
          (''scoring_note'', JStr ''Conservative exact normalized text and fixed timing window; not an official score.'')]))))))"

section \<open>What a strict score means\<close>

lemma window_bounds:
  "delivered_in_window ref t = Inr True \<longleftrightarrow>
     is_number t \<and> (\<exists>low high. py_add ref (JFloat (Dec (- 5) (- 1))) = Inr low \<and> py_add ref (JInt 2) = Inr high \<and>
       json_le low t \<and> json_le t high)"
  by (auto simp: delivered_in_window_def rbind_Inr_iff split: if_splits)

text \<open>A standing objective scores strictly only for an alert of its own that was delivered in time: when the label has a
  reference time in the scored prefix, the first alert of that watch says the expected text, up to case, punctuation and
  spacing, and was delivered from half a second before the reference to two seconds after it.\<close>

lemma strict_alert_in_window:
  assumes "score_alert alerts label row = Inr r" "strictly_correct r" "ss_correct row = None" "ss_timing row = None"
    "dict_get label ''ref_sec'' JNull = Inr ref" "is_number ref" "\<not> ss_censored r"
  shows "\<exists>alert rest said answer delivered low high. watch_alerts (ss_question row) alerts = Inr (alert # rest) \<and>
    dict_get alert ''text'' JNull = Inr said \<and> dict_get label ''answer'' JNull = Inr answer \<and>
    normalized said = normalized answer \<and> dict_get alert ''delivered_at'' JNull = Inr delivered \<and>
    py_add ref (JFloat (Dec (- 5) (- 1))) = Inr low \<and> py_add ref (JInt 2) = Inr high \<and>
    json_le low delivered \<and> json_le delivered high"
proof -
  from assms(1,5) obtain found where found: "watch_alerts (ss_question row) alerts = Inr found"
    by (auto simp: score_alert_def rbind_Inr_iff Let_def)
  show ?thesis
  proof (cases found)
    case Nil
    with assms(1,2,3,5) found show ?thesis by (auto simp: score_alert_def strictly_correct_def Let_def)
  next
    case (Cons alert rest)
    note scored = assms(1) [unfolded score_alert_def assms(5) found Cons rbind_simps Let_def list.case]
    from scored obtain said answer timing where said: "dict_get alert ''text'' JNull = Inr said"
        "dict_get label ''answer'' JNull = Inr answer"
      and timing: "(if is_number ref \<and> json_le (JInt 600) ref \<or> \<not> is_number ref then Inr None
        else rbind (dict_get alert ''delivered_at'' JNull) (\<lambda>t. rbind (delivered_in_window ref t) (\<lambda>ok. Inr (Some ok)))) = Inr timing"
      and r: "r = row\<lparr>ss_censored := is_number ref \<and> json_le (JInt 600) ref, ss_emitted := True, ss_status := JStr ''emitted'',
          ss_correct := Some (same_text said answer), ss_timing := timing\<rparr>"
      unfolding rbind_Inr_iff by blast
    from r assms(2,6,7) have same: "normalized said = normalized answer" and late: "timing \<noteq> Some False" "\<not> json_le (JInt 600) ref"
      by (simp_all add: strictly_correct_def same_text_def)
    from timing late assms(6) obtain t ok where t: "dict_get alert ''delivered_at'' JNull = Inr t"
        "delivered_in_window ref t = Inr ok" "timing = Some ok"
      by (auto simp: rbind_Inr_iff)
    with late have "delivered_in_window ref t = Inr True" by simp
    with said same t(1) show ?thesis unfolding window_bounds found Cons by blast
  qed
qed

text \<open>The summaries by type account for every eligible question.\<close>

lemma length_by_type:
  "set (map f xs) \<subseteq> set ts \<Longrightarrow> distinct ts \<Longrightarrow> (\<Sum>t \<leftarrow> ts. length (filter (\<lambda>x. f x = t) xs)) = length xs"
proof (induction ts arbitrary: xs)
  case (Cons t ts)
  let ?rest = "filter (\<lambda>x. f x \<noteq> t) xs"
  have "(\<Sum>u \<leftarrow> ts. length (filter (\<lambda>x. f x = u) xs)) = (\<Sum>u \<leftarrow> ts. length (filter (\<lambda>x. f x = u) ?rest))"
    using Cons.prems(2) by (intro arg_cong [where f = sum_list] map_cong refl arg_cong [where f = length]) (auto intro: filter_cong)
  also have "\<dots> = length ?rest" using Cons.prems by (intro Cons.IH) auto
  finally show ?case using sum_length_filter_compl [of "\<lambda>x. f x = t" xs] by simp
qed simp

lemma types_partition: "(\<Sum>t \<leftarrow> question_types rows. length (of_type t rows)) = length (eligible rows)"
  unfolding of_type_def by (rule length_by_type) (auto simp: question_types_def eligible_def)

end
