(* ===== verification/Tools_Audit.thy ===== *)
theory Tools_Audit
  imports Tools_Score
begin

text \<open>
  The audit of a dataset, \<^verbatim>\<open>src/tools/r5_dataset_audit.py\<close>: one of three kinds of material, with its digests, its labels and an
  earlier run. Files are given by their bytes, \<open>None\<close> for one that is not there.
\<close>

text \<open>
  \<open>du_read folder name\<close> is a file below the dataset: the folder is empty, \<^verbatim>\<open>packets\<close>, \<^verbatim>\<open>videos\<close> or the folder of a packet.
\<close>

record audit_files =
  du_path :: string
  du_receipt :: "string option"
  du_packets :: "string option"
  du_manifest :: "string option"
  du_read :: "string \<Rightarrow> string \<Rightarrow> string option"
  du_labels_path :: string
  du_labels :: "string option"

type_synonym asset = "(string \<times> json) list"

definition read_below :: "audit_files \<Rightarrow> string \<Rightarrow> json \<Rightarrow> string result" where
  "read_below fs folder v =
     (case v of
        JStr name \<Rightarrow> (case du_read fs folder name of None \<Rightarrow> Inl (FileNotFoundError name) | Some content \<Rightarrow> Inr content)
      | _ \<Rightarrow> Inl (TypeError ''unsupported operand''))"

definition entries_of :: "json \<Rightarrow> string \<Rightarrow> json list result" where
  "entries_of metadata k = rbind (dict_get metadata k (JList [])) iterate"

text \<open>The digest declared and the one observed.\<close>

definition digests :: "(string \<Rightarrow> string) \<Rightarrow> string \<Rightarrow> json \<Rightarrow> asset" where
  "digests sha256 content declared =
     [(''declared_sha256'', declared), (''observed_sha256'', JStr (sha256 content)),
      (''hash_matches'', JBool (declared = JStr (sha256 content)))]"

definition frame_asset :: "(string \<Rightarrow> string) \<Rightarrow> audit_files \<Rightarrow> json \<Rightarrow> asset result" where
  "frame_asset sha256 fs entry =
     rbind (item_at entry ''file'') (\<lambda>name. rbind (read_below fs [] name) (\<lambda>content.
     rbind (item_at entry ''source_timestamp_s'') (\<lambda>t. rbind (item_at entry ''sha256'') (\<lambda>declared.
     rbind (dict_get entry ''video'' JNull) (\<lambda>video.
       Inr ([(''file'', name), (''exists'', JBool True), (''bytes'', JInt (int (length content))), (''timestamp_s'', t)] @
            digests sha256 content declared @ [(''video'', video)]))))))"

definition packet_asset :: "(string \<Rightarrow> string) \<Rightarrow> audit_files \<Rightarrow> json \<Rightarrow> asset result" where
  "packet_asset sha256 fs entry =
     rbind (item_at entry ''file'') (\<lambda>name. rbind (read_below fs ''packets'' name) (\<lambda>content.
     rbind (item_at entry ''id'') (\<lambda>i. rbind (item_at entry ''sha256'') (\<lambda>declared.
     rbind (dict_get entry ''frames'' (JInt 0)) (\<lambda>frames. rbind (dict_get entry ''captions'' (JInt 0)) (\<lambda>captions.
       Inr ([(''id'', i), (''file'', name), (''exists'', JBool True), (''bytes'', JInt (int (length content)))] @
            digests sha256 content declared @ [(''frames'', frames), (''captions'', captions)])))))))"

definition candidate_frame :: "(string \<Rightarrow> string) \<Rightarrow> audit_files \<Rightarrow> string \<Rightarrow> json \<Rightarrow> json result" where
  "candidate_frame sha256 fs folder entry =
     rbind (item_at entry ''file'') (\<lambda>name. rbind (read_below fs folder name) (\<lambda>content.
     rbind (item_at entry ''sha256'') (\<lambda>declared.
       Inr (JObj ([(''file'', name), (''bytes'', JInt (int (length content)))] @ digests sha256 content declared)))))"

definition candidate_asset :: "(string \<Rightarrow> string) \<Rightarrow> audit_files \<Rightarrow> json \<Rightarrow> asset result" where
  "candidate_asset sha256 fs entry =
     rbind (item_at entry ''id'') (\<lambda>i.
     rbind (read_below fs ''videos'' (JStr (py_str i @ ''.mp4''))) (\<lambda>content.
       case i of
         JStr pid \<Rightarrow>
           rbind (entries_of entry ''frames'') (\<lambda>rows.
           rbind (traverse (candidate_frame sha256 fs (''packets/'' @ pid)) rows) (\<lambda>frames.
           rbind (item_at entry ''video_sha256'') (\<lambda>declared.
             Inr [(''id'', i), (''video'', JStr (du_path fs @ ''/videos/'' @ pid @ ''.mp4'')), (''video_declared_sha256'', declared),
               (''video_observed_sha256'', JStr (sha256 content)),
               (''video_hash_matches'', JBool (declared = JStr (sha256 content))),
               (''frames'', JList frames), (''frame_count'', JInt (int (length frames)))])))
       | _ \<Rightarrow> Inl (TypeError ''unsupported operand'')))"

datatype asset_kind = Frames | Packets | Disjoint_Candidate

definition asset_kind_name :: "asset_kind \<Rightarrow> string" where
  "asset_kind_name k = (case k of Frames \<Rightarrow> ''frames'' | Packets \<Rightarrow> ''packets'' | Disjoint_Candidate \<Rightarrow> ''disjoint_candidate'')"

text \<open>The kind of the material, the path and the value of its metadata, and its assets.\<close>

definition audit_assets :: "(string \<Rightarrow> string) \<Rightarrow> audit_files \<Rightarrow> (asset_kind \<times> string \<times> json \<times> asset list) result" where
  "audit_assets sha256 fs =
     (case (du_receipt fs, du_packets fs, du_manifest fs) of
        (Some content, _, _) \<Rightarrow>
          rbind (read_json content) (\<lambda>v. rbind (entries_of v ''frames'') (\<lambda>rows. rbind (traverse (frame_asset sha256 fs) rows) (\<lambda>found.
            Inr (Frames, du_path fs @ ''/receipt.json'', v, found))))
      | (None, Some content, _) \<Rightarrow>
          rbind (read_json content) (\<lambda>v. rbind (entries_of v ''packets'') (\<lambda>rows. rbind (traverse (packet_asset sha256 fs) rows) (\<lambda>found.
            Inr (Packets, du_path fs @ ''/packets/manifest.json'', v, found))))
      | (None, None, Some content) \<Rightarrow>
          rbind (read_json content) (\<lambda>v. rbind (entries_of v ''packets'') (\<lambda>rows. rbind (traverse (candidate_asset sha256 fs) rows) (\<lambda>found.
            Inr (Disjoint_Candidate, du_path fs @ ''/manifest.json'', v, found))))
      | _ \<Rightarrow> Inl (FileNotFoundError ''Expected receipt or manifest''))"

section \<open>Labels and an earlier run\<close>

definition json_length :: "json \<Rightarrow> int result" where
  "json_length v =
     (case v of JList vs \<Rightarrow> Inr (int (length vs)) | JObj kvs \<Rightarrow> Inr (int (length kvs)) | JStr s \<Rightarrow> Inr (int (length s))
      | _ \<Rightarrow> Inl (TypeError ''object has no len()''))"

definition label_count :: "json \<Rightarrow> json result" where
  "label_count v =
     (case v of
        JObj kvs \<Rightarrow>
          rbind (case map_of kvs ''cases'' of None \<Rightarrow> Inr (int (length kvs)) | Some cases \<Rightarrow> json_length cases) (\<lambda>n. Inr (JInt n))
      | _ \<Rightarrow> Inr JNull)"

definition label_reason :: "asset_kind \<Rightarrow> string" where
  "label_reason k =
     (if k = Disjoint_Candidate
      then ''prepared disjoint candidate; labels require independent custody and an Agmina-backed run before qualification''
      else ''labels are present, but this material is explicitly post-hoc development qualification'')"

text \<open>What is reported of the labels, and their value.\<close>

definition audit_label_file :: "(string \<Rightarrow> string) \<Rightarrow> audit_files \<Rightarrow> asset_kind \<Rightarrow> asset list \<Rightarrow> (json \<times> json) result" where
  "audit_label_file sha256 fs k assets =
     (case du_labels fs of
        None \<Rightarrow> Inr (JObj [(''available'', JBool False), (''held_out'', JBool False), (''reason'', JStr ''no independent labels supplied'')], JNull)
      | Some content \<Rightarrow>
          rbind (read_json content) (\<lambda>v.
            if (case v of JObj kvs \<Rightarrow> k = Disjoint_Candidate \<and> JStr ` fst ` set kvs \<noteq> (\<lambda>a. jget a ''id'') ` set assets | _ \<Rightarrow> False)
            then Inl (ValueError ''Candidate evaluator labels do not match runtime case IDs'')
            else rbind (label_count v) (\<lambda>n.
              Inr (JObj [(''available'', JBool True), (''held_out'', JBool False), (''file'', JStr (du_labels_path fs)),
                (''sha256'', JStr (sha256 content)), (''case_count'', n), (''reason'', JStr (label_reason k))], v))))"

definition expected_answer :: "json \<Rightarrow> json \<Rightarrow> json result" where
  "expected_answer labels case_id =
     (case labels of
        JObj kvs \<Rightarrow>
          rbind (dict_get labels ''cases'' (JObj [])) (\<lambda>cases.
          rbind (case cases of
              JObj cs \<Rightarrow> rbind (hashable case_id) (\<lambda>i. Inr (case i of
                JStr s \<Rightarrow> (case map_of cs s of None \<Rightarrow> JObj [] | Some c \<Rightarrow> c) | _ \<Rightarrow> JObj []))
            | _ \<Rightarrow> Inl (AttributeError ''get'')) (\<lambda>c. dict_get c ''expected'' JNull))
      | _ \<Rightarrow> Inr JNull)"

definition compare_trial :: "json \<Rightarrow> json \<Rightarrow> (string \<times> json) list result" where
  "compare_trial labels trial =
     rbind (dict_get trial ''case_id'' JNull) (\<lambda>case_id. rbind (expected_answer labels case_id) (\<lambda>expected.
     rbind (get_in trial ''answer'' ''status'' JNull) (\<lambda>observed. rbind (dict_get trial ''model'' JNull) (\<lambda>model.
       let status = (if expected = JStr ''abstained'' then JStr ''abstained'' else if py_true expected then JStr ''ok'' else JNull) in
       Inr [(''model'', model), (''case_id'', case_id), (''expected_answer'', expected), (''expected_status'', status),
         (''observed_status'', observed), (''status_matches'', JBool (status \<noteq> JNull \<and> status = observed))]))))"

definition matched :: "string \<Rightarrow> (string \<times> json) list \<Rightarrow> bool" where
  "matched k a \<longleftrightarrow> jget a k = JBool True"

definition development_run :: "json \<Rightarrow> string \<Rightarrow> string \<Rightarrow> json result" where
  "development_run labels path content =
     rbind (read_json content) (\<lambda>v. rbind (dict_get v ''trials'' (JList [])) (\<lambda>trials. rbind (iterate trials) (\<lambda>items.
     rbind (traverse (compare_trial labels) items) (\<lambda>rows. rbind (json_length trials) (\<lambda>n.
     rbind (traverse hashable (filter py_true (map (\<lambda>r. jget r ''model'') rows))) (\<lambda>models. rbind (sorted_values (keys_of models)) (\<lambda>models.
     rbind (traverse (\<lambda>k. rbind (dict_get v k JNull) (\<lambda>x. Inr (k, x))) [''status'', ''request_attempts'', ''reported_usd'']) (\<lambda>kvs.
       Inr (JObj ([(''receipt'', JStr path)] @ kvs @
         [(''trial_count'', JInt n), (''models'', JList models),
          (''status_matches'', JInt (int (length (filter (matched ''status_matches'') rows)))),
          (''status_match_all'', JBool (rows \<noteq> [] \<and> list_all (matched ''status_matches'') rows)), (''quality_claim'', JBool False),
          (''reason'', JStr ''development run only; the rubric and labels were available during evaluation''),
          (''comparisons'', JList (map JObj rows))]))))))))))"

section \<open>The audit\<close>

definition frames_match :: "json \<Rightarrow> bool" where
  "frames_match v = (case v of JList fs \<Rightarrow> list_all (\<lambda>f. case f of JObj kvs \<Rightarrow> matched ''hash_matches'' kvs | _ \<Rightarrow> False) fs | _ \<Rightarrow> False)"

definition all_hashes_match :: "asset_kind \<Rightarrow> asset list \<Rightarrow> bool" where
  "all_hashes_match k assets \<longleftrightarrow> assets \<noteq> [] \<and>
     list_all (\<lambda>a. if k = Disjoint_Candidate then matched ''video_hash_matches'' a \<and> frames_match (jget a ''frames'')
                 else matched ''hash_matches'' a) assets"

definition audit_counts :: "asset_kind \<Rightarrow> asset list \<Rightarrow> (json \<times> json) result" where
  "audit_counts k assets =
     (case k of
        Disjoint_Candidate \<Rightarrow>
          rbind (py_sum (map (\<lambda>a. jget a ''frame_count'') assets)) (\<lambda>n. Inr (n, JInt (int (length assets))))
      | _ \<Rightarrow>
          rbind (if k = Packets then py_sum (map (\<lambda>a. jget a ''frames'') assets) else Inr (JInt (int (length assets)))) (\<lambda>n.
          rbind (traverse hashable (filter (\<lambda>v. v \<noteq> JNull) (map (\<lambda>a. jget a ''video'') assets))) (\<lambda>found.
            Inr (n, JInt (int (length (keys_of found)))))))"

definition audit_next :: "asset_kind \<Rightarrow> string list" where
  "audit_next k =
     (if k = Disjoint_Candidate
      then [''preserve independent label custody'', ''declare fixed quality/latency/cost protocol'', ''run a real model through Agmina'',
            ''evaluate outputs independently'']
      else [''freeze event taxonomy'', ''obtain an untouched held-out split'', ''add held-out camera/view'', ''add negative segments'',
            ''declare quality and latency thresholds''])"

text \<open>\<open>run\<close> is the receipt of an earlier run with its path; \<open>exists\<close> says that the output directory is there already.\<close>

definition audit_dataset :: "(string \<Rightarrow> string) \<Rightarrow> audit_files \<Rightarrow> (string \<times> string) option \<Rightarrow> bool \<Rightarrow> json result" where
  "audit_dataset sha256 fs run exists =
     rbind (audit_assets sha256 fs) (\<lambda>(k, path, metadata, assets).
     rbind (audit_label_file sha256 fs k assets) (\<lambda>(labels, label_obj).
     rbind (case run of None \<Rightarrow> Inr JNull | Some (p, content) \<Rightarrow> development_run label_obj p content) (\<lambda>earlier.
     rbind (audit_counts k assets) (\<lambda>(frame_count, video_count).
     rbind (dict_get metadata ''protocol'' JNull) (\<lambda>protocol. rbind (dict_get metadata ''purpose'' protocol) (\<lambda>purpose.
     rbind (dict_get metadata ''outcome'' JNull) (\<lambda>outcome. rbind (dict_get metadata ''status'' outcome) (\<lambda>status.
     rbind (dict_get metadata ''model_calls'' JNull) (\<lambda>calls.
     rbind (dict_get metadata ''full_archive_sha256_verified'' JNull) (\<lambda>verified.
       if exists then Inl (FileExistsError ''Output already exists'')
       else Inr (JObj
         [(''protocol'', JStr ''R5 dataset audit''), (''dataset'', JStr (du_path fs)), (''metadata_file'', JStr path),
          (''purpose'', purpose), (''status'', status), (''model_calls'', calls), (''full_archive_sha256_verified'', verified),
          (''asset_kind'', JStr (asset_kind_name k)), (''asset_count'', JInt (int (length assets))), (''frame_count'', frame_count),
          (''video_count'', video_count), (''all_hashes_match'', JBool (all_hashes_match k assets)), (''labels'', labels),
          (''development_run'', earlier), (''r5_qualification'', JStr ''not_qualified''),
          (''next_required'', JList (map JStr (audit_next k))), (''assets'', JList (map JObj assets))])))))))))))"

end
