(* ===== verification/Spec2Isabelle.thy ===== *)
theory Spec2Isabelle
  imports Coordinator_Outcomes Core_Properties Delivery Reconciliation Replay_Facts Native_Facts Host_Facts Server_Facts Load_Facts Cli Coordinator_Rows Tools_Facts Tools_Dataset Tools_Claims Tools_Stream Tools_Audit
begin

text \<open>
  The Agmina runtime, modelled from its Python sources under \<^verbatim>\<open>src/\<close>.

  The program. A coordinator (\<^verbatim>\<open>runtime.py\<close>) admits inference jobs of robot sessions, keeps them in an SQLite journal
  with a cost ledger (\<^verbatim>\<open>store.py\<close>), orders the queue by a scheduling policy and places jobs on endpoints
  (\<^verbatim>\<open>scheduling.py\<close>), answers exact historical queries from a cache (\<^verbatim>\<open>cache.py\<close>), calls backends (\<^verbatim>\<open>backends.py\<close>,
  \<^verbatim>\<open>adapters/native_policy.py\<close>) and hands each result to at most one consumer while it is fresh. Jobs, receipts and
  sessions are contracts (\<^verbatim>\<open>contracts.py\<close>) under a validated configuration (\<^verbatim>\<open>config.py\<close>) and explicit clocks
  (\<^verbatim>\<open>clocks.py\<close>). A loopback sidecar (\<^verbatim>\<open>server.py\<close>) exposes the coordinator to a client with a delivery fence
  (\<^verbatim>\<open>client.py\<close>); host adapters (\<^verbatim>\<open>adapters/hosts.py\<close>) build jobs from host objects; \<^verbatim>\<open>telemetry.py\<close> summarises the
  journal; \<^verbatim>\<open>replay.py\<close> simulates a trace, \<^verbatim>\<open>load.py\<close> drives the coordinator through a paced plan,
  \<^verbatim>\<open>reconciliation.py\<close> imports provider charges, and \<^verbatim>\<open>cli.py\<close> starts all of it. The tools under \<^verbatim>\<open>src/tools\<close> prepare plans
  for the load driver and evaluate the reports it leaves.

  Conventions. An exception is a value of \<open>py_error\<close> and a function that may raise returns \<open>py_error + 'a\<close>. A method
  that changes the coordinator is a function to its result and the new coordinator, and an exception keeps the effects
  that came before it. Times are integers of nanoseconds of a named clock, costs are integers of millionths of a dollar:
  Python's integers do not wrap. Dictionaries whose order is visible are association lists. Text is over the code points
  U+0000 to U+00FF and a byte string is a string; the reader refuses what lies beyond. SHA-256, the network, the other
  side of a socket, the environment and the readings of a clock are parameters.

  Python and its libraries.
    \<open>Agmina_Base\<close>: exceptions, guards, traversals, the stable minimum, shared rewrite collections.
    \<open>Py_Json\<close>, \<open>Json_Roundtrip\<close>: \<^verbatim>\<open>json\<close> as reader and printer, strict and canonical forms, and their round trip.
    \<open>Py_Url\<close>, \<open>Py_Text\<close>, \<open>Py_Bytes\<close>, \<open>Py_Dict\<close>: URLs, strings and percentiles, UTF-8, base64 and binary64 rounding, and the
      dynamic values of the tools with the arithmetic of \<^verbatim>\<open>int\<close> and \<^verbatim>\<open>float\<close> and its shortest decimal output.

  The coordinator and its parts.
    \<open>Contracts\<close>, \<open>Clocks\<close>, \<open>Config\<close>: records with the validators that construction runs; \<open>latest_ns\<close> and \<open>invalid_reason\<close>.
    \<open>Scheduling\<close>: the rank keys of FIFO, EDF and slack (locale \<open>dispatch_policy\<close>, interpreted for each) and placement.
    \<open>Result_Cache\<close>: the bounded cache (locale \<open>result_cache\<close>, interpreted on the model's cache).
    \<open>Ledger_Store\<close>, \<open>Ledger_Facts\<close>: the tables and operations of the journal; the capped ledger as a locale over its steps,
      interpreted on them, reconciliation and recovery.
    \<open>Coordinator\<close>: one definition per method; the coroutine of a task is cut at its one await into \<open>task_begin\<close> and the two ways
      it resumes, \<open>task_complete\<close> and \<open>task_fail\<close>, so that its interleavings with every other operation are runs.
    \<open>Coordinator_Inv\<close>, \<open>Coordinator_Run\<close>: the invariant \<open>coord_ok\<close>, what may change between two states (\<open>moves\<close>), that every
      operation keeps both, the step relation \<open>rt_step\<close> and the states that starts, runs, crashes between operations and
      offline ledger work lead to (\<open>reachable\<close>).
    \<open>Coordinator_Safety\<close>, \<open>Coordinator_Outcomes\<close>, \<open>Coordinator_Rows\<close>: the properties of reachable states and of runs:
      receipts advance, one consumer, freshness, budget, capacity, no raising tick, fenced epochs, well-typed rows, and
      that work which is no longer useful ends at the next turn of the background loop.
    \<open>Core_Properties\<close>: the freshness window, canonical text, fingerprints, the cache.
    \<open>Samples\<close>, \<open>Sample_Run\<close>: the small deployment that the instances of the properties are taken at.

  Around the coordinator.
    \<open>Backends\<close>, \<open>Http_Backend\<close>, \<open>Backend_Facts\<close>: the adapters, what they refuse to send, what they accept, what they charge.
    \<open>Native_Policy\<close>, \<open>Native_Facts\<close>: image envelopes, packets, stamps and the transport of the native policy bridge.
    \<open>Hosts\<close>, \<open>Host_Facts\<close>: jobs built from host objects, and that they pass the chat adapter's checks.
    \<open>Wire\<close>, \<open>Server\<close>, \<open>Server_Facts\<close>, \<open>Delivery\<close>: contracts on the wire, the sidecar's routes, the client and its fence; a
      client's call refines to the coordinator's operation.
    \<open>Telemetry\<close>, \<open>Load\<close>, \<open>Load_Facts\<close>, \<open>Cli\<close>: the summary, the load driver's turns, the commands.
    \<open>Replay\<close>, \<open>Replay_Facts\<close>: the event loop of the simulator, its termination, its slots, its counts.
    \<open>Reconciliation\<close>: the formats of a charge file, preflight, dry run, application.

  The tools.
    \<open>Tools_Cohort\<close>, \<open>Tools_Prepare\<close>: load cohorts, ablation conditions, the scheduler matrix, injected controls and the check of
      a delivered bundle.
    \<open>Tools_Evaluate\<close>, \<open>Tools_Matrix\<close>: scoring of a candidate run, the generation audit, the evaluation of a matrix.
    \<open>Tools_Dataset\<close>: the selection of a disjoint candidate set, with the download of a video as a parameter, and the audit of
      private labels; the selection returns exactly when it can.
    \<open>Tools_Native\<close>: the extraction of a packet of the native policy, the replay of its recorded queries through the coordinator
      and the comparison of direct with coordinated calls.
    \<open>Tools_Transport\<close>: the comparison of a direct with a coordinated chat call, and the run of a prepared candidate set.
    \<open>Tools_Claims\<close>: both sides of a comparison send the same request, and a recorded query is answered with its recording.
    \<open>Tools_Stream\<close>: what the StreamArena tools check of a prepared dataset, the screen through the mock path, and the receipt,
      the bridge and the fixture of the replay.
    \<open>Tools_Score\<close>, \<open>Tools_Audit\<close>: the scoring of a StreamArena replay, with normalised text, and the audit of a dataset.
    \<open>Tools_Facts\<close>: what a score means, what the matrix evaluation makes of the coordinator's own report, and prepared plans that
      the loader refuses.

  Bounds and fuel. The JSON reader runs on fuel of twice the length of its text and one more, and \<open>Json_Roundtrip\<close> shows
  that this is enough for every printed value. Every other loop recurses on its data or on a measure: the replay loop on
  the work left in the simulator, the eviction loop on the entries, digits on the number. The background loop and a
  collector do not return by design; one turn of each is a function, and runs are sequences of turns.

  Not modelled: a crash in the middle of an operation (SQLite's transaction is taken as atomic); the internals of HTTP,
  SQLite, asyncio, pydantic and the web framework, whose documented answers are parameters or whose checks are written
  out; text beyond U+00FF; the sign of a zero float and the digits of a literal beyond the fifteenth; the compensation of
  \<^verbatim>\<open>sum\<close> for floats; argument parsing, printing and the files written, which are results here; the clean-up of HTTP clients;
  the tools that start subprocesses or servers and print what they see (the smoke runs and probes); the loop in which the
  StreamArena host replays a dataset, whose code is not in the repository; the decoding of video, pictures and array
  archives, which are given decoded; the tests.
\<close>

end
